(* ===== verification/Prelude.thy ===== *)
theory Prelude
  imports Main "HOL-Library.Multiset" "HOL-Library.Sublist"
begin

text \<open>
  Shared vocabulary of the development: the JavaScript built-ins the sources
  call (\<open>String.prototype.includes\<close>, \<open>toLowerCase\<close>, \<open>trim\<close>,
  \<open>Array.prototype.findIndex\<close>, \<open>splice\<close> followed by a spread, and
  \<open>Array.from(new Set(xs))\<close>), written as executable HOL functions, with the
  lemmas the component theories share. JavaScript strings are modelled as
  \<open>string\<close> (a list of 8-bit characters); the case mapping and the white-space
  set are the ASCII part of the ECMAScript ones, which is all the sources'
  constant strings use. An exception thrown by a JavaScript call is modelled
  by its \<open>message\<close>: a value \<open>Inl msg\<close> of a sum type.
\<close>

named_theorems model_simps \<open>evaluation rules of the model's functions\<close>

type_synonym message = string

section \<open>Strings\<close>

text \<open>\<open>haystack.includes(needle)\<close>: is \<open>needle\<close> a contiguous part of \<open>haystack\<close>?\<close>

fun str_includes :: "string \<Rightarrow> string \<Rightarrow> bool" where
  "str_includes [] needle = (needle = [])"
| "str_includes (c # cs) needle = (prefix needle (c # cs) \<or> str_includes cs needle)"

lemma str_includes_sublist: "str_includes hay needle \<longleftrightarrow> sublist needle hay"
proof (induction hay)
  case Nil
  then show ?case by simp
next
  case (Cons c cs)
  then show ?case by (auto simp: sublist_Cons_right)
qed

lemma str_includes_append_right [simp]: "str_includes (a @ needle @ b) needle"
  by (simp add: str_includes_sublist)

lemma str_includes_Nil [simp]: "str_includes hay []"
  by (simp add: str_includes_sublist)

lemma str_includes_append_left: "str_includes s needle \<Longrightarrow> str_includes (a @ s) needle"
  by (auto simp: str_includes_sublist intro: sublist_order.order_trans)

text \<open>\<open>toLowerCase\<close> on the model's characters, the code units up to \<open>00FF\<close>: the
  ASCII capitals and the Latin-1 capitals \<open>00C0\<close>-\<open>00DE\<close> but the multiplication
  sign \<open>00D7\<close> move up by 32.\<close>

definition to_lower_char :: "char \<Rightarrow> char" where
  "to_lower_char c =
     (let n = (of_char c :: nat) in
      if (65 \<le> n \<and> n \<le> 90) \<or> (192 \<le> n \<and> n \<le> 222 \<and> n \<noteq> 215) then char_of (n + 32) else c)"

definition to_lower :: "string \<Rightarrow> string" where
  "to_lower s = map to_lower_char s"

lemma length_to_lower [simp]: "length (to_lower s) = length s"
  by (simp add: to_lower_def)

text \<open>Case mapping evaluates on literals through the character codes.\<close>

declare to_lower_def [model_simps] to_lower_char_def [model_simps] char_of_eq_iff [model_simps]

lemma to_lower_append [simp]: "to_lower (a @ b) = to_lower a @ to_lower b"
  by (simp add: to_lower_def)

definition is_js_space :: "char \<Rightarrow> bool" where
  "is_js_space c \<longleftrightarrow> c \<in> {CHR '' '', CHR 0x09, CHR 0x0A, CHR 0x0B, CHR 0x0C, CHR 0x0D, CHR 0xA0}"

definition js_trim :: "string \<Rightarrow> string" where
  "js_trim s = rev (dropWhile is_js_space (rev (dropWhile is_js_space s)))"

lemma all_set_dropWhile: "(\<forall>x \<in> set (dropWhile P s). P x) \<longleftrightarrow> (\<forall>x \<in> set s. P x)"
  by (induction s) auto

lemma js_trim_Nil_iff: "js_trim s = [] \<longleftrightarrow> (\<forall>c \<in> set s. is_js_space c)"
  by (simp add: js_trim_def all_set_dropWhile)

lemma length_js_trim_le: "length (js_trim s) \<le> length s"
proof -
  have "length (dropWhile is_js_space (rev (dropWhile is_js_space s))) \<le> length s"
    by (metis le_trans length_dropWhile_le length_rev)
  then show ?thesis by (simp add: js_trim_def)
qed

section \<open>JavaScript values\<close>

text \<open>
  The values a JSON request body can hold, as Express hands them to a handler; an
  absent property reads as \<open>JUndefined\<close>. JSON numbers are kept as integers: the
  sources only test them for truthiness and type.
\<close>

datatype js_value =
  JUndefined
| JNull
| JBool bool
| JNumber int
| JString string
| JArray "js_value list"
| JObject "(string \<times> js_value) list"

text \<open>JavaScript truthiness (\<open>!!v\<close>).\<close>

fun js_truthy_value :: "js_value \<Rightarrow> bool" where
  "js_truthy_value JUndefined = False"
| "js_truthy_value JNull = False"
| "js_truthy_value (JBool b) = b"
| "js_truthy_value (JNumber n) = (n \<noteq> 0)"
| "js_truthy_value (JString s) = (s \<noteq> [])"
| "js_truthy_value (JArray xs) = True"
| "js_truthy_value (JObject ps) = True"

fun is_js_string :: "js_value \<Rightarrow> bool" where
  "is_js_string (JString s) = True"
| "is_js_string v = False"

fun is_js_array :: "js_value \<Rightarrow> bool" where
  "is_js_array (JArray xs) = True"
| "is_js_array v = False"

text \<open>The characters of a string value (only read where \<open>typeof v === 'string'\<close>).\<close>

fun js_string_of :: "js_value \<Rightarrow> string" where
  "js_string_of (JString s) = s"
| "js_string_of v = []"

fun js_array_of :: "js_value \<Rightarrow> js_value list" where
  "js_array_of (JArray xs) = xs"
| "js_array_of v = []"

text \<open>\<open>obj.key\<close> on a parsed JSON body: a duplicated key keeps its last value, as
  \<open>JSON.parse\<close> does; a missing key or a non-object reads as \<open>undefined\<close>.\<close>

definition js_get :: "js_value \<Rightarrow> string \<Rightarrow> js_value" where
  "js_get v k = (case v of JObject ps \<Rightarrow> (case map_of (rev ps) k of Some x \<Rightarrow> x | None \<Rightarrow> JUndefined)
                         | _ \<Rightarrow> JUndefined)"

text \<open>Decimal digits of a number, as \<open>String(n)\<close> prints an integer.\<close>

fun nat_digits :: "nat \<Rightarrow> string" where
  "nat_digits n = (if n < 10 then [char_of (48 + n)] else nat_digits (n div 10) @ [char_of (48 + n mod 10)])"

definition int_digits :: "int \<Rightarrow> string" where
  "int_digits i = (if i < 0 then ''-'' @ nat_digits (nat (- i)) else nat_digits (nat i))"

text \<open>\<open>xs.join(sep)\<close> on strings.\<close>

fun join_with :: "string \<Rightarrow> string list \<Rightarrow> string" where
  "join_with sep [] = []"
| "join_with sep [x] = x"
| "join_with sep (x # y # zs) = x @ sep @ join_with sep (y # zs)"

text \<open>
  \<open>`${v}`\<close>: the string conversion of a template literal. Array elements that are
  \<open>null\<close> or \<open>undefined\<close> print as empty, as \<open>Array.prototype.join\<close> does.
\<close>

fun js_to_string :: "js_value \<Rightarrow> string" where
  "js_to_string JUndefined = ''undefined''"
| "js_to_string JNull = ''null''"
| "js_to_string (JBool b) = (if b then ''true'' else ''false'')"
| "js_to_string (JNumber n) = int_digits n"
| "js_to_string (JString s) = s"
| "js_to_string (JArray xs) =
     join_with '','' (map (\<lambda>x. case x of JUndefined \<Rightarrow> [] | JNull \<Rightarrow> [] | _ \<Rightarrow> js_to_string x) xs)"
| "js_to_string (JObject ps) = ''[object Object]''"

section \<open>HTTP\<close>

text \<open>The request methods the application routes; a response on the wire is its
  status code and its JSON body, or a transport failure with its message.\<close>

datatype http_method = GET | POST | PUT | DELETE

datatype http_outcome =
  HttpResponse nat js_value
| NetworkError message

section \<open>Arrays\<close>

text \<open>\<open>xs.findIndex(P)\<close>: the first index whose element satisfies \<open>P\<close>, or \<open>-1\<close>.\<close>

fun find_index_js :: "('a \<Rightarrow> bool) \<Rightarrow> 'a list \<Rightarrow> int" where
  "find_index_js P [] = -1"
| "find_index_js P (x # xs) =
     (if P x then 0 else (let i = find_index_js P xs in if i = -1 then -1 else i + 1))"

lemma find_index_js_range: "find_index_js P xs = -1 \<or> (0 \<le> find_index_js P xs \<and> nat (find_index_js P xs) < length xs)"
  by (induction xs) (auto simp: Let_def)

lemma find_index_js_ge: "-1 \<le> find_index_js P xs"
  by (induction xs) (auto simp: Let_def)

lemma find_index_js_none [simp]: "find_index_js P xs = -1 \<longleftrightarrow> (\<forall>x \<in> set xs. \<not> P x)"
proof (induction xs)
  case (Cons x xs)
  have "-1 \<le> find_index_js P xs" by (rule find_index_js_ge)
  with Cons.IH show ?case by (auto simp: Let_def)
qed simp

lemma find_index_js_found:
  assumes "find_index_js P xs \<noteq> -1"
  shows "xs = take (nat (find_index_js P xs)) xs @ xs ! nat (find_index_js P xs) # drop (Suc (nat (find_index_js P xs))) xs
    \<and> P (xs ! nat (find_index_js P xs))
    \<and> (\<forall>y \<in> set (take (nat (find_index_js P xs)) xs). \<not> P y)"
  using assms
proof (induction xs)
  case Nil
  then show ?case by simp
next
  case (Cons x xs)
  show ?case
  proof (cases "P x")
    case True
    then show ?thesis by simp
  next
    case False
    with Cons.prems have ne: "find_index_js P xs \<noteq> -1" by (auto simp: Let_def split: if_splits)
    define k where "k = nat (find_index_js P xs)"
    have ge: "0 \<le> find_index_js P xs"
      using find_index_js_range [of P xs] ne by auto
    then have idx: "find_index_js P (x # xs) = int (Suc k)"
      using False ne by (simp add: k_def Let_def)
    from Cons.IH [OF ne] have split: "take k xs @ xs ! k # drop (Suc k) xs = xs"
      and hit: "P (xs ! k)" and before: "\<forall>y \<in> set (take k xs). \<not> P y"
      by (simp_all add: k_def)
    show ?thesis
      unfolding idx nat_int using split hit before False by simp
  qed
qed

text \<open>
  \<open>const v = xs.splice(i, 1)[0]; xs = [v, ...xs]\<close> for an index \<open>i\<close> inside the
  array: the element at \<open>i\<close> moves to the front, the others keep their order.
\<close>

definition move_to_front :: "nat \<Rightarrow> 'a list \<Rightarrow> 'a list" where
  "move_to_front i xs = xs ! i # take i xs @ drop (Suc i) xs"

lemma mset_move_to_front: "i < length xs \<Longrightarrow> mset (move_to_front i xs) = mset xs"
proof -
  assume i: "i < length xs"
  then have "xs = take i xs @ xs ! i # drop (Suc i) xs"
    by (simp add: id_take_nth_drop)
  then have "mset xs = mset (take i xs @ xs ! i # drop (Suc i) xs)" by simp
  then show ?thesis by (simp add: move_to_front_def)
qed

lemma move_to_front_remove1:
  assumes "i < length xs" and "xs ! i \<notin> set (take i xs)"
  shows "move_to_front i xs = xs ! i # remove1 (xs ! i) xs"
proof -
  have "xs = take i xs @ xs ! i # drop (Suc i) xs"
    using assms(1) by (simp add: id_take_nth_drop)
  then have "remove1 (xs ! i) xs = remove1 (xs ! i) (take i xs @ xs ! i # drop (Suc i) xs)"
    by simp
  also have "\<dots> = take i xs @ drop (Suc i) xs"
    using assms(2) by (simp add: remove1_append)
  finally show ?thesis by (simp add: move_to_front_def)
qed

text \<open>
  \<open>Array.from(new Set(xs))\<close>: a \<open>Set\<close> keeps its elements in first-insertion
  order, so the result is \<open>xs\<close> with every later repetition removed. The model adds
  the elements one at a time, as \<open>new Set(xs)\<close> does.
\<close>

definition set_add :: "'a list \<Rightarrow> 'a \<Rightarrow> 'a list" where
  "set_add acc x = (if x \<in> set acc then acc else acc @ [x])"

definition array_from_set :: "'a list \<Rightarrow> 'a list" where
  "array_from_set xs = foldl set_add [] xs"

lemma foldl_set_add: "foldl set_add acc xs = acc @ rev (remdups (rev (filter (\<lambda>x. x \<notin> set acc) xs)))"
proof (induction xs arbitrary: acc rule: rev_induct)
  case Nil
  then show ?case by simp
next
  case (snoc x xs)
  then show ?case by (auto simp: set_add_def)
qed

lemma array_from_set_eq: "array_from_set xs = rev (remdups (rev xs))"
  by (simp add: array_from_set_def foldl_set_add)

lemma distinct_array_from_set [simp]: "distinct (array_from_set xs)"
  by (simp add: array_from_set_eq)

lemma set_array_from_set [simp]: "set (array_from_set xs) = set xs"
  by (simp add: array_from_set_eq)

end
