(* ===== verification/Registry.thy ===== *)
theory Registry
  imports Prelude
begin

text \<open>
  The provider registry of \<open>AIService\<close> (src/unnamed/part_000, the service module
  \<open>aiService\<close>) and the selection step of \<open>executeWithFallback\<close>: which
  providers are tried, and in which order. The process environment is a record of
  the three API-key variables; each service's \<open>isAvailable()\<close> is a test of one of
  them. The registry is the constant \<open>providers\<close>; \<open>getAvailableProviders\<close>
  filters it by the optional \<open>checkAvailable\<close> closure and sorts it stably by
  priority; \<open>move_preferred\<close> moves the provider named by the caller to the front.
  \<open>move_preferred_spec\<close> states the reordering with \<open>find\<close> and \<open>remove1\<close>, and
  \<open>move_preferred_eq_spec\<close> shows that the \<open>findIndex\<close>/\<open>splice\<close> code computes it.
\<close>

section \<open>Services and the environment\<close>

datatype provider_id = Gemini | Groq | HuggingFace

record env =
  GEMINI_API_KEY :: "string option"
  GROQ_API_KEY :: "string option"
  HUGGINGFACE_API_KEY :: "string option"

text \<open>\<open>!!v\<close> for an environment variable: \<open>undefined\<close> and \<open>''\<close> are false.\<close>

definition js_truthy :: "string option \<Rightarrow> bool" where
  "js_truthy v = (case v of None \<Rightarrow> False | Some s \<Rightarrow> s \<noteq> [])"

text \<open>
  \<open>isAvailable()\<close> of the three services. Gemini reads
  \<open>config.gemini.apiKey = process.env.GEMINI_API_KEY || ''\<close>, whose truth value is
  that of the variable.
\<close>

fun isAvailable :: "env \<Rightarrow> provider_id \<Rightarrow> bool" where
  "isAvailable e Gemini = js_truthy (GEMINI_API_KEY e)"
| "isAvailable e Groq = js_truthy (GROQ_API_KEY e)"
| "isAvailable e HuggingFace = js_truthy (HUGGINGFACE_API_KEY e)"

section \<open>The registry\<close>

record provider_configuration =
  name :: string
  service :: provider_id
  priority :: int
  checkAvailable :: "(env \<Rightarrow> bool) option"

definition providers :: "provider_configuration list" where
  "providers =
    [\<lparr>name = ''Gemini'', service = Gemini, priority = 1, checkAvailable = None\<rparr>,
     \<lparr>name = ''Groq'', service = Groq, priority = 2,
        checkAvailable = Some (\<lambda>e. isAvailable e Groq)\<rparr>,
     \<lparr>name = ''HuggingFace'', service = HuggingFace, priority = 3, checkAvailable = None\<rparr>]"

text \<open>\<open>!provider.checkAvailable || provider.checkAvailable()\<close>\<close>

definition passes_check :: "env \<Rightarrow> provider_configuration \<Rightarrow> bool" where
  "passes_check e p = (case checkAvailable p of None \<Rightarrow> True | Some f \<Rightarrow> f e)"

text \<open>
  \<open>filter(...).sort((a, b) => a.priority - b.priority)\<close>: \<open>Array.prototype.sort\<close>
  is stable (ECMAScript 2019), as \<open>sort_key\<close> is.
\<close>

definition getAvailableProviders :: "env \<Rightarrow> provider_configuration list \<Rightarrow> provider_configuration list" where
  "getAvailableProviders e ps = sort_key priority (filter (passes_check e) ps)"

section \<open>Preference\<close>

definition name_matches :: "string \<Rightarrow> provider_configuration \<Rightarrow> bool" where
  "name_matches pref p \<longleftrightarrow> to_lower (name p) = to_lower pref"

text \<open>
  \<open>if (preferredProvider && preferredProvider !== 'auto')\<close>: an absent
  (\<open>undefined\<close>) hint is \<open>None\<close>; the empty string is false as well.
\<close>

definition wants_preference :: "string option \<Rightarrow> bool" where
  "wants_preference pref = (case pref of None \<Rightarrow> False | Some p \<Rightarrow> p \<noteq> [] \<and> p \<noteq> ''auto'')"

definition move_preferred :: "string option \<Rightarrow> provider_configuration list \<Rightarrow> provider_configuration list" where
  "move_preferred pref sps =
    (case pref of
       None \<Rightarrow> sps
     | Some p \<Rightarrow>
         if p \<noteq> [] \<and> p \<noteq> ''auto'' then
           (let i = find_index_js (name_matches p) sps in
            if i > -1 then move_to_front (nat i) sps else sps)
         else sps)"

text \<open>\<open>sortedProviders\<close> of \<open>executeWithFallback\<close>: the order in which providers are tried.\<close>

definition attempt_order :: "env \<Rightarrow> provider_configuration list \<Rightarrow> string option \<Rightarrow> provider_configuration list" where
  "attempt_order e ps pref = move_preferred pref (getAvailableProviders e ps)"

text \<open>The reordering as the spec states it: the first matching provider, then the others in order.\<close>

definition move_preferred_spec :: "string option \<Rightarrow> provider_configuration list \<Rightarrow> provider_configuration list" where
  "move_preferred_spec pref sps =
    (if wants_preference pref then
       (case find (name_matches (the pref)) sps of
          None \<Rightarrow> sps
        | Some q \<Rightarrow> q # remove1 q sps)
     else sps)"

section \<open>Lemmas\<close>

lemma find_Some_split:
  assumes "find P xs = Some q"
  shows "\<exists>i < length xs. xs ! i = q \<and> P q \<and> find_index_js P xs = int i \<and> q \<notin> set (take i xs)"
  using assms
proof (induction xs)
  case Nil
  then show ?case by simp
next
  case (Cons x xs)
  show ?case
  proof (cases "P x")
    case True
    with Cons.prems show ?thesis by auto
  next
    case False
    with Cons.prems have "find P xs = Some q" by simp
    then obtain i where i: "i < length xs" "xs ! i = q" "P q" "find_index_js P xs = int i"
        "q \<notin> set (take i xs)"
      using Cons.IH by blast
    with False have "q \<noteq> x" by auto
    with i False show ?thesis
      by (intro exI [of _ "Suc i"]) (simp add: Let_def)
  qed
qed

lemma move_preferred_eq_spec_Some:
  assumes "find (name_matches p) sps = Some q"
  shows "move_to_front (nat (find_index_js (name_matches p) sps)) sps = q # remove1 q sps"
proof -
  obtain i where i: "i < length sps" "sps ! i = q" "find_index_js (name_matches p) sps = int i"
      "q \<notin> set (take i sps)"
    using find_Some_split [OF assms] by blast
  then show ?thesis using move_to_front_remove1 [of i sps] by simp
qed

lemma find_index_js_find_None: "find P xs = None \<longleftrightarrow> find_index_js P xs = -1"
  by (auto simp: find_None_iff)

lemma find_index_js_pos: "find_index_js P xs \<noteq> -1 \<longleftrightarrow> find_index_js P xs > -1"
  using find_index_js_ge [of P xs] by linarith

lemma move_preferred_eq_spec: "move_preferred pref sps = move_preferred_spec pref sps"
proof (cases "wants_preference pref")
  case False
  then show ?thesis
    by (auto simp: move_preferred_def move_preferred_spec_def wants_preference_def split: option.splits)
next
  case True
  then obtain p where p: "pref = Some p" "p \<noteq> []" "p \<noteq> ''auto''"
    by (auto simp: wants_preference_def split: option.splits)
  show ?thesis
  proof (cases "find (name_matches p) sps")
    case None
    then have "\<not> find_index_js (name_matches p) sps > -1"
      using find_index_js_find_None find_index_js_pos by metis
    with None p True show ?thesis by (simp add: move_preferred_def move_preferred_spec_def)
  next
    case (Some q)
    then have "find_index_js (name_matches p) sps > -1"
      using find_index_js_find_None find_index_js_pos by (metis option.distinct(1))
    with Some p True move_preferred_eq_spec_Some [OF Some] show ?thesis
      by (simp add: move_preferred_def move_preferred_spec_def)
  qed
qed

lemma find_Some_in_set: "find P xs = Some q \<Longrightarrow> q \<in> set xs"
  by (induction xs) (auto split: if_splits)

lemma mset_prefer_spec: "mset (move_preferred_spec pref sps) = mset sps"
  by (auto simp: move_preferred_spec_def split: option.splits dest!: find_Some_in_set)

lemma mset_getAvailableProviders: "mset (getAvailableProviders e ps) = mset (filter (passes_check e) ps)"
  by (simp add: getAvailableProviders_def)

lemma sorted_getAvailableProviders: "sorted (map priority (getAvailableProviders e ps))"
  by (simp add: getAvailableProviders_def)

lemma attempt_order_default:
  "\<not> wants_preference pref \<Longrightarrow> attempt_order e ps pref = getAvailableProviders e ps"
  by (simp add: attempt_order_def move_preferred_eq_spec move_preferred_spec_def)

lemma mset_attempt_order: "mset (attempt_order e ps pref) = mset (filter (passes_check e) ps)"
  by (simp add: attempt_order_def move_preferred_eq_spec mset_prefer_spec mset_getAvailableProviders)

lemma set_attempt_order: "set (attempt_order e ps pref) = set (filter (passes_check e) ps)"
  by (metis mset_attempt_order set_mset_mset)

lemma attempt_order_providers:
  "\<not> wants_preference pref \<Longrightarrow>
   attempt_order e providers pref =
     (if isAvailable e Groq then providers else [providers ! 0, providers ! 2])"
  by (simp add: attempt_order_default getAvailableProviders_def providers_def passes_check_def)

lemmas registry_defs = attempt_order_def getAvailableProviders_def passes_check_def
  move_preferred_def name_matches_def wants_preference_def

lemmas registry_eval = registry_defs providers_def js_truthy_def move_to_front_def
  model_simps

section \<open>Properties\<close>

text \<open>
  C4 (invariant). The attempt order is a permutation of the providers that pass their
  availability check: none is lost, none is repeated, and a provider whose check fails
  never appears, whatever the preference.
\<close>

theorem attempt_order_permutation:
  "mset (attempt_order e ps pref) = mset (filter (passes_check e) ps)
   \<and> set (attempt_order e ps pref) = {p \<in> set ps. passes_check e p}"
  using mset_attempt_order [of e ps pref] set_attempt_order [of e ps pref] by simp

text \<open>
  C5 (equivalence). The \<open>findIndex\<close>/\<open>splice\<close> code of \<open>executeWithFallback\<close>
  computes the reordering the spec describes: with a preference other than
  \<open>'auto'\<close>, the first available provider whose name matches it case-insensitively
  moves to the front and the others keep their priority order; otherwise the order is
  that of \<open>getAvailableProviders\<close>.
\<close>

theorem attempt_order_preference:
  "attempt_order e ps pref =
    (if wants_preference pref then
       (case find (name_matches (the pref)) (getAvailableProviders e ps) of
          None \<Rightarrow> getAvailableProviders e ps
        | Some q \<Rightarrow> q # remove1 q (getAvailableProviders e ps))
     else getAvailableProviders e ps)"
  by (simp add: attempt_order_def move_preferred_eq_spec move_preferred_spec_def)

text \<open>
  C6 (functional). Without a preference the attempt order ascends by priority, and the
  sort is stable: providers of equal priority keep their registry order.
\<close>

theorem default_order_sorted_stable:
  assumes "\<not> wants_preference pref"
  shows "sorted (map priority (attempt_order e ps pref))
    \<and> (\<forall>k. filter (\<lambda>p. priority p = k) (attempt_order e ps pref)
            = filter (\<lambda>p. passes_check e p \<and> priority p = k) ps)"
proof -
  have "filter (\<lambda>p. priority p = k) (getAvailableProviders e ps)
          = filter (\<lambda>p. passes_check e p \<and> priority p = k) ps" for k
    by (simp add: getAvailableProviders_def sort_key_stable filter_filter)
  with assms show ?thesis
    by (simp add: attempt_order_default sorted_getAvailableProviders)
qed

theorem default_order_sorted_stable_witness:
  "\<not> wants_preference (Some ''auto'')
   \<and> sorted (map priority (attempt_order \<lparr>GEMINI_API_KEY = Some ''k'', GROQ_API_KEY = Some ''k'',
        HUGGINGFACE_API_KEY = None\<rparr> providers (Some ''auto'')))"
  using default_order_sorted_stable [of "Some ''auto''"
      "\<lparr>GEMINI_API_KEY = Some ''k'', GROQ_API_KEY = Some ''k'', HUGGINGFACE_API_KEY = None\<rparr>" providers]
  by (simp add: wants_preference_def)

text \<open>
  The registry of the code, in the spec's scenarios: with every key
  set and no preference the order is Gemini, Groq, HuggingFace; preferring
  \<open>huggingface\<close> (the value \<open>validateProviderType\<close> passes on) gives HuggingFace,
  Gemini, Groq; without \<open>GROQ_API_KEY\<close> Groq is never tried, even when preferred.
\<close>

theorem registry_scenarios:
  "map name (attempt_order \<lparr>GEMINI_API_KEY = Some ''k1'', GROQ_API_KEY = Some ''k2'',
      HUGGINGFACE_API_KEY = Some ''k3''\<rparr> providers (Some ''auto''))
     = [''Gemini'', ''Groq'', ''HuggingFace'']
   \<and> map name (attempt_order \<lparr>GEMINI_API_KEY = Some ''k1'', GROQ_API_KEY = Some ''k2'',
      HUGGINGFACE_API_KEY = Some ''k3''\<rparr> providers (Some ''huggingface''))
     = [''HuggingFace'', ''Gemini'', ''Groq'']
   \<and> map name (attempt_order \<lparr>GEMINI_API_KEY = Some ''k1'', GROQ_API_KEY = None,
      HUGGINGFACE_API_KEY = Some ''k3''\<rparr> providers (Some ''groq''))
     = [''Gemini'', ''HuggingFace'']"
  by (simp add: registry_eval)

text \<open>
  C7 (safety). Availability in the code's registry: Gemini and HuggingFace are tried
  whatever the environment, since only Groq has a \<open>checkAvailable\<close> closure; Groq is
  tried exactly when \<open>GROQ_API_KEY\<close> is set and non-empty.
\<close>

theorem registry_availability:
  "set (map service (attempt_order e providers pref))
     = {Gemini, HuggingFace} \<union> (if isAvailable e Groq then {Groq} else {})"
proof -
  have "set (map service (attempt_order e providers pref))
      = service ` set (filter (passes_check e) providers)"
    by (simp add: set_attempt_order)
  also have "filter (passes_check e) providers
      = (if isAvailable e Groq then providers else [providers ! 0, providers ! 2])"
    by (simp add: providers_def passes_check_def)
  finally show ?thesis
    by (auto simp: providers_def)
qed

end
