(* ===== verification/Interface.thy ===== *)
theory Interface
  imports Registry
begin

text \<open>
  The data of the provider contract (src/backend/src/interfaces/AIProvider.ts, which
  also holds the declarations of \<open>types/analysis.ts\<close>): the enumerations
  \<open>AnalysisType\<close> and \<open>ProviderType\<close>,
  \<open>ProcessedAnalysisResult\<close>, the four operations of the \<open>AIProvider\<close> interface
  as one datatype, and the remote services. A remote service is opaque: the model
  is a record of functions that give, for each request, the outcome the service
  returns (\<open>Inl msg\<close> for a rejected promise). The Gemini and Groq requests are
  identified by the operation and its arguments (their prompts are functions of
  them); the Hugging Face request by its prompt text and credential, because its
  \<open>explainCode\<close> and \<open>suggestImprovements\<close> reuse \<open>analyzeCode\<close> with a
  rewritten prompt.
\<close>

datatype analysis_type = General | Security | Performance | Maintainability

fun analysis_type_name :: "analysis_type \<Rightarrow> string" where
  "analysis_type_name General = ''general''"
| "analysis_type_name Security = ''security''"
| "analysis_type_name Performance = ''performance''"
| "analysis_type_name Maintainability = ''maintainability''"

datatype provider_type = PGemini | PGroq | PHuggingface | PAuto

fun provider_type_name :: "provider_type \<Rightarrow> string" where
  "provider_type_name PGemini = ''gemini''"
| "provider_type_name PGroq = ''groq''"
| "provider_type_name PHuggingface = ''huggingface''"
| "provider_type_name PAuto = ''auto''"

text \<open>
  One call of the \<open>AIProvider\<close> interface. The report's \<open>analysisResults\<close>
  (\<open>any[]\<close>) and \<open>projectInfo\<close> are the JSON values of the request body.
\<close>

datatype operation =
  OpAnalyze string string analysis_type
| OpExplain string string
| OpSuggest string string string
| OpReport "js_value list" js_value

text \<open>
  A \<open>fetch\<close> of the Hugging Face inference API: a network failure, or a response
  with its \<open>ok\<close> flag, \<open>statusText\<close> and the outcome of \<open>response.json()\<close>
  read as \<open>result[0]?.generated_text\<close>.
\<close>

datatype hf_response =
  HfFetchError message
| HfResponse bool string "message + string option"

text \<open>
  \<open>gemini_generate op k\<close>: the \<open>k\<close>-th \<open>model.generateContent\<close> call for
  \<open>op\<close>; its value is the call's outcome and, inside, that of \<open>response.text()\<close>.
  \<open>groq_create op\<close>: \<open>chat.completions.create\<close>, read as
  \<open>choices[0]?.message?.content\<close>. \<open>hf_fetch key prompt\<close>: the inference
  request with \<open>Authorization: Bearer key\<close>.
\<close>

record remote =
  gemini_generate :: "operation \<Rightarrow> nat \<Rightarrow> message + (message + string)"
  groq_create :: "operation \<Rightarrow> message + string option"
  hf_fetch :: "string option \<Rightarrow> string \<Rightarrow> hf_response"

record analysis_metadata =
  md_language :: string
  md_analysisType :: string
  md_timestamp :: string

record processed_analysis_result =
  analysis :: string
  provider :: string
  metadata :: analysis_metadata

text \<open>\<open>x || default\<close> for a string that may be missing or empty.\<close>

definition js_or :: "string option \<Rightarrow> string \<Rightarrow> string" where
  "js_or v d = (case v of None \<Rightarrow> d | Some s \<Rightarrow> if s = [] then d else s)"

lemma js_or_nonempty: "d \<noteq> [] \<Longrightarrow> js_or v d \<noteq> []"
  by (simp add: js_or_def split: option.splits)

end
