(* ===== verification/Backoff.thy ===== *)
theory Backoff
  imports Prelude
begin

text \<open>
  \<open>GeminiService.retryWithBackoff\<close> (src/backend/src/services/geminiService.ts):
  a \<open>for\<close> loop over attempts \<open>1 .. maxRetries\<close> that calls the operation,
  returns its result, rethrows a non-rate-limit error or the error of the last attempt,
  and otherwise sleeps \<open>baseDelay * 2^(attempt - 1)\<close> ms before the next attempt.
  The remote behaviour is a function from the attempt number to the outcome of that
  call; the loop returns its outcome and the trace of calls and sleeps (the
  \<open>await\<close> points). Delays are natural numbers of milliseconds: with the defaults
  (3 attempts, 1000 ms) every value is an exact JavaScript number.
\<close>

datatype backoff_event = Invoke nat | Sleep nat

text \<open>\<open>error.message.includes('429') || error.message.includes('quota')\<close>\<close>

definition is_rate_limit_error :: "message \<Rightarrow> bool" where
  "is_rate_limit_error m \<longleftrightarrow> str_includes m ''429'' \<or> str_includes m ''quota''"

function retry_loop ::
  "(nat \<Rightarrow> message + 'a) \<Rightarrow> nat \<Rightarrow> nat \<Rightarrow> nat \<Rightarrow> (message + 'a) \<times> backoff_event list" where
  "retry_loop operation maxRetries baseDelay attempt =
    (if attempt \<le> maxRetries then
       (case operation attempt of
          Inr r \<Rightarrow> (Inr r, [Invoke attempt])
        | Inl err \<Rightarrow>
            (if attempt = maxRetries \<or> \<not> is_rate_limit_error err then (Inl err, [Invoke attempt])
             else
               (let delay = baseDelay * 2 ^ (attempt - 1);
                    (res, tr) = retry_loop operation maxRetries baseDelay (Suc attempt)
                in (res, Invoke attempt # Sleep delay # tr))))
     else (Inl ''Max retries exceeded'', []))"
  by pat_completeness auto
termination
  by (relation "measure (\<lambda>(operation, maxRetries, baseDelay, attempt). Suc maxRetries - attempt)") auto

declare retry_loop.simps [simp del]

definition retryWithBackoff ::
  "(nat \<Rightarrow> message + 'a) \<Rightarrow> nat \<Rightarrow> nat \<Rightarrow> (message + 'a) \<times> backoff_event list" where
  "retryWithBackoff operation maxRetries baseDelay = retry_loop operation maxRetries baseDelay 1"

text \<open>The defaults \<open>maxRetries = 3\<close>, \<open>baseDelay = 1000\<close> of the only caller, \<open>analyzeCode\<close>.\<close>

definition gemini_retry :: "(nat \<Rightarrow> message + 'a) \<Rightarrow> (message + 'a) \<times> backoff_event list" where
  "gemini_retry operation = retryWithBackoff operation 3 1000"

section \<open>Traces\<close>

fun invocations :: "backoff_event list \<Rightarrow> nat list" where
  "invocations [] = []"
| "invocations (Invoke k # tr) = k # invocations tr"
| "invocations (Sleep d # tr) = invocations tr"

fun sleeps :: "backoff_event list \<Rightarrow> nat list" where
  "sleeps [] = []"
| "sleeps (Sleep d # tr) = d # sleeps tr"
| "sleeps (Invoke k # tr) = sleeps tr"

text \<open>The trace when every call from \<open>attempt\<close> on is rate limited.\<close>

definition rate_limited_trace :: "nat \<Rightarrow> nat \<Rightarrow> nat \<Rightarrow> backoff_event list" where
  "rate_limited_trace maxRetries baseDelay attempt =
     concat (map (\<lambda>k. [Invoke k, Sleep (baseDelay * 2 ^ (k - 1))]) [attempt..<maxRetries])
     @ [Invoke maxRetries]"

definition rate_limited_from :: "(nat \<Rightarrow> message + 'a) \<Rightarrow> nat \<Rightarrow> nat \<Rightarrow> bool" where
  "rate_limited_from operation attempt maxRetries \<longleftrightarrow>
     (\<forall>k. attempt \<le> k \<and> k \<le> maxRetries \<longrightarrow>
        (case operation k of Inl err \<Rightarrow> is_rate_limit_error err | Inr _ \<Rightarrow> False))"

section \<open>Lemmas\<close>

lemma rate_limited_from_at:
  assumes "rate_limited_from operation attempt maxRetries" and "attempt \<le> k" and "k \<le> maxRetries"
  obtains err where "operation k = Inl err" and "is_rate_limit_error err"
proof -
  have "case operation k of Inl err \<Rightarrow> is_rate_limit_error err | Inr _ \<Rightarrow> False"
    using assms unfolding rate_limited_from_def by blast
  then show ?thesis using that by (cases "operation k") auto
qed

lemma retry_loop_unfold_in:
  "attempt \<le> maxRetries \<Longrightarrow>
   retry_loop operation maxRetries baseDelay attempt =
    (case operation attempt of
       Inr r \<Rightarrow> (Inr r, [Invoke attempt])
     | Inl err \<Rightarrow>
         (if attempt = maxRetries \<or> \<not> is_rate_limit_error err then (Inl err, [Invoke attempt])
          else (fst (retry_loop operation maxRetries baseDelay (Suc attempt)),
                Invoke attempt # Sleep (baseDelay * 2 ^ (attempt - 1))
                  # snd (retry_loop operation maxRetries baseDelay (Suc attempt)))))"
  by (simp add: retry_loop.simps [of operation maxRetries baseDelay attempt] Let_def
      case_prod_beta split: sum.splits)

lemma retry_loop_out:
  "maxRetries < attempt \<Longrightarrow> retry_loop operation maxRetries baseDelay attempt = (Inl ''Max retries exceeded'', [])"
  by (simp add: retry_loop.simps)

lemma rate_limited_trace_last:
  "rate_limited_trace maxRetries baseDelay maxRetries = [Invoke maxRetries]"
  by (simp add: rate_limited_trace_def)

lemma rate_limited_trace_step:
  "attempt < maxRetries \<Longrightarrow>
   rate_limited_trace maxRetries baseDelay attempt =
     Invoke attempt # Sleep (baseDelay * 2 ^ (attempt - 1))
       # rate_limited_trace maxRetries baseDelay (Suc attempt)"
  by (simp add: rate_limited_trace_def upt_conv_Cons)

lemma retry_loop_rate_limited:
  assumes "attempt \<le> maxRetries" and "rate_limited_from operation attempt maxRetries"
  shows "retry_loop operation maxRetries baseDelay attempt =
           (operation maxRetries, rate_limited_trace maxRetries baseDelay attempt)"
  using assms
proof (induction operation maxRetries baseDelay attempt rule: retry_loop.induct)
  case (1 operation maxRetries baseDelay attempt)
  obtain err where err: "operation attempt = Inl err" "is_rate_limit_error err"
    using rate_limited_from_at [OF "1.prems"(2) order_refl "1.prems"(1)] by blast
  show ?case
  proof (cases "attempt = maxRetries")
    case True
    with err "1.prems" show ?thesis
      by (simp add: retry_loop_unfold_in rate_limited_trace_last)
  next
    case False
    with "1.prems" have lt: "attempt < maxRetries" by simp
    have from_next: "rate_limited_from operation (Suc attempt) maxRetries"
      using "1.prems"(2) by (simp add: rate_limited_from_def)
    have "retry_loop operation maxRetries baseDelay (Suc attempt) =
        (operation maxRetries, rate_limited_trace maxRetries baseDelay (Suc attempt))"
      using "1.IH" [of err] lt err from_next "1.prems"(1) False by (simp add: Let_def)
    with lt err False show ?thesis
      by (simp add: retry_loop_unfold_in rate_limited_trace_step)
  qed
qed

lemma invocations_rate_limited_trace:
  "attempt \<le> maxRetries \<Longrightarrow> invocations (rate_limited_trace maxRetries baseDelay attempt) = [attempt..<Suc maxRetries]"
proof (induction "maxRetries - attempt" arbitrary: attempt)
  case 0
  then show ?case by (simp add: rate_limited_trace_last)
next
  case (Suc n)
  then have lt: "attempt < maxRetries" by simp
  with Suc show ?case
    by (simp add: rate_limited_trace_step upt_conv_Cons)
qed

lemma sleeps_rate_limited_trace:
  "sleeps (rate_limited_trace maxRetries baseDelay attempt) =
     map (\<lambda>k. baseDelay * 2 ^ (k - 1)) [attempt..<maxRetries]"
proof (induction "maxRetries - attempt" arbitrary: attempt)
  case 0
  then show ?case by (simp add: rate_limited_trace_def)
next
  case (Suc n)
  then have lt: "attempt < maxRetries" by simp
  with Suc show ?case
    by (simp add: rate_limited_trace_step upt_conv_Cons)
qed

lemma retry_loop_stop:
  "attempt \<le> maxRetries \<Longrightarrow>
   (case operation attempt of Inr _ \<Rightarrow> True | Inl err \<Rightarrow> attempt = maxRetries \<or> \<not> is_rate_limit_error err) \<Longrightarrow>
   retry_loop operation maxRetries baseDelay attempt = (operation attempt, [Invoke attempt])"
  by (cases "operation attempt") (auto simp: retry_loop_unfold_in)

lemma retry_loop_returns_call:
  "attempt \<le> maxRetries \<Longrightarrow>
   \<exists>k. attempt \<le> k \<and> k \<le> maxRetries
     \<and> fst (retry_loop operation maxRetries baseDelay attempt) = operation k
     \<and> invocations (snd (retry_loop operation maxRetries baseDelay attempt)) = [attempt..<Suc k]
     \<and> sleeps (snd (retry_loop operation maxRetries baseDelay attempt))
          = map (\<lambda>j. baseDelay * 2 ^ (j - 1)) [attempt..<k]"
proof (induction operation maxRetries baseDelay attempt rule: retry_loop.induct)
  case (1 operation maxRetries baseDelay attempt)
  show ?case
  proof (cases "case operation attempt of Inr _ \<Rightarrow> True
                | Inl err \<Rightarrow> attempt = maxRetries \<or> \<not> is_rate_limit_error err")
    case True
    with "1.prems" show ?thesis
      by (intro exI [of _ attempt]) (simp add: retry_loop_stop)
  next
    case False
    then obtain err where err: "operation attempt = Inl err" "attempt \<noteq> maxRetries"
        "is_rate_limit_error err"
      by (cases "operation attempt") auto
    with "1.prems" have lt: "Suc attempt \<le> maxRetries" by simp
    have nstop: "\<not> (attempt = maxRetries \<or> \<not> is_rate_limit_error err)" using err by simp
    from "1.IH" [OF "1.prems" err(1) nstop refl lt] obtain k where
      k: "Suc attempt \<le> k" "k \<le> maxRetries"
        "fst (retry_loop operation maxRetries baseDelay (Suc attempt)) = operation k"
        "invocations (snd (retry_loop operation maxRetries baseDelay (Suc attempt))) = [Suc attempt..<Suc k]"
        "sleeps (snd (retry_loop operation maxRetries baseDelay (Suc attempt)))
           = map (\<lambda>j. baseDelay * 2 ^ (j - 1)) [Suc attempt..<k]"
      by auto
    have unf: "retry_loop operation maxRetries baseDelay attempt =
        (fst (retry_loop operation maxRetries baseDelay (Suc attempt)),
         Invoke attempt # Sleep (baseDelay * 2 ^ (attempt - 1))
           # snd (retry_loop operation maxRetries baseDelay (Suc attempt)))"
      using "1.prems" err by (simp add: retry_loop_unfold_in)
    show ?thesis
      using k by (intro exI [of _ k]) (simp add: unf upt_conv_Cons)
  qed
qed

lemma sum_doubling: "sum_list (map (\<lambda>j. b * 2 ^ (j - 1)) [1..<Suc n]) = b * (2 ^ n - 1 :: nat)"
proof (induction n)
  case 0
  then show ?case by simp
next
  case (Suc n)
  have "(1::nat) \<le> 2 ^ n" by simp
  then have "b * (2 ^ n - 1) + b * 2 ^ n = b * (2 ^ Suc n - 1)"
    by (simp add: algebra_simps diff_mult_distrib2)
  with Suc show ?case by simp
qed

lemmas backoff_simps = retry_loop_unfold_in retry_loop_out retryWithBackoff_def gemini_retry_def

section \<open>Properties\<close>

text \<open>
  C8 (bounds). With at least one attempt allowed, \<open>retryWithBackoff\<close> always
  returns the outcome of one of its calls: it stops after some call \<open>k \<le> maxRetries\<close>,
  having called the operation for attempts \<open>1..k\<close> exactly once each, and having
  slept \<open>baseDelay * 2^(j-1)\<close> after each attempt \<open>j < k\<close>. The final
  \<open>throw new Error('Max retries exceeded')\<close> is never reached.
\<close>

theorem retry_returns_call_outcome:
  assumes "1 \<le> maxRetries"
  shows "\<exists>k. 1 \<le> k \<and> k \<le> maxRetries
     \<and> fst (retryWithBackoff operation maxRetries baseDelay) = operation k
     \<and> invocations (snd (retryWithBackoff operation maxRetries baseDelay)) = [1..<Suc k]
     \<and> sleeps (snd (retryWithBackoff operation maxRetries baseDelay))
          = map (\<lambda>j. baseDelay * 2 ^ (j - 1)) [1..<k]"
  unfolding retryWithBackoff_def by (rule retry_loop_returns_call [OF assms])

theorem retry_returns_call_outcome_witness:
  "(1::nat) \<le> 3
   \<and> (\<exists>k. 1 \<le> k \<and> k \<le> 3
     \<and> fst (retryWithBackoff (\<lambda>k. if k = 2 then Inr ''ok'' else Inl ''quota exceeded'') 3 1000)
         = (if k = 2 then Inr ''ok'' else Inl ''quota exceeded'')
     \<and> invocations (snd (retryWithBackoff (\<lambda>k. if k = 2 then Inr ''ok'' else Inl ''quota exceeded'') 3 1000))
         = [1..<Suc k]
     \<and> sleeps (snd (retryWithBackoff (\<lambda>k. if k = 2 then Inr ''ok'' else Inl ''quota exceeded'') 3 1000))
         = map (\<lambda>j. 1000 * 2 ^ (j - 1)) [1..<k])"
  using retry_returns_call_outcome [of 3 "\<lambda>k. if k = 2 then Inr ''ok'' else Inl ''quota exceeded''" 1000]
  by simp

text \<open>
  C9 (functional). Under rate limiting on every attempt, exactly \<open>maxRetries\<close>
  calls are made, the sleeps between them double from \<open>baseDelay\<close>, and the error of
  the last call propagates; for the Gemini defaults that is three calls with sleeps of
  1000 and 2000 ms.
\<close>

theorem retry_rate_limited:
  assumes "1 \<le> maxRetries" and "rate_limited_from operation 1 maxRetries"
  shows "fst (retryWithBackoff operation maxRetries baseDelay) = operation maxRetries
    \<and> invocations (snd (retryWithBackoff operation maxRetries baseDelay)) = [1..<Suc maxRetries]
    \<and> sleeps (snd (retryWithBackoff operation maxRetries baseDelay))
        = map (\<lambda>k. baseDelay * 2 ^ (k - 1)) [1..<maxRetries]"
  using retry_loop_rate_limited [OF assms] assms(1)
  by (simp add: retryWithBackoff_def invocations_rate_limited_trace sleeps_rate_limited_trace)

theorem retry_rate_limited_witness:
  "(1::nat) \<le> 3 \<and> rate_limited_from (\<lambda>k. Inl ''[429 Too Many Requests]'' :: message + string) 1 3
   \<and> fst (gemini_retry (\<lambda>k. Inl ''[429 Too Many Requests]'' :: message + string)) = Inl ''[429 Too Many Requests]''
   \<and> invocations (snd (gemini_retry (\<lambda>k. Inl ''[429 Too Many Requests]'' :: message + string))) = [1, 2, 3]
   \<and> sleeps (snd (gemini_retry (\<lambda>k. Inl ''[429 Too Many Requests]'' :: message + string))) = [1000, 2000]"
proof -
  have h: "rate_limited_from (\<lambda>k. Inl ''[429 Too Many Requests]'' :: message + string) 1 3"
    by (simp add: rate_limited_from_def is_rate_limit_error_def)
  from retry_rate_limited [OF _ h, of 1000] h show ?thesis
    by (simp add: gemini_retry_def upt_conv_Cons)
qed

text \<open>
  C10 (error). A success or an error that is not a rate limit ends the loop at once:
  the call's outcome is returned and nothing further is called or awaited.
\<close>

theorem retry_stops_on_other_error:
  assumes "attempt \<le> maxRetries" and "operation attempt = Inl err" and "\<not> is_rate_limit_error err"
  shows "retry_loop operation maxRetries baseDelay attempt = (Inl err, [Invoke attempt])"
proof -
  have "case operation attempt of Inr _ \<Rightarrow> True
          | Inl err \<Rightarrow> attempt = maxRetries \<or> \<not> is_rate_limit_error err"
    using assms(2,3) by simp
  from retry_loop_stop [of attempt maxRetries operation baseDelay, OF assms(1) this] assms(2)
  show ?thesis by simp
qed

theorem retry_stops_on_other_error_witness:
  "(1::nat) \<le> 3 \<and> (\<lambda>k. Inl ''401 Unauthorized'' :: message + string) 1 = Inl ''401 Unauthorized''
   \<and> \<not> is_rate_limit_error ''401 Unauthorized''
   \<and> retry_loop (\<lambda>k. Inl ''401 Unauthorized'' :: message + string) 3 1000 1
       = (Inl ''401 Unauthorized'', [Invoke 1])"
proof -
  have h: "\<not> is_rate_limit_error ''401 Unauthorized''"
    by (simp add: is_rate_limit_error_def)
  from retry_stops_on_other_error [of 1 3 "\<lambda>k. Inl ''401 Unauthorized'' :: message + string", OF _ refl h] h
  show ?thesis by simp
qed

text \<open>
  The total time \<open>retryWithBackoff\<close> sleeps is at most
  \<open>baseDelay * (2^(maxRetries-1) - 1)\<close>: 3000 ms for the Gemini adapter's 3 attempts
  and 1000 ms base delay.
\<close>

theorem retry_total_sleep:
  assumes "1 \<le> maxRetries"
  shows "sum_list (sleeps (snd (retryWithBackoff operation maxRetries baseDelay)))
           \<le> baseDelay * (2 ^ (maxRetries - 1) - 1)"
proof -
  obtain k where k: "1 \<le> k" "k \<le> maxRetries"
    and sl: "sleeps (snd (retryWithBackoff operation maxRetries baseDelay)) = map (\<lambda>j. baseDelay * 2 ^ (j - 1)) [1..<k]"
    using retry_loop_returns_call [OF assms, of operation baseDelay] unfolding retryWithBackoff_def by blast
  obtain n where n: "k = Suc n" using k(1) by (cases k) auto
  have "(2::nat) ^ n \<le> 2 ^ (maxRetries - 1)" using k(2) n by (intro power_increasing) auto
  then have "baseDelay * (2 ^ n - 1) \<le> baseDelay * (2 ^ (maxRetries - 1) - 1)"
    by (intro mult_le_mono2 diff_le_mono)
  moreover have "sum_list (sleeps (snd (retryWithBackoff operation maxRetries baseDelay)))
      = baseDelay * (2 ^ n - 1)"
    unfolding sl n by (rule sum_doubling)
  ultimately show ?thesis by simp
qed

theorem retry_total_sleep_witness:
  "(1::nat) \<le> 3 \<and> sum_list (sleeps (snd (retryWithBackoff (\<lambda>k. Inl ''429 Too Many Requests'' :: message + string) 3 1000))) \<le> 3000"
  using retry_total_sleep [of 3 "\<lambda>k. Inl ''429 Too Many Requests'' :: message + string" 1000] by simp

end
