(* ===== verification/Adapters.thy ===== *)
theory Adapters
  imports Interface Backoff
begin

text \<open>
  The three provider adapters (src/backend/src/services/geminiService.ts,
  groqService.ts, huggingFaceService.ts). Each method is a function of the
  environment (the API keys read at construction), the remote services and its
  arguments, and returns the method's promise outcome: the response text, or the
  message of the error it throws. Gemini's \<open>analyzeCode\<close> also returns the trace of
  its retry loop. \<open>service_call\<close> dispatches the three mandatory methods of the
  \<open>AIProvider\<close> interface; \<open>service_generateReport\<close> is \<open>None\<close> for a service
  that has no \<open>generateReport\<close> method.
\<close>

definition nl :: string where
  "nl = [CHR 0x0A]"

section \<open>Gemini\<close>

definition gemini_quota_message :: message where
  "gemini_quota_message =
     ''API quota exceeded. Please wait a moment and try again, or check your Gemini API billing.''"

text \<open>
  \<open>retryWithBackoff(() => this.model.generateContent(prompt))\<close>, then
  \<open>response.text()\<close>; the \<open>catch\<close> turns a message with \<open>429\<close> into the quota
  message and prefixes any other.
\<close>

definition gemini_analyzeCode ::
  "remote \<Rightarrow> string \<Rightarrow> string \<Rightarrow> analysis_type \<Rightarrow> (message + string) \<times> backoff_event list" where
  "gemini_analyzeCode r code lang atype =
    (let (res, tr) = gemini_retry (gemini_generate r (OpAnalyze code lang atype)) in
     (case res of
        Inr (Inr txt) \<Rightarrow> Inr txt
      | Inr (Inl err) \<Rightarrow> Inl (if str_includes err ''429'' then gemini_quota_message
                            else ''Code analysis failed: '' @ err)
      | Inl err \<Rightarrow> Inl (if str_includes err ''429'' then gemini_quota_message
                        else ''Code analysis failed: '' @ err),
      tr))"

text \<open>The other Gemini methods call \<open>generateContent\<close> once, without retry.\<close>

definition gemini_single :: "remote \<Rightarrow> operation \<Rightarrow> message \<Rightarrow> message + string" where
  "gemini_single r op failPrefix =
    (case gemini_generate r op 1 of
       Inr (Inr txt) \<Rightarrow> Inr txt
     | Inr (Inl err) \<Rightarrow> Inl (failPrefix @ err)
     | Inl err \<Rightarrow> Inl (failPrefix @ err))"

definition gemini_explainCode :: "remote \<Rightarrow> string \<Rightarrow> string \<Rightarrow> message + string" where
  "gemini_explainCode r code lang = gemini_single r (OpExplain code lang) ''Code explanation failed: ''"

definition gemini_suggestImprovements :: "remote \<Rightarrow> string \<Rightarrow> string \<Rightarrow> string \<Rightarrow> message + string" where
  "gemini_suggestImprovements r code lang ctx =
     gemini_single r (OpSuggest code lang ctx) ''Code improvement suggestions failed: ''"

definition gemini_generateReport :: "remote \<Rightarrow> js_value list \<Rightarrow> js_value \<Rightarrow> message + string" where
  "gemini_generateReport r results info =
     gemini_single r (OpReport results info) ''Report generation failed: ''"

section \<open>Groq\<close>

text \<open>
  The constructor leaves \<open>client = null\<close> when \<open>GROQ_API_KEY\<close> is unset; every
  method then throws before its \<open>try\<close>. Otherwise the completion's content, or a
  default text when it is missing or empty.
\<close>

definition groq_client_missing :: message where
  "groq_client_missing = ''Groq client not initialized - missing API key''"

definition groq_call :: "env \<Rightarrow> remote \<Rightarrow> operation \<Rightarrow> message \<Rightarrow> string \<Rightarrow> message + string" where
  "groq_call e r op failPrefix dflt =
    (if \<not> isAvailable e Groq then Inl groq_client_missing
     else (case groq_create r op of
             Inl err \<Rightarrow> Inl (failPrefix @ err)
           | Inr content \<Rightarrow> Inr (js_or content dflt)))"

definition groq_analyzeCode :: "env \<Rightarrow> remote \<Rightarrow> string \<Rightarrow> string \<Rightarrow> analysis_type \<Rightarrow> message + string" where
  "groq_analyzeCode e r code lang atype =
     groq_call e r (OpAnalyze code lang atype) ''Groq analysis failed: '' ''No analysis generated''"

definition groq_explainCode :: "env \<Rightarrow> remote \<Rightarrow> string \<Rightarrow> string \<Rightarrow> message + string" where
  "groq_explainCode e r code lang =
     groq_call e r (OpExplain code lang) ''Groq explanation failed: '' ''No explanation generated''"

definition groq_suggestImprovements :: "env \<Rightarrow> remote \<Rightarrow> string \<Rightarrow> string \<Rightarrow> string \<Rightarrow> message + string" where
  "groq_suggestImprovements e r code lang ctx =
     groq_call e r (OpSuggest code lang ctx) ''Groq improvement suggestions failed: '' ''No suggestions generated''"

section \<open>Hugging Face\<close>

definition hf_analyze_prompt :: "string \<Rightarrow> string \<Rightarrow> string" where
  "hf_analyze_prompt code lang =
     ''Analyze this '' @ lang @
     '' code for quality, security, and performance issues. Provide specific recommendations:''
     @ nl @ nl @ code"

definition hf_analyzeCode :: "env \<Rightarrow> remote \<Rightarrow> string \<Rightarrow> string \<Rightarrow> message + string" where
  "hf_analyzeCode e r code lang =
    (case hf_fetch r (HUGGINGFACE_API_KEY e) (hf_analyze_prompt code lang) of
       HfFetchError err \<Rightarrow> Inl (''Hugging Face analysis failed: '' @ err)
     | HfResponse ok statusText body \<Rightarrow>
         (if \<not> ok then Inl (''Hugging Face analysis failed: Hugging Face API error: '' @ statusText)
          else (case body of
                  Inl err \<Rightarrow> Inl (''Hugging Face analysis failed: '' @ err)
                | Inr txt \<Rightarrow> Inr (js_or txt ''Unable to analyze code with Hugging Face API''))))"

definition hf_explain_prompt :: "string \<Rightarrow> string \<Rightarrow> string" where
  "hf_explain_prompt code lang = ''Explain what this '' @ lang @ '' code does in simple terms:'' @ nl @ nl @ code"

definition hf_explainCode :: "env \<Rightarrow> remote \<Rightarrow> string \<Rightarrow> string \<Rightarrow> message + string" where
  "hf_explainCode e r code lang = hf_analyzeCode e r (hf_explain_prompt code lang) lang"

definition hf_suggest_prompt :: "string \<Rightarrow> string \<Rightarrow> string \<Rightarrow> string" where
  "hf_suggest_prompt code lang ctx =
     ''Suggest improvements for this '' @ lang @ '' code. Context: '' @ ctx @ nl @ nl @
     ''Focus on:'' @ nl @ ''1. Performance optimizations'' @ nl @ ''2. Best practices'' @ nl @
     ''3. Code quality improvements'' @ nl @ ''4. Security enhancements'' @ nl @ nl @
     ''Code:'' @ nl @ code"

definition hf_suggestImprovements :: "env \<Rightarrow> remote \<Rightarrow> string \<Rightarrow> string \<Rightarrow> string \<Rightarrow> message + string" where
  "hf_suggestImprovements e r code lang ctx = hf_analyzeCode e r (hf_suggest_prompt code lang ctx) lang"

section \<open>The interface\<close>

text \<open>The optional \<open>generateReport?\<close>: only the Gemini service defines it.\<close>

fun service_generateReport ::
  "remote \<Rightarrow> provider_id \<Rightarrow> (js_value list \<Rightarrow> js_value \<Rightarrow> message + string) option" where
  "service_generateReport r Gemini = Some (gemini_generateReport r)"
| "service_generateReport r Groq = None"
| "service_generateReport r HuggingFace = None"

text \<open>
  The closure \<open>async (provider) => ...\<close> that each \<open>AIService\<close> wrapper hands
  to \<open>executeWithFallback\<close>, applied to a provider's service: the mandatory methods
  are called directly; the report closure calls \<open>generateReport\<close> if the service
  has it and otherwise throws.
\<close>

fun service_call :: "env \<Rightarrow> remote \<Rightarrow> provider_id \<Rightarrow> operation \<Rightarrow> message + string" where
  "service_call e r Gemini (OpAnalyze code lang atype) = fst (gemini_analyzeCode r code lang atype)"
| "service_call e r Gemini (OpExplain code lang) = gemini_explainCode r code lang"
| "service_call e r Gemini (OpSuggest code lang ctx) = gemini_suggestImprovements r code lang ctx"
| "service_call e r Groq (OpAnalyze code lang atype) = groq_analyzeCode e r code lang atype"
| "service_call e r Groq (OpExplain code lang) = groq_explainCode e r code lang"
| "service_call e r Groq (OpSuggest code lang ctx) = groq_suggestImprovements e r code lang ctx"
| "service_call e r HuggingFace (OpAnalyze code lang atype) = hf_analyzeCode e r code lang"
| "service_call e r HuggingFace (OpExplain code lang) = hf_explainCode e r code lang"
| "service_call e r HuggingFace (OpSuggest code lang ctx) = hf_suggestImprovements e r code lang ctx"
| "service_call e r s (OpReport results info) =
     (case service_generateReport r s of
        Some f \<Rightarrow> f results info
      | None \<Rightarrow> Inl ''Report generation not supported by this provider'')"

section \<open>Lemmas\<close>

lemma gemini_analyzeCode_result:
  "fst (gemini_analyzeCode r code lang atype) =
    (case fst (gemini_retry (gemini_generate r (OpAnalyze code lang atype))) of
       Inr (Inr txt) \<Rightarrow> Inr txt
     | Inr (Inl err) \<Rightarrow> Inl (if str_includes err ''429'' then gemini_quota_message
                           else ''Code analysis failed: '' @ err)
     | Inl err \<Rightarrow> Inl (if str_includes err ''429'' then gemini_quota_message
                       else ''Code analysis failed: '' @ err))"
  by (simp add: gemini_analyzeCode_def case_prod_beta)

lemmas adapter_defs = gemini_single_def gemini_explainCode_def gemini_suggestImprovements_def
  gemini_generateReport_def groq_call_def groq_analyzeCode_def groq_explainCode_def
  groq_suggestImprovements_def hf_analyzeCode_def hf_explainCode_def hf_suggestImprovements_def

end
