(* ===== verification/Store.thy ===== *)
theory Store
  imports Prelude
begin

text \<open>
  The frontend's zustand store (src/frontend/src/store/analysisStore.ts). Its state is
  the record \<open>analysis_store\<close>, parametric in the type of the analysis result it
  holds; every action of the store is a constructor of \<open>store_action\<close> and
  \<open>store_step\<close> applies one, as \<open>set\<close> merges the returned fields into the state.
  The derived selectors are functions of the state. The lemmas show what each action
  does, that the analysis lifecycle actions keep the flags consistent, and the
  counting facts of the selectors.
\<close>

section \<open>State\<close>

text \<open>A \<open>File\<close> object is an opaque handle; reading it is a parameter of the
  components that do.\<close>

type_synonym file_handle = nat

record code_file =
  file_id :: string
  path :: string
  content :: string
  file_language :: string
  file_size :: nat
  lastModified :: "int option"
  file_ref :: "file_handle option"

record 'r analysis_store =
  files :: "code_file list"
  store_analysis :: "'r option"
  isAnalyzing :: bool
  store_error :: "string option"
  uploadId :: "string option"
  selectedFile :: "string option"

definition initial_store :: "'r analysis_store" where
  "initial_store =
     \<lparr>files = [], store_analysis = None, isAnalyzing = False, store_error = None,
      uploadId = None, selectedFile = None\<rparr>"

text \<open>\<open>Partial<CodeFile>\<close>: a present key is \<open>Some\<close>; \<open>{ ...f, ...updates }\<close>
  takes every present key from the update.\<close>

record code_file_update =
  upd_id :: "string option"
  upd_path :: "string option"
  upd_content :: "string option"
  upd_language :: "string option"
  upd_size :: "nat option"
  upd_lastModified :: "int option option"
  upd_file :: "file_handle option option"

definition merge_file :: "code_file \<Rightarrow> code_file_update \<Rightarrow> code_file" where
  "merge_file f u =
     \<lparr>file_id = (case upd_id u of Some x \<Rightarrow> x | None \<Rightarrow> file_id f),
      path = (case upd_path u of Some x \<Rightarrow> x | None \<Rightarrow> path f),
      content = (case upd_content u of Some x \<Rightarrow> x | None \<Rightarrow> content f),
      file_language = (case upd_language u of Some x \<Rightarrow> x | None \<Rightarrow> file_language f),
      file_size = (case upd_size u of Some x \<Rightarrow> x | None \<Rightarrow> file_size f),
      lastModified = (case upd_lastModified u of Some x \<Rightarrow> x | None \<Rightarrow> lastModified f),
      file_ref = (case upd_file u of Some x \<Rightarrow> x | None \<Rightarrow> file_ref f)\<rparr>"

section \<open>Actions\<close>

datatype 'r store_action =
  SetFiles "code_file list"
| SetAnalysis "'r option"
| SetIsAnalyzing bool
| SetError "string option"
| SetUploadId "string option"
| SetSelectedFile "string option"
| Reset
| AddFile code_file
| RemoveFile string
| UpdateFile string code_file_update
| StartAnalysis
| CompleteAnalysis 'r
| FailAnalysis string

fun store_step :: "'r store_action \<Rightarrow> 'r analysis_store \<Rightarrow> 'r analysis_store" where
  "store_step (SetFiles fs) s = s\<lparr>files := fs\<rparr>"
| "store_step (SetAnalysis a) s = s\<lparr>store_analysis := a\<rparr>"
| "store_step (SetIsAnalyzing b) s = s\<lparr>isAnalyzing := b\<rparr>"
| "store_step (SetError e) s = s\<lparr>store_error := e\<rparr>"
| "store_step (SetUploadId u) s = s\<lparr>uploadId := u\<rparr>"
| "store_step (SetSelectedFile f) s = s\<lparr>selectedFile := f\<rparr>"
| "store_step Reset s =
     s\<lparr>files := [], store_analysis := None, isAnalyzing := False, store_error := None,
       uploadId := None, selectedFile := None\<rparr>"
| "store_step (AddFile f) s = s\<lparr>files := files s @ [f]\<rparr>"
| "store_step (RemoveFile fid) s =
     s\<lparr>files := filter (\<lambda>f. file_id f \<noteq> fid) (files s),
       selectedFile := (if selectedFile s = Some fid then None else selectedFile s)\<rparr>"
| "store_step (UpdateFile fid u) s =
     s\<lparr>files := map (\<lambda>f. if file_id f = fid then merge_file f u else f) (files s)\<rparr>"
| "store_step StartAnalysis s = s\<lparr>isAnalyzing := True, store_error := None, store_analysis := None\<rparr>"
| "store_step (CompleteAnalysis r) s = s\<lparr>isAnalyzing := False, store_analysis := Some r, store_error := None\<rparr>"
| "store_step (FailAnalysis e) s = s\<lparr>isAnalyzing := False, store_error := Some e, store_analysis := None\<rparr>"

text \<open>A sequence of actions, applied in order.\<close>

definition store_run :: "'r store_action list \<Rightarrow> 'r analysis_store \<Rightarrow> 'r analysis_store" where
  "store_run acts s = foldl (\<lambda>st a. store_step a st) s acts"

section \<open>Selectors\<close>

definition useFileCount :: "'r analysis_store \<Rightarrow> nat" where
  "useFileCount s = length (files s)"

definition useTotalFileSize :: "'r analysis_store \<Rightarrow> nat" where
  "useTotalFileSize s = foldl (\<lambda>total f. total + file_size f) 0 (files s)"

text \<open>\<open>stats[file.language] = (stats[file.language] || 0) + 1\<close> over the files.\<close>

definition count_language :: "(string \<rightharpoonup> nat) \<Rightarrow> code_file \<Rightarrow> (string \<rightharpoonup> nat)" where
  "count_language stats f =
     stats(file_language f \<mapsto> (case stats (file_language f) of None \<Rightarrow> 0 | Some n \<Rightarrow> n) + 1)"

definition useLanguageStats :: "'r analysis_store \<Rightarrow> (string \<rightharpoonup> nat)" where
  "useLanguageStats s = foldl count_language Map.empty (files s)"

text \<open>The flags of the analysis lifecycle: an analysis in progress has neither a result
  nor an error, and a result and an error are never held together.\<close>

definition lifecycle_ok :: "'r analysis_store \<Rightarrow> bool" where
  "lifecycle_ok s \<longleftrightarrow>
     (isAnalyzing s \<longrightarrow> store_analysis s = None \<and> store_error s = None)
     \<and> (store_analysis s = None \<or> store_error s = None)"

text \<open>The actions other than the raw setters of the three lifecycle fields.\<close>

fun lifecycle_action :: "'r store_action \<Rightarrow> bool" where
  "lifecycle_action (SetAnalysis a) = (a = None)"
| "lifecycle_action (SetIsAnalyzing b) = False"
| "lifecycle_action (SetError e) = False"
| "lifecycle_action a = True"

section \<open>Lemmas\<close>

lemma store_step_Reset: "store_step Reset s = initial_store"
  by (simp add: initial_store_def)

lemma lifecycle_initial [simp]: "lifecycle_ok initial_store"
  by (simp add: lifecycle_ok_def initial_store_def)

lemma foldl_count_language:
  "foldl count_language stats fs l =
     (let n = length (filter (\<lambda>f. file_language f = l) fs) in
      if n = 0 then stats l else Some ((case stats l of None \<Rightarrow> 0 | Some k \<Rightarrow> k) + n))"
  by (induction fs arbitrary: stats) (auto simp: count_language_def Let_def split: option.splits)

lemma foldl_total_size: "foldl (\<lambda>total f. total + file_size f) t fs = t + sum_list (map file_size fs)"
  by (induction fs arbitrary: t) simp_all

lemma lifecycle_step: "lifecycle_ok s \<Longrightarrow> lifecycle_action a \<Longrightarrow> lifecycle_ok (store_step a s)"
  by (cases a) (auto simp: lifecycle_ok_def)

lemma store_run_Nil [simp]: "store_run [] s = s"
  by (simp add: store_run_def)

lemma store_run_Cons [simp]: "store_run (a # acts) s = store_run acts (store_step a s)"
  by (simp add: store_run_def)

lemmas store_simps = store_step.simps useFileCount_def useTotalFileSize_def initial_store_def

section \<open>Properties\<close>

text \<open>
  C15 (invariant). Every sequence of store actions without the raw setters of the
  lifecycle fields (\<open>setAnalysis\<close> with a result, \<open>setIsAnalyzing\<close>,
  \<open>setError\<close>) keeps the lifecycle consistent: while analysing there is neither a result nor an error, and a
  result and an error are never held together.
\<close>

theorem lifecycle_preserved:
  assumes "lifecycle_ok s" and "list_all lifecycle_action acts"
  shows "lifecycle_ok (store_run acts s)"
  using assms by (induction acts arbitrary: s) (simp_all add: lifecycle_step)

theorem lifecycle_preserved_witness:
  "lifecycle_ok (store_run [StartAnalysis, CompleteAnalysis (7::nat)] initial_store)
   \<and> store_analysis (store_run [StartAnalysis, CompleteAnalysis (7::nat)] initial_store) = Some 7"
proof -
  have "lifecycle_ok (store_run [StartAnalysis, CompleteAnalysis (7::nat)] initial_store)"
    by (rule lifecycle_preserved) simp_all
  then show ?thesis by (simp add: initial_store_def)
qed

text \<open>
  The language statistics map each language to the number of files in
  it and hold exactly the languages of the files.
\<close>

theorem useLanguageStats_counts:
  "useLanguageStats s l =
     (let n = length (filter (\<lambda>f. file_language f = l) (files s)) in if n = 0 then None else Some n)
   \<and> dom (useLanguageStats s) = file_language ` set (files s)"
proof -
  have eq: "\<And>l. useLanguageStats s l =
     (let n = length (filter (\<lambda>f. file_language f = l) (files s)) in if n = 0 then None else Some n)"
    by (simp add: useLanguageStats_def foldl_count_language)
  moreover have "dom (useLanguageStats s) = file_language ` set (files s)"
    by (auto simp: dom_def eq Let_def filter_empty_conv image_iff)
  ultimately show ?thesis by blast
qed

text \<open>
  \<open>removeFile\<close> removes every file with the id, keeps the others
  with their multiplicities, and clears the selection when it was that file.
\<close>

theorem removeFile_spec:
  "fid \<notin> file_id ` set (files (store_step (RemoveFile fid) s))
   \<and> selectedFile (store_step (RemoveFile fid) s) \<noteq> Some fid
   \<and> mset (files s) = mset (files (store_step (RemoveFile fid) s))
                      + filter_mset (\<lambda>f. file_id f = fid) (mset (files s))"
proof -
  have "mset (files s) = filter_mset (\<lambda>f. file_id f \<noteq> fid) (mset (files s))
                         + filter_mset (\<lambda>f. file_id f = fid) (mset (files s))"
    by (metis (mono_tags) add.commute multiset_partition)
  then show ?thesis by (auto simp: mset_filter)
qed

end
