(* ===== verification/Aggregate.thy ===== *)
theory Aggregate
  imports Store
begin

text \<open>
  The result aggregation of the frontend (src/frontend/src/utils/analysisUtils.ts,
  \<open>extractJSONFromAnalysis\<close> and \<open>processAnalysisResults\<close>). \<open>JSON.parse\<close> is a
  parameter \<open>parse\<close>, a partial function from text to a JSON value (\<open>None\<close> is the
  \<open>SyntaxError\<close> it throws); the regular expression of the fenced-block fallback is
  written out as a first-occurrence search. Reading a \<open>File\<close> is a parameter
  \<open>read\<close>; the random id and the ISO timestamp are arguments. The asynchronous
  function's promise is a sum: \<open>Inl\<close> the message of the \<open>TypeError\<close> it rejects
  with. Numbers are integers and the arithmetic is exact: \<open>Math.round(t / n * 10)\<close>
  is \<open>(20 t + n) div 2n\<close>, and each \<open>Math.floor(k * c)\<close> with
  \<open>c \<in> {0.8, 0.5, 0.15, 0.05}\<close> is the exact quotient, which the IEEE products
  also give for every count below \<open>2^50\<close>.
\<close>

section \<open>Extracting the JSON of an analysis\<close>

text \<open>The text before and after the first occurrence of \<open>pat\<close>.\<close>

fun split_at_sub :: "string \<Rightarrow> string \<Rightarrow> (string \<times> string) option" where
  "split_at_sub pat [] = (if pat = [] then Some ([], []) else None)"
| "split_at_sub pat (c # cs) =
     (if prefix pat (c # cs) then Some ([], drop (length pat) (c # cs))
      else (case split_at_sub pat cs of None \<Rightarrow> None | Some (a, b) \<Rightarrow> Some (c # a, b)))"

definition fence_open :: string where
  "fence_open = ''```json''"

definition fence_close :: string where
  "fence_close = ''```''"

text \<open>
  \<open>/```json\s*([\s\S]*?)\s*```/g.exec(text)[1]\<close>: after the first \<open>```json\<close>
  the greedy \<open>\s*\<close> skips the white space, and the lazy group ends before the white
  space that precedes the first following \<open>```\<close>. No later \<open>```json\<close> can match
  when this one does not, since it would itself contain \<open>```\<close>.
\<close>

definition json_block :: "string \<Rightarrow> string option" where
  "json_block text =
    (case split_at_sub fence_open text of
       None \<Rightarrow> None
     | Some (before, rest) \<Rightarrow>
         (case split_at_sub fence_close (dropWhile is_js_space rest) of
            None \<Rightarrow> None
          | Some (captured, after) \<Rightarrow> Some (rev (dropWhile is_js_space (rev captured)))))"

definition extractJSONFromAnalysis :: "(string \<Rightarrow> js_value option) \<Rightarrow> string \<Rightarrow> js_value" where
  "extractJSONFromAnalysis parse analysisText =
    (case parse analysisText of
       Some v \<Rightarrow> v
     | None \<Rightarrow>
         (case json_block analysisText of
            Some m \<Rightarrow> (if m \<noteq> [] then (case parse (js_trim m) of Some v \<Rightarrow> v | None \<Rightarrow> JNull)
                       else JNull)
          | None \<Rightarrow> JNull))"

section \<open>Aggregation\<close>

text \<open>\<open>result.analysis\<close> for each element of \<open>analysisResults\<close>: reading a property
  of \<open>null\<close> or \<open>undefined\<close> throws; \<open>JSON.parse\<close> and \<open>exec\<close> convert any
  other value to a string.\<close>

definition type_error_reading :: "js_value \<Rightarrow> string \<Rightarrow> message" where
  "type_error_reading v prop =
     ''Cannot read properties of '' @ (if v = JNull then ''null'' else ''undefined'')
     @ '' (reading '' @ [CHR 0x27] @ prop @ [CHR 0x27] @ '')''"

definition read_property :: "js_value \<Rightarrow> string \<Rightarrow> message + js_value" where
  "read_property v prop =
     (if v = JNull \<or> v = JUndefined then Inl (type_error_reading v prop) else Inr (js_get v prop))"

fun analysis_texts :: "js_value list \<Rightarrow> message + string list" where
  "analysis_texts [] = Inr []"
| "analysis_texts (r # rs) =
     (case read_property r ''analysis'' of
        Inl m \<Rightarrow> Inl m
      | Inr a \<Rightarrow> (case analysis_texts rs of Inl m \<Rightarrow> Inl m | Inr ts \<Rightarrow> Inr (js_to_string a # ts)))"

text \<open>What \<open>parsedResults.forEach\<close> collects from one parsed analysis.\<close>

definition array_field :: "js_value \<Rightarrow> string \<Rightarrow> js_value list" where
  "array_field pa k =
     (let v = js_get pa k in if js_truthy_value v \<and> is_js_array v then js_array_of v else [])"

fun number_value :: "js_value \<Rightarrow> int option" where
  "number_value (JNumber n) = Some n"
| "number_value v = None"

record agg_acc =
  allIssues :: "js_value list"
  allRecommendations :: "js_value list"
  totalQualityScore :: int
  validQualityScores :: nat

definition agg_init :: agg_acc where
  "agg_init = \<lparr>allIssues = [], allRecommendations = [], totalQualityScore = 0, validQualityScores = 0\<rparr>"

definition collect_result :: "agg_acc \<Rightarrow> js_value \<Rightarrow> agg_acc" where
  "collect_result acc pa =
    (if \<not> js_truthy_value pa then acc
     else acc\<lparr>allIssues := allIssues acc @ array_field pa ''issues'',
              allRecommendations := allRecommendations acc @ array_field pa ''recommendations'',
              totalQualityScore := totalQualityScore acc
                 + (case number_value (js_get pa ''quality_score'') of Some q \<Rightarrow> q | None \<Rightarrow> 0),
              validQualityScores := validQualityScores acc
                 + (case number_value (js_get pa ''quality_score'') of Some q \<Rightarrow> 1 | None \<Rightarrow> 0)\<rparr>)"

text \<open>
  \<open>issue.severity && ['critical', 'high'].includes(issue.severity.toLowerCase())\<close>:
  a \<open>null\<close> issue throws on the property read, a truthy severity that is not a string
  throws because it has no \<open>toLowerCase\<close>.
\<close>

definition is_critical :: "js_value \<Rightarrow> message + bool" where
  "is_critical issue =
    (case read_property issue ''severity'' of
       Inl m \<Rightarrow> Inl m
     | Inr sev \<Rightarrow>
         (if \<not> js_truthy_value sev then Inr False
          else (case sev of
                  JString s \<Rightarrow> Inr (to_lower s \<in> {''critical'', ''high''})
                | _ \<Rightarrow> Inl ''issue.severity.toLowerCase is not a function'')))"

fun count_critical :: "js_value list \<Rightarrow> message + nat" where
  "count_critical [] = Inr 0"
| "count_critical (i # is) =
     (case is_critical i of
        Inl m \<Rightarrow> Inl m
      | Inr b \<Rightarrow> (case count_critical is of Inl m \<Rightarrow> Inl m | Inr n \<Rightarrow> Inr (if b then Suc n else n)))"

text \<open>\<open>Math.round(total / count * 10)\<close>, rounding halves up, for \<open>count > 0\<close>.\<close>

definition round_score :: "int \<Rightarrow> nat \<Rightarrow> int" where
  "round_score t k = (20 * t + int k) div (2 * int k)"

definition overall_score :: "agg_acc \<Rightarrow> int" where
  "overall_score acc =
     (if validQualityScores acc > 0 then round_score (totalQualityScore acc) (validQualityScores acc) else 75)"

definition clamp_score :: "int \<Rightarrow> int" where
  "clamp_score s = max 0 (min 100 s)"

text \<open>\<open>content.split('\n').length\<close> of each file with a \<open>File\<close> object; a file that
  cannot be read is skipped with a warning.\<close>

definition line_count :: "string \<Rightarrow> nat" where
  "line_count s = length (filter (\<lambda>c. c = CHR 0x0A) s) + 1"

definition file_lines :: "(file_handle \<Rightarrow> message + string) \<Rightarrow> code_file \<Rightarrow> nat" where
  "file_lines read f =
     (case file_ref f of
        None \<Rightarrow> 0
      | Some h \<Rightarrow> (case read h of Inr c \<Rightarrow> line_count c | Inl m \<Rightarrow> 0))"

section \<open>The result\<close>

record analysis_summary =
  totalIssues :: nat
  criticalIssues :: nat
  filesAnalyzed :: nat
  overallScore :: int
  recommendations :: "js_value list"

record complexity_metrics =
  cyclomatic :: nat
  cognitive :: nat

record debt_metrics =
  debt_hours :: nat
  debt_issues :: nat

record loc_metrics =
  loc_total :: nat
  loc_source :: nat
  loc_comments :: nat
  loc_blank :: nat

text \<open>\<open>metrics.maintainability\<close> is the one-field object \<open>{ score }\<close>; it is kept as
  its field.\<close>

record quality_metrics =
  complexity :: complexity_metrics
  maintainability_score :: int
  technical_debt :: debt_metrics
  lines_of_code :: loc_metrics

record fe_analysis_result =
  result_id :: string
  result_timestamp :: string
  summary :: analysis_summary
  result_issues :: "js_value list"
  metrics :: quality_metrics
  processing_time :: nat
  rawResults :: "js_value list"

text \<open>\<open>Array.from(new Set(xs))\<close> on JSON values: a parsed array or object is a fresh
  reference, so the set never identifies two of them; other values compare by value.\<close>

fun is_js_reference :: "js_value \<Rightarrow> bool" where
  "is_js_reference (JArray xs) = True"
| "is_js_reference (JObject ps) = True"
| "is_js_reference v = False"

definition js_set_add :: "js_value list \<Rightarrow> js_value \<Rightarrow> js_value list" where
  "js_set_add acc x = (if x \<in> set acc \<and> \<not> is_js_reference x then acc else acc @ [x])"

definition js_array_from_set :: "js_value list \<Rightarrow> js_value list" where
  "js_array_from_set xs = foldl js_set_add [] xs"

text \<open>The object \<open>processAnalysisResults\<close> returns, from the accumulated issues,
  recommendations and scores, the critical count and the files.\<close>

text \<open>The Set semantics as a reference definition: keep the first occurrence of each
  value, and every reference.\<close>

fun set_dedup_spec :: "js_value list \<Rightarrow> js_value list" where
  "set_dedup_spec [] = []"
| "set_dedup_spec (x # xs) = x # set_dedup_spec (filter (\<lambda>y. is_js_reference y \<or> y \<noteq> x) xs)"

definition build_result ::
  "(file_handle \<Rightarrow> message + string) \<Rightarrow> string \<Rightarrow> string \<Rightarrow> js_value list \<Rightarrow> code_file list
     \<Rightarrow> agg_acc \<Rightarrow> nat \<Rightarrow> fe_analysis_result" where
  "build_result read rid now analysisResults fs acc crit =
    (let n = length (allIssues acc); score = overall_score acc;
         totalLines = sum_list (map (file_lines read) fs)
     in \<lparr>result_id = rid, result_timestamp = now,
         summary = \<lparr>totalIssues = n, criticalIssues = crit, filesAnalyzed = length fs,
                    overallScore = clamp_score score,
                    recommendations = take 5 (js_array_from_set (allRecommendations acc))\<rparr>,
         result_issues = allIssues acc,
         metrics = \<lparr>complexity = \<lparr>cyclomatic = max 1 (n div 2), cognitive = max 1 (4 * n div 5)\<rparr>,
                    maintainability_score = score,
                    technical_debt = \<lparr>debt_hours = max 1 (n div 2), debt_issues = n\<rparr>,
                    lines_of_code = \<lparr>loc_total = totalLines, loc_source = 4 * totalLines div 5,
                                     loc_comments = 3 * totalLines div 20,
                                     loc_blank = totalLines div 20\<rparr>\<rparr>,
         processing_time = length analysisResults * 1500,
         rawResults = analysisResults\<rparr>)"

text \<open>\<open>parsedResults.forEach(...)\<close> over the parsed analyses.\<close>

definition parsed_acc :: "(string \<Rightarrow> js_value option) \<Rightarrow> string list \<Rightarrow> agg_acc" where
  "parsed_acc parse texts = foldl collect_result agg_init (map (extractJSONFromAnalysis parse) texts)"

definition processAnalysisResults ::
  "(string \<Rightarrow> js_value option) \<Rightarrow> (file_handle \<Rightarrow> message + string) \<Rightarrow> string \<Rightarrow> string
     \<Rightarrow> js_value list \<Rightarrow> code_file list \<Rightarrow> message + fe_analysis_result" where
  "processAnalysisResults parse read rid now analysisResults fs =
    (case analysis_texts analysisResults of
       Inl m \<Rightarrow> Inl m
     | Inr texts \<Rightarrow>
        (let acc = parsed_acc parse texts in
         case count_critical (allIssues acc) of
           Inl m \<Rightarrow> Inl m
         | Inr crit \<Rightarrow> Inr (build_result read rid now analysisResults fs acc crit)))"

section \<open>Lemmas\<close>

lemma split_at_sub_prefix: "split_at_sub pat (pat @ r) = Some ([], r)"
  by (cases pat; cases r) auto


lemma split_at_sub_first:
  assumes "pat \<noteq> []" and "\<not> sublist pat (a @ butlast pat)"
  shows "split_at_sub pat (a @ pat @ b) = Some (a, b)"
  using assms(2)
proof (induction a)
  case Nil
  then show ?case by (simp add: split_at_sub_prefix)
next
  case (Cons c a)
  have np: "\<not> prefix pat (c # a @ pat @ b)"
  proof
    assume p: "prefix pat (c # a @ pat @ b)"
    then obtain zs where zs: "c # a @ pat @ b = pat @ zs" by (auto simp: prefix_def)
    have split: "c # a @ pat @ b = (c # a @ butlast pat) @ ([last pat] @ b)"
      using assms(1) by simp
    have len: "length pat \<le> length (c # a @ butlast pat)"
      using assms(1) by (cases pat rule: rev_cases) auto
    have "take (length pat) (c # a @ pat @ b) = pat" by (simp add: zs)
    then have "take (length pat) (c # a @ butlast pat) = pat"
      unfolding split take_append using len by simp
    then have "prefix pat (c # a @ butlast pat)" by (metis take_is_prefix)
    with Cons.prems show False by (auto dest: prefix_imp_sublist)
  qed
  have "\<not> sublist pat (a @ butlast pat)"
    using Cons.prems by (auto intro: sublist_Cons_right [THEN iffD2])
  with Cons.IH np show ?case by simp
qed


lemma str_includes_skip:
  assumes "str_includes (w @ v) p" and "p \<noteq> []" and "\<forall>c \<in> set w. c \<notin> set p"
  shows "str_includes v p"
  using assms(1,3)
proof (induction w)
  case (Cons d w)
  have "\<not> prefix p (d # w @ v)"
    using Cons.prems(2) assms(2) by (cases p) auto
  with Cons show ?case by simp
qed simp


lemma str_includes_across:
  assumes "str_includes (u @ w @ v) p" and "p \<noteq> []" and "w \<noteq> []" and "\<forall>c \<in> set w. c \<notin> set p"
  shows "str_includes u p \<or> str_includes v p"
  using assms(1)
proof (induction u)
  case Nil
  then show ?case using str_includes_skip [of w v p] assms(2,4) by simp
next
  case (Cons c u)
  show ?case
  proof (cases "prefix p (c # u @ w @ v)")
    case True
    have "prefix p (c # u)"
    proof (rule ccontr)
      assume np: "\<not> prefix p (c # u)"
      from True have "prefix p ((c # u) @ (w @ v))" by simp
      with np obtain us where us0: "p = (c # u) @ us" "prefix us (w @ v)"
        using prefix_append [of p "c # u" "w @ v"] by blast
      have ne: "us \<noteq> []" using us0 np by auto
      then have us: "p = (c # u) @ us" "prefix us (w @ v)" "us \<noteq> []" using us0 by simp_all
      from us(2) obtain zs where "w @ v = us @ zs" by (auto simp: prefix_def)
      then have "hd us = hd w" using assms(3) ne by (metis hd_append2)
      moreover have "hd us \<in> set p" using us by simp
      moreover have "hd w \<in> set w" using assms(3) by simp
      ultimately show False using assms(4) by metis
    qed
    then show ?thesis by simp
  next
    case False
    with Cons show ?thesis by auto
  qed
qed


lemma dropWhile_spaces_append:
  "list_all is_js_space ws \<Longrightarrow> dropWhile is_js_space (ws @ r) = dropWhile is_js_space r"
  by (induction ws) auto


lemma strip_trailing_spaces:
  assumes "list_all is_js_space ws" and "s \<noteq> []" and "\<not> is_js_space (last s)"
  shows "rev (dropWhile is_js_space (rev (s @ ws))) = s"
proof -
  have "dropWhile is_js_space (rev (s @ ws)) = rev s"
    using assms by (simp add: dropWhile_spaces_append dropWhile_eq_self_iff hd_rev)
  then show ?thesis by simp
qed


lemma js_trim_id:
  assumes "s \<noteq> []" and "\<not> is_js_space (hd s)" and "\<not> is_js_space (last s)"
  shows "js_trim s = s"
proof -
  have "dropWhile is_js_space s = s" using assms(1,2) by (simp add: dropWhile_eq_self_iff)
  moreover have "dropWhile is_js_space (rev s) = rev s"
    using assms(1,3) by (simp add: dropWhile_eq_self_iff hd_rev)
  ultimately show ?thesis by (simp add: js_trim_def)
qed


lemma backtick_not_space: "\<not> is_js_space (CHR ''`'')"
  by (simp add: is_js_space_def)


lemma fence_close_no_space:
  "list_all is_js_space ws \<Longrightarrow> \<forall>c \<in> set ws. c \<notin> set fence_close"
  using backtick_not_space by (auto simp: list_all_iff fence_close_def)


lemma fence_close_short: "\<not> str_includes (butlast fence_close) fence_close"
proof -
  have "butlast fence_close = ''``''" by (simp add: fence_close_def)
  moreover have "\<not> str_includes ''``'' ''```''" by simp
  ultimately show ?thesis by (simp add: fence_close_def)
qed


lemma json_block_fenced:
  assumes "s \<noteq> []" and "\<not> is_js_space (hd s)" and "\<not> is_js_space (last s)"
    and "\<not> str_includes s fence_close"
    and "list_all is_js_space ws1" and "list_all is_js_space ws2" and "ws2 \<noteq> []"
  shows "json_block (fence_open @ ws1 @ s @ ws2 @ fence_close @ post) = Some s"
proof -
  have open_: "split_at_sub fence_open (fence_open @ ws1 @ s @ ws2 @ fence_close @ post)
      = Some ([], ws1 @ s @ ws2 @ fence_close @ post)"
    by (rule split_at_sub_prefix)
  have drop: "dropWhile is_js_space (ws1 @ s @ ws2 @ fence_close @ post) = s @ ws2 @ fence_close @ post"
  proof -
    have "dropWhile is_js_space (s @ ws2 @ fence_close @ post) = s @ ws2 @ fence_close @ post"
      using assms(1,2) by (simp add: dropWhile_eq_self_iff)
    then show ?thesis using assms(5) by (simp only: dropWhile_spaces_append)
  qed
  have ne: "fence_close \<noteq> []" by (simp add: fence_close_def)
  have "\<not> str_includes (s @ ws2 @ butlast fence_close) fence_close"
    using str_includes_across [OF _ ne assms(7) fence_close_no_space [OF assms(6)]]
      assms(4) fence_close_short by blast
  then have "\<not> sublist fence_close ((s @ ws2) @ butlast fence_close)"
    by (simp add: str_includes_sublist)
  then have close: "split_at_sub fence_close ((s @ ws2) @ fence_close @ post) = Some (s @ ws2, post)"
    by (rule split_at_sub_first [OF ne])
  have strip: "rev (dropWhile is_js_space (rev (s @ ws2))) = s"
    by (rule strip_trailing_spaces [OF assms(6,1,3)])
  show ?thesis
    using close strip by (simp add: json_block_def open_ drop)
qed


lemma foldl_js_set_add:
  "foldl js_set_add acc xs = acc @ set_dedup_spec (filter (\<lambda>y. is_js_reference y \<or> y \<notin> set acc) xs)"
proof (induction xs arbitrary: acc)
  case Nil
  then show ?case by simp
next
  case (Cons x xs)
  show ?case
  proof (cases "x \<in> set acc \<and> \<not> is_js_reference x")
    case True
    then show ?thesis using Cons by (simp add: js_set_add_def)
  next
    case False
    have "filter (\<lambda>y. is_js_reference y \<or> y \<noteq> x) (filter (\<lambda>y. is_js_reference y \<or> y \<notin> set acc) xs)
        = filter (\<lambda>y. is_js_reference y \<or> y \<notin> set (acc @ [x])) xs"
      by (simp add: filter_filter) (metis)
    with False Cons show ?thesis by (auto simp: js_set_add_def)
  qed
qed

lemma count_critical_le: "count_critical xs = Inr n \<Longrightarrow> n \<le> length xs"
  by (induction xs arbitrary: n) (auto split: sum.splits if_splits)


lemma clamp_score_bounds: "0 \<le> clamp_score s \<and> clamp_score s \<le> 100"
  by (simp add: clamp_score_def)


lemma processAnalysisResults_Inr:
  assumes "processAnalysisResults parse read rid now rs fs = Inr r"
  obtains texts crit where "analysis_texts rs = Inr texts"
    and "count_critical (allIssues (parsed_acc parse texts)) = Inr crit"
    and "r = build_result read rid now rs fs (parsed_acc parse texts) crit"
  using assms by (auto simp: processAnalysisResults_def parsed_acc_def Let_def split: sum.splits)


lemmas aggregate_eval = processAnalysisResults_def parsed_acc_def read_property_def js_get_def
  extractJSONFromAnalysis_def collect_result_def agg_init_def array_field_def is_critical_def
  build_result_def overall_score_def round_score_def clamp_score_def js_array_from_set_def
  model_simps Let_def


section \<open>Properties\<close>

text \<open>
  C16 (roundtrip). When the whole analysis text is not JSON, a fenced block
  \<open>```json\<close>, white space, a body \<open>s\<close>, white space (at least one character),
  \<open>```\<close> yields exactly what \<open>JSON.parse\<close> makes of \<open>s\<close> (\<open>null\<close> if it fails),
  for any \<open>s\<close> that is non-empty, has no white space at either end and no \<open>```\<close>.
\<close>

theorem extract_fenced_block:
  assumes "parse (''```json'' @ ws1 @ s @ ws2 @ ''```'' @ post) = None"
    and "s \<noteq> []" and "\<not> is_js_space (hd s)" and "\<not> is_js_space (last s)"
    and "\<not> str_includes s ''```''"
    and "list_all is_js_space ws1" and "list_all is_js_space ws2" and "ws2 \<noteq> []"
  shows "extractJSONFromAnalysis parse (''```json'' @ ws1 @ s @ ws2 @ ''```'' @ post)
           = (case parse s of Some v \<Rightarrow> v | None \<Rightarrow> JNull)"
proof -
  have lit: "''```json'' = fence_open" "''```'' = fence_close"
    by (simp_all add: fence_open_def fence_close_def)
  have blk: "json_block (fence_open @ ws1 @ s @ ws2 @ fence_close @ post) = Some s"
    using assms(5) unfolding lit by (rule json_block_fenced [OF assms(2,3,4) _ assms(6,7,8)])
  have tr: "js_trim s = s" by (rule js_trim_id [OF assms(2,3,4)])
  show ?thesis
    using assms(1,2) unfolding lit extractJSONFromAnalysis_def by (simp add: blk tr)
qed


theorem extract_fenced_block_witness:
  "extractJSONFromAnalysis (\<lambda>t. if t = ''{}'' then Some (JObject []) else None)
     (''```json'' @ [CHR 0x0A] @ ''{}'' @ [CHR 0x0A] @ ''```'' @ []) = JObject []"
proof -
  have sp: "\<not> is_js_space (CHR ''{'')" "\<not> is_js_space (CHR ''}'')" "is_js_space (CHR 0x0A)"
    by (simp_all add: is_js_space_def)
  show ?thesis
    using extract_fenced_block [of "\<lambda>t. if t = ''{}'' then Some (JObject []) else None"
        "[CHR 0x0A]" "''{}''" "[CHR 0x0A]" "[]"] sp by simp
qed


text \<open>
  C17 (bounds). Every result of \<open>processAnalysisResults\<close> has a summary score in
  [0, 100], at most five recommendations, no more critical issues than issues, an issue
  count equal to the issue list's length, one analysed file per file object, complexity
  and debt metrics of at least 1, line-of-code parts that do not exceed the total, and a
  processing-time estimate of 1500 ms per analysis.
\<close>

theorem processAnalysisResults_bounds:
  assumes "processAnalysisResults parse read rid now rs fs = Inr r"
  shows "0 \<le> overallScore (summary r) \<and> overallScore (summary r) \<le> 100
    \<and> length (recommendations (summary r)) \<le> 5
    \<and> criticalIssues (summary r) \<le> totalIssues (summary r)
    \<and> totalIssues (summary r) = length (result_issues r)
    \<and> filesAnalyzed (summary r) = length fs
    \<and> 1 \<le> cyclomatic (complexity (metrics r)) \<and> 1 \<le> cognitive (complexity (metrics r))
    \<and> 1 \<le> debt_hours (technical_debt (metrics r))
    \<and> loc_source (lines_of_code (metrics r)) + loc_comments (lines_of_code (metrics r))
        + loc_blank (lines_of_code (metrics r)) \<le> loc_total (lines_of_code (metrics r))
    \<and> processing_time r = 1500 * length rs"
proof -
  obtain texts crit where c: "count_critical (allIssues (parsed_acc parse texts)) = Inr crit"
    and r: "r = build_result read rid now rs fs (parsed_acc parse texts) crit"
    by (rule processAnalysisResults_Inr [OF assms])
  have le: "crit \<le> length (allIssues (parsed_acc parse texts))"
    by (rule count_critical_le [OF c])
  show ?thesis
    unfolding r build_result_def Let_def using le clamp_score_bounds by simp
qed


theorem processAnalysisResults_bounds_witness:
  "\<exists>r. processAnalysisResults
         (\<lambda>t. if t = ''A'' then Some (JObject [(''quality_score'', JNumber 8),
                  (''issues'', JArray [JObject [(''severity'', JString ''High'')]])]) else None)
         (\<lambda>h. Inl ''unreadable'') ''id'' ''now'' [JObject [(''analysis'', JString ''A'')]] [] = Inr r
       \<and> overallScore (summary r) \<le> 100 \<and> criticalIssues (summary r) \<le> totalIssues (summary r)"
proof -
  obtain r where run: "processAnalysisResults
         (\<lambda>t. if t = ''A'' then Some (JObject [(''quality_score'', JNumber 8),
                  (''issues'', JArray [JObject [(''severity'', JString ''High'')]])]) else None)
         (\<lambda>h. Inl ''unreadable'') ''id'' ''now'' [JObject [(''analysis'', JString ''A'')]] [] = Inr r"
    by (simp add: aggregate_eval)
  show ?thesis using processAnalysisResults_bounds [OF run] run by blast
qed


text \<open>
  Only the summary score is clamped: a quality score of 15 gives a summary
  score of 100 but a maintainability score of 150, outside its documented 0-100 range.
\<close>

theorem maintainability_unclamped:
  "\<exists>r. processAnalysisResults
         (\<lambda>t. if t = ''A'' then Some (JObject [(''quality_score'', JNumber 15)]) else None)
         read rid now [JObject [(''analysis'', JString ''A'')]] fs = Inr r
       \<and> overallScore (summary r) = 100 \<and> maintainability_score (metrics r) = 150"
  by (simp add: aggregate_eval)


lemma count_critical_error_after:
  assumes "\<forall>j \<in> set pre. \<exists>b. is_critical j = Inr b" and "is_critical i = Inl m"
  shows "count_critical (pre @ i # post) = Inl m"
  using assms by (induction pre) auto

lemma is_critical_non_string:
  assumes "i \<noteq> JNull" and "i \<noteq> JUndefined" and "js_truthy_value (js_get i ''severity'')"
    and "\<forall>s. js_get i ''severity'' \<noteq> JString s"
  shows "is_critical i = Inl ''issue.severity.toLowerCase is not a function''"
  using assms by (cases "js_get i ''severity''") (auto simp: is_critical_def read_property_def)

text \<open>
  C18 (error). Whatever the analyses and files, an issue whose \<open>severity\<close> is
  truthy but not a string (a non-zero number, \<open>true\<close>, an array or an object),
  reached in the collected issues after issues whose severity check passes, makes the
  whole aggregation reject with the \<open>TypeError\<close> of \<open>toLowerCase\<close>, discarding every
  other issue and score.
\<close>

theorem severity_type_error:
  assumes "analysis_texts rs = Inr texts"
    and "allIssues (parsed_acc parse texts) = pre @ i # post"
    and "\<forall>j \<in> set pre. \<exists>b. is_critical j = Inr b"
    and "i \<noteq> JNull" and "i \<noteq> JUndefined" and "js_truthy_value (js_get i ''severity'')"
    and "\<forall>s. js_get i ''severity'' \<noteq> JString s"
  shows "processAnalysisResults parse read rid now rs fs = Inl ''issue.severity.toLowerCase is not a function''"
  using assms count_critical_error_after [OF assms(3) is_critical_non_string [OF assms(4-7)], of post]
  by (simp add: processAnalysisResults_def Let_def)

theorem severity_type_error_witness:
  "analysis_texts [JObject [(''analysis'', JString ''A'')]] = Inr [''A'']
   \<and> allIssues (parsed_acc (\<lambda>t. if t = ''A'' then Some (JObject [(''quality_score'', JNumber 7),
              (''issues'', JArray [JObject [(''severity'', JString ''High'')],
                                   JObject [(''severity'', JNumber 3)]])]) else None) [''A''])
       = [JObject [(''severity'', JString ''High'')]] @ JObject [(''severity'', JNumber 3)] # []
   \<and> processAnalysisResults
       (\<lambda>t. if t = ''A'' then Some (JObject [(''quality_score'', JNumber 7),
              (''issues'', JArray [JObject [(''severity'', JString ''High'')],
                                   JObject [(''severity'', JNumber 3)]])]) else None)
       (\<lambda>h. Inl ''unread'') ''r1'' ''t'' [JObject [(''analysis'', JString ''A'')]] []
     = Inl ''issue.severity.toLowerCase is not a function''"
proof -
  let ?parse = "\<lambda>t. if t = ''A'' then Some (JObject [(''quality_score'', JNumber 7),
              (''issues'', JArray [JObject [(''severity'', JString ''High'')],
                                   JObject [(''severity'', JNumber 3)]])]) else None"
  have t: "analysis_texts [JObject [(''analysis'', JString ''A'')]] = Inr [''A'']"
    by (simp add: read_property_def js_get_def)
  have a: "allIssues (parsed_acc ?parse [''A''])
       = [JObject [(''severity'', JString ''High'')]] @ JObject [(''severity'', JNumber 3)] # []"
    by (simp add: aggregate_eval)
  have c: "\<forall>j \<in> set [JObject [(''severity'', JString ''High'')]]. \<exists>b. is_critical j = Inr b"
    by (simp add: is_critical_def read_property_def js_get_def)
  show ?thesis
    using severity_type_error [OF t a c, of "\<lambda>h. Inl ''unread''" "''r1''" "''t''" "[]"] t a
    by (simp add: js_get_def)
qed

text \<open>
  The one-pass \<open>Array.from(new Set(xs))\<close> fold equals the
  reference de-duplication: the first occurrence of each value is kept, later equal
  strings, numbers, booleans and nulls are dropped, and every array or object is kept.
\<close>

theorem js_array_from_set_spec: "js_array_from_set xs = set_dedup_spec xs"
  by (simp add: js_array_from_set_def foldl_js_set_add)

text \<open>
  The critical-issue count is the number of issues whose severity is
  \<open>critical\<close> or \<open>high\<close> in any letter case, or the \<open>TypeError\<close> of the first issue
  whose severity cannot be read or lowercased.
\<close>

theorem count_critical_spec:
  "count_critical xs =
     (case find isl (map is_critical xs) of
        Some (Inl m) \<Rightarrow> Inl m
      | _ \<Rightarrow> Inr (length (filter (\<lambda>i. is_critical i = Inr True) xs)))"
  by (induction xs) (auto split: sum.splits option.splits)

end
