(* ===== verification/Client.thy ===== *)
theory Client
  imports Aggregate
begin

text \<open>
  The frontend's API client (the \<open>apiService\<close> part of
  src/frontend/src/utils/analysisUtils.ts). The network is a parameter
  \<open>transport\<close>: what the server at the configured origin answers to a method, a
  path and a JSON body. The axios instance prefixes \<open>/api\<close>, resolves a 2xx
  response and rejects any other (its default \<open>validateStatus\<close>), and its
  response interceptor rethrows every failure as an \<open>Error\<close> carrying the server's
  \<open>message\<close>. Each \<open>apiService\<close> method returns \<open>response.data.data\<close> or the
  message of the error it throws. \<open>analyzeMultipleFiles\<close> also returns the requests
  it sent, in order.
\<close>

type_synonym transport = "http_method \<Rightarrow> string \<Rightarrow> js_value \<Rightarrow> http_outcome"

section \<open>The axios instance\<close>

definition api_base :: string where
  "api_base = ''/api''"

definition axios_status_message :: "nat \<Rightarrow> message" where
  "axios_status_message st = ''Request failed with status code '' @ nat_digits st"

text \<open>\<open>error.response?.data?.message || error.message || 'An unknown error occurred'\<close>\<close>

definition interceptor_message :: "js_value \<Rightarrow> message \<Rightarrow> message" where
  "interceptor_message data errorMessage =
    (let m = js_get data ''message'' in
     if js_truthy_value m then js_to_string m
     else if errorMessage \<noteq> [] then errorMessage else ''An unknown error occurred'')"

definition axios_request :: "transport \<Rightarrow> http_method \<Rightarrow> string \<Rightarrow> js_value \<Rightarrow> message + js_value" where
  "axios_request t m url body =
    (case t m (api_base @ url) body of
       NetworkError msg \<Rightarrow> Inl (interceptor_message JUndefined msg)
     | HttpResponse st data \<Rightarrow>
         (if 200 \<le> st \<and> st < 300 then Inr data
          else Inl (interceptor_message data (axios_status_message st))))"

section \<open>The service methods\<close>

text \<open>\<open>if (!response.data.success) throw new Error(response.data.error || failure);
  return response.data.data!\<close>\<close>

definition api_post :: "transport \<Rightarrow> string \<Rightarrow> message \<Rightarrow> js_value \<Rightarrow> message + js_value" where
  "api_post t url failure request =
    (case axios_request t POST url request of
       Inl m \<Rightarrow> Inl m
     | Inr data \<Rightarrow>
         (case read_property data ''success'' of
            Inl m \<Rightarrow> Inl m
          | Inr ok \<Rightarrow>
              (if \<not> js_truthy_value ok
               then Inl (let err = js_get data ''error'' in if js_truthy_value err then js_to_string err else failure)
               else Inr (js_get data ''data''))))"

definition api_analyzeCode :: "transport \<Rightarrow> js_value \<Rightarrow> message + js_value" where
  "api_analyzeCode t request = api_post t ''/analysis/analyze'' ''Analysis failed'' request"

definition api_explainCode :: "transport \<Rightarrow> js_value \<Rightarrow> message + js_value" where
  "api_explainCode t request = api_post t ''/analysis/explain'' ''Code explanation failed'' request"

definition api_suggestImprovements :: "transport \<Rightarrow> js_value \<Rightarrow> message + js_value" where
  "api_suggestImprovements t request = api_post t ''/analysis/improve'' ''Improvement suggestions failed'' request"

definition api_generateReport :: "transport \<Rightarrow> js_value \<Rightarrow> message + js_value" where
  "api_generateReport t request = api_post t ''/analysis/report'' ''Report generation failed'' request"

text \<open>\<open>healthCheck\<close> uses the bare \<open>axios\<close>, without the \<open>/api\<close> prefix or the
  interceptor.\<close>

definition api_healthCheck :: "transport \<Rightarrow> message + js_value" where
  "api_healthCheck t =
    (case t GET ''/health'' (JObject []) of
       NetworkError msg \<Rightarrow> Inl msg
     | HttpResponse st data \<Rightarrow> (if 200 \<le> st \<and> st < 300 then Inr data else Inl (axios_status_message st)))"

section \<open>Analysing several files\<close>

definition analysis_request_json :: "string \<Rightarrow> string \<Rightarrow> string \<Rightarrow> string \<Rightarrow> js_value" where
  "analysis_request_json code language analysisType preferredProvider =
     JObject [(''code'', JString code), (''language'', JString language),
              (''analysisType'', JString analysisType), (''preferredProvider'', JString preferredProvider)]"

text \<open>
  \<open>for (const { file, language } of files)\<close>: read the file, post it, push the
  answer; the first failure is rethrown, so no later file is read or sent.
\<close>

fun analyzeMultipleFiles ::
  "transport \<Rightarrow> (file_handle \<Rightarrow> message + string) \<Rightarrow> (file_handle \<times> string) list \<Rightarrow> string \<Rightarrow> string
     \<Rightarrow> (message + js_value list) \<times> js_value list" where
  "analyzeMultipleFiles t read [] analysisType preferredProvider = (Inr [], [])"
| "analyzeMultipleFiles t read ((f, language) # fs) analysisType preferredProvider =
     (case read f of
        Inl m \<Rightarrow> (Inl m, [])
      | Inr fileContent \<Rightarrow>
          (let request = analysis_request_json fileContent language analysisType preferredProvider in
           case api_analyzeCode t request of
             Inl m \<Rightarrow> (Inl m, [request])
           | Inr analysis \<Rightarrow>
               (let (rest, sent) = analyzeMultipleFiles t read fs analysisType preferredProvider in
                (case rest of Inl m \<Rightarrow> Inl m | Inr results \<Rightarrow> Inr (analysis # results), request # sent))))"

fun traverse_sum :: "('a \<Rightarrow> 'e + 'b) \<Rightarrow> 'a list \<Rightarrow> 'e + 'b list" where
  "traverse_sum f [] = Inr []"
| "traverse_sum f (x # xs) =
     (case f x of Inl e \<Rightarrow> Inl e | Inr y \<Rightarrow> (case traverse_sum f xs of Inl e \<Rightarrow> Inl e | Inr ys \<Rightarrow> Inr (y # ys)))"

definition file_step :: "transport \<Rightarrow> (file_handle \<Rightarrow> message + string) \<Rightarrow> string \<Rightarrow> string
    \<Rightarrow> file_handle \<times> string \<Rightarrow> message + js_value" where
  "file_step t read at pp hl =
     (case read (fst hl) of Inl m \<Rightarrow> Inl m
      | Inr c \<Rightarrow> api_analyzeCode t (analysis_request_json c (snd hl) at pp))"

definition sent_for :: "(file_handle \<Rightarrow> message + string) \<Rightarrow> string \<Rightarrow> string \<Rightarrow> file_handle \<times> string \<Rightarrow> js_value list" where
  "sent_for read at pp hl =
     (case read (fst hl) of Inl m \<Rightarrow> [] | Inr c \<Rightarrow> [analysis_request_json c (snd hl) at pp])"

section \<open>Reading a file\<close>

text \<open>What the \<open>FileReader\<close> of \<open>readFileContent\<close> reports for a file after
  \<open>readAsText\<close>: \<open>onload\<close> with \<open>e.target.result\<close> (a string for text; \<open>null\<close>
  or another value otherwise), or \<open>onerror\<close>.\<close>

datatype reader_event = ReaderLoad js_value | ReaderError

text \<open>\<open>readFileContent(file)\<close>: the promise resolves with a string result and
  rejects otherwise.\<close>

definition readFileContent :: "(file_handle \<Rightarrow> reader_event) \<Rightarrow> file_handle \<Rightarrow> message + string" where
  "readFileContent reader f =
    (case reader f of
       ReaderLoad (JString s) \<Rightarrow> Inr s
     | ReaderLoad _ \<Rightarrow> Inl ''Failed to read file as text''
     | ReaderError \<Rightarrow> Inl ''Error reading file'')"

section \<open>Lemmas\<close>

lemma axios_status_message_ne: "axios_status_message st \<noteq> []"
  by (simp add: axios_status_message_def del: nat_digits.simps)

lemma analyzeMultipleFiles_ok_prefix:
  assumes "list_all (\<lambda>hl. \<exists>a. file_step t read at pp hl = Inr a) pre"
  shows "analyzeMultipleFiles t read (pre @ rest) at pp =
           (case fst (analyzeMultipleFiles t read rest at pp) of
              Inl m \<Rightarrow> Inl m
            | Inr rs \<Rightarrow> Inr (map (\<lambda>hl. projr (file_step t read at pp hl)) pre @ rs),
            concat (map (sent_for read at pp) pre) @ snd (analyzeMultipleFiles t read rest at pp))"
  using assms
proof (induction pre)
  case Nil
  then show ?case by (simp add: prod_eq_iff split: sum.split)
next
  case (Cons hl pre)
  then obtain a where a: "file_step t read at pp hl = Inr a" by auto
  obtain h l where hl: "hl = (h, l)" by (cases hl)
  obtain c where c: "read h = Inr c" "api_analyzeCode t (analysis_request_json c l at pp) = Inr a"
    using a by (auto simp: file_step_def hl split: sum.splits)
  show ?case
    using Cons c by (auto simp: hl file_step_def sent_for_def Let_def case_prod_beta split: sum.splits)
qed

section \<open>Properties\<close>

text \<open>
  C19 (refinement). \<open>analyzeMultipleFiles\<close> implements a first-error traversal of
  the files: each file is read and then posted, in order, and the outcome is the list
  of answers or the first failure.
\<close>

theorem analyzeMultipleFiles_traverse:
  "fst (analyzeMultipleFiles t read fs at pp) = traverse_sum (file_step t read at pp) fs"
  by (induction t read fs at pp rule: analyzeMultipleFiles.induct)
     (auto simp: file_step_def Let_def case_prod_beta split: sum.splits)

text \<open>
  After the first file whose read or request fails, the loop stops: the
  call rejects with that failure, and the requests sent are exactly those of the files
  before it and, if it was read, its own.
\<close>

theorem analyzeMultipleFiles_fail_fast:
  assumes "list_all (\<lambda>hl. \<exists>a. file_step t read at pp hl = Inr a) pre"
    and "file_step t read at pp (h, l) = Inl m"
  shows "analyzeMultipleFiles t read (pre @ (h, l) # post) at pp =
           (Inl m, concat (map (sent_for read at pp) (pre @ [(h, l)])))"
proof -
  have "analyzeMultipleFiles t read ((h, l) # post) at pp = (Inl m, sent_for read at pp (h, l))"
    using assms(2) by (auto simp: file_step_def sent_for_def Let_def split: sum.splits)
  then show ?thesis by (simp add: analyzeMultipleFiles_ok_prefix [OF assms(1)])
qed

theorem analyzeMultipleFiles_fail_fast_witness:
  "analyzeMultipleFiles
     (\<lambda>m p b. HttpResponse 200 (JObject [(''success'', JBool True), (''data'', JString ''ok'')]))
     (\<lambda>h. if h = 2 then Inl ''Error reading file'' else Inr ''x'')
     [(1, ''javascript''), (2, ''python''), (3, ''go'')] ''general'' ''auto''
   = (Inl ''Error reading file'', [analysis_request_json ''x'' ''javascript'' ''general'' ''auto''])"
proof -
  let ?t = "\<lambda>m p b. HttpResponse 200 (JObject [(''success'', JBool True), (''data'', JString ''ok'')])"
  let ?r = "\<lambda>h::nat. if h = 2 then Inl ''Error reading file'' else Inr ''x''"
  have ok: "list_all (\<lambda>hl. \<exists>a. file_step ?t ?r ''general'' ''auto'' hl = Inr a) [(1, ''javascript'')]"
    by (simp add: file_step_def api_analyzeCode_def api_post_def axios_request_def read_property_def js_get_def)
  have bad: "file_step ?t ?r ''general'' ''auto'' (2, ''python'') = Inl ''Error reading file''"
    by (simp add: file_step_def)
  from analyzeMultipleFiles_fail_fast [OF ok bad, of "[(3, ''go'')]"] show ?thesis
    by (simp add: sent_for_def)
qed

text \<open>With the service's own \<open>readFileContent\<close>, a file the reader fails on ends
  \<open>analyzeMultipleFiles\<close> with 'Error reading file' before anything of it is sent,
  and a text file is posted with exactly the text read.\<close>

lemma analyzeMultipleFiles_reader_error:
  "reader f = ReaderError \<Longrightarrow>
     analyzeMultipleFiles t (readFileContent reader) ((f, language) # fs) at pp = (Inl ''Error reading file'', [])"
  by (simp add: readFileContent_def)

lemma analyzeMultipleFiles_reader_text:
  assumes "reader f = ReaderLoad (JString s)" and "api_analyzeCode t (analysis_request_json s language at pp) = Inl m"
  shows "analyzeMultipleFiles t (readFileContent reader) ((f, language) # fs) at pp
           = (Inl m, [analysis_request_json s language at pp])"
  using assms by (simp add: readFileContent_def)

end
