(* ===== verification/Display.thy ===== *)
theory Display
  imports Client
begin

text \<open>
  The analysis view of the frontend (\<open>AnalysisDisplay\<close> and its helpers in
  src/unnamed/part_002). \<open>formatText\<close> and the code-block parser of \<open>IssueCard\<close>
  are written out from their regular expressions: the global \<open>replace\<close> of
  \<open>/`([^`]+)`/g\<close> as a left-to-right scan, and the \<open>exec\<close> loop of
  \<open>/```(\w+)?\n([\s\S]*?)```/g\<close> as a \<open>partial_function\<close> whose value
  \<open>None\<close> would be a loop that never ends. \<open>extractJSONFromText\<close> is the
  display's copy of the extraction; \<open>JSON.parse\<close> is the parameter \<open>parse\<close>. The
  configuration tables are association lists read as plain objects, so a key naming a
  member of \<open>Object.prototype\<close> finds the inherited member; \<open>Object.entries\<close>
  orders array-index keys first. \<open>groupIssuesByType\<close> is the \<open>reduce\<close> step by
  step, beside a reference grouping. \<open>AnalysisDisplay\<close> returns the view it renders
  (raw text, the structured sections, or the formatted fallback) or the message of the
  \<open>TypeError\<close> rendering throws. The copy button's timer, the icons' drawing and the
  time formatting of the header are not modelled.
\<close>

section \<open>Formatting text\<close>

definition inline_code_open :: string where
  "inline_code_open =
     ''<code class='' @ [CHR 0x22]
     @ ''inline-block bg-gray-100 dark:bg-gray-800 text-gray-900 dark:text-gray-100 px-2 py-1 rounded text-sm font-mono border border-gray-300 dark:border-gray-600''
     @ [CHR 0x22] @ ''>''"

definition inline_code_close :: string where
  "inline_code_close = ''</code>''"

function inline_code :: "string \<Rightarrow> string" where
  "inline_code [] = []"
| "inline_code (c # cs) =
     (let inner = takeWhile (\<lambda>x. x \<noteq> CHR 0x60) cs; rest = dropWhile (\<lambda>x. x \<noteq> CHR 0x60) cs in
      if c = CHR 0x60 \<and> inner \<noteq> [] \<and> rest \<noteq> []
      then inline_code_open @ inner @ inline_code_close @ inline_code (tl rest)
      else c # inline_code cs)"
  by pat_completeness auto
termination
  by (relation "measure length") (auto intro: le_imp_less_Suc order.trans [OF diff_le_self length_dropWhile_le])

definition br_newlines :: "string \<Rightarrow> string" where
  "br_newlines s = concat (map (\<lambda>c. if c = CHR 0x0A then ''<br />'' else [c]) s)"

definition formatText :: "string \<Rightarrow> string" where
  "formatText s = br_newlines (inline_code s)"

section \<open>Code blocks\<close>

definition is_word_char :: "char \<Rightarrow> bool" where
  "is_word_char c \<longleftrightarrow>
     (let n = (of_char c :: nat) in (48 \<le> n \<and> n \<le> 57) \<or> (65 \<le> n \<and> n \<le> 90) \<or> (97 \<le> n \<and> n \<le> 122) \<or> n = 95)"

definition code_fence_at :: "string \<Rightarrow> (string \<times> string \<times> nat) option" where
  "code_fence_at s =
    (if prefix fence_close s then
       (let w = takeWhile is_word_char (drop 3 s); r = drop (3 + length w) s in
        if r \<noteq> [] \<and> hd r = CHR 0x0A then
          (case split_at_sub fence_close (tl r) of
             None \<Rightarrow> None
           | Some (body, after) \<Rightarrow> Some (w, body, length s - length after))
        else None)
     else None)"

fun fence_search :: "string \<Rightarrow> (nat \<times> string \<times> string \<times> nat) option" where
  "fence_search [] = None"
| "fence_search (c # cs) =
     (case code_fence_at (c # cs) of
        Some m \<Rightarrow> Some (0, m)
      | None \<Rightarrow> map_option (\<lambda>(k, m). (Suc k, m)) (fence_search cs))"

definition regex_exec :: "string \<Rightarrow> nat \<Rightarrow> (nat \<times> string \<times> string \<times> nat) option" where
  "regex_exec s i = map_option (\<lambda>(k, m). (i + k, m)) (fence_search (drop i s))"

datatype content_block = TextBlock string | CodeBlock string string

partial_function (option) content_blocks_loop ::
  "string \<Rightarrow> nat \<Rightarrow> content_block list \<Rightarrow> (nat \<times> content_block list) option" where
  "content_blocks_loop s lastIndex blocks =
     (case regex_exec s lastIndex of
        None \<Rightarrow> Some (lastIndex, blocks)
      | Some (idx, w, body, n) \<Rightarrow>
          content_blocks_loop s (idx + n)
            (blocks @ (if idx > lastIndex then [TextBlock (take (idx - lastIndex) (drop lastIndex s))] else [])
                    @ [CodeBlock body (if w = [] then ''javascript'' else w)]))"

declare content_blocks_loop.simps [code]

definition parseContentBlocks :: "string \<Rightarrow> content_block list option" where
  "parseContentBlocks s =
     map_option (\<lambda>(lastIndex, blocks).
                   if lastIndex < length s then blocks @ [TextBlock (drop lastIndex s)] else blocks)
       (content_blocks_loop s 0 [])"

fun render_block :: "string \<Rightarrow> content_block \<Rightarrow> string" where
  "render_block h (TextBlock s) = s"
| "render_block h (CodeBlock body lang) = fence_close @ h @ [CHR 0x0A] @ body @ fence_close"

fun header_ok :: "string \<Rightarrow> content_block \<Rightarrow> bool" where
  "header_ok h (TextBlock s) = (h = [])"
| "header_ok h (CodeBlock body lang) = (list_all is_word_char h \<and> lang = (if h = [] then ''javascript'' else h))"

section \<open>Extracting the JSON of the analysis\<close>

text \<open>\<open>extractJSONFromText\<close>: the display's own copy of the extraction, which also
  reports whether a parse succeeded; \<open>parsed: null\<close> is \<open>JNull\<close>.\<close>

record json_extraction =
  parsed :: js_value
  isJSON :: bool
  originalText :: string

definition extractJSONFromText :: "(string \<Rightarrow> js_value option) \<Rightarrow> string \<Rightarrow> json_extraction" where
  "extractJSONFromText parse s =
    (case parse s of
       Some v \<Rightarrow> \<lparr>parsed = v, isJSON = True, originalText = s\<rparr>
     | None \<Rightarrow>
         (case json_block s of
            Some m \<Rightarrow>
              (if m \<noteq> [] then
                 (case parse (js_trim m) of
                    Some v \<Rightarrow> \<lparr>parsed = v, isJSON = True, originalText = s\<rparr>
                  | None \<Rightarrow> \<lparr>parsed = JNull, isJSON = False, originalText = s\<rparr>)
               else \<lparr>parsed = JNull, isJSON = False, originalText = s\<rparr>)
          | None \<Rightarrow> \<lparr>parsed = JNull, isJSON = False, originalText = s\<rparr>))"

section \<open>Property lookups on plain objects\<close>

text \<open>The members a plain object literal inherits from \<open>Object.prototype\<close>: reading
  \<open>obj[k]\<close> for one of these names that the object does not own gives a truthy
  function (or, for \<open>__proto__\<close>, the prototype itself).\<close>

definition object_prototype_members :: "string list" where
  "object_prototype_members =
     [''constructor'', ''__defineGetter__'', ''__defineSetter__'', ''hasOwnProperty'',
      ''__lookupGetter__'', ''__lookupSetter__'', ''isPrototypeOf'', ''propertyIsEnumerable'',
      ''toString'', ''valueOf'', ''__proto__'', ''toLocaleString'']"

datatype 'a js_lookup = Own 'a | Inherited string

text \<open>\<open>table[k] || fallback\<close> on an object literal \<open>table\<close>.\<close>

definition index_or :: "(string \<times> 'a) list \<Rightarrow> string \<Rightarrow> 'a \<Rightarrow> 'a js_lookup" where
  "index_or table k fallback =
     (case map_of table k of
        Some x \<Rightarrow> Own x
      | None \<Rightarrow> (if k \<in> set object_prototype_members then Inherited k else Own fallback))"

text \<open>\<open>typeof v === 'object'\<close> for a value other than \<open>null\<close> and arrays.\<close>

fun is_js_object :: "js_value \<Rightarrow> bool" where
  "is_js_object (JObject ps) = True"
| "is_js_object v = False"

text \<open>\<open>a || b\<close> on values.\<close>

definition js_or_value :: "js_value \<Rightarrow> js_value \<Rightarrow> js_value" where
  "js_or_value a b = (if js_truthy_value a then a else b)"

text \<open>The distinct elements of a list in the order of their first occurrence.\<close>

definition first_occurrences :: "'a list \<Rightarrow> 'a list" where
  "first_occurrences xs = foldl (\<lambda>acc x. if x \<in> set acc then acc else acc @ [x]) [] xs"

text \<open>\<open>Object.entries(obj)\<close>: the keys that are array indices (canonical decimal
  numbers below \<open>2^32 - 1\<close>) first, in increasing order, then the other keys in
  insertion order.\<close>

definition digits_value :: "string \<Rightarrow> nat" where
  "digits_value k = foldl (\<lambda>n c. 10 * n + (of_char c - 48)) 0 k"

definition is_array_index :: "string \<Rightarrow> bool" where
  "is_array_index k \<longleftrightarrow>
     k \<noteq> [] \<and> list_all (\<lambda>c. 48 \<le> (of_char c :: nat) \<and> (of_char c :: nat) \<le> 57) k
     \<and> (k = ''0'' \<or> hd k \<noteq> CHR ''0'') \<and> digits_value k < 2 ^ 32 - 1"

definition object_entries :: "(string \<times> 'a) list \<Rightarrow> (string \<times> 'a) list" where
  "object_entries ps =
     sort_key (\<lambda>(k, v). digits_value k) (filter (\<lambda>(k, v). is_array_index k) ps)
     @ filter (\<lambda>(k, v). \<not> is_array_index k) ps"

text \<open>The entries of a parsed JSON value: an object keeps the position of a key's
  first occurrence and the value of its last; an array's entries are its indices.\<close>

definition js_entries :: "js_value \<Rightarrow> (string \<times> js_value) list" where
  "js_entries v =
    (case v of
       JObject ps \<Rightarrow> object_entries (map (\<lambda>k. (k, js_get v k)) (first_occurrences (map fst ps)))
     | JArray xs \<Rightarrow> zip (map nat_digits [0..<length xs]) xs
     | _ \<Rightarrow> [])"

section \<open>Severity, type and category tables\<close>

record severity_config =
  sev_color :: string
  sev_bg :: string
  sev_border :: string
  sev_text :: string
  sev_icon :: string
  sev_badge :: string

definition SEVERITY_CONFIGS :: "(string \<times> severity_config) list" where
  "SEVERITY_CONFIGS =
    [(''critical'', \<lparr>sev_color = ''red'', sev_bg = ''bg-white dark:bg-gray-800'',
        sev_border = ''border-gray-200 dark:border-gray-700'', sev_text = ''text-gray-900 dark:text-gray-100'',
        sev_icon = ''text-red-500'', sev_badge = ''bg-red-100 dark:bg-red-900 text-red-800 dark:text-red-200''\<rparr>),
     (''high'', \<lparr>sev_color = ''orange'', sev_bg = ''bg-white dark:bg-gray-800'',
        sev_border = ''border-gray-200 dark:border-gray-700'', sev_text = ''text-gray-900 dark:text-gray-100'',
        sev_icon = ''text-orange-500'', sev_badge = ''bg-orange-100 dark:bg-orange-900 text-orange-800 dark:text-orange-200''\<rparr>),
     (''medium'', \<lparr>sev_color = ''yellow'', sev_bg = ''bg-white dark:bg-gray-800'',
        sev_border = ''border-gray-200 dark:border-gray-700'', sev_text = ''text-gray-900 dark:text-gray-100'',
        sev_icon = ''text-yellow-500'', sev_badge = ''bg-yellow-100 dark:bg-yellow-900 text-yellow-800 dark:text-yellow-200''\<rparr>),
     (''low'', \<lparr>sev_color = ''blue'', sev_bg = ''bg-white dark:bg-gray-800'',
        sev_border = ''border-gray-200 dark:border-gray-700'', sev_text = ''text-gray-900 dark:text-gray-100'',
        sev_icon = ''text-blue-500'', sev_badge = ''bg-blue-100 dark:bg-blue-900 text-blue-800 dark:text-blue-200''\<rparr>)]"

definition DEFAULT_SEVERITY_CONFIG :: severity_config where
  "DEFAULT_SEVERITY_CONFIG =
     \<lparr>sev_color = ''gray'', sev_bg = ''bg-white dark:bg-gray-800'',
      sev_border = ''border-gray-200 dark:border-gray-700'', sev_text = ''text-gray-900 dark:text-gray-100'',
      sev_icon = ''text-gray-500'', sev_badge = ''bg-gray-100 dark:bg-gray-900 text-gray-800 dark:text-gray-200''\<rparr>"

datatype icon = Shield | Zap | AlertTriangle | Code2 | Users | Info

definition ISSUE_TYPE_ICONS :: "(string \<times> icon) list" where
  "ISSUE_TYPE_ICONS =
     [(''security'', Shield), (''performance'', Zap), (''bug'', AlertTriangle), (''style'', Code2),
      (''maintainability'', Users)]"

text \<open>\<open>x?.toLowerCase()\<close>: \<open>undefined\<close> for \<open>null\<close> and \<open>undefined\<close> (whose
  property key is the string \<open>undefined\<close>), a \<open>TypeError\<close> for a value that is not
  a string.\<close>

definition lower_key :: "string \<Rightarrow> js_value \<Rightarrow> message + string" where
  "lower_key callee v =
    (case v of
       JString s \<Rightarrow> Inr (to_lower s)
     | JUndefined \<Rightarrow> Inr ''undefined''
     | JNull \<Rightarrow> Inr ''undefined''
     | _ \<Rightarrow> Inl (callee @ ''?.toLowerCase is not a function''))"

definition getSeverityConfig :: "js_value \<Rightarrow> message + severity_config js_lookup" where
  "getSeverityConfig severity =
     map_sum id (\<lambda>k. index_or SEVERITY_CONFIGS k DEFAULT_SEVERITY_CONFIG) (lower_key ''severity'' severity)"

definition getTypeIcon :: "js_value \<Rightarrow> message + icon js_lookup" where
  "getTypeIcon ty = map_sum id (\<lambda>k. index_or ISSUE_TYPE_ICONS k Info) (lower_key ''type'' ty)"

record category_info =
  cat_icon :: icon
  cat_color :: string
  cat_label :: string

definition categoryMap :: "(string \<times> category_info) list" where
  "categoryMap =
     [(''bug'', \<lparr>cat_icon = AlertTriangle, cat_color = ''red'', cat_label = ''Bugs & Issues''\<rparr>),
      (''security'', \<lparr>cat_icon = Shield, cat_color = ''orange'', cat_label = ''Security Issues''\<rparr>),
      (''performance'', \<lparr>cat_icon = Zap, cat_color = ''yellow'', cat_label = ''Performance Issues''\<rparr>),
      (''maintainability'', \<lparr>cat_icon = Users, cat_color = ''blue'', cat_label = ''Maintainability''\<rparr>),
      (''style'', \<lparr>cat_icon = Code2, cat_color = ''purple'', cat_label = ''Code Style''\<rparr>)]"

definition getCategoryDisplayInfo :: "string \<Rightarrow> category_info js_lookup" where
  "getCategoryDisplayInfo ty =
     index_or categoryMap (to_lower ty) \<lparr>cat_icon = Info, cat_color = ''gray'', cat_label = ''General Issues''\<rparr>"

section \<open>Grouping the issues\<close>

text \<open>\<open>issue.type || 'general'\<close>, as the property key it indexes with.\<close>

definition issue_group_key :: "js_value \<Rightarrow> message + string" where
  "issue_group_key issue =
     map_sum id (\<lambda>t. if js_truthy_value t then js_to_string t else ''general'') (read_property issue ''type'')"

definition push_error :: message where
  "push_error = ''grouped[type].push is not a function''"

text \<open>One step of the \<open>reduce\<close>: an own group gets the issue pushed; a missing
  group is created, unless the key names an inherited member, which is truthy and
  has no \<open>push\<close>.\<close>

definition group_step ::
  "message + (string \<times> js_value list) list \<Rightarrow> js_value \<Rightarrow> message + (string \<times> js_value list) list" where
  "group_step acc issue =
    (case acc of
       Inl m \<Rightarrow> Inl m
     | Inr grouped \<Rightarrow>
         (case issue_group_key issue of
            Inl m \<Rightarrow> Inl m
          | Inr ty \<Rightarrow>
              (case map_of grouped ty of
                 Some g \<Rightarrow> Inr (map (\<lambda>(k, v). if k = ty then (k, v @ [issue]) else (k, v)) grouped)
               | None \<Rightarrow>
                   (if ty \<in> set object_prototype_members then Inl push_error
                    else Inr (grouped @ [(ty, [issue])])))))"

definition groupIssuesByType :: "js_value list \<Rightarrow> message + (string \<times> js_value list) list" where
  "groupIssuesByType issues = foldl group_step (Inr []) issues"

text \<open>The grouping as a reference definition: every issue's key, failing on the first
  issue that has none or whose key is inherited; then one group per distinct key, in
  first-occurrence order, holding the issues of that key in order.\<close>

definition checked_key :: "js_value \<Rightarrow> message + string" where
  "checked_key issue =
    (case issue_group_key issue of
       Inl m \<Rightarrow> Inl m
     | Inr k \<Rightarrow> (if k \<in> set object_prototype_members then Inl push_error else Inr k))"

definition group_spec :: "js_value list \<Rightarrow> message + (string \<times> js_value list) list" where
  "group_spec issues =
     map_sum id (\<lambda>ks. map (\<lambda>k. (k, filter (\<lambda>i. issue_group_key i = Inr k) issues)) (first_occurrences ks))
       (traverse_sum checked_key issues)"

section \<open>Rendering an analysis\<close>

text \<open>\<open>formatText(v)\<close> on a value: only a string has \<open>replace\<close>.\<close>

definition format_value :: "js_value \<Rightarrow> message + string" where
  "format_value v =
    (case v of
       JString s \<Rightarrow> Inr (formatText s)
     | JUndefined \<Rightarrow> Inl (type_error_reading v ''replace'')
     | JNull \<Rightarrow> Inl (type_error_reading v ''replace'')
     | _ \<Rightarrow> Inl ''text.replace is not a function'')"

text \<open>A value React can render as a child: no plain object, at any depth of arrays.\<close>

fun react_child_ok :: "js_value \<Rightarrow> bool" where
  "react_child_ok (JObject ps) = False"
| "react_child_ok (JArray xs) = list_all react_child_ok xs"
| "react_child_ok v = True"

definition react_child_error :: message where
  "react_child_error = ''Objects are not valid as a React child''"

record issue_card =
  card_config :: "severity_config js_lookup"
  card_icon :: "icon js_lookup"
  card_description :: string
  card_line :: "js_value option"

text \<open>The collapsed \<open>IssueCard\<close>: its configuration, icon, description HTML and the
  line label shown when \<open>issue.line\<close> is truthy.\<close>

definition IssueCard :: "js_value \<Rightarrow> message + issue_card" where
  "IssueCard issue =
    (case getSeverityConfig (js_or_value (js_get issue ''severity'') (JString [])) of
       Inl m \<Rightarrow> Inl m
     | Inr config \<Rightarrow>
        (case getTypeIcon (js_or_value (js_get issue ''type'') (JString [])) of
           Inl m \<Rightarrow> Inl m
         | Inr ic \<Rightarrow>
            (case format_value (js_or_value (js_get issue ''description'')
                                 (js_or_value (js_get issue ''message'') (JString ''No description available''))) of
               Inl m \<Rightarrow> Inl m
             | Inr d \<Rightarrow>
                (let ln = js_get issue ''line'' in
                 if js_truthy_value ln \<and> \<not> react_child_ok ln then Inl react_child_error
                 else Inr \<lparr>card_config = config, card_icon = ic, card_description = d,
                           card_line = (if js_truthy_value ln then Some ln else None)\<rparr>))))"

datatype display_section = TextSection string string | NumberSection string int

definition section_label :: "string \<Rightarrow> string" where
  "section_label k = map (\<lambda>c. if c = CHR ''_'' then CHR '' '' else c) k"

definition display_section :: "string \<times> js_value \<Rightarrow> display_section option" where
  "display_section kv =
    (let (k, v) = kv in
     if k \<in> set [''summary'', ''issues'', ''recommendations'', ''quality_score''] then None
     else (case v of
             JString s \<Rightarrow> (if s \<noteq> [] then Some (TextSection (section_label k) (formatText s)) else None)
           | JNumber n \<Rightarrow> Some (NumberSection (section_label k) n)
           | _ \<Rightarrow> None))"

record structured_view =
  sv_summary :: "string option"
  sv_groups :: "(category_info js_lookup \<times> issue_card list) list"
  sv_recommendations :: "string list"
  sv_sections :: "display_section list"

datatype analysis_view = RawView string | StructuredView structured_view | FallbackView string

definition group_view :: "string \<times> js_value list \<Rightarrow> message + category_info js_lookup \<times> issue_card list" where
  "group_view g =
     map_sum id (\<lambda>cards. (getCategoryDisplayInfo (fst g), cards)) (traverse_sum IssueCard (snd g))"

definition issues_view :: "js_value \<Rightarrow> message + (category_info js_lookup \<times> issue_card list) list" where
  "issues_view is =
    (if js_truthy_value is \<and> is_js_array is \<and> js_array_of is \<noteq> [] then
       (case groupIssuesByType (js_array_of is) of
          Inl m \<Rightarrow> Inl m
        | Inr grouped \<Rightarrow> traverse_sum group_view (object_entries grouped))
     else Inr [])"

definition recommendations_view :: "js_value \<Rightarrow> message + string list" where
  "recommendations_view rs =
    (if js_truthy_value rs \<and> is_js_array rs \<and> js_array_of rs \<noteq> [] then traverse_sum format_value (js_array_of rs)
     else Inr [])"

definition structured :: "js_value \<Rightarrow> message + structured_view" where
  "structured pa =
    (case (if js_truthy_value (js_get pa ''summary'') then map_sum id Some (format_value (js_get pa ''summary''))
           else Inr None) of
       Inl m \<Rightarrow> Inl m
     | Inr sm \<Rightarrow>
        (case issues_view (js_get pa ''issues'') of
           Inl m \<Rightarrow> Inl m
         | Inr gs \<Rightarrow>
            (case recommendations_view (js_get pa ''recommendations'') of
               Inl m \<Rightarrow> Inl m
             | Inr rs \<Rightarrow>
                 Inr \<lparr>sv_summary = sm, sv_groups = gs, sv_recommendations = rs,
                      sv_sections = List.map_filter display_section (js_entries pa)\<rparr>)))"

text \<open>\<open>AnalysisDisplay\<close> for an analysis text and the state of the raw-view toggle.\<close>

definition AnalysisDisplay :: "(string \<Rightarrow> js_value option) \<Rightarrow> bool \<Rightarrow> string \<Rightarrow> message + analysis_view" where
  "AnalysisDisplay parse showRawView analysis =
    (let ex = extractJSONFromText parse analysis in
     if showRawView then Inr (RawView (originalText ex))
     else if isJSON ex \<and> js_truthy_value (parsed ex) \<and> (is_js_array (parsed ex) \<or> is_js_object (parsed ex))
     then map_sum id StructuredView (structured (parsed ex))
     else Inr (FallbackView (''<p class='' @ [CHR 0x22] @ ''mb-3'' @ [CHR 0x22] @ ''>'' @ formatText (originalText ex) @ ''</p>'')))"

section \<open>Lemmas\<close>

lemma split_at_sub_Some: "split_at_sub pat s = Some (a, b) \<Longrightarrow> s = a @ pat @ b"
proof (induction s arbitrary: a)
  case Nil
  then show ?case by (simp split: if_splits)
next
  case (Cons c cs)
  show ?case
  proof (cases "prefix pat (c # cs)")
    case True
    with Cons.prems show ?thesis by (auto simp: prefix_def)
  next
    case False
    with Cons.prems obtain a' where "split_at_sub pat cs = Some (a', b)" "a = c # a'"
      by (auto split: option.splits)
    with Cons.IH show ?thesis by simp
  qed
qed

lemma code_fence_at_Some:
  assumes "code_fence_at s = Some (w, body, n)"
  shows "s = fence_close @ w @ [CHR 0x0A] @ body @ fence_close @ drop n s
         \<and> n = length w + length body + 7 \<and> list_all is_word_char w"
proof -
  have p: "prefix fence_close s" using assms by (simp add: code_fence_at_def split: if_splits)
  define w' where "w' = takeWhile is_word_char (drop 3 s)"
  define r where "r = drop (3 + length w') s"
  have r: "r \<noteq> [] \<and> hd r = CHR 0x0A" and w: "w = w'"
    using assms p by (auto simp: code_fence_at_def w'_def r_def Let_def split: if_splits option.splits)
  obtain after where sp: "split_at_sub fence_close (tl r) = Some (body, after)" and n: "n = length s - length after"
    using assms p r w by (auto simp: code_fence_at_def w'_def r_def Let_def split: option.splits)
  have tl: "tl r = body @ fence_close @ after" using split_at_sub_Some [OF sp] .
  have s3: "s = fence_close @ drop 3 s"
    using p by (auto simp: prefix_def fence_close_def)
  have d3: "drop 3 s = w' @ r"
  proof -
    have "drop 3 s = w' @ drop (length w') (drop 3 s)"
      unfolding w'_def by (metis append_take_drop_id takeWhile_eq_take)
    then show ?thesis by (simp add: r_def add.commute)
  qed
  have rr: "r = CHR 0x0A # tl r" using r by (cases r) auto
  have s: "s = fence_close @ w' @ [CHR 0x0A] @ body @ fence_close @ after"
    using s3 d3 rr tl by simp
  have len: "n = length w' + length body + 7" using n s by (simp add: fence_close_def)
  have "length (fence_close @ w' @ [CHR 0x0A] @ body @ fence_close) = n"
    using len by (simp add: fence_close_def)
  then have "drop n s = after" using s by (metis append.assoc append_eq_conv_conj)
  moreover have "list_all is_word_char w'"
    by (simp add: w'_def list_all_iff) (metis set_takeWhileD)
  ultimately show ?thesis using s len w by simp
qed

lemma fence_search_Some:
  "fence_search s = Some (k, m) \<Longrightarrow> code_fence_at (drop k s) = Some m"
proof (induction s arbitrary: k)
  case (Cons c cs)
  then show ?case by (auto split: option.splits)
qed simp

text \<open>One match of the code-block pattern, at offset \<open>k\<close> of the text searched.\<close>

lemma fence_search_split:
  assumes "fence_search s = Some (k, w, body, n)"
  shows "s = take k s @ fence_close @ w @ [CHR 0x0A] @ body @ fence_close @ drop (k + n) s
         \<and> 0 < n \<and> k + n \<le> length s \<and> list_all is_word_char w"
proof -
  have c: "code_fence_at (drop k s) = Some (w, body, n)" using fence_search_Some [OF assms] .
  note d = code_fence_at_Some [OF c]
  have eq: "drop k s = fence_close @ w @ [CHR 0x0A] @ body @ fence_close @ drop (k + n) s"
    using d by (simp add: add.commute)
  have "length (drop k s) = n + length (drop (k + n) s)"
    using arg_cong [OF eq, of length] d by (simp add: fence_close_def)
  then have "n \<le> length (drop k s)" by linarith
  moreover have "n = length w + length body + 7" using d by simp
  ultimately have "k + n \<le> length s" by simp
  moreover have "s = take k s @ drop k s" by simp
  ultimately show ?thesis using eq d by simp
qed

lemma map2_append:
  "length a = length c \<Longrightarrow> map2 f (a @ b) (c @ d) = map2 f a c @ map2 f b d"
  by (simp only: zip_append map_append)

text \<open>The loop from any position: it returns, at a position \<open>j\<close> after which no
  code block starts, and the blocks it pushed render back to the text it passed.\<close>

lemma content_blocks_loop_result:
  assumes "i \<le> length s"
  shows "\<exists>j bs hs. content_blocks_loop s i blocks = Some (j, blocks @ bs) \<and> i \<le> j \<and> j \<le> length s
           \<and> drop i s = concat (map2 render_block hs bs) @ drop j s \<and> list_all2 header_ok hs bs
           \<and> TextBlock [] \<notin> set bs"
  using assms
proof (induction "length s - i" arbitrary: i blocks rule: less_induct)
  case less
  show ?case
  proof (cases "fence_search (drop i s)")
    case None
    then have "content_blocks_loop s i blocks = Some (i, blocks)"
      by (simp add: content_blocks_loop.simps regex_exec_def)
    then show ?thesis using less.prems
      by (intro exI [where x = i] exI [where x = "[]"]) simp
  next
    case (Some r)
    then obtain k w body n where fs: "fence_search (drop i s) = Some (k, w, body, n)"
      by (cases r) auto
    note sp = fence_search_split [OF fs]
    define lang where "lang = (if w = [] then ''javascript'' else w)"
    define pre where "pre = (if k > 0 then [TextBlock (take k (drop i s))] else [])"
    define hpre :: "string list" where "hpre = (if k > 0 then [[]] else [])"
    have step: "content_blocks_loop s i blocks
        = content_blocks_loop s (i + k + n) (blocks @ pre @ [CodeBlock body lang])"
      by (subst content_blocks_loop.simps) (simp add: regex_exec_def fs pre_def lang_def)
    have le: "i + k + n \<le> length s" and lt: "length s - (i + k + n) < length s - i"
      using sp less.prems by auto
    from less.hyps [OF lt le, of "blocks @ pre @ [CodeBlock body lang]"]
    obtain j bs hs where ih: "content_blocks_loop s (i + k + n) (blocks @ pre @ [CodeBlock body lang])
          = Some (j, (blocks @ pre @ [CodeBlock body lang]) @ bs)"
        "i + k + n \<le> j" "j \<le> length s"
        "drop (i + k + n) s = concat (map2 render_block hs bs) @ drop j s"
        "list_all2 header_ok hs bs" "TextBlock [] \<notin> set bs"
      by blast
    have hdr: "list_all2 header_ok (hpre @ [w] @ hs) (pre @ [CodeBlock body lang] @ bs)"
      using ih(5) sp by (simp add: hpre_def pre_def lang_def list_all2_appendI)
    have len: "length hpre = length pre" by (simp add: hpre_def pre_def)
    have render: "concat (map2 render_block hpre pre) = take k (drop i s)"
      using sp by (auto simp: hpre_def pre_def)
    have "drop i s = concat (map2 render_block (hpre @ [w] @ hs) (pre @ [CodeBlock body lang] @ bs)) @ drop j s"
      using sp ih(4) render len by (simp add: map2_append ac_simps)
    moreover have "TextBlock [] \<notin> set (pre @ [CodeBlock body lang] @ bs)"
      using ih(6) sp by (auto simp: pre_def)
    moreover have "content_blocks_loop s i blocks = Some (j, blocks @ pre @ [CodeBlock body lang] @ bs)"
      using step ih(1) by simp
    moreover have "i \<le> j" using ih(2) by simp
    ultimately show ?thesis using ih(3) hdr
      by (intro exI [where x = j] exI [where x = "pre @ [CodeBlock body lang] @ bs"]
          exI [where x = "hpre @ [w] @ hs"]) blast
  qed
qed

lemma traverse_sum_snoc:
  "traverse_sum f (xs @ [x]) =
     (case traverse_sum f xs of
        Inl e \<Rightarrow> Inl e
      | Inr ys \<Rightarrow> (case f x of Inl e \<Rightarrow> Inl e | Inr y \<Rightarrow> Inr (ys @ [y])))"
  by (induction xs) (auto split: sum.splits)

lemma traverse_sum_Inr: "traverse_sum f xs = Inr ys \<Longrightarrow> list_all2 (\<lambda>x y. f x = Inr y) xs ys"
  by (induction xs arbitrary: ys) (auto split: sum.splits)

lemma checked_key_Inr:
  "checked_key i = Inr k \<longleftrightarrow> issue_group_key i = Inr k \<and> k \<notin> set object_prototype_members"
  by (auto simp: checked_key_def split: sum.splits)

lemma checked_keys_set:
  assumes "list_all2 (\<lambda>x y. checked_key x = Inr y) xs ks"
  shows "k \<in> set ks \<longleftrightarrow> (\<exists>i \<in> set xs. issue_group_key i = Inr k)"
    and "k \<in> set ks \<Longrightarrow> k \<notin> set object_prototype_members"
  using assms by (induction rule: list_all2_induct) (auto simp: checked_key_Inr)

text \<open>The groups of the reference definition for the issues seen so far.\<close>

definition groups_of :: "js_value list \<Rightarrow> string list \<Rightarrow> (string \<times> js_value list) list" where
  "groups_of xs ks = map (\<lambda>k. (k, filter (\<lambda>i. issue_group_key i = Inr k) xs)) (first_occurrences ks)"

lemma group_spec_eq:
  "group_spec xs = map_sum id (groups_of xs) (traverse_sum checked_key xs)"
  by (simp add: group_spec_def groups_of_def [abs_def])

lemma set_first_occurrences_acc:
  "set (foldl (\<lambda>acc x. if x \<in> set acc then acc else acc @ [x]) acc xs) = set acc \<union> set xs"
  by (induction xs arbitrary: acc) auto

lemma first_occurrences_Nil [simp]: "first_occurrences [] = []"
  by (simp add: first_occurrences_def)

lemma set_first_occurrences [simp]: "set (first_occurrences xs) = set xs"
  by (simp add: first_occurrences_def set_first_occurrences_acc)

lemma first_occurrences_snoc:
  "first_occurrences (xs @ [x]) = (if x \<in> set xs then first_occurrences xs else first_occurrences xs @ [x])"
  by (simp add: first_occurrences_def set_first_occurrences_acc)

lemma map_of_groups_of:
  "map_of (groups_of xs ks) k = (if k \<in> set ks then Some (filter (\<lambda>i. issue_group_key i = Inr k) xs) else None)"
  by (simp add: groups_of_def map_of_map_restrict restrict_map_def)

lemma group_step_spec: "group_step (group_spec xs) x = group_spec (xs @ [x])"
proof (cases "traverse_sum checked_key xs")
  case (Inl e)
  then show ?thesis by (simp add: group_spec_eq traverse_sum_snoc group_step_def)
next
  case (Inr ks)
  note keys = checked_keys_set [OF traverse_sum_Inr [OF Inr]]
  show ?thesis
  proof (cases "checked_key x")
    case (Inl e)
    show ?thesis
    proof (cases "issue_group_key x")
      case (Inl e')
      then show ?thesis using Inr Inl
        by (simp add: group_spec_eq traverse_sum_snoc group_step_def checked_key_def)
    next
      case (Inr k)
      with \<open>checked_key x = Inl e\<close> have "k \<in> set object_prototype_members" "e = push_error"
        by (auto simp: checked_key_def split: if_splits)
      then have "k \<notin> set ks" using keys(2) by blast
      then show ?thesis using \<open>traverse_sum checked_key xs = Inr ks\<close> Inr Inl \<open>e = push_error\<close>
          \<open>k \<in> set object_prototype_members\<close>
        by (simp add: group_spec_eq traverse_sum_snoc group_step_def map_of_groups_of)
    qed
  next
    case (Inr k)
    then have kx: "issue_group_key x = Inr k" "k \<notin> set object_prototype_members"
      by (simp_all add: checked_key_Inr)
    show ?thesis
    proof (cases "k \<in> set ks")
      case True
      have "map (\<lambda>(k', v). if k' = k then (k', v @ [x]) else (k', v)) (groups_of xs ks) = groups_of (xs @ [x]) ks"
        using kx by (auto simp: groups_of_def)
      moreover have "groups_of (xs @ [x]) (ks @ [k]) = groups_of (xs @ [x]) ks"
        using True by (simp add: groups_of_def first_occurrences_snoc)
      ultimately show ?thesis using \<open>traverse_sum checked_key xs = Inr ks\<close> Inr True
        by (simp add: group_spec_eq traverse_sum_snoc group_step_def map_of_groups_of kx)
    next
      case False
      then have none: "\<forall>i \<in> set xs. issue_group_key i \<noteq> Inr k" using keys(1) by blast
      have "groups_of (xs @ [x]) (ks @ [k]) = groups_of xs ks @ [(k, [x])]"
        using False none kx by (auto simp: groups_of_def filter_empty_conv first_occurrences_snoc)
      then show ?thesis using \<open>traverse_sum checked_key xs = Inr ks\<close> Inr False kx
        by (simp add: group_spec_eq traverse_sum_snoc group_step_def map_of_groups_of)
    qed
  qed
qed

lemma group_fold_spec: "foldl group_step (Inr []) xs = group_spec xs"
proof (induction xs rule: rev_induct)
  case Nil
  then show ?case by (simp add: group_spec_def)
next
  case (snoc x xs)
  then show ?case by (simp add: group_step_spec)
qed

lemma extractJSONFromAnalysis_cases:
  "extractJSONFromAnalysis parse s = JNull \<or> (\<exists>t. parse t = Some (extractJSONFromAnalysis parse s))"
  by (auto simp: extractJSONFromAnalysis_def split: option.splits)

lemma extractJSONFromText_cases:
  "parsed (extractJSONFromText parse s) = JNull \<or> (\<exists>t. parse t = Some (parsed (extractJSONFromText parse s)))"
  by (auto simp: extractJSONFromText_def split: option.splits)

lemma inline_code_plain: "CHR 0x60 \<notin> set s \<Longrightarrow> inline_code s = s"
  by (induction s) (auto simp: Let_def)

lemma br_newlines_plain: "CHR 0x0A \<notin> set s \<Longrightarrow> br_newlines s = s"
  by (induction s) (auto simp: br_newlines_def)

lemma br_newlines_append: "br_newlines (a @ b) = br_newlines a @ br_newlines b"
  by (simp add: br_newlines_def)

lemma inline_code_tags_plain:
  "br_newlines inline_code_open = inline_code_open" "br_newlines inline_code_close = inline_code_close"
  by (simp_all add: br_newlines_plain inline_code_open_def inline_code_close_def)

section \<open>Properties\<close>

text \<open>
  C35 (termination). The \<open>while ((match = codeBlockRegex.exec(text)) !== null)\<close> loop of
  \<open>parseContentBlocks\<close> ends on every text: each match moves \<open>lastIndex\<close> past at least
  the seven characters of an empty fenced block.
\<close>

theorem parseContentBlocks_terminates: "\<exists>bs. parseContentBlocks s = Some bs"
proof -
  obtain j bs where "content_blocks_loop s 0 [] = Some (j, [] @ bs)"
    using content_blocks_loop_result [of 0 s "[]"] by blast
  then show ?thesis by (simp add: parseContentBlocks_def)
qed

text \<open>
  C36 (roundtrip). The blocks \<open>parseContentBlocks\<close> returns give the text back: the
  text blocks verbatim, each code block inside its fences with the info string it had
  (none where the block shows the default \<open>javascript\<close>); no text block is empty.
\<close>

theorem parseContentBlocks_roundtrip:
  assumes "parseContentBlocks s = Some bs"
  shows "\<exists>hs. list_all2 header_ok hs bs \<and> s = concat (map2 render_block hs bs) \<and> TextBlock [] \<notin> set bs"
proof -
  obtain j bs' hs where r0: "content_blocks_loop s 0 [] = Some (j, [] @ bs')" "j \<le> length s"
      "drop 0 s = concat (map2 render_block hs bs') @ drop j s" "list_all2 header_ok hs bs'" "TextBlock [] \<notin> set bs'"
    using content_blocks_loop_result [of 0 s "[]"] by blast
  then have r: "content_blocks_loop s 0 [] = Some (j, bs')" "j \<le> length s"
      "s = concat (map2 render_block hs bs') @ drop j s" "list_all2 header_ok hs bs'" "TextBlock [] \<notin> set bs'"
    by simp_all
  show ?thesis
  proof (cases "j < length s")
    case True
    then have "bs = bs' @ [TextBlock (drop j s)]" using assms r(1) by (simp add: parseContentBlocks_def)
    moreover have "list_all2 header_ok (hs @ [[]]) (bs' @ [TextBlock (drop j s)])"
      using r(4) by (simp add: list_all2_appendI)
    moreover have "s = concat (map2 render_block (hs @ [[]]) (bs' @ [TextBlock (drop j s)]))"
      using r(3,4) by (simp add: map2_append list_all2_lengthD)
    moreover have "TextBlock [] \<notin> set (bs' @ [TextBlock (drop j s)])" using r(5) True by simp
    ultimately show ?thesis by blast
  next
    case False
    then have "bs = bs'" "drop j s = []" using assms r(1,2) by (simp_all add: parseContentBlocks_def)
    then show ?thesis using r(3-5) by auto
  qed
qed

theorem parseContentBlocks_roundtrip_witness:
  "\<exists>hs. list_all2 header_ok hs
          [TextBlock (''Use:'' @ [CHR 0x0A]), CodeBlock (''x'' @ [CHR 0x0A]) ''javascript'', TextBlock ''rest'']
       \<and> ''Use:'' @ [CHR 0x0A] @ ''```'' @ [CHR 0x0A] @ ''x'' @ [CHR 0x0A] @ ''```rest''
           = concat (map2 render_block hs
               [TextBlock (''Use:'' @ [CHR 0x0A]), CodeBlock (''x'' @ [CHR 0x0A]) ''javascript'', TextBlock ''rest''])"
proof -
  have p: "parseContentBlocks (''Use:'' @ [CHR 0x0A] @ ''```'' @ [CHR 0x0A] @ ''x'' @ [CHR 0x0A] @ ''```rest'')
      = Some [TextBlock (''Use:'' @ [CHR 0x0A]), CodeBlock (''x'' @ [CHR 0x0A]) ''javascript'', TextBlock ''rest'']"
    by code_simp
  show ?thesis using parseContentBlocks_roundtrip [OF p] by blast
qed

text \<open>
  C37 (equivalence). The reduce of \<open>groupIssuesByType\<close> computes the reference
  grouping: one group per distinct \<open>issue.type || 'general'\<close>, in first-occurrence
  order, holding that type's issues in order; it fails with the first issue that is
  \<open>null\<close> or whose type names a member of \<open>Object.prototype\<close>.
\<close>

theorem groupIssuesByType_spec: "groupIssuesByType issues = group_spec issues"
  by (simp add: groupIssuesByType_def group_fold_spec)

text \<open>
  The display's \<open>extractJSONFromText\<close> parses an analysis exactly as
  the aggregator's \<open>extractJSONFromAnalysis\<close> does, keeps the text, and reports
  \<open>isJSON\<close> exactly when the text or its first fenced \<open>json\<close> block parsed.
\<close>

theorem extractJSONFromText_agrees:
  "parsed (extractJSONFromText parse s) = extractJSONFromAnalysis parse s
   \<and> originalText (extractJSONFromText parse s) = s
   \<and> (isJSON (extractJSONFromText parse s) \<longleftrightarrow>
        (\<exists>v. parse s = Some v) \<or> (\<exists>m v. json_block s = Some m \<and> m \<noteq> [] \<and> parse (js_trim m) = Some v))"
  by (auto simp: extractJSONFromText_def extractJSONFromAnalysis_def split: option.splits)

text \<open>
  C39 (safety). \<open>formatText\<close>, whose result every part of the display inserts with
  \<open>dangerouslySetInnerHTML\<close>, escapes nothing: a text without backquotes or line
  breaks is inserted as it is, markup included, and a backquoted span keeps its
  characters inside the \<open>code\<close> element.
\<close>

theorem formatText_unescaped:
  assumes "CHR 0x60 \<notin> set s" and "CHR 0x0A \<notin> set s" and "s \<noteq> []"
  shows "formatText s = s \<and> formatText ([CHR 0x60] @ s @ [CHR 0x60]) = inline_code_open @ s @ inline_code_close"
proof -
  have "takeWhile (\<lambda>x. x \<noteq> CHR 0x60) (s @ [CHR 0x60]) = s"
    using assms(1) by (induction s) auto
  moreover have "dropWhile (\<lambda>x. x \<noteq> CHR 0x60) (s @ [CHR 0x60]) = [CHR 0x60]"
    using assms(1) by (induction s) auto
  ultimately have "inline_code ([CHR 0x60] @ s @ [CHR 0x60]) = inline_code_open @ s @ inline_code_close"
    using assms(3) by (simp add: Let_def)
  then show ?thesis
    using assms by (simp add: formatText_def inline_code_plain br_newlines_plain br_newlines_append
        inline_code_tags_plain)
qed

theorem formatText_unescaped_witness:
  "CHR 0x60 \<notin> set ''<img src=x onerror=alert(1)>'' \<and> CHR 0x0A \<notin> set ''<img src=x onerror=alert(1)>''
   \<and> ''<img src=x onerror=alert(1)>'' \<noteq> []
   \<and> formatText ''<img src=x onerror=alert(1)>'' = ''<img src=x onerror=alert(1)>''"
  using formatText_unescaped [of "''<img src=x onerror=alert(1)>''"] by simp

end
