(* ===== verification/Prompts.thy ===== *)
theory Prompts
  imports Adapters Display
begin

text \<open>
  The prompts the Gemini and Groq adapters send (src/backend/src/services/geminiService.ts
  and groqService.ts): the analysis prompt of \<open>buildAnalysisPrompt\<close>, the inline
  prompts of \<open>explainCode\<close>, \<open>suggestImprovements\<close> and Gemini's
  \<open>generateReport\<close>, whose analysis results and project information are printed by
  \<open>JSON.stringify(v, null, 2)\<close>. A multi-line template literal is the list of its
  lines joined by line breaks. The remote services of the other theories are keyed by
  the operation; \<open>remote_of_services\<close> builds them from services keyed by what the
  code really sends (the prompt, and Groq's sampling temperature), so every lemma
  stated for all remotes holds in particular for those.
\<close>

definition text_lines :: "string list \<Rightarrow> string" where
  "text_lines ls = join_with nl ls"

section \<open>JSON.stringify with an indent of two spaces\<close>

definition hex_digit :: "nat \<Rightarrow> char" where
  "hex_digit n = (if n < 10 then char_of (48 + n) else char_of (87 + n))"

text \<open>\<open>QuoteJSONString\<close> on one character.\<close>

definition json_escape_char :: "char \<Rightarrow> string" where
  "json_escape_char c =
    (let n = (of_char c :: nat) in
     if n = 0x22 then [CHR 0x5C, CHR 0x22]
     else if n = 0x5C then [CHR 0x5C, CHR 0x5C]
     else if n = 0x08 then [CHR 0x5C, CHR ''b'']
     else if n = 0x09 then [CHR 0x5C, CHR ''t'']
     else if n = 0x0A then [CHR 0x5C, CHR ''n'']
     else if n = 0x0C then [CHR 0x5C, CHR ''f'']
     else if n = 0x0D then [CHR 0x5C, CHR ''r'']
     else if n < 0x20 then [CHR 0x5C, CHR ''u'', CHR ''0'', CHR ''0'', hex_digit (n div 16), hex_digit (n mod 16)]
     else [c])"

definition json_quote :: "string \<Rightarrow> string" where
  "json_quote s = [CHR 0x22] @ concat (map json_escape_char s) @ [CHR 0x22]"

text \<open>The properties \<open>JSON.stringify\<close> prints: those whose value is not
  \<open>undefined\<close>, in \<open>Object.entries\<close> order.\<close>

definition json_props :: "js_value \<Rightarrow> (string \<times> js_value) list" where
  "json_props v = filter (\<lambda>(k, x). x \<noteq> JUndefined) (js_entries v)"

lemma js_get_size: "js_get (JObject ps) k \<noteq> JUndefined \<Longrightarrow> size (js_get (JObject ps) k) < size (JObject ps)"
proof -
  assume ne: "js_get (JObject ps) k \<noteq> JUndefined"
  then obtain x where x: "map_of (rev ps) k = Some x" "js_get (JObject ps) k = x"
    by (auto simp: js_get_def split: option.splits)
  then have "(k, x) \<in> set ps" by (metis map_of_SomeD set_rev)
  then have "size x < size (JObject ps)"
    by (induction ps) auto
  with x show ?thesis by simp
qed

lemma json_props_size:
  assumes "(k, x) \<in> set (json_props (JObject ps))"
  shows "size x < size (JObject ps)"
proof -
  have "x = js_get (JObject ps) k" "x \<noteq> JUndefined"
    using assms by (auto simp: json_props_def js_entries_def object_entries_def)
  then show ?thesis using js_get_size by blast
qed

text \<open>\<open>SerializeJSONProperty\<close> with the gap \<open>"  "\<close>, at the current indent; an
  \<open>undefined\<close> array element prints as \<open>null\<close>.\<close>

function json_pretty :: "string \<Rightarrow> js_value \<Rightarrow> string" where
  "json_pretty ind JUndefined = ''null''"
| "json_pretty ind JNull = ''null''"
| "json_pretty ind (JBool b) = (if b then ''true'' else ''false'')"
| "json_pretty ind (JNumber n) = int_digits n"
| "json_pretty ind (JString s) = json_quote s"
| "json_pretty ind (JArray xs) =
     (if xs = [] then ''[]''
      else ''['' @ nl @ ind @ ''  ''
           @ join_with ('','' @ nl @ ind @ ''  '') (map (json_pretty (ind @ ''  '')) xs)
           @ nl @ ind @ '']'')"
| "json_pretty ind (JObject ps) =
     (if json_props (JObject ps) = [] then ''{}''
      else ''{'' @ nl @ ind @ ''  ''
           @ join_with ('','' @ nl @ ind @ ''  '')
               (map (\<lambda>(k, x). json_quote k @ '': '' @ json_pretty (ind @ ''  '') x) (json_props (JObject ps)))
           @ nl @ ind @ ''}'')"
  by pat_completeness auto
termination
proof (relation "measure (\<lambda>(ind, v). size v)")
  show "wf (measure (\<lambda>(ind, v). size v))" by simp
next
  fix ind :: string and xs :: "js_value list" and x
  assume "x \<in> set xs"
  then have "size x \<le> size_list size xs" by (rule size_list_estimation') simp
  then show "((ind @ ''  '', x), ind, JArray xs) \<in> measure (\<lambda>(ind, v). size v)"
    by simp
next
  fix ind :: string and ps :: "(string \<times> js_value) list" and kx k x
  assume "kx \<in> set (json_props (JObject ps))" and "(k, x) = kx"
  then have "size x < size (JObject ps)" using json_props_size by blast
  then show "((ind @ ''  '', x), ind, JObject ps) \<in> measure (\<lambda>(ind, v). size v)"
    by (simp only: in_measure prod.case)
qed

text \<open>\<open>${JSON.stringify(v, null, 2)}\<close>: \<open>undefined\<close> prints as the word.\<close>

definition json_stringify :: "js_value \<Rightarrow> string" where
  "json_stringify v = (if v = JUndefined then ''undefined'' else json_pretty [] v)"

section \<open>Gemini's prompts\<close>

text \<open>\<open>buildAnalysisPrompt(code, language, analysisType)\<close>: the base sentence, the
  template of the analysis type and the fenced code. The analysis type reaching the
  service is one of the four names \<open>validateAnalysisType\<close> returns, so
  \<open>analysisPrompts[analysisType] || analysisPrompts.general\<close> is the type's own
  template.\<close>

definition basePrompt :: "string \<Rightarrow> analysis_type \<Rightarrow> string" where
  "basePrompt lang atype =
     ''Please analyze the following '' @ lang @ '' code and provide insights based on the analysis type: ''
     @ analysis_type_name atype"

fun analysis_template :: "string \<Rightarrow> analysis_type \<Rightarrow> string" where
  \<open>analysis_template base General = text_lines
     [base, '''', ''Please provide:'', ''1. Code quality assessment (1-10 scale)'', ''2. Potential bugs or issues'',
      ''3. Performance considerations'', ''4. Security vulnerabilities'', ''5. Code maintainability'',
      ''6. Suggestions for improvement'', ''7. Best practices compliance'', '''',
      ''Format your response in JSON with the following structure:'', ''{'', ''  "quality_score": number,'',
      ''  "issues": [{"type": "bug|performance|security|style", "severity": "low|medium|high", "description": "...", "line": number, "suggestion": "..."}],'',
      ''  "summary": "Overall assessment",'', ''  "recommendations": ["..."]'', ''}'']\<close>
| "analysis_template base Security = text_lines
     [base, '''', ''Focus on security analysis:'', ''1. Identify security vulnerabilities'',
      ''2. Check for common security anti-patterns'', ''3. Assess input validation'',
      ''4. Look for authentication/authorization issues'', ''5. Check for data exposure risks'', '''',
      ''Format as JSON with security-specific findings.'']"
| "analysis_template base Performance = text_lines
     [base, '''', ''Focus on performance analysis:'', ''1. Identify performance bottlenecks'',
      ''2. Memory usage concerns'', ''3. Algorithm efficiency'', ''4. Database query optimization (if applicable)'',
      ''5. Caching opportunities'', '''', ''Format as JSON with performance-specific findings.'']"
| "analysis_template base Maintainability = text_lines
     [base, '''', ''Focus on code maintainability:'', ''1. Code readability and clarity'', ''2. Documentation quality'',
      ''3. Code organization and structure'', ''4. Naming conventions'', ''5. Complexity analysis'',
      ''6. Refactoring suggestions'', '''', ''Format as JSON with maintainability-specific findings.'']"

definition gemini_buildAnalysisPrompt :: "string \<Rightarrow> string \<Rightarrow> analysis_type \<Rightarrow> string" where
  "gemini_buildAnalysisPrompt code lang atype =
     text_lines [analysis_template (basePrompt lang atype) atype, '''', ''Code to analyze:'', ''```'' @ lang, code, ''```'']"

text \<open>\<open>generateReport(analysisResults, projectInfo = {})\<close>: the default replaces an
  absent (\<open>undefined\<close>) project information.\<close>

definition gemini_report_prompt :: "js_value list \<Rightarrow> js_value \<Rightarrow> string" where
  "gemini_report_prompt results info = text_lines
     [''Generate a comprehensive code analysis report based on the following analysis results:'', '''',
      ''Analysis Results:'', json_stringify (JArray results), '''', ''Project Information:'',
      json_stringify (if info = JUndefined then JObject [] else info), '''',
      ''Please create a detailed report in markdown format that includes:'', ''1. Executive Summary'',
      ''2. Overall Code Quality Score'', ''3. Key Findings'', ''4. Security Assessment'', ''5. Performance Analysis'',
      ''6. Maintainability Score'', ''7. Detailed Issues Breakdown'', ''8. Recommendations and Action Items'',
      ''9. Conclusion'', '''', ''Make the report professional and actionable for developers.'']"

definition gemini_explain_prompt :: "string \<Rightarrow> string \<Rightarrow> string" where
  "gemini_explain_prompt code lang = text_lines
     [''Please explain the following '' @ lang @ '' code in detail:'', '''',
      ''1. What does this code do? (high-level purpose)'', ''2. How does it work? (step-by-step explanation)'',
      ''3. Key concepts and patterns used'', ''4. Input and output explanation'', ''5. Dependencies and requirements'',
      ''6. Potential use cases'', '''', ''Code to explain:'', ''```'' @ lang, code, ''```'', '''',
      ''Please provide a clear, educational explanation suitable for developers learning this code.'']"

definition gemini_suggest_prompt :: "string \<Rightarrow> string \<Rightarrow> string \<Rightarrow> string" where
  "gemini_suggest_prompt code lang ctx = text_lines
     [''Please suggest improvements for the following '' @ lang @ '' code:'', '''', ''Context: '' @ ctx, '''',
      ''Focus on:'', ''1. Code optimization'', ''2. Best practices implementation'', ''3. Readability improvements'',
      ''4. Performance enhancements'', ''5. Security hardening'', ''6. Error handling improvements'',
      ''7. Modern language features utilization'', '''', ''Please provide:'', ''- Specific improvement suggestions'',
      ''- Refactored code examples where applicable'', ''- Explanation of why each improvement is beneficial'', '''',
      ''Code to improve:'', ''```'' @ lang, code, ''```'']"

text \<open>What \<open>this.model.generateContent\<close> receives for each operation.\<close>

fun gemini_prompt :: "operation \<Rightarrow> string" where
  "gemini_prompt (OpAnalyze code lang atype) = gemini_buildAnalysisPrompt code lang atype"
| "gemini_prompt (OpExplain code lang) = gemini_explain_prompt code lang"
| "gemini_prompt (OpSuggest code lang ctx) = gemini_suggest_prompt code lang ctx"
| "gemini_prompt (OpReport results info) = gemini_report_prompt results info"

section \<open>Groq's requests\<close>

text \<open>The Groq service keeps its own copies of the three prompts.\<close>

definition groq_buildAnalysisPrompt :: "string \<Rightarrow> string \<Rightarrow> analysis_type \<Rightarrow> string" where
  "groq_buildAnalysisPrompt code lang atype =
     text_lines [analysis_template (basePrompt lang atype) atype, '''', ''Code to analyze:'', ''```'' @ lang, code, ''```'']"

definition groq_explain_prompt :: "string \<Rightarrow> string \<Rightarrow> string" where
  "groq_explain_prompt code lang = text_lines
     [''Please explain the following '' @ lang @ '' code in detail:'', '''',
      ''1. What does this code do? (high-level purpose)'', ''2. How does it work? (step-by-step explanation)'',
      ''3. Key concepts and patterns used'', ''4. Input and output explanation'', ''5. Dependencies and requirements'',
      ''6. Potential use cases'', '''', ''Code to explain:'', ''```'' @ lang, code, ''```'', '''',
      ''Please provide a clear, educational explanation suitable for developers learning this code.'']"

definition groq_suggest_prompt :: "string \<Rightarrow> string \<Rightarrow> string \<Rightarrow> string" where
  "groq_suggest_prompt code lang ctx = text_lines
     [''Please suggest improvements for the following '' @ lang @ '' code:'', '''', ''Context: '' @ ctx, '''',
      ''Focus on:'', ''1. Code optimization'', ''2. Best practices implementation'', ''3. Readability improvements'',
      ''4. Performance enhancements'', ''5. Security hardening'', ''6. Error handling improvements'',
      ''7. Modern language features utilization'', '''', ''Please provide:'', ''- Specific improvement suggestions'',
      ''- Refactored code examples where applicable'', ''- Explanation of why each improvement is beneficial'', '''',
      ''Code to improve:'', ''```'' @ lang, code, ''```'']"

text \<open>The argument of \<open>this.client.chat.completions.create\<close>: one message of role
  \<open>user\<close>, the configured model, and the sampling parameters; the temperature is
  in hundredths (\<open>0.3\<close> is 30).\<close>

record chat_request =
  cr_messages :: "(string \<times> string) list"
  cr_model :: string
  cr_temperature :: nat
  cr_max_tokens :: nat
  cr_top_p :: nat
  cr_stream :: bool

definition groq_model :: string where
  "groq_model = ''llama-3.3-70b-versatile''"

definition groq_chat :: "string \<Rightarrow> nat \<Rightarrow> chat_request" where
  "groq_chat prompt temp =
     \<lparr>cr_messages = [(''user'', prompt)], cr_model = groq_model, cr_temperature = temp,
      cr_max_tokens = 2048, cr_top_p = 1, cr_stream = False\<rparr>"

text \<open>The request of each operation; the Groq service has no \<open>generateReport\<close>.\<close>

fun groq_request :: "operation \<Rightarrow> chat_request option" where
  "groq_request (OpAnalyze code lang atype) = Some (groq_chat (groq_buildAnalysisPrompt code lang atype) 30)"
| "groq_request (OpExplain code lang) = Some (groq_chat (groq_explain_prompt code lang) 30)"
| "groq_request (OpSuggest code lang ctx) = Some (groq_chat (groq_suggest_prompt code lang ctx) 40)"
| "groq_request (OpReport results info) = None"

section \<open>Remotes from services\<close>

text \<open>The remote of services that see only what the code sends: Gemini the prompt
  (and the attempt number of the retry loop), Groq the request, Hugging Face the key
  and the input. Groq is never asked for a report, so its value there is arbitrary.\<close>

definition remote_of_services ::
  "(string \<Rightarrow> nat \<Rightarrow> message + (message + string)) \<Rightarrow> (chat_request \<Rightarrow> message + string option)
     \<Rightarrow> (string option \<Rightarrow> string \<Rightarrow> hf_response) \<Rightarrow> remote" where
  "remote_of_services generateContent create inference =
     \<lparr>gemini_generate = (\<lambda>op k. generateContent (gemini_prompt op) k),
      groq_create = (\<lambda>op. case groq_request op of Some rq \<Rightarrow> create rq | None \<Rightarrow> Inr None),
      hf_fetch = inference\<rparr>"

text \<open>The text of the suggestion prompt between the context and the code.\<close>

definition suggest_separator :: "string \<Rightarrow> string" where
  "suggest_separator lang = nl @ text_lines
     ['''', ''Focus on:'', ''1. Code optimization'', ''2. Best practices implementation'', ''3. Readability improvements'',
      ''4. Performance enhancements'', ''5. Security hardening'', ''6. Error handling improvements'',
      ''7. Modern language features utilization'', '''', ''Please provide:'', ''- Specific improvement suggestions'',
      ''- Refactored code examples where applicable'', ''- Explanation of why each improvement is beneficial'', '''',
      ''Code to improve:'', ''```'' @ lang] @ nl"

section \<open>Properties\<close>

lemma gemini_suggest_prompt_split:
  "gemini_suggest_prompt code lang ctx =
     ''Please suggest improvements for the following '' @ lang @ '' code:'' @ nl @ nl @ ''Context: '' @ ctx
     @ suggest_separator lang @ code @ nl @ ''```''"
  by (simp add: gemini_suggest_prompt_def suggest_separator_def text_lines_def)

lemma groq_request_prompt:
  "groq_request op = Some rq \<Longrightarrow> cr_messages rq = [(''user'', gemini_prompt op)]"
  by (cases op) (auto simp: groq_chat_def groq_buildAnalysisPrompt_def gemini_buildAnalysisPrompt_def
      groq_explain_prompt_def gemini_explain_prompt_def groq_suggest_prompt_def gemini_suggest_prompt_def)

text \<open>
  The analysis prompt the services send determines the code and the
  analysis type: two prompts for the same language are equal exactly when their codes
  and their analysis types are, so the model is always told which of the four analyses
  to make and sees the submitted code verbatim.
\<close>

lemma analysis_prompt_injective:
  "(gemini_buildAnalysisPrompt code lang atype = gemini_buildAnalysisPrompt code' lang atype')
     \<longleftrightarrow> code = code' \<and> atype = atype'"
  by (cases atype; cases atype') (simp_all add: gemini_buildAnalysisPrompt_def text_lines_def basePrompt_def nl_def)

text \<open>
  C29 (safety). The suggestion prompt does not separate the user's context from the
  code: a context that ends with the prompt's own \<open>Code to improve\<close> section and some
  text \<open>d\<close> yields the same prompt as a different code that begins with \<open>d\<close>, so a
  context can inject code (or instructions) that the model reads as part of the
  submitted code.
\<close>

lemma suggest_prompt_forgeable:
  "gemini_suggest_prompt (d @ suggest_separator lang @ code) lang ctx
     = gemini_suggest_prompt code lang (ctx @ suggest_separator lang @ d)
   \<and> d @ suggest_separator lang @ code \<noteq> code"
proof
  show "gemini_suggest_prompt (d @ suggest_separator lang @ code) lang ctx
     = gemini_suggest_prompt code lang (ctx @ suggest_separator lang @ d)"
    by (simp add: gemini_suggest_prompt_split)
  have "suggest_separator lang \<noteq> []" by (simp add: suggest_separator_def nl_def)
  then have "length code < length (d @ suggest_separator lang @ code)" by simp
  then show "d @ suggest_separator lang @ code \<noteq> code" by auto
qed

end
