(* ===== verification/Upload.thy ===== *)
theory Upload
  imports Client
begin

text \<open>
  The upload component (\<open>FileUpload\<close>, src/unnamed/part_001) and the go-home
  button of src/frontend/src/App.tsx. A dropped browser \<open>File\<close> is a record of its
  name, size, modification time and handle. Each handler returns the store actions
  it dispatches, in order, and the toasts it shows. \<open>handleAnalyzeCode\<close> is split
  at its first \<open>await\<close>: \<open>analysis_pipeline\<close> is what runs while the analysis
  is in flight (on the \<open>files\<close> the click captured), \<open>analysis_finish\<close> the
  actions after it. \<open>ui_step\<close> is the interface as a transition relation: the
  dropzone, the remove buttons and the analyse button are disabled while
  \<open>isAnalyzing\<close>; the go-home button is not; an analysis in flight completes at any
  later moment.
\<close>

section \<open>File types\<close>

record browser_file =
  file_name :: string
  bf_size :: nat
  bf_lastModified :: int
  bf_handle :: file_handle

definition SUPPORTED_EXTENSIONS :: "string list" where
  "SUPPORTED_EXTENSIONS =
    [''.js'', ''.ts'', ''.jsx'', ''.tsx'', ''.py'', ''.java'', ''.cpp'', ''.c'', ''.cs'',
     ''.php'', ''.rb'', ''.go'', ''.rs'', ''.swift'', ''.html'', ''.css'', ''.scss'', ''.json'',
     ''.md'', ''.txt'', ''.sql'', ''.sh'']"

definition LANGUAGE_MAP :: "(string \<times> string) list" where
  "LANGUAGE_MAP =
    [(''.js'', ''javascript''), (''.jsx'', ''javascript''), (''.ts'', ''typescript''),
     (''.tsx'', ''typescript''), (''.py'', ''python''), (''.java'', ''java''), (''.cpp'', ''cpp''),
     (''.c'', ''c''), (''.cs'', ''csharp''), (''.php'', ''php''), (''.rb'', ''ruby''), (''.go'', ''go''),
     (''.rs'', ''rust''), (''.swift'', ''swift''), (''.html'', ''html''), (''.css'', ''css''),
     (''.scss'', ''scss''), (''.json'', ''json''), (''.md'', ''markdown''), (''.sql'', ''sql''),
     (''.sh'', ''bash'')]"

text \<open>\<open>s.lastIndexOf(c)\<close>, \<open>-1\<close> when absent.\<close>

definition last_index_of :: "char \<Rightarrow> string \<Rightarrow> int" where
  "last_index_of c s =
     (case filter (\<lambda>i. s ! i = c) [0..<length s] of [] \<Rightarrow> -1 | is \<Rightarrow> int (last is))"

text \<open>\<open>s.substring(start)\<close>: a negative start counts as 0.\<close>

definition substring_from :: "string \<Rightarrow> int \<Rightarrow> string" where
  "substring_from s start = drop (nat (max 0 start)) s"

definition getFileExtension :: "string \<Rightarrow> string" where
  "getFileExtension filename = substring_from (to_lower filename) (last_index_of (CHR ''.'') filename)"

definition isCodeFile :: "browser_file \<Rightarrow> bool" where
  "isCodeFile file \<longleftrightarrow> getFileExtension (file_name file) \<in> set SUPPORTED_EXTENSIONS"

text \<open>\<open>LANGUAGE_MAP[ext] || 'text'\<close>. The component only calls it on code files,
  whose extension is one of the supported ones, so no key of \<open>Object.prototype\<close> is
  looked up.\<close>

definition getLanguageFromExtension :: "string \<Rightarrow> string" where
  "getLanguageFromExtension filename =
     (case map_of LANGUAGE_MAP (getFileExtension filename) of Some l \<Rightarrow> l | None \<Rightarrow> ''text'')"

section \<open>Handlers\<close>

datatype toast = ToastError string | ToastSuccess string

text \<open>The \<open>CodeFile\<close> built for a dropped file; \<open>fid\<close> is the value of
  \<open>Math.random().toString(36).substr(2, 9)\<close> drawn for it.\<close>

definition process_file :: "string \<Rightarrow> browser_file \<Rightarrow> code_file" where
  "process_file fid file =
     \<lparr>file_id = fid, path = file_name file, content = [],
      file_language = getLanguageFromExtension (file_name file), file_size = bf_size file,
      lastModified = Some (bf_lastModified file), file_ref = Some (bf_handle file)\<rparr>"

text \<open>\<open>onDrop\<close>; \<open>ids i\<close> is the \<open>i\<close>-th random id. The optional
  \<open>onFilesSelected\<close> callback is not passed by the application.\<close>

definition onDrop :: "(nat \<Rightarrow> string) \<Rightarrow> browser_file list \<Rightarrow> 'r store_action list \<times> toast list" where
  "onDrop ids acceptedFiles =
    (let codeFiles = filter isCodeFile acceptedFiles in
     if length codeFiles = 0 then ([], [ToastError ''Please upload code files (.js, .ts, .py, etc.)''])
     else
       ([SetFiles (map (\<lambda>(i, file). process_file (ids i) file) (enumerate 0 codeFiles))],
        (if length codeFiles \<noteq> length acceptedFiles
         then [ToastSuccess (''Selected '' @ nat_digits (length codeFiles) @ '' code files (filtered out ''
                 @ nat_digits (length acceptedFiles - length codeFiles) @ '' non-code files)'')]
         else [])
        @ [ToastSuccess (nat_digits (length codeFiles) @ '' files ready for analysis'')]))"

text \<open>The component's own \<open>removeFile\<close>, which calls \<open>setFiles\<close> rather than the
  store's \<open>removeFile\<close>.\<close>

definition component_removeFile :: "code_file list \<Rightarrow> string \<Rightarrow> 'r store_action list \<times> toast list" where
  "component_removeFile fs fileId = ([SetFiles (filter (\<lambda>f. file_id f \<noteq> fileId) fs)], [ToastSuccess ''File removed''])"

definition files_to_analyze :: "code_file list \<Rightarrow> (file_handle \<times> string) list" where
  "files_to_analyze fs = map (\<lambda>f. (the (file_ref f), file_language f)) (filter (\<lambda>f. file_ref f \<noteq> None) fs)"

definition no_valid_files_message :: message where
  "no_valid_files_message = ''No valid files found for analysis''"

text \<open>The awaited part of \<open>handleAnalyzeCode\<close>: the requests of
  \<open>analyzeMultipleFiles\<close>, then \<open>processAnalysisResults\<close> on the captured files.\<close>

definition analysis_pipeline ::
  "transport \<Rightarrow> (file_handle \<Rightarrow> message + string) \<Rightarrow> (string \<Rightarrow> js_value option) \<Rightarrow> string \<Rightarrow> string
     \<Rightarrow> string \<Rightarrow> string \<Rightarrow> code_file list \<Rightarrow> message + fe_analysis_result" where
  "analysis_pipeline t read parse rid now analysisType selectedModel fs =
    (let filesToAnalyze = files_to_analyze fs in
     if filesToAnalyze = [] then Inl no_valid_files_message
     else (case fst (analyzeMultipleFiles t read filesToAnalyze analysisType selectedModel) of
             Inl m \<Rightarrow> Inl m
           | Inr analysisResults \<Rightarrow> processAnalysisResults parse read rid now analysisResults fs))"

definition analysis_finish ::
  "code_file list \<Rightarrow> message + fe_analysis_result \<Rightarrow> fe_analysis_result store_action list \<times> toast list" where
  "analysis_finish fs outcome =
    (case outcome of
       Inr analysisResult \<Rightarrow>
         ([CompleteAnalysis analysisResult],
          [ToastSuccess (''Analysis completed! Found '' @ nat_digits (totalIssues (summary analysisResult))
             @ '' issues across '' @ nat_digits (length fs) @ '' files.'')])
     | Inl m \<Rightarrow> ([FailAnalysis m], [ToastError (''Analysis failed: '' @ m)]))"

definition handleAnalyzeCode ::
  "transport \<Rightarrow> (file_handle \<Rightarrow> message + string) \<Rightarrow> (string \<Rightarrow> js_value option) \<Rightarrow> string \<Rightarrow> string
     \<Rightarrow> string \<Rightarrow> string \<Rightarrow> code_file list \<Rightarrow> fe_analysis_result store_action list \<times> toast list" where
  "handleAnalyzeCode t read parse rid now analysisType selectedModel fs =
    (if length fs = 0 then ([], [ToastError ''Please upload files first''])
     else
       (let fin = analysis_finish fs (analysis_pipeline t read parse rid now analysisType selectedModel fs) in
        (StartAnalysis # fst fin, ToastSuccess ''Starting code analysis...'' # snd fin)))"

section \<open>The interface as a transition system\<close>

text \<open>The store and the files captured by the analysis in flight, if any.\<close>

record ui_state =
  ui_store :: "fe_analysis_result analysis_store"
  in_flight :: "code_file list option"

definition ui_init :: ui_state where
  "ui_init = \<lparr>ui_store = initial_store, in_flight = None\<rparr>"

definition ui_apply :: "fe_analysis_result store_action list \<Rightarrow> ui_state \<Rightarrow> ui_state" where
  "ui_apply acts u = u\<lparr>ui_store := store_run acts (ui_store u)\<rparr>"

text \<open>\<open>handleGoHome\<close> of App.tsx.\<close>

definition handleGoHome :: "fe_analysis_result store_action list" where
  "handleGoHome = [SetFiles [], SetAnalysis None]"

text \<open>\<open>run\<close> is the awaited pipeline for the captured files. An analysis without
  valid files fails before the first \<open>await\<close>, in the same step as the click.\<close>

inductive ui_step :: "(code_file list \<Rightarrow> message + fe_analysis_result) \<Rightarrow> ui_state \<Rightarrow> ui_state \<Rightarrow> bool"
  for run where
  drop: "\<not> isAnalyzing (ui_store u) \<Longrightarrow> ui_step run u (ui_apply (fst (onDrop ids accepted)) u)"
| remove: "\<not> isAnalyzing (ui_store u) \<Longrightarrow>
     ui_step run u (ui_apply (fst (component_removeFile (files (ui_store u)) fileId)) u)"
| go_home: "ui_step run u (ui_apply handleGoHome u)"
| click_invalid: "\<not> isAnalyzing (ui_store u) \<Longrightarrow> files (ui_store u) \<noteq> [] \<Longrightarrow>
     files_to_analyze (files (ui_store u)) = [] \<Longrightarrow>
     ui_step run u (ui_apply [StartAnalysis, FailAnalysis no_valid_files_message] u)"
| click: "\<not> isAnalyzing (ui_store u) \<Longrightarrow> files (ui_store u) \<noteq> [] \<Longrightarrow>
     files_to_analyze (files (ui_store u)) \<noteq> [] \<Longrightarrow>
     ui_step run u ((ui_apply [StartAnalysis] u)\<lparr>in_flight := Some (files (ui_store u))\<rparr>)"
| finish: "in_flight u = Some snapshot \<Longrightarrow>
     ui_step run u ((ui_apply (fst (analysis_finish snapshot (run snapshot))) u)\<lparr>in_flight := None\<rparr>)"

inductive ui_reach :: "(code_file list \<Rightarrow> message + fe_analysis_result) \<Rightarrow> ui_state \<Rightarrow> bool"
  for run where
  init: "ui_reach run ui_init"
| step: "ui_reach run u \<Longrightarrow> ui_step run u u' \<Longrightarrow> ui_reach run u'"

definition ui_ok :: "ui_state \<Rightarrow> bool" where
  "ui_ok u \<longleftrightarrow> (isAnalyzing (ui_store u) \<longleftrightarrow> in_flight u \<noteq> None) \<and> lifecycle_ok (ui_store u)"

definition demo_file :: browser_file where
  "demo_file = \<lparr>file_name = ''a.js'', bf_size = 10, bf_lastModified = 0, bf_handle = 1\<rparr>"

section \<open>Lemmas\<close>

lemma ui_step_ok: "ui_step run u u' \<Longrightarrow> ui_ok u \<Longrightarrow> ui_ok u'"
proof (induction rule: ui_step.induct)
  case (drop u ids accepted)
  then show ?case by (simp add: onDrop_def Let_def ui_ok_def ui_apply_def lifecycle_ok_def)
next
  case (remove u fileId)
  then show ?case by (simp add: ui_ok_def ui_apply_def component_removeFile_def lifecycle_ok_def)
next
  case (go_home u)
  then show ?case by (auto simp: ui_ok_def ui_apply_def handleGoHome_def lifecycle_ok_def)
next
  case (click_invalid u)
  then show ?case by (simp add: ui_ok_def ui_apply_def lifecycle_ok_def)
next
  case (click u)
  then show ?case by (simp add: ui_ok_def ui_apply_def lifecycle_ok_def)
next
  case (finish u snapshot)
  then show ?case
    by (auto simp: ui_ok_def ui_apply_def analysis_finish_def lifecycle_ok_def split: sum.splits)
qed

lemma ui_reach_ok: "ui_reach run u \<Longrightarrow> ui_ok u"
proof (induction rule: ui_reach.induct)
  case init
  show ?case by (simp add: ui_ok_def ui_init_def initial_store_def lifecycle_ok_def)
next
  case (step u u')
  then show ?case by (blast intro: ui_step_ok)
qed

lemma language_range: "getLanguageFromExtension n \<in> set (''text'' # map snd LANGUAGE_MAP)"
proof (cases "map_of LANGUAGE_MAP (getFileExtension n)")
  case None
  then show ?thesis by (simp add: getLanguageFromExtension_def)
next
  case (Some l)
  then have "(getFileExtension n, l) \<in> set LANGUAGE_MAP" by (rule map_of_SomeD)
  then have "l \<in> set (map snd LANGUAGE_MAP)" by force
  with Some show ?thesis by (simp add: getLanguageFromExtension_def)
qed

lemma isCodeFile_demo: "isCodeFile demo_file"
  by (simp add: isCodeFile_def demo_file_def getFileExtension_def last_index_of_def
      substring_from_def SUPPORTED_EXTENSIONS_def model_simps)

lemma drop_demo_files:
  "files (ui_store (ui_apply (fst (onDrop (\<lambda>i. ''f0'') [demo_file])) ui_init))
     = [process_file ''f0'' demo_file]"
  using isCodeFile_demo by (simp add: onDrop_def ui_apply_def ui_init_def initial_store_def)

lemma demo_pipeline:
  "\<exists>r. analysis_pipeline
         (\<lambda>m p b. HttpResponse 200 (JObject [(''success'', JBool True),
                                             (''data'', JObject [(''analysis'', JString ''A'')])]))
         (\<lambda>h. Inr ''x'') (\<lambda>t. None) ''id'' ''now'' ''general'' ''auto''
         [process_file ''f0'' demo_file] = Inr r \<and> filesAnalyzed (summary r) = 1"
  by (simp add: analysis_pipeline_def files_to_analyze_def process_file_def
      api_analyzeCode_def api_post_def axios_request_def read_property_def js_get_def
      aggregate_eval json_block_def fence_open_def)

lemma last_index_of_last:
  assumes "c \<notin> set e"
  shows "last_index_of c (base @ c # e) = int (length base)"
proof -
  let ?s = "base @ c # e" and ?P = "\<lambda>i. (base @ c # e) ! i = c"
  have len: "length ?s = length base + Suc (length e)" by simp
  have "[0..<length base + Suc (length e)] = [0..<length base] @ [length base..<length base + Suc (length e)]"
    by (rule upt_add_eq_append) simp
  also have "[length base..<length base + Suc (length e)] = length base # [Suc (length base)..<length base + Suc (length e)]"
    by (rule upt_conv_Cons) simp
  finally have upt: "[0..<length ?s] = [0..<length base] @ length base # [Suc (length base)..<length ?s]"
    unfolding len .
  have empty: "filter ?P [Suc (length base)..<length ?s] = []"
  proof (rule filter_False, rule ballI)
    fix i assume "i \<in> set [Suc (length base)..<length ?s]"
    then have i: "Suc (length base) \<le> i" "i < length ?s" by auto
    then have "?s ! i = e ! (i - Suc (length base))" by (simp add: nth_append)
    moreover have "i - Suc (length base) < length e" using i by simp
    ultimately show "\<not> ?P i" using assms by (metis nth_mem)
  qed
  have Plb: "?P (length base)" by simp
  have eq: "filter ?P [0..<length ?s] = filter ?P [0..<length base] @ [length base]"
    by (simp only: upt filter_append filter.simps(2) empty) (simp add: Plb)
  have ne: "filter ?P [0..<length base] @ [length base] \<noteq> []" by simp
  show ?thesis
    unfolding last_index_of_def eq using ne by (simp only: list.case_eq_if) simp
qed

lemma to_lower_char_shift:
  "to_lower_char c = c \<or> ((of_char (to_lower_char c) :: nat) = of_char c + 32 \<and> 65 \<le> (of_char c :: nat))"
  by (auto simp: to_lower_char_def Let_def of_char_of)

lemma to_lower_char_dot: "to_lower_char c = CHR ''.'' \<longleftrightarrow> c = CHR ''.''"
proof
  assume h: "to_lower_char c = CHR ''.''"
  then show "c = CHR ''.''" using to_lower_char_shift [of c] by auto
qed (simp add: to_lower_char_def)

lemma to_lower_char_dot_id: "to_lower_char (CHR ''.'') = CHR ''.''"
  by (simp add: to_lower_char_def)

lemma getFileExtension_last_dot:
  assumes "CHR ''.'' \<notin> set e"
  shows "getFileExtension (base @ ''.'' @ e) = ''.'' @ to_lower e"
proof -
  have "last_index_of (CHR ''.'') (base @ CHR ''.'' # e) = int (length base)"
    by (rule last_index_of_last [OF assms])
  then show ?thesis
    by (simp add: getFileExtension_def substring_from_def to_lower_def to_lower_char_dot_id)
qed

lemma getFileExtension_no_dot:
  assumes "CHR ''.'' \<notin> set n"
  shows "CHR ''.'' \<notin> set (getFileExtension n)"
proof -
  have "set (getFileExtension n) \<subseteq> set (to_lower n)"
    unfolding getFileExtension_def substring_from_def by (rule set_drop_subset)
  moreover have "CHR ''.'' \<notin> set (to_lower n)"
  proof
    assume "CHR ''.'' \<in> set (to_lower n)"
    then obtain c where "c \<in> set n" "to_lower_char c = CHR ''.''"
      unfolding to_lower_def by auto
    with assms show False using to_lower_char_dot by metis
  qed
  ultimately show ?thesis by blast
qed

section \<open>Properties\<close>

text \<open>
  C21 (invariant). In every reachable state of the interface, the store is analysing
  exactly when an analysis is in flight, and the lifecycle flags are consistent.
\<close>

theorem ui_invariant:
  assumes "ui_reach run u"
  shows "(isAnalyzing (ui_store u) \<longleftrightarrow> in_flight u \<noteq> None) \<and> lifecycle_ok (ui_store u)"
  using ui_reach_ok [OF assms] by (simp add: ui_ok_def)

theorem ui_invariant_witness:
  "ui_reach (\<lambda>fs. Inl ''offline'')
     ((ui_apply [StartAnalysis] (ui_apply (fst (onDrop (\<lambda>i. ''f0'') [demo_file])) ui_init))
        \<lparr>in_flight := Some [process_file ''f0'' demo_file]\<rparr>)
   \<and> isAnalyzing (ui_store ((ui_apply [StartAnalysis] (ui_apply (fst (onDrop (\<lambda>i. ''f0'') [demo_file])) ui_init))
        \<lparr>in_flight := Some [process_file ''f0'' demo_file]\<rparr>))
   \<and> lifecycle_ok (ui_store ((ui_apply [StartAnalysis] (ui_apply (fst (onDrop (\<lambda>i. ''f0'') [demo_file])) ui_init))
        \<lparr>in_flight := Some [process_file ''f0'' demo_file]\<rparr>))"
proof -
  let ?u1 = "ui_apply (fst (onDrop (\<lambda>i. ''f0'') [demo_file])) ui_init"
  have r1: "ui_reach (\<lambda>fs. Inl ''offline'') ?u1"
    by (rule ui_reach.step [OF ui_reach.init ui_step.drop])
       (simp add: ui_init_def initial_store_def)
  have guards: "\<not> isAnalyzing (ui_store ?u1)" "files (ui_store ?u1) \<noteq> []"
      "files_to_analyze (files (ui_store ?u1)) \<noteq> []"
    using drop_demo_files
    by (simp_all add: ui_apply_def ui_init_def initial_store_def onDrop_def Let_def
        files_to_analyze_def process_file_def)
  have r2: "ui_reach (\<lambda>fs. Inl ''offline'')
      ((ui_apply [StartAnalysis] ?u1)\<lparr>in_flight := Some [process_file ''f0'' demo_file]\<rparr>)"
    using ui_reach.step [OF r1 ui_step.click [OF guards]] drop_demo_files by simp
  from ui_invariant [OF r2] r2 show ?thesis by (simp add: ui_apply_def)
qed

text \<open>
  Going home does not cancel an analysis in flight: from any idle state
  with analysable files, clicking analyse, going home and letting the analysis finish
  leaves the store with no files but with the finished analysis of the old ones.
\<close>

theorem go_home_keeps_result:
  assumes "ui_reach run u" and "\<not> isAnalyzing (ui_store u)"
    and "files (ui_store u) \<noteq> []" and "files_to_analyze (files (ui_store u)) \<noteq> []"
    and "run (files (ui_store u)) = Inr r"
  shows "\<exists>u'. ui_reach run u' \<and> files (ui_store u') = [] \<and> store_analysis (ui_store u') = Some r
              \<and> \<not> isAnalyzing (ui_store u')"
proof -
  let ?u1 = "(ui_apply [StartAnalysis] u)\<lparr>in_flight := Some (files (ui_store u))\<rparr>"
  let ?u2 = "ui_apply handleGoHome ?u1"
  let ?u3 = "(ui_apply (fst (analysis_finish (files (ui_store u)) (run (files (ui_store u))))) ?u2)\<lparr>in_flight := None\<rparr>"
  have r1: "ui_reach run ?u1" using assms by (blast intro: ui_reach.step ui_step.click)
  have r2: "ui_reach run ?u2" using r1 by (blast intro: ui_reach.step ui_step.go_home)
  have "in_flight ?u2 = Some (files (ui_store u))" by (simp add: ui_apply_def)
  then have r3: "ui_reach run ?u3" using r2 by (blast intro: ui_reach.step ui_step.finish)
  moreover have "files (ui_store ?u3) = [] \<and> store_analysis (ui_store ?u3) = Some r \<and> \<not> isAnalyzing (ui_store ?u3)"
    using assms(5) by (simp add: ui_apply_def handleGoHome_def analysis_finish_def)
  ultimately show ?thesis by blast
qed

theorem go_home_keeps_result_witness:
  "\<exists>r u'. ui_reach (analysis_pipeline
             (\<lambda>m p b. HttpResponse 200 (JObject [(''success'', JBool True),
                                                 (''data'', JObject [(''analysis'', JString ''A'')])]))
             (\<lambda>h. Inr ''x'') (\<lambda>t. None) ''id'' ''now'' ''general'' ''auto'') u'
         \<and> files (ui_store u') = [] \<and> store_analysis (ui_store u') = Some r
         \<and> filesAnalyzed (summary r) = 1"
proof -
  let ?run = "analysis_pipeline
             (\<lambda>m p b. HttpResponse 200 (JObject [(''success'', JBool True),
                                                 (''data'', JObject [(''analysis'', JString ''A'')])]))
             (\<lambda>h. Inr ''x'') (\<lambda>t. None) ''id'' ''now'' ''general'' ''auto''"
  let ?u1 = "ui_apply (fst (onDrop (\<lambda>i. ''f0'') [demo_file])) ui_init"
  have r1: "ui_reach ?run ?u1"
    by (rule ui_reach.step [OF ui_reach.init ui_step.drop])
       (simp add: ui_init_def initial_store_def)
  have guards: "\<not> isAnalyzing (ui_store ?u1)" "files (ui_store ?u1) \<noteq> []"
      "files_to_analyze (files (ui_store ?u1)) \<noteq> []"
    using drop_demo_files
    by (simp_all add: ui_apply_def ui_init_def initial_store_def onDrop_def Let_def
        files_to_analyze_def process_file_def)
  obtain r where run: "?run [process_file ''f0'' demo_file] = Inr r" and one: "filesAnalyzed (summary r) = 1"
    using demo_pipeline by blast
  have "?run (files (ui_store ?u1)) = Inr r" using run drop_demo_files by simp
  from go_home_keeps_result [OF r1 guards this] one show ?thesis by blast
qed

text \<open>
  A dropped file is a code file exactly when the text after the last
  dot of its name, lowercased and preceded by the dot, is a supported extension.
\<close>

theorem isCodeFile_extension:
  "isCodeFile f \<longleftrightarrow>
     (\<exists>base e. file_name f = base @ ''.'' @ e \<and> CHR ''.'' \<notin> set e
                \<and> ''.'' @ to_lower e \<in> set SUPPORTED_EXTENSIONS)"
proof
  assume code: "isCodeFile f"
  have dots: "\<forall>x \<in> set SUPPORTED_EXTENSIONS. CHR ''.'' \<in> set x"
    by (simp add: SUPPORTED_EXTENSIONS_def)
  have "CHR ''.'' \<in> set (file_name f)"
    using code dots getFileExtension_no_dot [of "file_name f"] by (auto simp: isCodeFile_def)
  then obtain base e where n: "file_name f = base @ CHR ''.'' # e" and e: "CHR ''.'' \<notin> set e"
    by (metis split_list_last)
  then have "getFileExtension (file_name f) = ''.'' @ to_lower e"
    using getFileExtension_last_dot [OF e, of base] by simp
  with code n e show "\<exists>base e. file_name f = base @ ''.'' @ e \<and> CHR ''.'' \<notin> set e
                \<and> ''.'' @ to_lower e \<in> set SUPPORTED_EXTENSIONS"
    by (auto simp: isCodeFile_def)
next
  assume "\<exists>base e. file_name f = base @ ''.'' @ e \<and> CHR ''.'' \<notin> set e
                \<and> ''.'' @ to_lower e \<in> set SUPPORTED_EXTENSIONS"
  then obtain base e where "file_name f = base @ ''.'' @ e" "CHR ''.'' \<notin> set e"
      "''.'' @ to_lower e \<in> set SUPPORTED_EXTENSIONS" by blast
  then show "isCodeFile f" using getFileExtension_last_dot by (simp add: isCodeFile_def)
qed

text \<open>
  C32 (liveness). The interface is never stuck analysing: from every reachable state a
  state is reachable in which no analysis is in flight and the store is not analysing,
  and there the outcome of the analysis that was in flight is recorded, its result as
  the store's analysis or its message as the store's error.
\<close>

theorem ui_analysis_completes:
  assumes "ui_reach run u"
  shows "\<exists>u'. (ui_step run)\<^sup>*\<^sup>* u u' \<and> in_flight u' = None \<and> \<not> isAnalyzing (ui_store u')
           \<and> (case in_flight u of
                None \<Rightarrow> True
              | Some fs \<Rightarrow> (case run fs of
                             Inr r \<Rightarrow> store_analysis (ui_store u') = Some r
                           | Inl m \<Rightarrow> store_error (ui_store u') = Some m))"
proof (cases "in_flight u")
  case None
  then show ?thesis using ui_reach_ok [OF assms] by (auto simp: ui_ok_def)
next
  case (Some fs)
  let ?u' = "(ui_apply (fst (analysis_finish fs (run fs))) u)\<lparr>in_flight := None\<rparr>"
  have "ui_step run u ?u'" using Some by (rule ui_step.finish)
  moreover have "\<not> isAnalyzing (ui_store ?u')
      \<and> (case run fs of Inr r \<Rightarrow> store_analysis (ui_store ?u') = Some r
                     | Inl m \<Rightarrow> store_error (ui_store ?u') = Some m)"
    by (simp add: ui_apply_def analysis_finish_def split: sum.split)
  ultimately show ?thesis using Some by (auto intro: r_into_rtranclp)
qed

theorem ui_analysis_completes_witness:
  "\<exists>u'. (ui_step (\<lambda>fs. Inl ''offline''))\<^sup>*\<^sup>*
          ((ui_apply [StartAnalysis] (ui_apply (fst (onDrop (\<lambda>i. ''f0'') [demo_file])) ui_init))
             \<lparr>in_flight := Some [process_file ''f0'' demo_file]\<rparr>) u'
        \<and> in_flight u' = None \<and> \<not> isAnalyzing (ui_store u') \<and> store_error (ui_store u') = Some ''offline''"
proof -
  let ?u1 = "ui_apply (fst (onDrop (\<lambda>i. ''f0'') [demo_file])) ui_init"
  let ?u2 = "(ui_apply [StartAnalysis] ?u1)\<lparr>in_flight := Some [process_file ''f0'' demo_file]\<rparr>"
  have r1: "ui_reach (\<lambda>fs. Inl ''offline'') ?u1"
    by (rule ui_reach.step [OF ui_reach.init ui_step.drop])
       (simp add: ui_init_def initial_store_def)
  have guards: "\<not> isAnalyzing (ui_store ?u1)" "files (ui_store ?u1) \<noteq> []"
      "files_to_analyze (files (ui_store ?u1)) \<noteq> []"
    using drop_demo_files
    by (simp_all add: ui_apply_def ui_init_def initial_store_def onDrop_def Let_def
        files_to_analyze_def process_file_def)
  have r2: "ui_reach (\<lambda>fs. Inl ''offline'') ?u2"
    using ui_reach.step [OF r1 ui_step.click [OF guards]] drop_demo_files by simp
  from ui_analysis_completes [OF r2] show ?thesis by simp
qed

end
