(* ===== verification/Fallback.thy ===== *)
theory Fallback
  imports Registry
begin

text \<open>
  The attempt loop of \<open>AIService.executeWithFallback\<close> (src/unnamed/part_000).
  An operation is a closure from a provider configuration to the outcome of one
  remote call: \<open>Inr result\<close>, or \<open>Inl msg\<close> for a rejected promise whose error
  has message \<open>msg\<close>. The loop is \<open>try_providers\<close>, which also returns the
  diagnostic lines the code writes with \<open>console.log\<close>/\<open>console.warn\<close>, as a
  list of \<open>log_event\<close>s: the trace makes "which providers were invoked" a value.
  \<open>fallback_spec\<close> is the contract (the first success in attempt order wins;
  otherwise an aggregate error with the last failure's message), and
  \<open>try_providers_refines\<close> shows the loop implements it.
\<close>

datatype log_event =
  Attempting string
| Succeeded string
| ProviderFailed string message
| RateLimitDetected string

text \<open>\<open>message.includes('429') || ... includes('quota') || ... includes('rate limit')\<close>\<close>

definition is_rate_limit_message :: "message \<Rightarrow> bool" where
  "is_rate_limit_message m \<longleftrightarrow>
     str_includes m ''429'' \<or> str_includes m ''quota'' \<or> str_includes m ''rate limit''"

definition exhausted_message :: "message option \<Rightarrow> message" where
  "exhausted_message lastError =
    (case lastError of
       Some m \<Rightarrow> ''All AI providers failed. Last error: '' @ m
     | None \<Rightarrow> ''No AI providers available'')"

text \<open>\<open>{ result, provider }\<close>, or the error thrown at the end of the loop.\<close>

type_synonym 'a outcome = "message + ('a \<times> string)"

fun try_providers ::
  "(provider_configuration \<Rightarrow> message + 'a) \<Rightarrow> provider_configuration list \<Rightarrow> message option
     \<Rightarrow> 'a outcome \<times> log_event list" where
  "try_providers operation [] lastError = (Inl (exhausted_message lastError), [])"
| "try_providers operation (p # ps) lastError =
     (case operation p of
        Inr result \<Rightarrow> (Inr (result, name p), [Attempting (name p), Succeeded (name p)])
      | Inl err \<Rightarrow>
          (let (res, log) = try_providers operation ps (Some err) in
           (res, [Attempting (name p), ProviderFailed (name p) err]
                 @ (if is_rate_limit_message err then [RateLimitDetected (name p)] else [])
                 @ log)))"

definition executeWithFallback ::
  "env \<Rightarrow> provider_configuration list \<Rightarrow> (provider_configuration \<Rightarrow> message + 'a) \<Rightarrow> string option
     \<Rightarrow> 'a outcome \<times> log_event list" where
  "executeWithFallback e ps operation preferredProvider =
     try_providers operation (attempt_order e ps preferredProvider) None"

section \<open>The contract\<close>

definition fails :: "(provider_configuration \<Rightarrow> message + 'a) \<Rightarrow> provider_configuration \<Rightarrow> bool" where
  "fails operation p \<longleftrightarrow> isl (operation p)"

definition fallback_spec ::
  "(provider_configuration \<Rightarrow> message + 'a) \<Rightarrow> provider_configuration list \<Rightarrow> 'a outcome" where
  "fallback_spec operation cands =
    (case dropWhile (fails operation) cands of
       p # _ \<Rightarrow> Inr (projr (operation p), name p)
     | [] \<Rightarrow> Inl (exhausted_message
                  (if cands = [] then None else Some (projl (operation (last cands))))))"

text \<open>The providers on which the operation is invoked: the failing prefix and the first success.\<close>

definition invoked :: "(provider_configuration \<Rightarrow> message + 'a) \<Rightarrow> provider_configuration list \<Rightarrow> provider_configuration list" where
  "invoked operation cands = take (Suc (length (takeWhile (fails operation) cands))) cands"

fun attempted :: "log_event list \<Rightarrow> string list" where
  "attempted [] = []"
| "attempted (Attempting n # log) = n # attempted log"
| "attempted (_ # log) = attempted log"

section \<open>Lemmas\<close>

lemma attempted_append [simp]: "attempted (xs @ ys) = attempted xs @ attempted ys"
  by (induction xs rule: attempted.induct) auto

lemma attempted_rate_limit [simp]:
  "attempted (if b then [RateLimitDetected n] else []) = []"
  by simp

lemma try_providers_Cons_fail:
  "operation p = Inl err \<Longrightarrow>
   fst (try_providers operation (p # ps) le) = fst (try_providers operation ps (Some err))"
  by (simp add: case_prod_beta Let_def)

lemma try_providers_result:
  "fst (try_providers operation cands le) =
    (case dropWhile (fails operation) cands of
       p # _ \<Rightarrow> Inr (projr (operation p), name p)
     | [] \<Rightarrow> Inl (exhausted_message
                  (if cands = [] then le else Some (projl (operation (last cands))))))"
proof (induction cands arbitrary: le)
  case Nil
  then show ?case by simp
next
  case (Cons p ps)
  show ?case
  proof (cases "operation p")
    case (Inl err)
    then have step: "fst (try_providers operation (p # ps) le) = fst (try_providers operation ps (Some err))"
      by (rule try_providers_Cons_fail)
    have dw: "dropWhile (fails operation) (p # ps) = dropWhile (fails operation) ps"
      using Inl by (simp add: fails_def)
    have lst: "(if p # ps = [] then le else Some (projl (operation (last (p # ps))))) =
        (if ps = [] then Some err else Some (projl (operation (last ps))))"
      using Inl by simp
    show ?thesis unfolding step dw lst by (rule Cons.IH)
  next
    case (Inr r)
    then show ?thesis by (simp add: fails_def)
  qed
qed

lemma try_providers_attempted:
  "attempted (snd (try_providers operation cands le)) = map name (invoked operation cands)"
proof (induction cands arbitrary: le)
  case Nil
  then show ?case by (simp add: invoked_def)
next
  case (Cons p ps)
  then show ?case
    by (cases "operation p") (auto simp: invoked_def fails_def case_prod_beta Let_def)
qed

lemma invoked_prefix: "prefix (invoked operation cands) cands"
  by (simp add: invoked_def take_is_prefix)

lemma invoked_all_fail:
  assumes "\<forall>p \<in> set cands. fails operation p"
  shows "invoked operation cands = cands"
proof -
  from assms have eq: "takeWhile (fails operation) cands = cands"
    by (simp add: takeWhile_eq_all_conv)
  have "length cands \<le> Suc (length (takeWhile (fails operation) cands))"
    by (subst eq) simp
  then show ?thesis by (simp add: invoked_def)
qed

lemma invoked_first_success:
  "\<forall>q \<in> set pre. fails operation q \<Longrightarrow> \<not> fails operation p \<Longrightarrow>
   invoked operation (pre @ p # post) = pre @ [p]"
  by (simp add: invoked_def)

lemma dropWhile_first_success:
  "\<forall>q \<in> set pre. fails operation q \<Longrightarrow> \<not> fails operation p \<Longrightarrow>
   dropWhile (fails operation) (pre @ p # post) = p # post"
  by simp

lemmas fallback_simps = try_providers_result try_providers_attempted executeWithFallback_def

section \<open>Properties\<close>

text \<open>
  C1 (refinement). The attempt loop of \<open>executeWithFallback\<close> implements its
  contract: the outcome is that of the first provider, in attempt order, on which the
  operation succeeds, paired with its name; if there is none, the aggregate error
  built from the last failure (or "No AI providers available" when nothing was tried).
  The rate-limit classification inside the loop does not change the outcome.
\<close>

theorem executeWithFallback_refines:
  "fst (executeWithFallback e ps operation pref) = fallback_spec operation (attempt_order e ps pref)"
  by (simp add: executeWithFallback_def fallback_spec_def try_providers_result)

text \<open>
  C2 (functional). First success wins: when every provider before \<open>p\<close> fails and
  \<open>p\<close> succeeds, the result is \<open>p\<close>'s with \<open>p\<close>'s name, and the operation is
  invoked on exactly the providers up to \<open>p\<close>: no provider after it is tried.
\<close>

theorem first_success_wins:
  assumes "\<forall>q \<in> set pre. fails operation q" and "operation p = Inr r"
  shows "fst (try_providers operation (pre @ p # post) le) = Inr (r, name p)
    \<and> attempted (snd (try_providers operation (pre @ p # post) le)) = map name (pre @ [p])"
proof -
  have ok: "\<not> fails operation p" using assms(2) by (simp add: fails_def)
  have "fst (try_providers operation (pre @ p # post) le) = Inr (r, name p)"
    using assms ok by (simp add: try_providers_result)
  moreover have "attempted (snd (try_providers operation (pre @ p # post) le)) = map name (pre @ [p])"
    using assms(1) ok by (simp add: try_providers_attempted invoked_first_success)
  ultimately show ?thesis by blast
qed

theorem first_success_wins_witness:
  "fails (\<lambda>p. if name p = ''Gemini'' then Inl ''429 Too Many Requests'' else Inr ''ok'') (providers ! 0)
   \<and> (\<lambda>p. if name p = ''Gemini'' then Inl ''429 Too Many Requests'' else Inr ''ok'') (providers ! 1) = Inr ''ok''
   \<and> fst (try_providers (\<lambda>p. if name p = ''Gemini'' then Inl ''429 Too Many Requests'' else Inr ''ok'')
          ([providers ! 0] @ providers ! 1 # [providers ! 2]) None) = Inr (''ok'', ''Groq'')
   \<and> attempted (snd (try_providers (\<lambda>p. if name p = ''Gemini'' then Inl ''429 Too Many Requests'' else Inr ''ok'')
          ([providers ! 0] @ providers ! 1 # [providers ! 2]) None)) = [''Gemini'', ''Groq'']"
proof -
  let ?op = "\<lambda>p. if name p = ''Gemini'' then Inl ''429 Too Many Requests'' else Inr ''ok''"
  have h1: "\<forall>q \<in> set [providers ! 0]. fails ?op q" by (simp add: fails_def providers_def)
  have h2: "?op (providers ! 1) = Inr ''ok''" by (simp add: providers_def)
  from first_success_wins [OF h1 h2, of "[providers ! 2]" None] h1 h2 show ?thesis
    by (simp add: providers_def fails_def)
qed

text \<open>
  C3 (error). Exhaustion: when every candidate fails, every one of them is tried,
  in order, and the call fails with an aggregate error whose message ends with the
  last provider's failure message.
\<close>

theorem exhaustion_last_error:
  assumes "cands \<noteq> []" and "\<forall>p \<in> set cands. fails operation p"
  shows "fst (try_providers operation cands None)
           = Inl (''All AI providers failed. Last error: '' @ projl (operation (last cands)))
    \<and> attempted (snd (try_providers operation cands None)) = map name cands"
proof -
  have dw: "dropWhile (fails operation) cands = []" using assms(2) by simp
  have "fst (try_providers operation cands None) =
      Inl (exhausted_message (Some (projl (operation (last cands)))))"
    unfolding try_providers_result dw using assms(1) by simp
  with assms show ?thesis
    by (simp add: try_providers_attempted invoked_all_fail exhausted_message_def)
qed

theorem exhaustion_last_error_witness:
  "providers \<noteq> [] \<and> list_all (fails (\<lambda>p. Inl (''down: '' @ name p))) providers
   \<and> fst (try_providers (\<lambda>p. Inl (''down: '' @ name p)) providers None)
       = Inl (''All AI providers failed. Last error: '' @ ''down: HuggingFace'')
   \<and> attempted (snd (try_providers (\<lambda>p. Inl (''down: '' @ name p)) providers None))
       = [''Gemini'', ''Groq'', ''HuggingFace'']"
proof -
  have h1: "providers \<noteq> []" by (simp add: providers_def)
  have h2: "\<forall>p \<in> set providers. fails (\<lambda>p. Inl (''down: '' @ name p)) p" by (simp add: fails_def)
  from exhaustion_last_error [OF h1 h2] h1 h2 show ?thesis
    by (simp add: providers_def fails_def)
qed

end
