(* ===== verification/AIService.thy ===== *)
theory AIService
  imports Fallback Adapters
begin

text \<open>
  The public methods of \<open>AIService\<close> (src/unnamed/part_000): each builds the
  closure for its operation, runs \<open>executeWithFallback\<close> over the registry and
  wraps \<open>{result, provider}\<close> into a \<open>ProcessedAnalysisResult\<close> whose
  timestamp is the completion time \<open>now\<close> (\<open>new Date().toISOString()\<close>).
  Only \<open>analyzeCode\<close> passes a preferred provider; the others pass none
  (\<open>undefined\<close>). Each method returns its outcome and the log of the attempt loop.
\<close>

definition run_operation :: "env \<Rightarrow> remote \<Rightarrow> operation \<Rightarrow> provider_configuration \<Rightarrow> message + string" where
  "run_operation e r op p = service_call e r (service p) op"

record analysis_request =
  req_code :: string
  req_language :: "string option"
  req_analysisType :: "analysis_type option"
  req_preferredProvider :: "provider_type option"

definition envelope :: "string \<times> string \<Rightarrow> string \<Rightarrow> string \<Rightarrow> string \<Rightarrow> processed_analysis_result" where
  "envelope rp lang kind now =
     \<lparr>analysis = fst rp, provider = snd rp,
      metadata = \<lparr>md_language = lang, md_analysisType = kind, md_timestamp = now\<rparr>\<rparr>"

definition wrap ::
  "(string outcome \<times> log_event list) \<Rightarrow> string \<Rightarrow> string \<Rightarrow> string
     \<Rightarrow> (message + processed_analysis_result) \<times> log_event list" where
  "wrap run lang kind now = (map_sum id (\<lambda>rp. envelope rp lang kind now) (fst run), snd run)"

text \<open>
  \<open>const { code, language = 'javascript', analysisType = 'general',
  preferredProvider = 'auto' } = request\<close>: the defaults apply to absent fields.
\<close>

definition request_language :: "analysis_request \<Rightarrow> string" where
  "request_language request = (case req_language request of None \<Rightarrow> ''javascript'' | Some l \<Rightarrow> l)"

definition request_analysisType :: "analysis_request \<Rightarrow> analysis_type" where
  "request_analysisType request = (case req_analysisType request of None \<Rightarrow> General | Some a \<Rightarrow> a)"

definition request_preference :: "analysis_request \<Rightarrow> provider_type" where
  "request_preference request = (case req_preferredProvider request of None \<Rightarrow> PAuto | Some p \<Rightarrow> p)"

definition analyzeCode ::
  "env \<Rightarrow> remote \<Rightarrow> provider_configuration list \<Rightarrow> string \<Rightarrow> analysis_request
     \<Rightarrow> (message + processed_analysis_result) \<times> log_event list" where
  "analyzeCode e r ps now request =
     wrap (executeWithFallback e ps
             (run_operation e r (OpAnalyze (req_code request) (request_language request)
                (request_analysisType request)))
             (Some (provider_type_name (request_preference request))))
       (request_language request) (analysis_type_name (request_analysisType request)) now"

definition explainCode ::
  "env \<Rightarrow> remote \<Rightarrow> provider_configuration list \<Rightarrow> string \<Rightarrow> string \<Rightarrow> string
     \<Rightarrow> (message + processed_analysis_result) \<times> log_event list" where
  "explainCode e r ps now code lang =
     wrap (executeWithFallback e ps (run_operation e r (OpExplain code lang)) None)
       lang ''explanation'' now"

definition suggestImprovements ::
  "env \<Rightarrow> remote \<Rightarrow> provider_configuration list \<Rightarrow> string \<Rightarrow> string \<Rightarrow> string \<Rightarrow> string
     \<Rightarrow> (message + processed_analysis_result) \<times> log_event list" where
  "suggestImprovements e r ps now code lang ctx =
     wrap (executeWithFallback e ps (run_operation e r (OpSuggest code lang ctx)) None)
       lang ''improvements'' now"

definition generateReport ::
  "env \<Rightarrow> remote \<Rightarrow> provider_configuration list \<Rightarrow> string \<Rightarrow> js_value list \<Rightarrow> js_value
     \<Rightarrow> (message + processed_analysis_result) \<times> log_event list" where
  "generateReport e r ps now results info =
     wrap (executeWithFallback e ps (run_operation e r (OpReport results info)) None)
       ''multiple'' ''report'' now"

definition getAvailableProviderNames :: "env \<Rightarrow> provider_configuration list \<Rightarrow> string list" where
  "getAvailableProviderNames e ps = map name (getAvailableProviders e ps)"

section \<open>Lemmas\<close>

lemma fst_wrap_Inr:
  "fst run = Inr rp \<Longrightarrow> fst (wrap run lang kind now) = Inr (envelope rp lang kind now)"
  by (simp add: wrap_def)

lemma fst_wrap_Inl:
  "fst run = Inl m \<Longrightarrow> fst (wrap run lang kind now) = Inl m"
  by (simp add: wrap_def)

lemma snd_wrap [simp]: "snd (wrap run lang kind now) = snd run"
  by (simp add: wrap_def)

lemma envelope_sel [simp]:
  "analysis (envelope rp lang kind now) = fst rp"
  "provider (envelope rp lang kind now) = snd rp"
  "md_language (metadata (envelope rp lang kind now)) = lang"
  "md_analysisType (metadata (envelope rp lang kind now)) = kind"
  "md_timestamp (metadata (envelope rp lang kind now)) = now"
  by (simp_all add: envelope_def)

text \<open>The report closure fails on every service without \<open>generateReport\<close>.\<close>

lemma run_report_unsupported:
  "service p \<noteq> Gemini \<Longrightarrow>
   run_operation e r (OpReport results info) p = Inl ''Report generation not supported by this provider''"
  by (cases "service p") (simp_all add: run_operation_def)

lemma run_report_Gemini:
  "service p = Gemini \<Longrightarrow> run_operation e r (OpReport results info) p = gemini_generateReport r results info"
  by (simp add: run_operation_def)

text \<open>
  A Gemini analysis that is rate limited on all three attempts fails with a message the
  orchestrator classifies as a rate limit, after exactly three calls.
\<close>

lemma gemini_analyzeCode_rate_limited:
  assumes "rate_limited_from (gemini_generate r (OpAnalyze code lang atype)) 1 3"
  shows "\<exists>msg. fst (gemini_analyzeCode r code lang atype) = Inl msg \<and> is_rate_limit_message msg
    \<and> invocations (snd (gemini_analyzeCode r code lang atype)) = [1, 2, 3]"
proof -
  let ?g = "gemini_generate r (OpAnalyze code lang atype)"
  have run: "gemini_retry ?g = (?g 3, rate_limited_trace 3 1000 1)"
    using retry_loop_rate_limited [OF _ assms] by (simp add: gemini_retry_def retryWithBackoff_def)
  obtain err where err: "?g 3 = Inl err" "is_rate_limit_error err"
    using rate_limited_from_at [OF assms, of 3] by auto
  let ?msg = "if str_includes err ''429'' then gemini_quota_message else ''Code analysis failed: '' @ err"
  have "fst (gemini_analyzeCode r code lang atype) = Inl ?msg"
    by (simp add: gemini_analyzeCode_def run err)
  moreover have "is_rate_limit_message ?msg"
    using err(2) by (auto simp: is_rate_limit_message_def is_rate_limit_error_def
        gemini_quota_message_def str_includes_append_left)
  moreover have "invocations (snd (gemini_analyzeCode r code lang atype)) = [1, 2, 3]"
    by (simp add: gemini_analyzeCode_def run case_prod_beta invocations_rate_limited_trace
        upt_conv_Cons)
  ultimately show ?thesis by blast
qed

lemma try_providers_Inr:
  assumes "fst (try_providers operation cands le) = Inr (x, n)"
  shows "\<exists>p \<in> set cands. name p = n \<and> operation p = Inr x"
proof (cases "dropWhile (fails operation) cands")
  case Nil
  with assms show ?thesis by (simp add: try_providers_result)
next
  case (Cons p rest)
  then have p: "p \<in> set cands" "\<not> fails operation p"
    by (metis list.set_intros(1) set_dropWhileD, metis dropWhile_eq_Cons_conv)
  with Cons assms show ?thesis
    by (auto simp: try_providers_result fails_def intro!: bexI [of _ p])
qed

lemmas service_defs = run_operation_def analyzeCode_def explainCode_def suggestImprovements_def
  generateReport_def getAvailableProviderNames_def request_language_def
  request_analysisType_def request_preference_def

end
