(* ===== verification/Validation.thy ===== *)
theory Validation
  imports Interface
begin

text \<open>
  Request validation and the response helpers of the backend
  (src/backend/src/utils/validation.ts, which also holds \<open>utils/responseUtils.ts\<close>).
  Inputs are JSON values of the request body. \<open>validateCode\<close> returns an error
  message or \<open>None\<close>; the \<open>validate*\<close> normalisers never fail and fall back to a
  default. A response is the status code and the JSON body \<open>{success, data}\<close> or
  \<open>{success, error, message}\<close>; the body's data is a type parameter.
\<close>

section \<open>Validation\<close>

definition code_required_message :: message where
  "code_required_message = ''Code is required and must be a non-empty string''"

definition code_too_large_message :: message where
  "code_too_large_message = ''Code is too large. Maximum size is 2MB''"

definition max_code_length :: nat where
  "max_code_length = 2000000"

definition validateCode :: "js_value \<Rightarrow> message option" where
  "validateCode code =
    (if \<not> js_truthy_value code \<or> \<not> is_js_string code \<or> length (js_trim (js_string_of code)) = 0
     then Some code_required_message
     else if length (js_string_of code) > max_code_length then Some code_too_large_message
     else None)"

definition supportedLanguages :: "string list" where
  "supportedLanguages =
    [''javascript'', ''typescript'', ''python'', ''java'', ''cpp'', ''c'', ''csharp'',
     ''php'', ''ruby'', ''go'', ''rust'', ''swift'', ''html'', ''css'', ''scss'', ''json'',
     ''markdown'', ''sql'', ''bash'', ''text'']"

definition validateLanguage :: "js_value \<Rightarrow> string" where
  "validateLanguage language =
    (if \<not> js_truthy_value language \<or> \<not> is_js_string language then ''javascript''
     else if to_lower (js_string_of language) \<in> set supportedLanguages
     then to_lower (js_string_of language)
     else ''javascript'')"

text \<open>\<open>validTypes.includes(analysisType)\<close>: only the exact string literals match.\<close>

fun validateAnalysisType :: "js_value \<Rightarrow> analysis_type" where
  "validateAnalysisType (JString s) =
    (if s = ''general'' then General
     else if s = ''security'' then Security
     else if s = ''performance'' then Performance
     else if s = ''maintainability'' then Maintainability
     else General)"
| "validateAnalysisType v = General"

fun validateProviderType :: "js_value \<Rightarrow> provider_type" where
  "validateProviderType (JString s) =
    (if s = ''gemini'' then PGemini
     else if s = ''groq'' then PGroq
     else if s = ''huggingface'' then PHuggingface
     else PAuto)"
| "validateProviderType v = PAuto"

definition validateAnalysisResults :: "js_value \<Rightarrow> message option" where
  "validateAnalysisResults results =
    (if \<not> js_truthy_value results \<or> \<not> is_js_array results
     then Some ''Analysis results must be provided as an array''
     else if length (js_array_of results) = 0 then Some ''Analysis results array cannot be empty''
     else if length (js_array_of results) > 50 then Some ''Too many analysis results. Maximum is 50''
     else None)"

section \<open>Responses\<close>

datatype 'a api_body =
  ApiSuccess 'a
| ApiError string message

record 'a http_response =
  status :: nat
  body :: "'a api_body"

definition sendSuccess :: "'a \<Rightarrow> 'a http_response" where
  "sendSuccess data = \<lparr>status = 200, body = ApiSuccess data\<rparr>"

definition sendError :: "string \<Rightarrow> message \<Rightarrow> nat \<Rightarrow> 'a http_response" where
  "sendError err msg statusCode = \<lparr>status = statusCode, body = ApiError err msg\<rparr>"

definition sendValidationError :: "message \<Rightarrow> 'a http_response" where
  "sendValidationError msg = sendError ''Validation Error'' msg 400"

definition sendServerError :: "message \<Rightarrow> 'a http_response" where
  "sendServerError msg = sendError ''Internal Server Error'' msg 500"

section \<open>Lemmas\<close>

lemma validateCode_None_iff:
  "validateCode code = None \<longleftrightarrow>
     (\<exists>s. code = JString s \<and> js_trim s \<noteq> [] \<and> length s \<le> max_code_length)"
  by (cases code) (auto simp: validateCode_def js_trim_def)

lemma validateLanguage_supported: "validateLanguage v \<in> set supportedLanguages"
  by (simp add: validateLanguage_def supportedLanguages_def)

lemma to_lower_char_idem [simp]: "to_lower_char (to_lower_char c) = to_lower_char c"
  by (auto simp: to_lower_char_def Let_def)

lemma to_lower_idem [simp]: "to_lower (to_lower s) = to_lower s"
  by (simp add: to_lower_def comp_def)

lemmas response_defs = sendSuccess_def sendError_def sendValidationError_def sendServerError_def

end
