(* ===== verification/Controller.thy ===== *)
theory Controller
  imports AIService Validation
begin

text \<open>
  The Express handlers of src/backend/src/controllers/analysisController.ts. Each takes
  the environment, the remote services, the completion time(s) and the parsed JSON body,
  and returns the HTTP response and the log of the attempt loop it ran (empty when the
  request was rejected before reaching \<open>AIService\<close>). The \<open>try/catch\<close> of each
  handler turns a rejected \<open>AIService\<close> promise into \<open>sendServerError\<close>. The
  handlers always use the module's registry \<open>providers\<close>.
\<close>

datatype response_data =
  DAnalysis processed_analysis_result
| DReport processed_analysis_result js_value string nat
| DStatus "string list" bool bool bool

type_synonym handler_result = "response_data http_response \<times> log_event list"

definition respond :: "(message + processed_analysis_result) \<times> log_event list \<Rightarrow> handler_result" where
  "respond run =
    (case fst run of
       Inl m \<Rightarrow> (sendServerError m, snd run)
     | Inr res \<Rightarrow> (sendSuccess (DAnalysis res), snd run))"

definition ctl_analyzeCode :: "env \<Rightarrow> remote \<Rightarrow> string \<Rightarrow> js_value \<Rightarrow> handler_result" where
  "ctl_analyzeCode e r now reqBody =
    (let code = js_get reqBody ''code''; language = js_get reqBody ''language'';
         analysisType = js_get reqBody ''analysisType'';
         preferredProvider = js_get reqBody ''preferredProvider''
     in case validateCode code of
          Some codeError \<Rightarrow> (sendValidationError codeError, [])
        | None \<Rightarrow>
            respond (analyzeCode e r providers now
              \<lparr>req_code = js_trim (js_string_of code),
               req_language = Some (validateLanguage language),
               req_analysisType = Some (validateAnalysisType analysisType),
               req_preferredProvider = Some (validateProviderType preferredProvider)\<rparr>))"

definition ctl_explainCode :: "env \<Rightarrow> remote \<Rightarrow> string \<Rightarrow> js_value \<Rightarrow> handler_result" where
  "ctl_explainCode e r now reqBody =
    (let code = js_get reqBody ''code''; language = js_get reqBody ''language''
     in case validateCode code of
          Some codeError \<Rightarrow> (sendValidationError codeError, [])
        | None \<Rightarrow>
            respond (explainCode e r providers now (js_trim (js_string_of code)) (validateLanguage language)))"

text \<open>\<open>const { context = '' } = req.body\<close>: the default replaces only \<open>undefined\<close>;
  the adapters embed the value with \<open>`${context}`\<close>.\<close>

definition body_context :: "js_value \<Rightarrow> string" where
  "body_context reqBody =
    (case js_get reqBody ''context'' of JUndefined \<Rightarrow> [] | v \<Rightarrow> js_to_string v)"

definition ctl_suggestImprovements :: "env \<Rightarrow> remote \<Rightarrow> string \<Rightarrow> js_value \<Rightarrow> handler_result" where
  "ctl_suggestImprovements e r now reqBody =
    (let code = js_get reqBody ''code''; language = js_get reqBody ''language''
     in case validateCode code of
          Some codeError \<Rightarrow> (sendValidationError codeError, [])
        | None \<Rightarrow>
            respond (suggestImprovements e r providers now (js_trim (js_string_of code))
              (validateLanguage language) (body_context reqBody)))"

text \<open>\<open>const { analysisResults, projectInfo = {} } = req.body\<close>; the metadata's
  \<open>generatedAt\<close> is read after the report returns.\<close>

definition ctl_generateReport :: "env \<Rightarrow> remote \<Rightarrow> string \<Rightarrow> string \<Rightarrow> js_value \<Rightarrow> handler_result" where
  "ctl_generateReport e r now generatedAt reqBody =
    (let analysisResults = js_get reqBody ''analysisResults'';
         projectInfo = (case js_get reqBody ''projectInfo'' of JUndefined \<Rightarrow> JObject [] | v \<Rightarrow> v)
     in if \<not> js_truthy_value analysisResults \<or> \<not> is_js_array analysisResults
           \<or> length (js_array_of analysisResults) = 0
        then (sendValidationError ''Analysis results must be provided as a non-empty array'', [])
        else
          (let run = generateReport e r providers now (js_array_of analysisResults) projectInfo in
           case fst run of
             Inl m \<Rightarrow> (sendServerError m, snd run)
           | Inr report \<Rightarrow>
               (sendSuccess (DReport report projectInfo generatedAt (length (js_array_of analysisResults))),
                snd run)))"

definition ctl_getProviderStatus :: "env \<Rightarrow> response_data http_response" where
  "ctl_getProviderStatus e =
     sendSuccess (DStatus (getAvailableProviderNames e providers)
       (js_truthy (GEMINI_API_KEY e)) (js_truthy (GROQ_API_KEY e)) (js_truthy (HUGGINGFACE_API_KEY e)))"

section \<open>Lemmas\<close>

lemma getAvailableProviderNames_providers:
  "getAvailableProviderNames e providers =
     (if isAvailable e Groq then [''Gemini'', ''Groq'', ''HuggingFace''] else [''Gemini'', ''HuggingFace''])"
  by (simp add: getAvailableProviderNames_def getAvailableProviders_def providers_def passes_check_def)

lemma supportedLanguages_normal: "\<forall>x \<in> set supportedLanguages. x \<noteq> [] \<and> to_lower x = x"
  by (simp add: supportedLanguages_def model_simps)

lemma ctl_generateReport_accepts:
  "js_truthy_value v \<Longrightarrow> is_js_array v \<Longrightarrow> js_array_of v \<noteq> [] \<Longrightarrow>
   status (fst (ctl_generateReport e r now at (JObject [(''analysisResults'', v)]))) \<in> {200, 500}"
  by (auto simp: ctl_generateReport_def js_get_def response_defs Let_def split: sum.splits)

lemmas controller_defs = ctl_analyzeCode_def ctl_explainCode_def ctl_suggestImprovements_def
  ctl_generateReport_def ctl_getProviderStatus_def respond_def

section \<open>Properties\<close>

text \<open>
  C13 (error). A request whose \<open>code\<close> fails validation is answered 400 with the
  validation message and never reaches the orchestrator: no provider is attempted.
\<close>

theorem ctl_analyzeCode_validation:
  assumes "validateCode (js_get reqBody ''code'') = Some m"
  shows "ctl_analyzeCode e r now reqBody = (sendValidationError m, [])"
  using assms by (simp add: ctl_analyzeCode_def Let_def)

theorem ctl_analyzeCode_validation_witness:
  "validateCode (js_get (JObject [(''code'', JString '''')]) ''code'') = Some code_required_message
   \<and> ctl_analyzeCode
       \<lparr>GEMINI_API_KEY = None, GROQ_API_KEY = None, HUGGINGFACE_API_KEY = None\<rparr>
       \<lparr>gemini_generate = (\<lambda>op k. Inl ''unused''), groq_create = (\<lambda>op. Inl ''unused''), hf_fetch = (\<lambda>k p. HfFetchError ''unused'')\<rparr>
       ''t'' (JObject [(''code'', JString '''')])
       = (\<lparr>status = 400, body = ApiError ''Validation Error''
            ''Code is required and must be a non-empty string''\<rparr>, [])"
proof -
  have h: "validateCode (js_get (JObject [(''code'', JString '''')]) ''code'') = Some code_required_message"
    by (simp add: validateCode_def js_get_def)
  from ctl_analyzeCode_validation [OF h, of "\<lparr>GEMINI_API_KEY = None, GROQ_API_KEY = None, HUGGINGFACE_API_KEY = None\<rparr>" "\<lparr>gemini_generate = (\<lambda>op k. Inl ''unused''), groq_create = (\<lambda>op. Inl ''unused''), hf_fetch = (\<lambda>k p. HfFetchError ''unused'')\<rparr>" "''t''"] h show ?thesis
    by (simp add: response_defs code_required_message_def)
qed

text \<open>
  The end-to-end scenario of the spec: \<open>console.log(1)\<close> as
  JavaScript, general analysis, preference \<open>auto\<close>, with only the Gemini key set and
  Gemini answering a JSON-shaped text, gives status 200 and the envelope holding that
  text, provider Gemini and metadata \<open>javascript\<close>/\<open>general\<close>/completion time;
  only Gemini is attempted.
\<close>

theorem ctl_analyzeCode_scenario:
  \<open>ctl_analyzeCode \<lparr>GEMINI_API_KEY = Some ''key'', GROQ_API_KEY = None, HUGGINGFACE_API_KEY = None\<rparr>
     \<lparr>gemini_generate = (\<lambda>op k. Inr (Inr ''{"quality_score":8,"issues":[],"summary":"ok","recommendations":[]}'')),
      groq_create = (\<lambda>op. Inl ''unused''), hf_fetch = (\<lambda>k p. HfFetchError ''unused'')\<rparr>
     ''2026-11-09T00:00:00.000Z''
     (JObject [(''code'', JString ''console.log(1)''), (''language'', JString ''javascript''),
               (''analysisType'', JString ''general''), (''preferredProvider'', JString ''auto'')])
   = (\<lparr>status = 200, body = ApiSuccess (DAnalysis
        \<lparr>analysis = ''{"quality_score":8,"issues":[],"summary":"ok","recommendations":[]}'',
         provider = ''Gemini'',
         metadata = \<lparr>md_language = ''javascript'', md_analysisType = ''general'',
                     md_timestamp = ''2026-11-09T00:00:00.000Z''\<rparr>\<rparr>)\<rparr>,
      [Attempting ''Gemini'', Succeeded ''Gemini''])\<close>
proof -
  have order: "attempt_order \<lparr>GEMINI_API_KEY = Some ''key'', GROQ_API_KEY = None, HUGGINGFACE_API_KEY = None\<rparr>
      providers (Some ''auto'') = [providers ! 0, providers ! 2]"
    by (simp add: attempt_order_providers wants_preference_def js_truthy_def)
  show ?thesis
    unfolding ctl_analyzeCode_def analyzeCode_def executeWithFallback_def request_language_def
      request_analysisType_def request_preference_def
    by (simp add: js_get_def validateCode_def js_trim_def is_js_space_def max_code_length_def
        validateLanguage_def supportedLanguages_def model_simps order)
      (simp add: respond_def wrap_def envelope_def providers_def run_operation_def gemini_analyzeCode_def
        gemini_retry_def retryWithBackoff_def retry_loop_unfold_in response_defs)
qed

text \<open>
  Language normalisation always yields a supported language and is
  idempotent: validating an already validated language returns it unchanged.
\<close>

theorem validateLanguage_normalises:
  "validateLanguage v \<in> set supportedLanguages
   \<and> validateLanguage (JString (validateLanguage v)) = validateLanguage v"
proof -
  have sup: "validateLanguage v \<in> set supportedLanguages" by (rule validateLanguage_supported)
  with supportedLanguages_normal have "validateLanguage v \<noteq> [] \<and> to_lower (validateLanguage v) = validateLanguage v"
    by blast
  with sup show ?thesis by (simp add: validateLanguage_def [of "JString (validateLanguage v)"])
qed

text \<open>
  C14 (safety). The report handler does not enforce the 50-result limit of
  \<open>validateAnalysisResults\<close>, which no handler calls: a request with more than 50
  results is rejected by \<open>validateAnalysisResults\<close>, yet the handler does not answer
  it with 400.
\<close>

theorem ctl_generateReport_no_limit:
  assumes "50 < length xs"
  shows "validateAnalysisResults (JArray xs) = Some ''Too many analysis results. Maximum is 50''
    \<and> status (fst (ctl_generateReport e r now at (JObject [(''analysisResults'', JArray xs)]))) \<noteq> 400"
proof -
  have ne: "xs \<noteq> []" using assms by auto
  have "status (fst (ctl_generateReport e r now at (JObject [(''analysisResults'', JArray xs)]))) \<in> {200, 500}"
    using ne by (intro ctl_generateReport_accepts) simp_all
  with assms ne show ?thesis by (auto simp: validateAnalysisResults_def)
qed

theorem ctl_generateReport_no_limit_witness:
  "50 < length (replicate 51 JNull)
   \<and> validateAnalysisResults (JArray (replicate 51 JNull)) = Some ''Too many analysis results. Maximum is 50''
   \<and> status (fst (ctl_generateReport
       \<lparr>GEMINI_API_KEY = None, GROQ_API_KEY = None, HUGGINGFACE_API_KEY = None\<rparr>
       \<lparr>gemini_generate = (\<lambda>op k. Inl ''unused''), groq_create = (\<lambda>op. Inl ''unused''), hf_fetch = (\<lambda>k p. HfFetchError ''unused'')\<rparr>
       ''t'' ''t'' (JObject [(''analysisResults'', JArray (replicate 51 JNull))]))) \<noteq> 400"
  using ctl_generateReport_no_limit [of "replicate 51 JNull" "\<lparr>GEMINI_API_KEY = None, GROQ_API_KEY = None, HUGGINGFACE_API_KEY = None\<rparr>" "\<lparr>gemini_generate = (\<lambda>op k. Inl ''unused''), groq_create = (\<lambda>op. Inl ''unused''), hf_fetch = (\<lambda>k p. HfFetchError ''unused'')\<rparr>" "''t''" "''t''"] by simp

text \<open>
  The status endpoint lists Gemini and HuggingFace as available in
  every environment and Groq exactly when its key is set, while its configuration flags
  report each key: with \<open>HUGGINGFACE_API_KEY\<close> unset the two disagree about HuggingFace.
\<close>

theorem ctl_getProviderStatus_eq:
  "ctl_getProviderStatus e =
     \<lparr>status = 200, body = ApiSuccess (DStatus
        ([''Gemini''] @ (if js_truthy (GROQ_API_KEY e) then [''Groq''] else []) @ [''HuggingFace''])
        (js_truthy (GEMINI_API_KEY e)) (js_truthy (GROQ_API_KEY e)) (js_truthy (HUGGINGFACE_API_KEY e)))\<rparr>"
  by (simp add: ctl_getProviderStatus_def getAvailableProviderNames_providers sendSuccess_def)

end
