(* ===== verification/Routes.thy ===== *)
theory Routes
  imports Controller
begin

text \<open>
  The Express application (src/backend/src/app.ts) and its router
  (src/backend/src/routes/analysisRoutes.ts): the JSON bodies \<open>res.json\<close> writes
  for the response helpers, the route table with Express's default matching
  (case-insensitive, a trailing slash allowed), the body parser that runs before
  every route, the 404 handler and the global error handler. \<open>app_handle\<close> serves
  one request: its method, its path and its body as the JSON parser sees it
  (\<open>Inl\<close> the parser's message when the body is not valid JSON); it returns the
  status, the JSON body and the log of the attempt loop. \<open>NODE_ENV\<close> and the
  clock are parameters; the two clock reads of the report handler are one instant.
  helmet, CORS and the url-encoded parser do not change a JSON request's outcome.
\<close>

section \<open>Response bodies\<close>

definition result_json :: "processed_analysis_result \<Rightarrow> js_value" where
  "result_json res =
     JObject [(''analysis'', JString (analysis res)), (''provider'', JString (provider res)),
              (''metadata'', JObject [(''language'', JString (md_language (metadata res))),
                                      (''analysisType'', JString (md_analysisType (metadata res))),
                                      (''timestamp'', JString (md_timestamp (metadata res)))])]"

fun data_json :: "response_data \<Rightarrow> js_value" where
  "data_json (DAnalysis res) = result_json res"
| "data_json (DReport report projectInfo generatedAt resultsCount) =
     JObject [(''report'', result_json report),
              (''metadata'', JObject [(''projectInfo'', projectInfo), (''generatedAt'', JString generatedAt),
                                      (''resultsCount'', JNumber (int resultsCount))])]"
| "data_json (DStatus names gemini groq huggingface) =
     JObject [(''available_providers'', JArray (map JString names)),
              (''provider_configs'', JObject [(''gemini'', JBool gemini), (''groq'', JBool groq),
                                             (''huggingface'', JBool huggingface)])]"

fun body_json :: "response_data api_body \<Rightarrow> js_value" where
  "body_json (ApiSuccess d) = JObject [(''success'', JBool True), (''data'', data_json d)]"
| "body_json (ApiError err msg) =
     JObject [(''success'', JBool False), (''error'', JString err), (''message'', JString msg)]"

definition wire :: "handler_result \<Rightarrow> http_outcome \<times> log_event list" where
  "wire hr = (HttpResponse (status (fst hr)) (body_json (body (fst hr))), snd hr)"

section \<open>Routing\<close>

datatype route = RHealth | RAnalyze | RExplain | RImprove | RReport | RStatus

text \<open>\<open>app.get('/health')\<close>, then \<open>app.use('/api/analysis', analysisRoutes)\<close>
  with the router's five routes, in registration order.\<close>

definition route_table :: "(http_method \<times> string \<times> route) list" where
  "route_table =
    [(GET, ''/health'', RHealth),
     (POST, ''/api/analysis/analyze'', RAnalyze),
     (POST, ''/api/analysis/explain'', RExplain),
     (POST, ''/api/analysis/improve'', RImprove),
     (POST, ''/api/analysis/report'', RReport),
     (GET, ''/api/analysis/status'', RStatus)]"

text \<open>Express's default matching: not case sensitive, not strict about one
  trailing slash.\<close>

definition path_matches :: "string \<Rightarrow> string \<Rightarrow> bool" where
  "path_matches pattern p \<longleftrightarrow> to_lower p = to_lower pattern \<or> to_lower p = to_lower pattern @ ''/''"

definition find_route :: "http_method \<Rightarrow> string \<Rightarrow> route option" where
  "find_route m p =
     map_option (\<lambda>(m', pat, rt). rt) (find (\<lambda>(m', pat, rt). m' = m \<and> path_matches pat p) route_table)"

definition not_found_json :: js_value where
  "not_found_json =
     JObject [(''error'', JString ''Not Found''), (''message'', JString ''The requested endpoint does not exist'')]"

definition global_error :: "string \<Rightarrow> message \<Rightarrow> http_outcome" where
  "global_error nodeEnv msg =
     HttpResponse 500 (JObject [(''error'', JString ''Internal Server Error''),
       (''message'', JString (if nodeEnv = ''development'' then msg else ''Something went wrong''))])"

definition health_json :: "string \<Rightarrow> string \<Rightarrow> js_value" where
  "health_json nodeEnv now =
     JObject [(''status'', JString ''ok''), (''timestamp'', JString now), (''environment'', JString nodeEnv)]"

fun dispatch :: "env \<Rightarrow> remote \<Rightarrow> string \<Rightarrow> string \<Rightarrow> route \<Rightarrow> js_value \<Rightarrow> http_outcome \<times> log_event list" where
  "dispatch e r nodeEnv now RHealth b = (HttpResponse 200 (health_json nodeEnv now), [])"
| "dispatch e r nodeEnv now RAnalyze b = wire (ctl_analyzeCode e r now b)"
| "dispatch e r nodeEnv now RExplain b = wire (ctl_explainCode e r now b)"
| "dispatch e r nodeEnv now RImprove b = wire (ctl_suggestImprovements e r now b)"
| "dispatch e r nodeEnv now RReport b = wire (ctl_generateReport e r now now b)"
| "dispatch e r nodeEnv now RStatus b = wire (ctl_getProviderStatus e, [])"

definition app_handle ::
  "env \<Rightarrow> remote \<Rightarrow> string \<Rightarrow> string \<Rightarrow> http_method \<Rightarrow> string \<Rightarrow> message + js_value
     \<Rightarrow> http_outcome \<times> log_event list" where
  "app_handle e r nodeEnv now m p parsedBody =
    (case parsedBody of
       Inl parseError \<Rightarrow> (global_error nodeEnv parseError, [])
     | Inr b \<Rightarrow>
         (case find_route m p of
            None \<Rightarrow> (HttpResponse 404 not_found_json, [])
          | Some rt \<Rightarrow> dispatch e r nodeEnv now rt b))"

section \<open>Response shape\<close>

text \<open>A handler response whose status agrees with its body: 200 with data, 400 or 500 with an error.\<close>

definition well_formed :: "response_data http_response \<Rightarrow> bool" where
  "well_formed resp \<longleftrightarrow>
     (case body resp of ApiSuccess d \<Rightarrow> status resp = 200 | ApiError err msg \<Rightarrow> status resp \<in> {400, 500})"

section \<open>Lemmas\<close>

lemma well_formed_helpers [simp]:
  "well_formed (sendSuccess d)" "well_formed (sendValidationError m)" "well_formed (sendServerError m)"
  by (simp_all add: well_formed_def response_defs)

lemma well_formed_respond: "well_formed (fst (respond run))"
  by (simp add: respond_def split: sum.split)

lemma well_formed_handlers:
  "well_formed (fst (ctl_analyzeCode e r now b))"
  "well_formed (fst (ctl_explainCode e r now b))"
  "well_formed (fst (ctl_suggestImprovements e r now b))"
  "well_formed (fst (ctl_generateReport e r now at b))"
  "well_formed (ctl_getProviderStatus e)"
  by (simp_all add: controller_defs Let_def well_formed_respond split: option.split sum.split)

lemma wire_well_formed:
  "well_formed (fst hr) \<Longrightarrow>
   \<exists>st j. fst (wire hr) = HttpResponse st j \<and> st \<in> {200, 400, 500} \<and> js_get j ''success'' = JBool (st = 200)"
  by (auto simp: wire_def well_formed_def js_get_def split: api_body.splits)

lemma dispatch_wire:
  "rt \<noteq> RHealth \<Longrightarrow> \<exists>hr. dispatch e r nodeEnv now rt b = wire hr \<and> well_formed (fst hr)"
proof (cases rt)
  case RStatus
  then show ?thesis using well_formed_handlers(5) [of e] by (metis dispatch.simps(6) fst_conv)
qed (simp_all only: dispatch.simps; blast intro: well_formed_handlers)+

section \<open>Properties\<close>

text \<open>
  Every response of an API route to a well-formed JSON body has status
  200, 400 or 500 and a \<open>success\<close> flag that is true exactly for 200, so the client's
  \<open>!response.data.success\<close> branch is never taken for this server.
\<close>

theorem app_response_shape:
  assumes "find_route m p = Some rt" and "rt \<noteq> RHealth"
  shows "\<exists>st j. fst (app_handle e r nodeEnv now m p (Inr b)) = HttpResponse st j
           \<and> st \<in> {200, 400, 500} \<and> js_get j ''success'' = JBool (st = 200)"
proof -
  obtain hr where hr: "dispatch e r nodeEnv now rt b = wire hr" "well_formed (fst hr)"
    using dispatch_wire [OF assms(2)] by blast
  have "app_handle e r nodeEnv now m p (Inr b) = wire hr"
    using assms(1) hr(1) by (simp add: app_handle_def)
  with wire_well_formed [OF hr(2)] show ?thesis by simp
qed

theorem app_response_shape_witness:
  "find_route POST ''/api/analysis/analyze'' = Some RAnalyze \<and> RAnalyze \<noteq> RHealth
   \<and> (\<exists>st j. fst (app_handle \<lparr>GEMINI_API_KEY = None, GROQ_API_KEY = None, HUGGINGFACE_API_KEY = None\<rparr>
        \<lparr>gemini_generate = (\<lambda>op k. Inl ''down''), groq_create = (\<lambda>op. Inl ''down''), hf_fetch = (\<lambda>k p. HfFetchError ''down'')\<rparr>
        ''production'' ''t'' POST ''/api/analysis/analyze'' (Inr (JObject [])))
        = HttpResponse st j \<and> st \<in> {200, 400, 500} \<and> js_get j ''success'' = JBool (st = 200))"
proof -
  have rt: "find_route POST ''/api/analysis/analyze'' = Some RAnalyze"
    by (simp add: find_route_def route_table_def path_matches_def model_simps)
  show ?thesis using app_response_shape [OF rt] rt by simp
qed

text \<open>
  Routing follows Express's defaults: paths match without regard to
  case and with one trailing slash, the method must match, and anything else falls
  through to the 404 handler; the status route is \<open>/status\<close>, and \<open>/providers\<close>
  is not served.
\<close>

theorem route_matching:
  "find_route POST ''/API/Analysis/Analyze/'' = Some RAnalyze
   \<and> find_route POST ''/api/analysis/improve'' = Some RImprove
   \<and> find_route GET ''/api/analysis/analyze'' = None
   \<and> find_route POST ''/api/analysis/status'' = None
   \<and> find_route GET ''/api/analysis/status//'' = None
   \<and> find_route GET ''/api/analysis/providers'' = None"
  by (simp add: find_route_def route_table_def path_matches_def model_simps)


end
