(* ===== verification/Contract.thy ===== *)
theory Contract
  imports Routes Display
begin

text \<open>
  The contract between the backend, the frontend and the AI: the TypeScript types of
  src/backend/src/interfaces/AIProvider.ts (its \<open>types/analysis\<close> part) and of the
  display (src/unnamed/part_002) as values of \<open>ts_type\<close>, with \<open>conforms\<close> deciding
  whether a JSON value has a type (interfaces are open: other keys are allowed). The
  lemmas show what the declared types guarantee: the server's responses have them, and
  analyses that have them are aggregated and displayed without a \<open>TypeError\<close>; the
  display's own looser declaration admits an analysis it cannot render.
\<close>

section \<open>TypeScript types of the contract\<close>

text \<open>A TypeScript type as far as the contract uses it: primitives, string literal
  unions, arrays, interfaces (each field with its optionality), \<open>Record<string, T>\<close>
  and \<open>any\<close>.\<close>

datatype ts_type =
  TString
| TNumber
| TBool
| TLit string
| TUnion "ts_type list"
| TArray ts_type
| TObject "(string \<times> bool \<times> ts_type) list"
| TRecord ts_type
| TAny

text \<open>Does a JSON value have a type? An optional field may be absent.\<close>

fun conforms :: "js_value \<Rightarrow> ts_type \<Rightarrow> bool" where
  "conforms v TString = is_js_string v"
| "conforms v TNumber = (case v of JNumber n \<Rightarrow> True | _ \<Rightarrow> False)"
| "conforms v TBool = (case v of JBool b \<Rightarrow> True | _ \<Rightarrow> False)"
| "conforms v (TLit s) = (v = JString s)"
| "conforms v (TUnion ts) = list_ex (conforms v) ts"
| "conforms v (TArray t) = (case v of JArray xs \<Rightarrow> list_all (\<lambda>x. conforms x t) xs | _ \<Rightarrow> False)"
| "conforms v (TObject fs) =
     (is_js_object v \<and> list_all (\<lambda>(k, opt, t). (opt \<and> js_get v k = JUndefined) \<or> conforms (js_get v k) t) fs)"
| "conforms v (TRecord t) = (case v of JObject ps \<Rightarrow> list_all (\<lambda>(k, x). conforms x t) ps | _ \<Rightarrow> False)"
| "conforms v TAny = True"

definition lit_union :: "string list \<Rightarrow> ts_type" where
  "lit_union ss = TUnion (map TLit ss)"

definition IssueSeverity_type :: ts_type where
  "IssueSeverity_type = lit_union [''low'', ''medium'', ''high'', ''critical'']"

definition IssueType_type :: ts_type where
  "IssueType_type = lit_union [''bug'', ''performance'', ''security'', ''style'', ''maintainability'']"

definition Issue_type :: ts_type where
  "Issue_type =
     TObject [(''type'', False, IssueType_type), (''severity'', False, IssueSeverity_type),
              (''description'', False, TString), (''line'', True, TNumber), (''suggestion'', False, TString),
              (''codeSnippet'', True, TString), (''references'', True, TArray TString)]"

definition AnalysisResult_type :: ts_type where
  "AnalysisResult_type =
     TObject [(''quality_score'', False, TNumber), (''issues'', False, TArray Issue_type),
              (''summary'', False, TString), (''recommendations'', False, TArray TString)]"

text \<open>The display's own declarations (src/unnamed/part_002): every field optional,
  and the object open to other keys.\<close>

definition DisplayIssue_type :: ts_type where
  "DisplayIssue_type =
     TObject [(''type'', True, TString), (''severity'', True, TString), (''description'', True, TString),
              (''message'', True, TString), (''line'', True, TNumber), (''codeSnippet'', True, TString),
              (''suggestion'', True, TString), (''references'', True, TArray TString)]"

definition ParsedAnalysis_type :: ts_type where
  "ParsedAnalysis_type =
     TObject [(''quality_score'', True, TNumber), (''summary'', True, TString),
              (''issues'', True, TArray DisplayIssue_type), (''recommendations'', True, TArray TString)]"

definition ProcessedAnalysisResult_type :: ts_type where
  "ProcessedAnalysisResult_type =
     TObject [(''analysis'', False, TString), (''provider'', False, TString),
              (''metadata'', False, TObject [(''language'', False, TString), (''analysisType'', False, TString),
                                            (''timestamp'', False, TString)])]"

definition ApiResponse_type :: "ts_type \<Rightarrow> ts_type" where
  "ApiResponse_type t =
     TObject [(''success'', False, TBool), (''data'', True, t), (''error'', True, TString), (''message'', True, TString)]"

definition ProviderStatus_type :: ts_type where
  "ProviderStatus_type =
     TObject [(''available_providers'', False, TArray TString), (''provider_configs'', False, TRecord TBool)]"

text \<open>The data of a successful \<open>/report\<close>, as the handler builds it (no interface
  declares it).\<close>

definition report_data_type :: ts_type where
  "report_data_type =
     TObject [(''report'', False, ProcessedAnalysisResult_type),
              (''metadata'', False, TObject [(''projectInfo'', False, TAny), (''generatedAt'', False, TString),
                                            (''resultsCount'', False, TNumber)])]"

fun route_data_type :: "route \<Rightarrow> ts_type" where
  "route_data_type RAnalyze = ProcessedAnalysisResult_type"
| "route_data_type RExplain = ProcessedAnalysisResult_type"
| "route_data_type RImprove = ProcessedAnalysisResult_type"
| "route_data_type RReport = report_data_type"
| "route_data_type RStatus = ProviderStatus_type"
| "route_data_type RHealth = TAny"

section \<open>Lemmas\<close>

lemma error_body_conforms: "conforms (body_json (ApiError err msg)) (ApiResponse_type t)"
  by (simp add: ApiResponse_type_def js_get_def)

lemma success_conforms:
  "conforms (body_json (body (sendSuccess (DAnalysis res)))) (ApiResponse_type ProcessedAnalysisResult_type)"
  "conforms (body_json (body (sendSuccess (DReport res projectInfo generatedAt n)))) (ApiResponse_type report_data_type)"
  "conforms (body_json (body (sendSuccess (DStatus names gemini groq huggingface))))
     (ApiResponse_type ProviderStatus_type)"
  by (simp_all add: response_defs ApiResponse_type_def result_json_def ProcessedAnalysisResult_type_def
      report_data_type_def ProviderStatus_type_def js_get_def list_all_iff)

lemma error_conforms:
  "conforms (body_json (body (sendValidationError m :: response_data http_response))) (ApiResponse_type t)"
  "conforms (body_json (body (sendServerError m :: response_data http_response))) (ApiResponse_type t)"
  by (simp_all add: response_defs ApiResponse_type_def js_get_def)

lemma respond_conforms:
  "conforms (body_json (body (fst (respond run)))) (ApiResponse_type ProcessedAnalysisResult_type)"
  by (simp add: respond_def success_conforms error_conforms split: sum.split)

lemma handlers_conform:
  "conforms (body_json (body (fst (ctl_analyzeCode e r now b)))) (ApiResponse_type ProcessedAnalysisResult_type)"
  "conforms (body_json (body (fst (ctl_explainCode e r now b)))) (ApiResponse_type ProcessedAnalysisResult_type)"
  "conforms (body_json (body (fst (ctl_suggestImprovements e r now b)))) (ApiResponse_type ProcessedAnalysisResult_type)"
  "conforms (body_json (body (fst (ctl_generateReport e r now gen b)))) (ApiResponse_type report_data_type)"
  "conforms (body_json (body (ctl_getProviderStatus e))) (ApiResponse_type ProviderStatus_type)"
  by (simp_all add: ctl_analyzeCode_def ctl_explainCode_def ctl_suggestImprovements_def ctl_generateReport_def
      ctl_getProviderStatus_def Let_def respond_conforms success_conforms error_conforms
      split: option.split sum.split)

lemma traverse_sum_ok: "\<forall>x \<in> set xs. \<exists>y. f x = Inr y \<Longrightarrow> \<exists>ys. traverse_sum f xs = Inr ys"
  by (induction xs) auto

lemma conforms_lit_union: "conforms v (lit_union ss) \<longleftrightarrow> (\<exists>s. v = JString s \<and> s \<in> set ss)"
  by (induction ss) (auto simp: lit_union_def)

lemma conforms_required: "conforms v (TObject fs) \<Longrightarrow> (k, False, t) \<in> set fs \<Longrightarrow> conforms (js_get v k) t"
  by (auto simp: list_all_iff)

lemma conforms_optional:
  "conforms v (TObject fs) \<Longrightarrow> (k, True, t) \<in> set fs \<Longrightarrow> js_get v k = JUndefined \<or> conforms (js_get v k) t"
  by (auto simp: list_all_iff)

lemma conforms_object: "conforms v (TObject fs) \<Longrightarrow> is_js_object v"
  by simp

lemma conforms_string: "conforms v TString \<longleftrightarrow> (\<exists>s. v = JString s)"
  by (cases v) auto

lemma conforms_number: "conforms v TNumber \<longleftrightarrow> (\<exists>n. v = JNumber n)"
  by (cases v) auto

lemma conforms_array: "conforms v (TArray t) \<longleftrightarrow> (\<exists>xs. v = JArray xs \<and> (\<forall>x \<in> set xs. conforms x t))"
  by (cases v) (auto simp: list_all_iff)

lemma typed_issue_fields:
  assumes "conforms i Issue_type" and "conforms i DisplayIssue_type"
  shows "is_js_object i"
    and "\<exists>ty. js_get i ''type'' = JString ty \<and> ty \<in> set [''bug'', ''performance'', ''security'', ''style'', ''maintainability'']"
    and "\<exists>sev. js_get i ''severity'' = JString sev"
    and "\<exists>d. js_get i ''description'' = JString d"
    and "js_get i ''message'' = JUndefined \<or> (\<exists>m. js_get i ''message'' = JString m)"
    and "js_get i ''line'' = JUndefined \<or> (\<exists>n. js_get i ''line'' = JNumber n)"
proof -
  have I: "conforms i (TObject [(''type'', False, IssueType_type), (''severity'', False, IssueSeverity_type),
              (''description'', False, TString), (''line'', True, TNumber), (''suggestion'', False, TString),
              (''codeSnippet'', True, TString), (''references'', True, TArray TString)])"
    using assms(1) by (simp only: Issue_type_def)
  have D: "conforms i (TObject [(''type'', True, TString), (''severity'', True, TString), (''description'', True, TString),
              (''message'', True, TString), (''line'', True, TNumber), (''codeSnippet'', True, TString),
              (''suggestion'', True, TString), (''references'', True, TArray TString)])"
    using assms(2) by (simp only: DisplayIssue_type_def)
  show "is_js_object i" using conforms_object [OF I] .
  show "\<exists>ty. js_get i ''type'' = JString ty \<and> ty \<in> set [''bug'', ''performance'', ''security'', ''style'', ''maintainability'']"
    using conforms_required [OF I, of "''type''" IssueType_type] unfolding IssueType_type_def conforms_lit_union
    by simp
  have "\<exists>s. js_get i ''severity'' = JString s \<and> s \<in> set [''low'', ''medium'', ''high'', ''critical'']"
    using conforms_required [OF I, of "''severity''" IssueSeverity_type] unfolding IssueSeverity_type_def conforms_lit_union
    by simp
  then show "\<exists>sev. js_get i ''severity'' = JString sev" by blast
  show "\<exists>d. js_get i ''description'' = JString d"
    using conforms_required [OF I, of "''description''" TString] by (simp add: conforms_string del: conforms.simps)
  show "js_get i ''message'' = JUndefined \<or> (\<exists>m. js_get i ''message'' = JString m)"
    using conforms_optional [OF D, of "''message''" TString] by (simp add: conforms_string del: conforms.simps)
  show "js_get i ''line'' = JUndefined \<or> (\<exists>n. js_get i ''line'' = JNumber n)"
    using conforms_optional [OF I, of "''line''" TNumber] by (simp add: conforms_number del: conforms.simps)
qed

lemma typed_issue_card:
  assumes "conforms i Issue_type" and "conforms i DisplayIssue_type"
  shows "\<exists>c. IssueCard i = Inr c"
proof -
  note f = typed_issue_fields [OF assms]
  obtain ty sev d where ty: "js_get i ''type'' = JString ty" and sev: "js_get i ''severity'' = JString sev"
    and d: "js_get i ''description'' = JString d"
    using f(2-4) by blast
  have desc: "\<exists>t. js_or_value (js_get i ''description'') (js_or_value (js_get i ''message'') (JString ''No description available''))
      = JString t"
    using d f(5) by (auto simp: js_or_value_def)
  have ln: "\<not> (js_truthy_value (js_get i ''line'') \<and> \<not> react_child_ok (js_get i ''line''))"
    using f(6) by auto
  show ?thesis
    using ty sev desc ln
    by (auto simp: IssueCard_def getSeverityConfig_def getTypeIcon_def lower_key_def js_or_value_def format_value_def Let_def)
qed

lemma typed_issue_key:
  assumes "conforms i Issue_type" and "conforms i DisplayIssue_type"
  shows "\<exists>k. checked_key i = Inr k"
proof -
  note f = typed_issue_fields [OF assms]
  obtain ty where ty: "js_get i ''type'' = JString ty"
      "ty \<in> set [''bug'', ''performance'', ''security'', ''style'', ''maintainability'']"
    using f(2) by blast
  have "i \<noteq> JNull" "i \<noteq> JUndefined" using f(1) by auto
  moreover have "ty \<noteq> []" "ty \<notin> set object_prototype_members"
    using ty(2) by (auto simp: object_prototype_members_def)
  ultimately show ?thesis
    using ty(1) by (simp add: checked_key_def issue_group_key_def read_property_def)
qed

lemma group_step_ok:
  assumes "checked_key x = Inr k"
  shows "\<exists>g. group_step (Inr acc) x = Inr g \<and> set (concat (map snd g)) \<subseteq> set (concat (map snd acc)) \<union> {x}"
proof -
  have k: "issue_group_key x = Inr k" "k \<notin> set object_prototype_members"
    using assms by (simp_all add: checked_key_Inr)
  show ?thesis
  proof (cases "map_of acc k")
    case None
    then show ?thesis using k by (auto simp: group_step_def)
  next
    case (Some g)
    then show ?thesis using k by (fastforce simp: group_step_def split: if_splits)
  qed
qed

lemma group_fold_ok:
  assumes "\<forall>x \<in> set xs. \<exists>k. checked_key x = Inr k"
  shows "\<exists>g. foldl group_step (Inr acc) xs = Inr g
           \<and> set (concat (map snd g)) \<subseteq> set (concat (map snd acc)) \<union> set xs"
  using assms
proof (induction xs arbitrary: acc)
  case Nil
  then show ?case by simp
next
  case (Cons x xs)
  obtain k where "checked_key x = Inr k" using Cons.prems by auto
  then obtain g where g: "group_step (Inr acc) x = Inr g"
      "set (concat (map snd g)) \<subseteq> set (concat (map snd acc)) \<union> {x}"
    using group_step_ok by blast
  obtain g' where "foldl group_step (Inr g) xs = Inr g'"
      "set (concat (map snd g')) \<subseteq> set (concat (map snd g)) \<union> set xs"
    using Cons.IH [of g] Cons.prems by auto
  then show ?case using g by auto
qed

lemma groupIssuesByType_ok:
  assumes "\<forall>x \<in> set xs. \<exists>k. checked_key x = Inr k"
  shows "\<exists>g. groupIssuesByType xs = Inr g \<and> set (concat (map snd g)) \<subseteq> set xs"
  using group_fold_ok [OF assms, of "[]"] by (simp add: groupIssuesByType_def)

lemma set_object_entries [simp]: "set (object_entries ps) = set ps"
  by (auto simp: object_entries_def)

lemma typed_structured:
  assumes "conforms pa AnalysisResult_type" and "conforms pa ParsedAnalysis_type"
  shows "\<exists>sv. structured pa = Inr sv"
proof -
  have A: "conforms pa (TObject [(''quality_score'', False, TNumber), (''issues'', False, TArray Issue_type),
              (''summary'', False, TString), (''recommendations'', False, TArray TString)])"
    using assms(1) by (simp only: AnalysisResult_type_def)
  have P: "conforms pa (TObject [(''quality_score'', True, TNumber), (''summary'', True, TString),
              (''issues'', True, TArray DisplayIssue_type), (''recommendations'', True, TArray TString)])"
    using assms(2) by (simp only: ParsedAnalysis_type_def)
  obtain iss where iss: "js_get pa ''issues'' = JArray iss" "\<forall>i \<in> set iss. conforms i Issue_type"
    using conforms_required [OF A, of "''issues''" "TArray Issue_type"] by (auto simp: conforms_array simp del: conforms.simps)
  have "\<forall>i \<in> set iss. conforms i DisplayIssue_type"
    using conforms_optional [OF P, of "''issues''" "TArray DisplayIssue_type"] iss(1) by (auto simp: conforms_array simp del: conforms.simps)
  with iss have typed: "\<forall>i \<in> set iss. conforms i Issue_type \<and> conforms i DisplayIssue_type" by blast
  obtain rs where rs: "js_get pa ''recommendations'' = JArray rs" "\<forall>r \<in> set rs. conforms r TString"
    using conforms_required [OF A, of "''recommendations''" "TArray TString"] by (auto simp: conforms_array simp del: conforms.simps)
  obtain sm where sm: "js_get pa ''summary'' = JString sm"
    using conforms_required [OF A, of "''summary''" TString] by (auto simp: conforms_string simp del: conforms.simps)
  obtain g where g: "groupIssuesByType iss = Inr g" "set (concat (map snd g)) \<subseteq> set iss"
    using groupIssuesByType_ok typed typed_issue_key by blast
  have ge: "\<forall>e \<in> set (object_entries g). \<exists>y. group_view e = Inr y"
  proof
    fix e assume "e \<in> set (object_entries g)"
    then have "set (snd e) \<subseteq> set iss" using g(2) by auto
    then have "\<exists>cs. traverse_sum IssueCard (snd e) = Inr cs"
      using typed typed_issue_card by (blast intro: traverse_sum_ok)
    then show "\<exists>y. group_view e = Inr y" by (auto simp: group_view_def)
  qed
  obtain gs where "traverse_sum group_view (object_entries g) = Inr gs"
    using traverse_sum_ok [OF ge] by blast
  then have iv: "\<exists>gs. issues_view (js_get pa ''issues'') = Inr gs"
    using iss(1) g(1) by (auto simp: issues_view_def)
  have "\<forall>r \<in> set rs. \<exists>y. format_value r = Inr y"
    using rs(2) by (auto simp: format_value_def conforms_string simp del: conforms.simps)
  then have rv: "\<exists>ys. recommendations_view (js_get pa ''recommendations'') = Inr ys"
    using rs(1) traverse_sum_ok by (auto simp: recommendations_view_def)
  show ?thesis using iv rv sm by (auto simp: structured_def format_value_def)
qed

lemma typed_display:
  assumes "\<forall>t v. parse t = Some v \<longrightarrow> conforms v AnalysisResult_type \<and> conforms v ParsedAnalysis_type"
  shows "\<exists>view. AnalysisDisplay parse raw s = Inr view"
proof (cases "raw \<or> \<not> (isJSON (extractJSONFromText parse s) \<and> js_truthy_value (parsed (extractJSONFromText parse s)))")
  case True
  then show ?thesis by (auto simp: AnalysisDisplay_def Let_def)
next
  case False
  then have "parsed (extractJSONFromText parse s) \<noteq> JNull" by auto
  then obtain t where "parse t = Some (parsed (extractJSONFromText parse s))"
    using extractJSONFromText_cases by blast
  then obtain sv where "structured (parsed (extractJSONFromText parse s)) = Inr sv"
    using assms typed_structured by blast
  then show ?thesis by (auto simp: AnalysisDisplay_def Let_def)
qed

lemma issue_severity_string:
  assumes "conforms i Issue_type"
  shows "is_js_object i \<and> (\<exists>sev. js_get i ''severity'' = JString sev)"
proof -
  have I: "conforms i (TObject [(''type'', False, IssueType_type), (''severity'', False, IssueSeverity_type),
              (''description'', False, TString), (''line'', True, TNumber), (''suggestion'', False, TString),
              (''codeSnippet'', True, TString), (''references'', True, TArray TString)])"
    using assms by (simp only: Issue_type_def)
  have "\<exists>s. js_get i ''severity'' = JString s \<and> s \<in> set [''low'', ''medium'', ''high'', ''critical'']"
    using conforms_required [OF I, of "''severity''" IssueSeverity_type] unfolding IssueSeverity_type_def conforms_lit_union
    by simp
  then show ?thesis using conforms_object [OF I] by blast
qed

lemma count_critical_ok: "\<forall>i \<in> set iss. conforms i Issue_type \<Longrightarrow> \<exists>n. count_critical iss = Inr n"
proof (induction iss)
  case (Cons i iss)
  obtain sev where "is_js_object i" "js_get i ''severity'' = JString sev"
    using issue_severity_string Cons.prems by auto
  then have "i \<noteq> JNull" "i \<noteq> JUndefined" by auto
  then have "\<exists>b. is_critical i = Inr b"
    using \<open>js_get i ''severity'' = JString sev\<close> by (auto simp: is_critical_def read_property_def)
  then obtain b where "is_critical i = Inr b" by blast
  then show ?case using Cons by auto
qed simp

lemma collect_typed:
  assumes "\<forall>v \<in> set pas. v = JNull \<or> conforms v AnalysisResult_type"
    and "\<forall>i \<in> set (allIssues acc). conforms i Issue_type"
  shows "\<forall>i \<in> set (allIssues (foldl collect_result acc pas)). conforms i Issue_type"
  using assms
proof (induction pas arbitrary: acc)
  case (Cons pa pas)
  have "\<forall>i \<in> set (allIssues (collect_result acc pa)). conforms i Issue_type"
  proof (cases "pa = JNull")
    case False
    then have "conforms pa AnalysisResult_type" using Cons.prems(1) by simp
    then have A: "conforms pa (TObject [(''quality_score'', False, TNumber), (''issues'', False, TArray Issue_type),
              (''summary'', False, TString), (''recommendations'', False, TArray TString)])"
      by (simp only: AnalysisResult_type_def)
    obtain iss where "js_get pa ''issues'' = JArray iss" "\<forall>i \<in> set iss. conforms i Issue_type"
      using conforms_required [OF A, of "''issues''" "TArray Issue_type"] by (auto simp: conforms_array simp del: conforms.simps)
    then show ?thesis using Cons.prems(2) by (auto simp: collect_result_def array_field_def)
  qed (use Cons.prems(2) in \<open>simp add: collect_result_def\<close>)
  then show ?case using Cons by simp
qed simp

lemma analysis_texts_ok: "\<forall>r \<in> set rs. is_js_object r \<Longrightarrow> \<exists>ts. analysis_texts rs = Inr ts"
proof (induction rs)
  case (Cons r rs)
  then have "r \<noteq> JNull" "r \<noteq> JUndefined" by auto
  then show ?case using Cons by (auto simp: read_property_def)
qed simp

lemma typed_processAnalysisResults:
  assumes "list_all (\<lambda>r. conforms r ProcessedAnalysisResult_type) rs"
    and "\<forall>t v. parse t = Some v \<longrightarrow> conforms v AnalysisResult_type"
  shows "\<exists>res. processAnalysisResults parse read rid now rs fs = Inr res"
proof -
  have "\<forall>r \<in> set rs. is_js_object r"
    using assms(1) by (auto simp: list_all_iff ProcessedAnalysisResult_type_def)
  then obtain ts where ts: "analysis_texts rs = Inr ts" using analysis_texts_ok by blast
  have "\<forall>v \<in> set (map (extractJSONFromAnalysis parse) ts). v = JNull \<or> conforms v AnalysisResult_type"
    using assms(2) extractJSONFromAnalysis_cases by fastforce
  then have "\<forall>i \<in> set (allIssues (parsed_acc parse ts)). conforms i Issue_type"
    unfolding parsed_acc_def by (rule collect_typed) (simp add: agg_init_def)
  then obtain n where "count_critical (allIssues (parsed_acc parse ts)) = Inr n"
    using count_critical_ok by blast
  then show ?thesis using ts by (simp add: processAnalysisResults_def Let_def)
qed

lemma traverse_sum_Inl:
  assumes "\<forall>x \<in> set xs. \<forall>m. f x = Inl m \<longrightarrow> m = e" and "\<exists>x \<in> set xs. f x = Inl e"
  shows "traverse_sum f xs = Inl e"
  using assms
proof (induction xs)
  case (Cons x xs)
  show ?case
  proof (cases "f x")
    case (Inl m)
    then show ?thesis using Cons.prems(1) by simp
  next
    case (Inr y)
    then have "traverse_sum f xs = Inl e" using Cons by auto
    then show ?thesis using Inr by simp
  qed
qed simp

lemma object_checked_key_error:
  assumes "is_js_object i" and "checked_key i = Inl m"
  shows "m = push_error"
proof -
  have "i \<noteq> JNull" "i \<noteq> JUndefined" using assms(1) by auto
  then obtain k where "issue_group_key i = Inr k" by (simp add: issue_group_key_def read_property_def)
  then show ?thesis using assms(2) by (simp add: checked_key_def split: if_splits)
qed

section \<open>Properties\<close>

text \<open>
  C33 (type). Every response of an API route to a JSON body has the type the contract
  declares: \<open>ApiResponse<ProcessedAnalysisResult>\<close> for the three analysis routes,
  \<open>ApiResponse<ProviderStatus>\<close> for the status route, and for the report route an
  \<open>ApiResponse\<close> of the report object the handler builds.
\<close>

theorem app_response_types:
  assumes "find_route m p = Some rt" and "rt \<noteq> RHealth"
  shows "\<exists>st j. fst (app_handle e r nodeEnv now m p (Inr b)) = HttpResponse st j
           \<and> conforms j (ApiResponse_type (route_data_type rt))"
  using assms handlers_conform
  by (cases rt) (simp_all add: app_handle_def wire_def)

theorem app_response_types_witness:
  "find_route GET ''/api/analysis/status'' = Some RStatus \<and> RStatus \<noteq> RHealth
   \<and> (\<exists>st j. fst (app_handle \<lparr>GEMINI_API_KEY = None, GROQ_API_KEY = None, HUGGINGFACE_API_KEY = None\<rparr>
        \<lparr>gemini_generate = (\<lambda>op k. Inl ''down''), groq_create = (\<lambda>op. Inl ''down''), hf_fetch = (\<lambda>k p. HfFetchError ''down'')\<rparr>
        ''production'' ''t'' GET ''/api/analysis/status'' (Inr (JObject [])))
        = HttpResponse st j \<and> conforms j (ApiResponse_type ProviderStatus_type))"
proof -
  have rt: "find_route GET ''/api/analysis/status'' = Some RStatus"
    by (simp add: find_route_def route_table_def path_matches_def model_simps)
  show ?thesis using app_response_types [OF rt] rt by simp
qed

text \<open>
  C34 (type). Analyses whose JSON has the types the contract declares are processed and
  shown without a \<open>TypeError\<close>: when the backend's answers are
  \<open>ProcessedAnalysisResult\<close>s and every JSON the AI returns is both an
  \<open>AnalysisResult\<close> and the display's \<open>ParsedAnalysis\<close>, \<open>processAnalysisResults\<close>
  resolves and \<open>AnalysisDisplay\<close> renders, in either view.
\<close>

theorem well_typed_analysis_renders:
  assumes "list_all (\<lambda>r. conforms r ProcessedAnalysisResult_type) rs"
    and "\<forall>t v. parse t = Some v \<longrightarrow> conforms v AnalysisResult_type \<and> conforms v ParsedAnalysis_type"
  shows "(\<exists>res. processAnalysisResults parse read rid now rs fs = Inr res)
         \<and> (\<exists>view. AnalysisDisplay parse raw s = Inr view)"
  using typed_processAnalysisResults [OF assms(1)] typed_display [OF assms(2)] assms(2) by blast

definition demo_analysis_json :: js_value where
  "demo_analysis_json =
     JObject [(''quality_score'', JNumber 7),
              (''issues'', JArray [JObject [(''type'', JString ''security''), (''severity'', JString ''high''),
                                            (''description'', JString ''Use of `eval`''),
                                            (''suggestion'', JString ''Remove it'')]]),
              (''summary'', JString ''One issue''), (''recommendations'', JArray [JString ''Avoid eval''])]"

definition demo_processed :: js_value where
  "demo_processed =
     JObject [(''analysis'', JString ''A''), (''provider'', JString ''Gemini''),
              (''metadata'', JObject [(''language'', JString ''javascript''), (''analysisType'', JString ''general''),
                                     (''timestamp'', JString ''t'')])]"

theorem well_typed_analysis_renders_witness:
  "(\<exists>res. processAnalysisResults (\<lambda>t. if t = ''A'' then Some demo_analysis_json else None) (\<lambda>h. Inr ''x'')
           ''id'' ''now'' [demo_processed] [] = Inr res)
   \<and> (\<exists>view. AnalysisDisplay (\<lambda>t. if t = ''A'' then Some demo_analysis_json else None) False ''A'' = Inr view)"
proof -
  have r: "list_all (\<lambda>r. conforms r ProcessedAnalysisResult_type) [demo_processed]"
    by (simp add: demo_processed_def ProcessedAnalysisResult_type_def js_get_def)
  have d: "conforms demo_analysis_json AnalysisResult_type \<and> conforms demo_analysis_json ParsedAnalysis_type"
    by (simp add: demo_analysis_json_def AnalysisResult_type_def ParsedAnalysis_type_def Issue_type_def
        DisplayIssue_type_def IssueType_type_def IssueSeverity_type_def lit_union_def js_get_def)
  have p: "\<forall>t v. (if t = ''A'' then Some demo_analysis_json else None) = Some v
             \<longrightarrow> conforms v AnalysisResult_type \<and> conforms v ParsedAnalysis_type"
    using d by simp
  show ?thesis using well_typed_analysis_renders [OF r p] by blast
qed

text \<open>
  C38 (error). The display's own declaration \<open>type?: string\<close> admits analyses it cannot
  render: when the parsed JSON is a \<open>ParsedAnalysis\<close> one of whose issues has a type
  naming a member of \<open>Object.prototype\<close> (such as \<open>constructor\<close> or
  \<open>toString\<close>), \<open>AnalysisDisplay\<close> throws \<open>grouped[type].push is not a function\<close>.
\<close>

theorem display_prototype_type_crash:
  assumes "parse s = Some pa" and "conforms pa ParsedAnalysis_type"
    and "js_get pa ''issues'' = JArray iss" and "JString k \<in> set (map (\<lambda>i. js_get i ''type'') iss)"
    and "k \<in> set object_prototype_members"
  shows "AnalysisDisplay parse False s = Inl push_error"
proof -
  have P: "conforms pa (TObject [(''quality_score'', True, TNumber), (''summary'', True, TString),
              (''issues'', True, TArray DisplayIssue_type), (''recommendations'', True, TArray TString)])"
    using assms(2) by (simp only: ParsedAnalysis_type_def)
  have objs: "\<forall>i \<in> set iss. is_js_object i"
    using conforms_optional [OF P, of "''issues''" "TArray DisplayIssue_type"] assms(3)
    by (auto simp: conforms_array DisplayIssue_type_def simp del: conforms.simps dest: conforms_object)
  obtain i where i: "i \<in> set iss" "js_get i ''type'' = JString k" using assms(4) by auto
  have "k \<noteq> []" using assms(5) by (auto simp: object_prototype_members_def)
  moreover have "i \<noteq> JNull" "i \<noteq> JUndefined" using objs i(1) by auto
  ultimately have "checked_key i = Inl push_error"
    using i(2) assms(5) by (simp add: checked_key_def issue_group_key_def read_property_def)
  then have "traverse_sum checked_key iss = Inl push_error"
    using objs i(1) object_checked_key_error by (blast intro: traverse_sum_Inl)
  then have g: "groupIssuesByType iss = Inl push_error"
    by (simp add: groupIssuesByType_def group_fold_spec group_spec_def)
  have sm: "js_get pa ''summary'' = JUndefined \<or> (\<exists>t. js_get pa ''summary'' = JString t)"
    using conforms_optional [OF P, of "''summary''" TString] by (simp add: conforms_string del: conforms.simps)
  have "structured pa = Inl push_error"
    using sm g assms(3) i(1) by (auto simp: structured_def issues_view_def format_value_def)
  moreover have "is_js_object pa" using conforms_object [OF P] .
  moreover have "js_truthy_value pa" using \<open>is_js_object pa\<close> by (cases pa) auto
  moreover have "parsed (extractJSONFromText parse s) = pa" "isJSON (extractJSONFromText parse s)"
    using assms(1) by (simp_all add: extractJSONFromText_def)
  ultimately show ?thesis by (simp add: AnalysisDisplay_def Let_def)
qed

theorem display_prototype_type_crash_witness:
  "AnalysisDisplay (\<lambda>t. Some (JObject [(''issues'', JArray [JObject [(''type'', JString ''constructor'')]])]))
     False ''x'' = Inl push_error"
proof -
  let ?pa = "JObject [(''issues'', JArray [JObject [(''type'', JString ''constructor'')]])]"
  have "conforms ?pa ParsedAnalysis_type"
    by (simp add: ParsedAnalysis_type_def DisplayIssue_type_def js_get_def)
  moreover have "js_get ?pa ''issues'' = JArray [JObject [(''type'', JString ''constructor'')]]"
    by (simp add: js_get_def)
  moreover have "JString ''constructor'' \<in> set (map (\<lambda>i. js_get i ''type'') [JObject [(''type'', JString ''constructor'')]])"
    by (simp add: js_get_def)
  moreover have "''constructor'' \<in> set object_prototype_members"
    by (simp add: object_prototype_members_def)
  ultimately show ?thesis using display_prototype_type_crash [of "\<lambda>t. Some ?pa" "''x''" ?pa] by blast
qed

end
