(* ===== verification/Results.thy ===== *)
theory Results
  imports Upload Contract "HOL-Library.Log_Nat"
begin

text \<open>
  What the frontend draws from the store (src/unnamed/part_001 and
  src/frontend/src/App.tsx): FileUpload's file list and options panel with
  \<open>formatFileSize\<close>, the \<open>AnalysisResults\<close> component with its score colours,
  \<open>formatDuration\<close>, statistics and one \<open>AnalysisDisplay\<close> per raw result, and
  App's choice between the landing view and the analysis view with its summary
  cards and loading overlay. A view is the value it renders, or the message of the
  \<open>TypeError\<close> rendering throws.
\<close>

text \<open>\<open>nat_digits\<close> unfolds only on numerals, where it is asked for.\<close>

declare nat_digits.simps [simp del]

section \<open>File sizes\<close>

text \<open>\<open>parseFloat(x.toFixed(2))\<close> printed by \<open>+ ' '\<close>, for \<open>x\<close> given in hundredths:
  \<open>toFixed\<close> keeps two decimals, \<open>parseFloat\<close> and \<open>String\<close> drop the trailing
  zeros (and the point with them).\<close>

definition fixed2 :: "nat \<Rightarrow> string" where
  "fixed2 n =
     nat_digits (n div 100) @
     (if n mod 100 = 0 then []
      else if n mod 10 = 0 then [CHR ''.'', char_of (48 + n mod 100 div 10)]
      else [CHR ''.'', char_of (48 + n mod 100 div 10), char_of (48 + n mod 10)])"

definition size_units :: "string list" where
  "size_units = [''Bytes'', ''KB'', ''MB'', ''GB'']"

text \<open>\<open>Math.floor(Math.log(bytes) / Math.log(k))\<close> for \<open>k = 1024\<close>: the exponent
  of the largest power of 1024 not above \<open>bytes\<close>. The floating-point quotient has
  this floor for every \<open>bytes\<close> below \<open>1024^5 - 3\<close>.\<close>

definition size_exponent :: "nat \<Rightarrow> nat" where
  "size_exponent bytes = floorlog 1024 bytes - 1"

text \<open>\<open>(bytes / Math.pow(k, i)).toFixed(2)\<close> in hundredths: the quotient is exact
  (a power of two divides), and \<open>toFixed\<close> picks the nearest hundredth, the larger
  one on a tie.\<close>

definition size_hundredths :: "nat \<Rightarrow> nat" where
  "size_hundredths bytes = (let d = 1024 ^ size_exponent bytes in (200 * bytes + d) div (2 * d))"

text \<open>\<open>sizes[i]\<close> is \<open>undefined\<close> past \<open>GB\<close>, and \<open>+\<close> prints it.\<close>

definition formatFileSize :: "nat \<Rightarrow> string" where
  "formatFileSize bytes =
    (if bytes = 0 then ''0 Bytes''
     else fixed2 (size_hundredths bytes) @ '' '' @
          (let i = size_exponent bytes in if i < length size_units then size_units ! i else ''undefined''))"

section \<open>FileUpload: the file list and the options panel\<close>

text \<open>The non-ASCII characters of the texts, as their UTF-8 bytes: the bullet
  U+2022 and the arrow U+2192.\<close>

definition utf8_bullet :: string where
  "utf8_bullet = [CHR 0xE2, CHR 0x80, CHR 0xA2]"

definition utf8_arrow :: string where
  "utf8_arrow = [CHR 0xE2, CHR 0x86, CHR 0x92]"

record file_row =
  row_key :: string
  row_path :: string
  row_details :: string
  row_remove_disabled :: bool

definition render_file_row :: "bool \<Rightarrow> code_file \<Rightarrow> file_row" where
  "render_file_row analyzing f =
     \<lparr>row_key = file_id f, row_path = path f,
      row_details = file_language f @ '' '' @ utf8_bullet @ '' '' @ formatFileSize (file_size f),
      row_remove_disabled = analyzing\<rparr>"

definition model_options :: "(string \<times> string) list" where
  "model_options = [(''auto'', ''Auto (Fallback)''), (''gemini'', ''Gemini 2.5 Flash''),
                    (''groq'', ''Groq Llama 3.3''), (''huggingface'', ''HuggingFace'')]"

definition analysis_type_options :: "(string \<times> string) list" where
  "analysis_type_options = [(''general'', ''General Analysis''), (''security'', ''Security Focus''),
                            (''performance'', ''Performance Focus''), (''maintainability'', ''Maintainability Focus'')]"

text \<open>The four \<open>{selectedModel === ... && "..."}\<close> children: a false condition
  renders nothing.\<close>

definition model_description :: "string \<Rightarrow> string" where
  "model_description m =
     (if m = ''auto'' then ''Automatically tries Gemini '' @ utf8_arrow @ '' Groq '' @ utf8_arrow @ '' HuggingFace'' else [])
     @ (if m = ''gemini'' then ''Google'' @ [CHR 0x27] @ ''s latest Gemini 2.5 Flash model'' else [])
     @ (if m = ''groq'' then ''Ultra-fast Llama 3.3 70B on Groq'' else [])
     @ (if m = ''huggingface'' then ''Open-source models via HuggingFace'' else [])"

record options_panel =
  op_models :: "(string \<times> string) list"
  op_selected_model :: string
  op_types :: "(string \<times> string) list"
  op_selected_type :: string
  op_description :: string
  op_button_label :: string
  op_button_disabled :: bool

record upload_view =
  uv_title :: string
  uv_drop_disabled :: bool
  uv_file_list :: "(string \<times> file_row list) option"
  uv_options :: "options_panel option"

text \<open>FileUpload's rendering, from the dropzone's \<open>isDragActive\<close>, its own state
  (\<open>selectedModel\<close>, \<open>analysisType\<close>) and the store.\<close>

definition FileUpload_view :: "bool \<Rightarrow> string \<Rightarrow> string \<Rightarrow> 'r analysis_store \<Rightarrow> upload_view" where
  "FileUpload_view isDragActive selectedModel analysisType st =
    (let fs = files st; busy = isAnalyzing st in
     \<lparr>uv_title = (if isDragActive then ''Drop files here'' else ''Upload Code Files''),
      uv_drop_disabled = busy,
      uv_file_list = (if fs = [] then None
                      else Some (''Selected Files ('' @ nat_digits (length fs) @ '')'', map (render_file_row busy) fs)),
      uv_options = (if fs = [] then None
                    else Some \<lparr>op_models = model_options, op_selected_model = selectedModel,
                               op_types = analysis_type_options, op_selected_type = analysisType,
                               op_description = model_description selectedModel,
                               op_button_label = (if busy then ''Analyzing...'' else ''Analyze Code''),
                               op_button_disabled = busy\<rparr>)\<rparr>)"

section \<open>AnalysisResults\<close>

definition getScoreColor :: "int \<Rightarrow> string" where
  "getScoreColor score =
     (if score \<ge> 80 then ''text-green-600 dark:text-green-400''
      else if score \<ge> 60 then ''text-yellow-600 dark:text-yellow-400''
      else ''text-red-600 dark:text-red-400'')"

definition getScoreBgColor :: "int \<Rightarrow> string" where
  "getScoreBgColor score =
     (if score \<ge> 80 then ''bg-green-100 dark:bg-green-900''
      else if score \<ge> 60 then ''bg-yellow-100 dark:bg-yellow-900''
      else ''bg-red-100 dark:bg-red-900'')"

definition formatDuration :: "nat \<Rightarrow> string" where
  "formatDuration ms = nat_digits (ms div 1000) @ ''s''"

text \<open>The text React renders for a child value that is not an object: strings and
  numbers as they print, \<open>true\<close>, \<open>false\<close>, \<open>null\<close> and \<open>undefined\<close> as nothing,
  arrays element by element.\<close>

fun react_string :: "js_value \<Rightarrow> string" where
  "react_string (JString s) = s"
| "react_string (JNumber n) = int_digits n"
| "react_string (JArray xs) = concat (map react_string xs)"
| "react_string v = []"

text \<open>\<open>v?.k\<close>.\<close>

definition optional_read :: "js_value \<Rightarrow> string \<Rightarrow> js_value" where
  "optional_read v k = (if v = JNull \<or> v = JUndefined then JUndefined else js_get v k)"

definition result_language :: "js_value \<Rightarrow> js_value" where
  "result_language r = js_or_value (optional_read (js_get r ''metadata'') ''language'') (JString ''unknown'')"

text \<open>\<open>{result.provider && <span>...</span>}\<close>: a truthy provider is a badge; a
  falsy one renders as itself (only the number 0 shows, as the text "0").\<close>

datatype provider_slot = ProviderBadge string | ProviderText string

definition provider_slot :: "js_value \<Rightarrow> provider_slot" where
  "provider_slot p = (if js_truthy_value p then ProviderBadge (react_string p) else ProviderText (react_string p))"

text \<open>\<open><AnalysisDisplay analysis={...}>\<close> in its initial state (raw view hidden).
  A non-string analysis reaches \<open>JSON.parse\<close> and \<open>exec\<close> as its string; when it is
  not shown as structured data, \<open>formatText\<close> calls its \<open>replace\<close>.\<close>

definition display_analysis :: "(string \<Rightarrow> js_value option) \<Rightarrow> js_value \<Rightarrow> message + analysis_view" where
  "display_analysis parse v =
    (case v of
       JString s \<Rightarrow> AnalysisDisplay parse False s
     | _ \<Rightarrow> (let ex = extractJSONFromText parse (js_to_string v) in
            if isJSON ex \<and> js_truthy_value (parsed ex) \<and> (is_js_array (parsed ex) \<or> is_js_object (parsed ex))
            then map_sum id StructuredView (structured (parsed ex))
            else Inl ''text.replace is not a function''))"

record file_view =
  fv_label :: string
  fv_language :: string
  fv_provider :: provider_slot
  fv_display :: analysis_view

text \<open>One card of \<open>rawResults.map\<close>, in React's depth-first order: the language
  and provider badges (an object child throws), then the display.\<close>

definition file_card :: "(string \<Rightarrow> js_value option) \<Rightarrow> nat \<times> js_value \<Rightarrow> message + file_view" where
  "file_card parse ir =
    (let (i, r) = ir; lang = result_language r; prov = js_get r ''provider'' in
     if \<not> react_child_ok lang \<or> \<not> react_child_ok prov then Inl react_child_error
     else map_sum id (\<lambda>d. \<lparr>fv_label = ''File '' @ nat_digits (Suc i), fv_language = react_string lang,
                            fv_provider = provider_slot prov, fv_display = d\<rparr>)
            (display_analysis parse (js_or_value (js_get r ''analysis'') (JString ''No analysis available''))))"

text \<open>The render of \<open>AnalysisResults\<close> reads \<open>result.metadata\<close> of every raw
  result first (throwing on \<open>null\<close> or \<open>undefined\<close>); the cards follow.\<close>

definition result_details :: "(string \<Rightarrow> js_value option) \<Rightarrow> js_value list \<Rightarrow> message + file_view list" where
  "result_details parse rs =
    (case find (\<lambda>r. r = JNull \<or> r = JUndefined) rs of
       Some r \<Rightarrow> Inl (type_error_reading r ''metadata'')
     | None \<Rightarrow> traverse_sum (file_card parse) (enumerate 0 rs))"

record results_view =
  rv_duration :: string
  rv_score :: int
  rv_score_bg :: string
  rv_score_color :: string
  rv_files :: nat
  rv_total_issues :: nat
  rv_critical :: nat
  rv_loc :: nat
  rv_maintainability :: string
  rv_maintainability_color :: string
  rv_cyclomatic :: nat
  rv_cognitive :: nat
  rv_debt_hours :: nat
  rv_debt_issues :: nat
  rv_details :: "file_view list option"

definition AnalysisResults :: "(string \<Rightarrow> js_value option) \<Rightarrow> fe_analysis_result \<Rightarrow> message + results_view" where
  "AnalysisResults parse a =
    (let rs = rawResults a; s = summary a; m = metrics a in
     case (if rs = [] then Inr None else map_sum id Some (result_details parse rs)) of
       Inl msg \<Rightarrow> Inl msg
     | Inr details \<Rightarrow>
         Inr \<lparr>rv_duration = formatDuration (processing_time a), rv_score = overallScore s,
              rv_score_bg = getScoreBgColor (overallScore s), rv_score_color = getScoreColor (overallScore s),
              rv_files = filesAnalyzed s, rv_total_issues = totalIssues s, rv_critical = criticalIssues s,
              rv_loc = loc_total (lines_of_code m),
              rv_maintainability = int_digits (maintainability_score m) @ ''/100'',
              rv_maintainability_color = getScoreColor (maintainability_score m),
              rv_cyclomatic = cyclomatic (complexity m), rv_cognitive = cognitive (complexity m),
              rv_debt_hours = debt_hours (technical_debt m), rv_debt_issues = debt_issues (technical_debt m),
              rv_details = details\<rparr>)"

section \<open>App\<close>

record files_summary =
  fs_count :: nat
  fs_languages :: nat
  fs_total_kb :: nat

datatype app_main =
  LandingView upload_view
| AnalysisView files_summary upload_view "(message + results_view) option"

record app_view =
  app_main :: app_main
  app_overlay :: bool

text \<open>App's render: the landing view without files, otherwise the summary cards
  (\<open>new Set(languages).size\<close> and \<open>Math.round(total / 1024)\<close>, exact as the
  quotient is dyadic), a second FileUpload and the results of a stored analysis;
  the loading overlay while analysing.\<close>

definition App :: "(string \<Rightarrow> js_value option) \<Rightarrow> bool \<Rightarrow> string \<Rightarrow> string
    \<Rightarrow> fe_analysis_result analysis_store \<Rightarrow> app_view" where
  "App parse isDragActive selectedModel analysisType st =
    \<lparr>app_main =
       (if files st = [] then LandingView (FileUpload_view isDragActive selectedModel analysisType st)
        else AnalysisView
               \<lparr>fs_count = length (files st), fs_languages = length (remdups (map file_language (files st))),
                fs_total_kb = (sum_list (map file_size (files st)) + 512) div 1024\<rparr>
               (FileUpload_view isDragActive selectedModel analysisType st)
               (map_option (AnalysisResults parse) (store_analysis st))),
     app_overlay = isAnalyzing st\<rparr>"

definition demo_file2 :: browser_file where
  "demo_file2 = \<lparr>file_name = ''b.py'', bf_size = 2048, bf_lastModified = 0, bf_handle = 2\<rparr>"

section \<open>Lemmas\<close>

text \<open>Evaluation of the digits \<open>char_of (48 + d)\<close> by the simplifier.\<close>

lemmas char_of_eval = char_of_def bit_0

lemma size_exponent_bounds:
  assumes "0 < bytes"
  shows "1024 ^ size_exponent bytes \<le> bytes \<and> bytes < 1024 * 1024 ^ size_exponent bytes"
proof -
  have "0 < floorlog 1024 bytes" using assms by (simp add: floorlog_def)
  then have e: "Suc (size_exponent bytes) = floorlog 1024 bytes" by (simp add: size_exponent_def)
  have "1024 ^ (floorlog 1024 bytes - 1) \<le> bytes \<and> bytes < 1024 ^ floorlog 1024 bytes"
    using floorlog_bounds [of bytes 1024] assms by simp
  then show ?thesis using e by (metis power_Suc size_exponent_def)
qed

lemma size_hundredths_bounds:
  assumes "0 < bytes"
  shows "100 \<le> size_hundredths bytes \<and> size_hundredths bytes \<le> 102400"
proof -
  define d :: nat where "d = 1024 ^ size_exponent bytes"
  have d: "d \<le> bytes" "bytes < 1024 * d" "0 < d"
    using size_exponent_bounds [OF assms] by (simp_all add: d_def)
  have h: "size_hundredths bytes = (200 * bytes + d) div (2 * d)"
    by (simp add: size_hundredths_def d_def Let_def)
  have "100 * (2 * d) \<le> 200 * bytes + d" using d by simp
  then have lo: "100 \<le> (200 * bytes + d) div (2 * d)"
    using d by (simp add: less_eq_div_iff_mult_less_eq mult.commute)
  have "200 * bytes + d < 102401 * (2 * d)" using d by simp
  then have hi: "(200 * bytes + d) div (2 * d) < 102401"
    by (rule less_mult_imp_div_less)
  show ?thesis using lo hi h by simp
qed

lemma size_unit_defined: "0 < bytes \<Longrightarrow> size_exponent bytes < length size_units \<longleftrightarrow> bytes < 1024 ^ 4"
proof -
  assume b: "0 < bytes"
  have "floorlog 1024 bytes \<noteq> 0" using b by (simp add: floorlog_eq_zero_iff)
  then have "0 < floorlog 1024 bytes" by simp
  then have "size_exponent bytes < 4 \<longleftrightarrow> floorlog 1024 bytes \<le> 4"
    unfolding size_exponent_def by arith
  also have "\<dots> \<longleftrightarrow> bytes < 1024 ^ 4"
    using floorlog_le_iff [of 1024 bytes 4] b by simp
  finally have "size_exponent bytes < 4 \<longleftrightarrow> bytes < 1024 ^ 4" .
  moreover have "length size_units = 4" by (simp add: size_units_def)
  ultimately show ?thesis by simp
qed

lemma size_exponent_eqI:
  assumes "1024 ^ i \<le> bytes" and "bytes < 1024 * 1024 ^ i"
  shows "size_exponent bytes = i"
proof -
  have "0 < bytes" using assms(1) by (metis le_zero_eq not_gr_zero power_not_zero zero_neq_numeral)
  have "floorlog 1024 bytes \<le> Suc i"
    using assms(2) by (simp add: floorlog_le_iff)
  moreover have "Suc i \<le> floorlog 1024 bytes"
    using assms(1) by (simp add: floorlog_ge_SucI)
  ultimately show ?thesis by (simp add: size_exponent_def)
qed

lemma formatFileSize_examples:
  "formatFileSize 1536 = ''1.5 KB'' \<and> formatFileSize 1048575 = ''1024 KB''
   \<and> formatFileSize 1099511627776 = ''1 undefined'' \<and> formatFileSize 1000 = ''1000 Bytes''
   \<and> formatFileSize 1100 = ''1.07 KB''"
proof -
  have e: "size_exponent 1536 = 1" "size_exponent 1048575 = 1" "size_exponent 1099511627776 = 4"
    "size_exponent 1000 = 0" "size_exponent 1100 = 1"
    by (rule size_exponent_eqI; simp)+
  have h: "size_hundredths 1536 = 150" "size_hundredths 1048575 = 102400"
    "size_hundredths 1099511627776 = 100" "size_hundredths 1000 = 100000" "size_hundredths 1100 = 107"
    by (simp_all add: size_hundredths_def e)
  have f: "fixed2 150 = ''1.5''" "fixed2 102400 = ''1024''" "fixed2 100 = ''1''" "fixed2 100000 = ''1000''"
    "fixed2 107 = ''1.07''"
    by (simp_all add: fixed2_def char_of_eval nat_digits.simps)
  show ?thesis by (simp add: formatFileSize_def e h f size_units_def)
qed

lemma size_hundredths_rounding:
  assumes "0 < bytes"
  shows "200 * bytes < (2 * size_hundredths bytes + 1) * 1024 ^ size_exponent bytes
         \<and> 2 * size_hundredths bytes * 1024 ^ size_exponent bytes \<le> 200 * bytes + 1024 ^ size_exponent bytes"
proof -
  define d :: nat where "d = 1024 ^ size_exponent bytes"
  define n where "n = size_hundredths bytes"
  have d: "0 < d" by (simp add: d_def)
  have n: "n = (200 * bytes + d) div (2 * d)" by (simp add: n_def size_hundredths_def d_def Let_def)
  have q: "200 * bytes + d = n * (2 * d) + (200 * bytes + d) mod (2 * d)"
    unfolding n by (rule div_mult_mod_eq [symmetric])
  have m: "(200 * bytes + d) mod (2 * d) < 2 * d" using d by simp
  have "n * (2 * d) \<le> 200 * bytes + d" using q by linarith
  moreover have "200 * bytes + d < (n + 1) * (2 * d)" using q m by (simp add: algebra_simps)
  ultimately show ?thesis unfolding d_def [symmetric] n_def [symmetric] by (simp add: algebra_simps)
qed

lemma is_js_string_iff: "is_js_string v \<longleftrightarrow> (\<exists>s. v = JString s)"
  by (cases v) auto

text \<open>The fields of a typed raw result that the card reads.\<close>

lemma typed_result_card_fields:
  assumes "conforms r ProcessedAnalysisResult_type"
  shows "\<exists>a p l. js_get r ''analysis'' = JString a \<and> js_get r ''provider'' = JString p
                 \<and> result_language r = JString l \<and> r \<noteq> JNull \<and> r \<noteq> JUndefined"
proof -
  have fs: "conforms (js_get r ''analysis'') TString" "conforms (js_get r ''provider'') TString"
      "conforms (js_get r ''metadata'') (TObject [(''language'', False, TString), (''analysisType'', False, TString),
                                            (''timestamp'', False, TString)])"
    using assms by (simp_all add: ProcessedAnalysisResult_type_def conforms_required)
  then have "conforms (js_get (js_get r ''metadata'') ''language'') TString"
    by (simp add: conforms_required)
  then obtain l where l: "js_get (js_get r ''metadata'') ''language'' = JString l"
    by (cases "js_get (js_get r ''metadata'') ''language''") auto
  have "is_js_object (js_get r ''metadata'')" using fs(3) by (rule conforms_object)
  then have "js_get r ''metadata'' \<noteq> JNull \<and> js_get r ''metadata'' \<noteq> JUndefined" by auto
  then have "optional_read (js_get r ''metadata'') ''language'' = JString l"
    by (simp add: optional_read_def l)
  then have "\<exists>l. result_language r = JString l"
    by (auto simp: result_language_def js_or_value_def)
  moreover have "r \<noteq> JNull \<and> r \<noteq> JUndefined"
    using assms by (cases r) (auto simp: ProcessedAnalysisResult_type_def)
  ultimately show ?thesis using fs(1,2) by (auto simp: is_js_string_iff)
qed

lemma typed_file_card:
  assumes "conforms r ProcessedAnalysisResult_type"
    and "\<forall>t v. parse t = Some v \<longrightarrow> conforms v AnalysisResult_type \<and> conforms v ParsedAnalysis_type"
  shows "\<exists>fv. file_card parse (i, r) = Inr fv \<and> fv_label fv = ''File '' @ nat_digits (Suc i)"
proof -
  obtain a p l where f: "js_get r ''analysis'' = JString a" "js_get r ''provider'' = JString p"
      "result_language r = JString l"
    using typed_result_card_fields [OF assms(1)] by blast
  define s where "s = (if a = [] then ''No analysis available'' else a)"
  have s: "js_or_value (js_get r ''analysis'') (JString ''No analysis available'') = JString s"
    using f(1) by (simp add: js_or_value_def s_def)
  obtain view where v: "AnalysisDisplay parse False s = Inr view"
    using typed_display [OF assms(2), where raw = False and s = s] by blast
  have d: "display_analysis parse (js_or_value (js_get r ''analysis'') (JString ''No analysis available''))
             = Inr view"
    unfolding s display_analysis_def using v by simp
  have ok: "react_child_ok (result_language r) \<and> react_child_ok (js_get r ''provider'')"
    using f(2,3) by simp
  show ?thesis
    unfolding file_card_def Let_def prod.case using ok d by simp
qed

lemma typed_result_details:
  assumes "\<forall>r \<in> set rs. conforms r ProcessedAnalysisResult_type"
    and "\<forall>t v. parse t = Some v \<longrightarrow> conforms v AnalysisResult_type \<and> conforms v ParsedAnalysis_type"
  shows "\<exists>cards. traverse_sum (file_card parse) (enumerate n rs) = Inr cards
           \<and> map fv_label cards = map (\<lambda>i. ''File '' @ nat_digits (Suc i)) [n..<n + length rs]"
  using assms(1)
proof (induction rs arbitrary: n)
  case Nil
  then show ?case by simp
next
  case (Cons r rs)
  have p: "conforms r ProcessedAnalysisResult_type" "\<forall>r \<in> set rs. conforms r ProcessedAnalysisResult_type"
    using Cons.prems by simp_all
  obtain fv where fv: "file_card parse (n, r) = Inr fv" "fv_label fv = ''File '' @ nat_digits (Suc n)"
    using typed_file_card [OF p(1) assms(2)] by blast
  obtain cards where cs: "traverse_sum (file_card parse) (enumerate (Suc n) rs) = Inr cards"
      "map fv_label cards = map (\<lambda>i. ''File '' @ nat_digits (Suc i)) [Suc n..<Suc n + length rs]"
    using Cons.IH [OF p(2)] by blast
  have "n < n + length (r # rs)" by simp
  then have u: "[n..<n + length (r # rs)] = n # [Suc n..<n + length (r # rs)]" by (rule upt_conv_Cons)
  have l: "n + length (r # rs) = Suc n + length rs" by simp
  have u': "[n..<Suc n + length rs] = n # [Suc n..<Suc n + length rs]" using u unfolding l .
  have t: "traverse_sum (file_card parse) (enumerate n (r # rs)) = Inr (fv # cards)"
    using fv(1) cs(1) by simp
  have "map fv_label (fv # cards) = map (\<lambda>i. ''File '' @ nat_digits (Suc i)) [n..<n + length (r # rs)]"
    unfolding l u' by (simp only: list.map fv(2) cs(2))
  with t show ?case by blast
qed

lemma typed_no_null: "\<forall>r \<in> set rs. conforms r ProcessedAnalysisResult_type \<Longrightarrow> find (\<lambda>r. r = JNull \<or> r = JUndefined) rs = None"
  by (auto simp: find_None_iff ProcessedAnalysisResult_type_def)

lemma processed_result_fields:
  assumes "processAnalysisResults parse read rid now rs fs = Inr res"
  shows "rawResults res = rs \<and> processing_time res = length rs * 1500 \<and> filesAnalyzed (summary res) = length fs"
  using assms by (rule processAnalysisResults_Inr) (simp add: build_result_def Let_def)

lemma demo_ready:
  "ui_reach run (ui_apply (fst (onDrop (\<lambda>i. ''f0'') [demo_file])) ui_init)
   \<and> \<not> isAnalyzing (ui_store (ui_apply (fst (onDrop (\<lambda>i. ''f0'') [demo_file])) ui_init))
   \<and> files (ui_store (ui_apply (fst (onDrop (\<lambda>i. ''f0'') [demo_file])) ui_init)) = [process_file ''f0'' demo_file]
   \<and> files_to_analyze [process_file ''f0'' demo_file] \<noteq> []"
proof -
  have "ui_reach run (ui_apply (fst (onDrop (\<lambda>i. ''f0'') [demo_file])) ui_init)"
    by (rule ui_reach.step [OF ui_reach.init ui_step.drop]) (simp add: ui_init_def initial_store_def)
  moreover have "\<not> isAnalyzing (ui_store (ui_apply (fst (onDrop (\<lambda>i. ''f0'') [demo_file])) ui_init))"
    by (simp add: ui_apply_def ui_init_def initial_store_def onDrop_def Let_def)
  moreover have "files_to_analyze [process_file ''f0'' demo_file] \<noteq> []"
    by (simp add: files_to_analyze_def process_file_def)
  ultimately show ?thesis using drop_demo_files by simp
qed

lemma isCodeFile_demo2: "isCodeFile demo_file2"
  by (simp add: isCodeFile_def demo_file2_def getFileExtension_def last_index_of_def
      substring_from_def SUPPORTED_EXTENSIONS_def model_simps)

section \<open>Properties\<close>

text \<open>
  C28 (bounds). \<open>formatFileSize\<close> shows a positive size as a number of hundredths
  \<open>n\<close> of the largest power of 1024 not above it: \<open>n / 100\<close> is the size in that
  unit rounded to the nearest hundredth (ties up), it lies between 1 and 1024 (a
  size just below the next power shows as 1024 of the smaller unit), and the unit
  is \<open>undefined\<close> exactly for sizes of 1 TiB and more.
\<close>

theorem formatFileSize_accuracy:
  assumes "0 < bytes"
  shows "\<exists>n i. formatFileSize bytes = fixed2 n @ '' '' @ (if bytes < 1024 ^ 4 then size_units ! i else ''undefined'')
     \<and> 100 \<le> n \<and> n \<le> 102400 \<and> 1024 ^ i \<le> bytes \<and> bytes < 1024 * 1024 ^ i
     \<and> 200 * bytes < (2 * n + 1) * 1024 ^ i \<and> 2 * n * 1024 ^ i \<le> 200 * bytes + 1024 ^ i"
proof -
  have f: "formatFileSize bytes = fixed2 (size_hundredths bytes) @ '' '' @
             (if bytes < 1024 ^ 4 then size_units ! size_exponent bytes else ''undefined'')"
    using assms size_unit_defined [OF assms] by (simp add: formatFileSize_def Let_def)
  show ?thesis
    using f size_hundredths_bounds [OF assms] size_exponent_bounds [OF assms]
      size_hundredths_rounding [OF assms] by blast
qed

theorem formatFileSize_accuracy_witness:
  "\<exists>n i. formatFileSize 1536 = fixed2 n @ '' '' @ (if (1536::nat) < 1024 ^ 4 then size_units ! i else ''undefined'')
     \<and> 100 \<le> n \<and> n \<le> 102400 \<and> 1024 ^ i \<le> (1536::nat) \<and> (1536::nat) < 1024 * 1024 ^ i
     \<and> 200 * (1536::nat) < (2 * n + 1) * 1024 ^ i \<and> 2 * n * 1024 ^ i \<le> 200 * (1536::nat) + 1024 ^ i"
  by (rule formatFileSize_accuracy) simp

text \<open>
  C23 (type). When the backend's answers are \<open>ProcessedAnalysisResult\<close>s and the AI's
  JSON has the declared types, the aggregated result renders as \<open>AnalysisResults\<close>
  without a \<open>TypeError\<close>: it shows the number of files analysed, the estimated
  duration, and one card per answer labelled \<open>File 1\<close>, \<open>File 2\<close>, ... in order (no
  detail section without answers).
\<close>

theorem results_view_renders:
  assumes "list_all (\<lambda>r. conforms r ProcessedAnalysisResult_type) rs"
    and "\<forall>t v. parse t = Some v \<longrightarrow> conforms v AnalysisResult_type \<and> conforms v ParsedAnalysis_type"
  shows "\<exists>res view. processAnalysisResults parse read rid now rs fs = Inr res
     \<and> AnalysisResults parse res = Inr view
     \<and> rv_files view = length fs \<and> rv_duration view = formatDuration (length rs * 1500)
     \<and> map_option (map fv_label) (rv_details view)
         = (if rs = [] then None else Some (map (\<lambda>i. ''File '' @ nat_digits (Suc i)) [0..<length rs]))"
proof -
  have p: "\<forall>t v. parse t = Some v \<longrightarrow> conforms v AnalysisResult_type" using assms(2) by blast
  obtain res where res: "processAnalysisResults parse read rid now rs fs = Inr res"
    using typed_processAnalysisResults [OF assms(1) p] by blast
  have fields: "rawResults res = rs" "processing_time res = length rs * 1500" "filesAnalyzed (summary res) = length fs"
    using processed_result_fields [OF res] by simp_all
  have typed: "\<forall>r \<in> set rs. conforms r ProcessedAnalysisResult_type" using assms(1) by (simp add: list_all_iff)
  obtain cards where cs: "traverse_sum (file_card parse) (enumerate 0 rs) = Inr cards"
      "map fv_label cards = map (\<lambda>i. ''File '' @ nat_digits (Suc i)) [0..<0 + length rs]"
    using typed_result_details [OF typed assms(2)] by blast
  have d: "result_details parse rs = Inr cards"
    using cs(1) typed_no_null [OF typed] by (simp add: result_details_def)
  show ?thesis
  proof (cases "rs = []")
    case True
    then show ?thesis using res fields by (simp add: AnalysisResults_def Let_def)
  next
    case False
    then show ?thesis using res fields d cs(2) by (simp add: AnalysisResults_def Let_def)
  qed
qed

theorem results_view_renders_witness:
  "\<exists>res view. processAnalysisResults (\<lambda>t. if t = ''A'' then Some demo_analysis_json else None) (\<lambda>h. Inr ''x'')
       ''id'' ''now'' [demo_processed] [] = Inr res
     \<and> AnalysisResults (\<lambda>t. if t = ''A'' then Some demo_analysis_json else None) res = Inr view
     \<and> rv_files view = length ([] :: code_file list) \<and> rv_duration view = formatDuration (length [demo_processed] * 1500)
     \<and> map_option (map fv_label) (rv_details view)
         = (if [demo_processed] = [] then None
            else Some (map (\<lambda>i. ''File '' @ nat_digits (Suc i)) [0..<length [demo_processed]]))"
proof -
  have r: "list_all (\<lambda>r. conforms r ProcessedAnalysisResult_type) [demo_processed]"
    by (simp add: demo_processed_def ProcessedAnalysisResult_type_def js_get_def)
  have d: "conforms demo_analysis_json AnalysisResult_type \<and> conforms demo_analysis_json ParsedAnalysis_type"
    by (simp add: demo_analysis_json_def AnalysisResult_type_def ParsedAnalysis_type_def Issue_type_def
        DisplayIssue_type_def IssueType_type_def IssueSeverity_type_def lit_union_def js_get_def)
  have p: "\<forall>t v. (if t = ''A'' then Some demo_analysis_json else None) = Some v
             \<longrightarrow> conforms v AnalysisResult_type \<and> conforms v ParsedAnalysis_type"
    using d by simp
  show ?thesis by (rule results_view_renders [OF r p])
qed

text \<open>
  C22 (safety). The results App shows need not be those of the files it shows: after
  going home during an analysis and dropping other files once it has finished, the
  analysis view lists the new files beside the \<open>AnalysisResults\<close> of the old ones.
\<close>

theorem stale_results_displayed:
  assumes "ui_reach run u" and "\<not> isAnalyzing (ui_store u)"
    and "files (ui_store u) \<noteq> []" and "files_to_analyze (files (ui_store u)) \<noteq> []"
    and "run (files (ui_store u)) = Inr r" and "filter isCodeFile accepted \<noteq> []"
  shows "\<exists>u'. ui_reach run u'
     \<and> files (ui_store u') = map (\<lambda>(i, file). process_file (ids i) file) (enumerate 0 (filter isCodeFile accepted))
     \<and> (\<exists>sm uv. app_main (App parse isDragActive selectedModel analysisType (ui_store u'))
                = AnalysisView sm uv (Some (AnalysisResults parse r)))"
proof -
  obtain u1 where u1: "ui_reach run u1" "files (ui_store u1) = []" "store_analysis (ui_store u1) = Some r"
      "\<not> isAnalyzing (ui_store u1)"
    using go_home_keeps_result [OF assms(1-5)] by blast
  let ?u2 = "ui_apply (fst (onDrop ids accepted)) u1"
  have r2: "ui_reach run ?u2" using u1(1,4) by (blast intro: ui_reach.step ui_step.drop)
  have f2: "files (ui_store ?u2) = map (\<lambda>(i, file). process_file (ids i) file) (enumerate 0 (filter isCodeFile accepted))"
    and a2: "store_analysis (ui_store ?u2) = Some r"
    using assms(6) u1(3) by (simp_all add: ui_apply_def onDrop_def Let_def)
  have "enumerate 0 (filter isCodeFile accepted) \<noteq> []"
    using assms(6) by (metis length_enumerate length_0_conv)
  then have "files (ui_store ?u2) \<noteq> []" using f2 by simp
  then have "\<exists>sm uv. app_main (App parse isDragActive selectedModel analysisType (ui_store ?u2))
               = AnalysisView sm uv (Some (AnalysisResults parse r))"
    using a2 by (simp add: App_def)
  with r2 f2 show ?thesis by blast
qed

theorem stale_results_displayed_witness:
  "\<exists>r u'. ui_reach (analysis_pipeline
             (\<lambda>m p b. HttpResponse 200 (JObject [(''success'', JBool True),
                                                 (''data'', JObject [(''analysis'', JString ''A'')])]))
             (\<lambda>h. Inr ''x'') (\<lambda>t. None) ''id'' ''now'' ''general'' ''auto'') u'
     \<and> files (ui_store u') = [process_file ''f1'' demo_file2]
     \<and> (\<exists>sm uv. app_main (App (\<lambda>t. None) False ''auto'' ''general'' (ui_store u'))
                = AnalysisView sm uv (Some (AnalysisResults (\<lambda>t. None) r)))
     \<and> filesAnalyzed (summary r) = 1"
proof -
  let ?run = "analysis_pipeline
             (\<lambda>m p b. HttpResponse 200 (JObject [(''success'', JBool True),
                                                 (''data'', JObject [(''analysis'', JString ''A'')])]))
             (\<lambda>h. Inr ''x'') (\<lambda>t. None) ''id'' ''now'' ''general'' ''auto''"
  let ?u1 = "ui_apply (fst (onDrop (\<lambda>i. ''f0'') [demo_file])) ui_init"
  have ready: "ui_reach ?run ?u1" "\<not> isAnalyzing (ui_store ?u1)" "files (ui_store ?u1) = [process_file ''f0'' demo_file]"
      "files_to_analyze [process_file ''f0'' demo_file] \<noteq> []"
    using demo_ready by blast+
  obtain r where run: "?run [process_file ''f0'' demo_file] = Inr r" and one: "filesAnalyzed (summary r) = 1"
    using demo_pipeline by blast
  have code: "filter isCodeFile [demo_file2] \<noteq> []" using isCodeFile_demo2 by simp
  obtain u' where u': "ui_reach ?run u'"
      "files (ui_store u') = map (\<lambda>(i, file). process_file ((\<lambda>i. ''f1'') i) file) (enumerate 0 (filter isCodeFile [demo_file2]))"
      "\<exists>sm uv. app_main (App (\<lambda>t. None) False ''auto'' ''general'' (ui_store u'))
                = AnalysisView sm uv (Some (AnalysisResults (\<lambda>t. None) r))"
    using stale_results_displayed [OF ready(1) ready(2) _ _ _ code, of r "\<lambda>i. ''f1''" "\<lambda>t. None" False "''auto''" "''general''"]
      ready(3,4) run by auto
  have "files (ui_store u') = [process_file ''f1'' demo_file2]" using u'(2) isCodeFile_demo2 by simp
  with u'(1,3) one show ?thesis by blast
qed

end
