(* ===== verification/ClientTypes.thy ===== *)
theory ClientTypes
  imports Contract
begin

text \<open>
  The types the frontend declares for what it sends and receives
  (src/frontend/src/utils/analysisUtils.ts: \<open>AnalysisRequest\<close> to \<open>ReportResponse\<close>)
  and for the analysis it stores (src/frontend/src/store/analysisStore.ts:
  \<open>AnalysisIssue\<close>, \<open>QualityMetrics\<close>, \<open>AnalysisResult\<close>), as values of
  \<open>ts_type\<close>, and the object \<open>processAnalysisResults\<close> returns as a JSON value, so
  that \<open>conforms\<close> can compare what the code produces with what it declares.
\<close>

section \<open>Requests and responses of the API client\<close>

definition AnalysisRequest_type :: ts_type where
  "AnalysisRequest_type =
     TObject [(''code'', False, TString), (''language'', True, TString),
              (''analysisType'', True, lit_union [''general'', ''security'', ''performance'', ''maintainability'']),
              (''preferredProvider'', True, lit_union [''gemini'', ''groq'', ''huggingface'', ''auto''])]"

definition ExplainRequest_type :: ts_type where
  "ExplainRequest_type = TObject [(''code'', False, TString), (''language'', True, TString)]"

definition ImprovementRequest_type :: ts_type where
  "ImprovementRequest_type =
     TObject [(''code'', False, TString), (''language'', True, TString), (''context'', True, TString)]"

definition ReportRequest_type :: ts_type where
  "ReportRequest_type =
     TObject [(''analysisResults'', False, TArray TAny),
              (''projectInfo'', True, TObject [(''name'', True, TString), (''language'', True, TString),
                                               (''framework'', True, TString), (''description'', True, TString)])]"

definition AnalysisResponse_type :: ts_type where
  "AnalysisResponse_type =
     TObject [(''analysis'', False, TString),
              (''metadata'', False, TObject [(''language'', False, TString), (''analysisType'', False, TString),
                                            (''timestamp'', False, TString)])]"

definition ExplainResponse_type :: ts_type where
  "ExplainResponse_type =
     TObject [(''explanation'', False, TString),
              (''metadata'', False, TObject [(''language'', False, TString), (''timestamp'', False, TString)])]"

definition ImprovementResponse_type :: ts_type where
  "ImprovementResponse_type =
     TObject [(''suggestions'', False, TString),
              (''metadata'', False, TObject [(''language'', False, TString), (''context'', False, TString),
                                            (''timestamp'', False, TString)])]"

definition ReportResponse_type :: ts_type where
  "ReportResponse_type =
     TObject [(''report'', False, TString),
              (''metadata'', False, TObject [(''projectInfo'', False, TAny), (''generatedAt'', False, TString),
                                            (''resultsCount'', False, TNumber)])]"

section \<open>The store's analysis type\<close>

definition AnalysisIssue_type :: ts_type where
  "AnalysisIssue_type =
     TObject [(''id'', False, TString),
              (''severity'', False, lit_union [''critical'', ''high'', ''medium'', ''low'', ''info'']),
              (''category'', False, lit_union [''security'', ''performance'', ''maintainability'', ''bugs'', ''style'',
                                               ''architecture'']),
              (''title'', False, TString), (''description'', False, TString), (''explanation'', True, TString),
              (''file'', False, TString), (''line'', True, TNumber), (''column'', True, TNumber),
              (''codeSnippet'', True, TString), (''suggestion'', True, TString),
              (''references'', True, TArray TString)]"

definition QualityMetrics_type :: ts_type where
  "QualityMetrics_type =
     TObject [(''complexity'', False, TObject [(''cyclomatic'', False, TNumber), (''cognitive'', False, TNumber)]),
              (''maintainability'', False, TObject [(''score'', False, TNumber)]),
              (''technical_debt'', False, TObject [(''hours'', False, TNumber), (''issues'', False, TNumber)]),
              (''lines_of_code'', False, TObject [(''total'', False, TNumber), (''source'', False, TNumber),
                                                  (''comments'', False, TNumber), (''blank'', False, TNumber)])]"

definition StoreAnalysisResult_type :: ts_type where
  "StoreAnalysisResult_type =
     TObject [(''id'', False, TString), (''timestamp'', False, TString),
              (''summary'', False, TObject [(''totalIssues'', False, TNumber), (''criticalIssues'', False, TNumber),
                                           (''filesAnalyzed'', False, TNumber), (''overallScore'', False, TNumber),
                                           (''recommendations'', False, TArray TString)]),
              (''issues'', False, TArray AnalysisIssue_type), (''metrics'', False, QualityMetrics_type),
              (''processing_time'', False, TNumber)]"

text \<open>The object literal \<open>processAnalysisResults\<close> returns.\<close>

definition fe_result_json :: "fe_analysis_result \<Rightarrow> js_value" where
  "fe_result_json r =
     (let s = summary r; m = metrics r in
      JObject [(''id'', JString (result_id r)), (''timestamp'', JString (result_timestamp r)),
               (''summary'', JObject [(''totalIssues'', JNumber (int (totalIssues s))),
                                      (''criticalIssues'', JNumber (int (criticalIssues s))),
                                      (''filesAnalyzed'', JNumber (int (filesAnalyzed s))),
                                      (''overallScore'', JNumber (overallScore s)),
                                      (''recommendations'', JArray (recommendations s))]),
               (''issues'', JArray (result_issues r)),
               (''metrics'', JObject
                  [(''complexity'', JObject [(''cyclomatic'', JNumber (int (cyclomatic (complexity m)))),
                                            (''cognitive'', JNumber (int (cognitive (complexity m))))]),
                   (''maintainability'', JObject [(''score'', JNumber (maintainability_score m))]),
                   (''technical_debt'', JObject [(''hours'', JNumber (int (debt_hours (technical_debt m)))),
                                                (''issues'', JNumber (int (debt_issues (technical_debt m))))]),
                   (''lines_of_code'', JObject [(''total'', JNumber (int (loc_total (lines_of_code m)))),
                                               (''source'', JNumber (int (loc_source (lines_of_code m)))),
                                               (''comments'', JNumber (int (loc_comments (lines_of_code m)))),
                                               (''blank'', JNumber (int (loc_blank (lines_of_code m))))])]),
               (''processing_time'', JNumber (int (processing_time r))),
               (''rawResults'', JArray (rawResults r))])"

section \<open>The backend's declarations of the report request\<close>

text \<open>\<open>ProjectInfo\<close> and \<open>ReportRequest\<close> of interfaces/AIProvider.ts, and the
  Gemini service's own \<open>AnalysisResult\<close>, the declared element type of the
  \<open>analysisResults\<close> its \<open>generateReport\<close> takes.\<close>

definition ProjectInfo_type :: ts_type where
  "ProjectInfo_type =
     TObject [(''name'', True, TString), (''language'', True, TString),
              (''framework'', True, TString), (''description'', True, TString)]"

definition backend_ReportRequest_type :: ts_type where
  "backend_ReportRequest_type =
     TObject [(''analysisResults'', False, TArray TAny), (''projectInfo'', True, ProjectInfo_type)]"

definition gemini_Issue_type :: ts_type where
  "gemini_Issue_type =
     TObject [(''type'', False, lit_union [''bug'', ''performance'', ''security'', ''style'']),
              (''severity'', False, lit_union [''low'', ''medium'', ''high'']),
              (''description'', False, TString), (''line'', True, TNumber), (''suggestion'', False, TString)]"

definition gemini_AnalysisResult_type :: ts_type where
  "gemini_AnalysisResult_type =
     TObject [(''quality_score'', False, TNumber), (''issues'', False, TArray gemini_Issue_type),
              (''summary'', False, TString), (''recommendations'', False, TArray TString)]"

section \<open>Lemmas\<close>

lemma fe_result_json_conforms:
  "conforms (fe_result_json r) StoreAnalysisResult_type \<longleftrightarrow>
     list_all (\<lambda>x. conforms x TString) (recommendations (summary r))
     \<and> list_all (\<lambda>i. conforms i AnalysisIssue_type) (result_issues r)"
  by (simp add: fe_result_json_def StoreAnalysisResult_type_def QualityMetrics_type_def js_get_def Let_def)

text \<open>What the API client receives as \<open>response.data.data\<close> from a successful
  handler, against the types it declares.\<close>

lemma result_json_response_types:
  "conforms (result_json res) AnalysisResponse_type"
  "js_get (result_json res) ''explanation'' = JUndefined"
  "\<not> conforms (result_json res) ExplainResponse_type"
  "js_get (result_json res) ''suggestions'' = JUndefined"
  "\<not> conforms (result_json res) ImprovementResponse_type"
  by (simp_all add: result_json_def AnalysisResponse_type_def ExplainResponse_type_def
      ImprovementResponse_type_def js_get_def)

lemma report_json_response_type:
  "is_js_object (js_get (data_json (DReport report projectInfo generatedAt n)) ''report'')"
  "\<not> conforms (data_json (DReport report projectInfo generatedAt n)) ReportResponse_type"
  by (simp_all add: result_json_def ReportResponse_type_def js_get_def)

lemma ctl_success_data:
  "body (fst (ctl_analyzeCode e r now b)) = ApiSuccess d \<Longrightarrow> \<exists>res. d = DAnalysis res"
  "body (fst (ctl_explainCode e r now b)) = ApiSuccess d \<Longrightarrow> \<exists>res. d = DAnalysis res"
  "body (fst (ctl_suggestImprovements e r now b)) = ApiSuccess d \<Longrightarrow> \<exists>res. d = DAnalysis res"
  "body (fst (ctl_generateReport e r now g b)) = ApiSuccess d \<Longrightarrow> \<exists>res pi g' n. d = DReport res pi g' n"
  by (auto simp: ctl_analyzeCode_def ctl_explainCode_def ctl_suggestImprovements_def ctl_generateReport_def
      Let_def respond_def response_defs split: option.splits sum.splits if_splits)

text \<open>An AI answer that follows the prompt's schema (an issue with type, severity,
  description and suggestion) is stored as an analysis whose issues lack the
  \<open>id\<close>, \<open>category\<close>, \<open>title\<close> and \<open>file\<close> the store's type requires.\<close>

lemma store_type_mismatch_example:
  "\<exists>res. processAnalysisResults (\<lambda>t. if t = ''A'' then Some demo_analysis_json else None) (\<lambda>h. Inr ''x'')
       ''id'' ''now'' [demo_processed] [] = Inr res
     \<and> \<not> conforms (fe_result_json res) StoreAnalysisResult_type"
  by (simp add: aggregate_eval demo_processed_def demo_analysis_json_def fe_result_json_conforms
      AnalysisIssue_type_def)

text \<open>The frontend and the backend declare the same report request.\<close>

lemma report_request_types_agree: "backend_ReportRequest_type = ReportRequest_type"
  by (simp add: backend_ReportRequest_type_def ReportRequest_type_def ProjectInfo_type_def)

text \<open>The report handler checks only that \<open>analysisResults\<close> is a non-empty array:
  a body with a number as its result and as its project information has neither
  the declared request type nor Gemini's declared result type, yet it is not
  refused as invalid (400); it goes to the providers.\<close>

lemma report_accepts_untyped_body:
  "\<not> conforms (JObject [(''analysisResults'', JArray [JNumber 1]), (''projectInfo'', JNumber 7)]) backend_ReportRequest_type
   \<and> \<not> conforms (JNumber 1) gemini_AnalysisResult_type
   \<and> status (fst (ctl_generateReport e r now generatedAt
         (JObject [(''analysisResults'', JArray [JNumber 1]), (''projectInfo'', JNumber 7)]))) \<noteq> 400"
  by (simp add: backend_ReportRequest_type_def ProjectInfo_type_def gemini_AnalysisResult_type_def
                ctl_generateReport_def js_get_def Let_def sendServerError_def sendSuccess_def sendError_def
           split: sum.split)

end
