(* ===== verification/CopyButton.thy ===== *)
theory CopyButton
  imports Display
begin

text \<open>
  The \<open>CodeBlock\<close> component of the analysis view (src/unnamed/part_002): the code
  with its optional title and its copy button. The button's state is the
  \<open>copied\<close> flag of \<open>useState\<close>, the timers \<open>setTimeout\<close> has scheduled and not yet
  run (their due times), and the clock; the clipboard is the effect of
  \<open>navigator.clipboard.writeText\<close>, whose promise the code neither awaits nor
  checks. Events are a click (with the outcome of \<open>writeText\<close>) and the passing
  of time, during which every due timer runs \<open>setCopied(false)\<close>.
\<close>

record copy_state =
  copied :: bool
  clipboard :: string
  timers :: "nat list"
  clock :: nat

definition copy_init :: "string \<Rightarrow> copy_state" where
  "copy_init clip = \<lparr>copied = False, clipboard = clip, timers = [], clock = 0\<rparr>"

datatype copy_event = Click bool | Wait nat

text \<open>\<open>copyCode\<close>: \<open>writeText(code)\<close> (which changes the clipboard only when it
  succeeds), \<open>setCopied(true)\<close>, and a timer due 2000 ms later.\<close>

definition copyCode :: "string \<Rightarrow> bool \<Rightarrow> copy_state \<Rightarrow> copy_state" where
  "copyCode code writeOk s =
     s\<lparr>clipboard := (if writeOk then code else clipboard s), copied := True,
       timers := timers s @ [clock s + 2000]\<rparr>"

text \<open>Time passes by \<open>d\<close> ms: the timers due by then run, each setting \<open>copied\<close>
  to false.\<close>

definition advance :: "nat \<Rightarrow> copy_state \<Rightarrow> copy_state" where
  "advance d s =
     (let t = clock s + d in
      s\<lparr>clock := t, copied := (copied s \<and> list_all (\<lambda>x. t < x) (timers s)),
        timers := filter (\<lambda>x. t < x) (timers s)\<rparr>)"

fun copy_step :: "string \<Rightarrow> copy_state \<Rightarrow> copy_event \<Rightarrow> copy_state" where
  "copy_step code s (Click ok) = copyCode code ok s"
| "copy_step code s (Wait d) = advance d s"

definition copy_run :: "string \<Rightarrow> copy_event list \<Rightarrow> copy_state \<Rightarrow> copy_state" where
  "copy_run code evs s = foldl (copy_step code) s evs"

record code_block_view =
  cb_title :: "string option"
  cb_code :: string
  cb_class :: string
  cb_button_title :: string
  cb_check_icon :: bool

text \<open>The render: the title bar when \<open>title\<close> is non-empty, the code in
  \<open><code className={`language-${language}`}>\<close>, and the button's title and icon.\<close>

definition CodeBlock_render :: "string \<Rightarrow> string \<Rightarrow> string \<Rightarrow> copy_state \<Rightarrow> code_block_view" where
  "CodeBlock_render code language title s =
     \<lparr>cb_title = (if title = [] then None else Some title), cb_code = code,
      cb_class = ''language-'' @ language,
      cb_button_title = (if copied s then ''Copied!'' else ''Copy code''), cb_check_icon = copied s\<rparr>"

text \<open>The states the button reaches from its first render.\<close>

definition copy_ok :: "copy_state \<Rightarrow> bool" where
  "copy_ok s \<longleftrightarrow> list_all (\<lambda>x. clock s < x \<and> x \<le> clock s + 2000) (timers s) \<and> (copied s \<longrightarrow> timers s \<noteq> [])"

section \<open>Lemmas\<close>

lemma copy_step_ok:
  assumes ok: "copy_ok s"
  shows "copy_ok (copy_step code s e)"
proof (cases e)
  case (Click b)
  then show ?thesis using ok
    by (auto simp: copy_ok_def copyCode_def list_all_iff)
next
  case (Wait d)
  show ?thesis
  proof (cases "list_all (\<lambda>x. clock s + d < x) (timers s)")
    case True
    then have "filter (\<lambda>x. clock s + d < x) (timers s) = timers s" by (simp add: list_all_iff)
    with True ok Wait show ?thesis by (auto simp: copy_ok_def advance_def Let_def list_all_iff)
  next
    case False
    with ok Wait show ?thesis by (auto simp: copy_ok_def advance_def Let_def list_all_iff)
  qed
qed

lemma copy_run_ok: "copy_ok s \<Longrightarrow> copy_ok (copy_run code evs s)"
  unfolding copy_run_def
proof (induction evs arbitrary: s)
  case Nil
  then show ?case by simp
next
  case (Cons e evs)
  then show ?case by (simp add: copy_step_ok)
qed

lemma copy_init_ok: "copy_ok (copy_init clip)"
  by (simp add: copy_ok_def copy_init_def)

lemma copy_run_append: "copy_run code (evs @ evs') s = copy_run code evs' (copy_run code evs s)"
  by (simp add: copy_run_def)

lemma advance_full:
  assumes "copy_ok s"
  shows "\<not> copied (advance 2000 s) \<and> timers (advance 2000 s) = []"
proof (cases "timers s = []")
  case True
  with assms show ?thesis by (simp add: copy_ok_def advance_def Let_def)
next
  case False
  have "\<forall>x \<in> set (timers s). x \<le> clock s + 2000" using assms by (simp add: copy_ok_def list_all_iff)
  with False show ?thesis by (auto simp: advance_def Let_def list_all_iff filter_empty_conv neq_Nil_conv)
qed

text \<open>A second click does not extend the feedback of the first: its timer,
  still pending, clears \<open>copied\<close> 2000 ms after the first click.\<close>

lemma copy_feedback_early_reset:
  assumes "copy_ok s" and "a < 2000" and "2000 \<le> a + b"
  shows "\<not> copied (copy_run code [Click ok1, Wait a, Click ok2, Wait b] s)"
  using assms by (simp add: copy_run_def copyCode_def advance_def Let_def list_all_iff)

text \<open>\<open>writeText\<close>'s promise is not awaited: a click shows "Copied!" even when the
  copy fails and the clipboard keeps its old content.\<close>

lemma copied_without_copy:
  "copied (copyCode code False s) \<and> clipboard (copyCode code False s) = clipboard s"
  by (simp add: copyCode_def)

lemma copy_feedback_early_reset_example:
  "\<not> copied (copy_run ''x'' [Click True, Wait 1500, Click True, Wait 500] (copy_init ''''))"
  using copy_feedback_early_reset [OF copy_init_ok, of 1500 500] by simp

section \<open>Properties\<close>

text \<open>
  C30 (liveness). The copy button's "Copied!" feedback always ends: whatever clicks
  and waits came before, 2000 ms later the button shows "Copy code" again and no timer
  is left pending.
\<close>

theorem copy_feedback_ends:
  "\<not> copied (advance 2000 (copy_run code evs (copy_init clip)))
   \<and> timers (advance 2000 (copy_run code evs (copy_init clip))) = []
   \<and> cb_button_title (CodeBlock_render code language title (advance 2000 (copy_run code evs (copy_init clip))))
       = ''Copy code''"
  using advance_full [OF copy_run_ok [OF copy_init_ok]] by (simp add: CodeBlock_render_def)

end
