(* ===== verification/IssueDetails.thy ===== *)
theory IssueDetails
  imports CopyButton
begin

text \<open>
  The body an \<open>IssueCard\<close> shows when expanded (src/unnamed/part_002): the
  problematic code in a \<open>CodeBlock\<close>, the suggestion split by
  \<open>parseContentBlocks\<close> into improved-code blocks and text rendered through
  \<open>formatText\<close>, and the reference links. It is modelled for issues whose fields
  have the types the display's \<open>Issue\<close> interface declares (\<open>codeSnippet?:
  string\<close>, \<open>suggestion?: string\<close>, \<open>references?: string[]\<close>); the arguments are
  those fields, \<open>None\<close> when absent. Each code block is shown in its initial state.
\<close>

datatype suggestion_block = ImprovedCode code_block_view | SuggestionHtml string

text \<open>One element of \<open>parseContentBlocks(issue.suggestion).map(...)\<close>.\<close>

definition render_suggestion_block :: "content_block \<Rightarrow> suggestion_block" where
  "render_suggestion_block b =
     (case b of
        CodeBlock body lang \<Rightarrow>
          ImprovedCode (CodeBlock_render body (if lang = [] then ''javascript'' else lang) ''Improved Code'' (copy_init []))
      | TextBlock t \<Rightarrow> SuggestionHtml (formatText t))"

record issue_details =
  det_snippet :: "code_block_view option"
  det_suggestion :: "suggestion_block list option"
  det_references :: "string list option"

text \<open>The expanded body; \<open>None\<close> if the \<open>exec\<close> loop of \<open>parseContentBlocks\<close> did not
  return. An empty string or reference list renders nothing.\<close>

definition IssueDetails :: "string option \<Rightarrow> string option \<Rightarrow> string list option \<Rightarrow> issue_details option" where
  "IssueDetails codeSnippet suggestion references =
     map_option
       (\<lambda>sg. \<lparr>det_snippet = (case codeSnippet of
                               Some c \<Rightarrow> if c = [] then None else Some (CodeBlock_render c ''javascript'' [] (copy_init []))
                             | None \<Rightarrow> None),
              det_suggestion = sg,
              det_references = (case references of Some rs \<Rightarrow> if rs = [] then None else Some rs | None \<Rightarrow> None)\<rparr>)
       (case suggestion of
          Some s \<Rightarrow> if s = [] then Some None else map_option (\<lambda>bs. Some (map render_suggestion_block bs)) (parseContentBlocks s)
        | None \<Rightarrow> Some None)"

section \<open>Lemmas\<close>

lemma parseContentBlocks_Some: "\<exists>bs. parseContentBlocks s = Some bs"
proof -
  obtain j bs where "content_blocks_loop s 0 [] = Some (j, [] @ bs)"
    using content_blocks_loop_result [of 0 s "[]"] by blast
  then show ?thesis by (simp add: parseContentBlocks_def)
qed

text \<open>The expanded body always renders.\<close>

lemma IssueDetails_total: "\<exists>d. IssueDetails codeSnippet suggestion references = Some d"
proof (cases suggestion)
  case None
  then show ?thesis by (simp add: IssueDetails_def)
next
  case (Some s)
  obtain bs where "parseContentBlocks s = Some bs" using parseContentBlocks_Some by blast
  with Some show ?thesis by (simp add: IssueDetails_def)
qed

text \<open>The text between the code blocks of a suggestion goes to
  \<open>dangerouslySetInnerHTML\<close> through \<open>formatText\<close>, unescaped like the rest of the view;
  the code blocks are React text, escaped.\<close>

lemma IssueDetails_suggestion_text:
  assumes "IssueDetails c (Some s) r = Some d" and "s \<noteq> []"
  shows "\<exists>bs. parseContentBlocks s = Some bs \<and> det_suggestion d = Some (map render_suggestion_block bs)"
  using assms by (auto simp: IssueDetails_def split: option.splits)

lemma IssueDetails_example:
  "IssueDetails (Some ''eval(x)'') (Some (''Avoid `eval`:'' @ [CHR 0x0A] @ ''```js'' @ [CHR 0x0A] @ ''JSON.parse(x)'' @ [CHR 0x0A] @ ''```'')) None
   = Some \<lparr>det_snippet = Some (CodeBlock_render ''eval(x)'' ''javascript'' [] (copy_init [])),
           det_suggestion = Some [SuggestionHtml (formatText (''Avoid `eval`:'' @ [CHR 0x0A])),
                                  ImprovedCode (CodeBlock_render (''JSON.parse(x)'' @ [CHR 0x0A]) ''js'' ''Improved Code'' (copy_init []))],
           det_references = None\<rparr>"
  by code_simp

end
