(* ===== verification/Server.thy ===== *)
theory Server
  imports Contract Prompts
begin

text \<open>
  The request body on the wire (src/backend/src/app.ts, lines 20-22, and the
  axios instance of src/frontend/src/utils/analysisUtils.ts). The client sends
  \<open>JSON.stringify(data)\<close> with \<open>Content-Type: application/json\<close>;
  \<open>express.json({limit: '10mb'})\<close> refuses a body over the limit, refuses a
  strict-mode body that does not start with an object or an array, and
  otherwise runs \<open>JSON.parse\<close>. Every error goes to the global error handler.
  JSON.parse is modelled by a recursive-descent parser with fuel.
\<close>

section \<open>JSON.stringify without a gap\<close>

function json_compact :: "js_value \<Rightarrow> string" where
  "json_compact JUndefined = ''null''"
| "json_compact JNull = ''null''"
| "json_compact (JBool b) = (if b then ''true'' else ''false'')"
| "json_compact (JNumber n) = int_digits n"
| "json_compact (JString s) = json_quote s"
| "json_compact (JArray xs) = ''['' @ join_with '','' (map json_compact xs) @ '']''"
| "json_compact (JObject ps) =
     ''{'' @ join_with '',''
               (map (\<lambda>(k, x). json_quote k @ '':'' @ json_compact x) (json_props (JObject ps)))
     @ ''}''"
  by pat_completeness auto
termination
proof (relation "measure size")
  show "wf (measure size)" by simp
next
  fix xs :: "js_value list" and x
  assume "x \<in> set xs"
  then have "size x \<le> size_list size xs" by (rule size_list_estimation') simp
  then show "(x, JArray xs) \<in> measure size" by simp
next
  fix ps :: "(string \<times> js_value) list" and kx k x
  assume "kx \<in> set (json_props (JObject ps))" and "(k, x) = kx"
  then have "size x < size (JObject ps)" using json_props_size by blast
  then show "(x, JObject ps) \<in> measure size" by simp
qed

text \<open>What \<open>JSON.parse(JSON.stringify(v))\<close> gives back: \<open>undefined\<close> array
  elements become \<open>null\<close>, an object keeps its printed properties.\<close>

function json_norm :: "js_value \<Rightarrow> js_value" where
  "json_norm JUndefined = JNull"
| "json_norm JNull = JNull"
| "json_norm (JBool b) = JBool b"
| "json_norm (JNumber n) = JNumber n"
| "json_norm (JString s) = JString s"
| "json_norm (JArray xs) = JArray (map json_norm xs)"
| "json_norm (JObject ps) = JObject (map (\<lambda>(k, x). (k, json_norm x)) (json_props (JObject ps)))"
  by pat_completeness auto
termination
proof (relation "measure size")
  show "wf (measure size)" by simp
next
  fix xs :: "js_value list" and x
  assume "x \<in> set xs"
  then have "size x \<le> size_list size xs" by (rule size_list_estimation') simp
  then show "(x, JArray xs) \<in> measure size" by simp
next
  fix ps :: "(string \<times> js_value) list" and kx k x
  assume "kx \<in> set (json_props (JObject ps))" and "(k, x) = kx"
  then have "size x < size (JObject ps)" using json_props_size by blast
  then show "(x, JObject ps) \<in> measure size" by simp
qed

section \<open>JSON.parse\<close>

text \<open>JSON whitespace: space, tab, line feed, carriage return.\<close>

definition is_json_ws :: "char \<Rightarrow> bool" where
  "is_json_ws c \<longleftrightarrow> c \<in> {CHR '' '', CHR 0x09, CHR 0x0A, CHR 0x0D}"

definition skip_ws :: "string \<Rightarrow> string" where
  "skip_ws s = dropWhile is_json_ws s"

definition is_digit :: "char \<Rightarrow> bool" where
  "is_digit c \<longleftrightarrow> 48 \<le> (of_char c :: nat) \<and> (of_char c :: nat) \<le> 57"

definition hex_value :: "char \<Rightarrow> nat option" where
  "hex_value c =
    (let n = (of_char c :: nat) in
     if 48 \<le> n \<and> n \<le> 57 then Some (n - 48)
     else if 97 \<le> n \<and> n \<le> 102 then Some (n - 87)
     else if 65 \<le> n \<and> n \<le> 70 then Some (n - 55)
     else None)"

definition hex4_value :: "char \<Rightarrow> char \<Rightarrow> char \<Rightarrow> char \<Rightarrow> nat option" where
  "hex4_value a b c d =
    (case (hex_value a, hex_value b, hex_value c, hex_value d) of
       (Some w, Some x, Some y, Some z) \<Rightarrow> Some (((w * 16 + x) * 16 + y) * 16 + z)
     | _ \<Rightarrow> None)"

text \<open>The one-letter escapes of a JSON string.\<close>

definition json_unescape :: "char \<Rightarrow> char option" where
  "json_unescape e =
    (if e = CHR 0x22 then Some (CHR 0x22) else if e = CHR 0x5C then Some (CHR 0x5C)
     else if e = CHR ''/'' then Some (CHR ''/'') else if e = CHR ''b'' then Some (CHR 0x08)
     else if e = CHR ''f'' then Some (CHR 0x0C) else if e = CHR ''n'' then Some (CHR 0x0A)
     else if e = CHR ''r'' then Some (CHR 0x0D) else if e = CHR ''t'' then Some (CHR 0x09)
     else None)"

definition cons_char :: "char \<Rightarrow> (string \<times> string) option \<Rightarrow> (string \<times> string) option" where
  "cons_char c r = map_option (\<lambda>(s, t). (c # s, t)) r"

text \<open>The characters of a string literal after its opening quote, up to and
  without the closing quote. A \<open>\u\<close> escape above \<open>00FF\<close> is outside the
  model's character type and is refused.\<close>

fun json_chars :: "string \<Rightarrow> (string \<times> string) option" where
  "json_chars [] = None"
| "json_chars (c # s) =
     (if c = CHR 0x22 then Some ([], s)
      else if c = CHR 0x5C then
        (case s of
           [] \<Rightarrow> None
         | e # s' \<Rightarrow>
             (if e = CHR ''u'' then
                (case s' of
                   a # b # c' # d # s'' \<Rightarrow>
                     (case hex4_value a b c' d of
                        Some n \<Rightarrow> (if n < 256 then cons_char (char_of n) (json_chars s'') else None)
                      | None \<Rightarrow> None)
                 | _ \<Rightarrow> None)
              else (case json_unescape e of
                      Some x \<Rightarrow> cons_char x (json_chars s')
                    | None \<Rightarrow> None)))
      else if (of_char c :: nat) < 0x20 then None
      else cons_char c (json_chars s))"

text \<open>A number: an optional minus sign and the digits of an integer without
  leading zeros. A fraction or an exponent is outside the model's integer
  numbers and is refused.\<close>

definition json_number :: "string \<Rightarrow> (js_value \<times> string) option" where
  "json_number s =
    (let (neg, t) = (case s of c # u \<Rightarrow> if c = CHR ''-'' then (True, u) else (False, s) | [] \<Rightarrow> (False, s));
         ds = takeWhile is_digit t; rest = dropWhile is_digit t;
         n = int (digits_value ds) in
     if ds = [] \<or> (hd ds = CHR ''0'' \<and> 1 < length ds)
        \<or> (rest \<noteq> [] \<and> hd rest \<in> {CHR ''.'', CHR ''e'', CHR ''E''})
     then None else Some (JNumber (if neg then - n else n), rest))"

definition json_literal :: "string \<Rightarrow> (js_value \<times> string) option" where
  "json_literal s =
    (if take 4 s = ''null'' then Some (JNull, drop 4 s)
     else if take 4 s = ''true'' then Some (JBool True, drop 4 s)
     else if take 5 s = ''false'' then Some (JBool False, drop 5 s)
     else json_number s)"

text \<open>A value, the elements of an array after its \<open>[\<close>, the members of an
  object after its \<open>{\<close>; the fuel bounds the depth of the calls.\<close>

fun json_value :: "nat \<Rightarrow> string \<Rightarrow> (js_value \<times> string) option"
and json_elems :: "nat \<Rightarrow> js_value list \<Rightarrow> string \<Rightarrow> (js_value \<times> string) option"
and json_members :: "nat \<Rightarrow> (string \<times> js_value) list \<Rightarrow> string \<Rightarrow> (js_value \<times> string) option" where
  "json_value 0 s = None"
| "json_value (Suc n) s =
     (case skip_ws s of
        [] \<Rightarrow> None
      | c # t \<Rightarrow>
          (if c = CHR ''['' then
             (if take 1 (skip_ws t) = '']'' then Some (JArray [], tl (skip_ws t)) else json_elems n [] t)
           else if c = CHR ''{'' then
             (if take 1 (skip_ws t) = ''}'' then Some (JObject [], tl (skip_ws t)) else json_members n [] t)
           else if c = CHR 0x22 then map_option (\<lambda>(x, u). (JString x, u)) (json_chars t)
           else json_literal (c # t)))"
| "json_elems 0 acc s = None"
| "json_elems (Suc n) acc s =
     (case json_value n s of
        None \<Rightarrow> None
      | Some (v, t) \<Rightarrow>
          (case skip_ws t of
             [] \<Rightarrow> None
           | c # u \<Rightarrow>
               (if c = CHR '','' then json_elems n (acc @ [v]) u
                else if c = CHR '']'' then Some (JArray (acc @ [v]), u)
                else None)))"
| "json_members 0 acc s = None"
| "json_members (Suc n) acc s =
     (case skip_ws s of
        c # t \<Rightarrow>
          (if c \<noteq> CHR 0x22 then None
           else case json_chars t of
             None \<Rightarrow> None
           | Some (k, t') \<Rightarrow>
               (if take 1 (skip_ws t') \<noteq> '':'' then None
                else case json_value n (tl (skip_ws t')) of
                  None \<Rightarrow> None
                | Some (v, u) \<Rightarrow>
                    (case skip_ws u of
                       [] \<Rightarrow> None
                     | e # w \<Rightarrow>
                         (if e = CHR '','' then json_members n (acc @ [(k, v)]) w
                          else if e = CHR ''}'' then Some (JObject (acc @ [(k, v)]), w)
                          else None))))
      | [] \<Rightarrow> None)"

text \<open>The characters that may follow a value inside a JSON text.\<close>

definition json_delim :: "string \<Rightarrow> bool" where
  "json_delim t \<longleftrightarrow> t = [] \<or> hd t \<in> {CHR '','', CHR '']'', CHR ''}''}"

text \<open>The roundtrip of one value: with enough fuel its compact text, followed by
  what may follow a value, parses back to its normal form.\<close>
definition compact_ok :: "js_value \<Rightarrow> bool" where
  "compact_ok x \<longleftrightarrow> (\<forall>n t. length (json_compact x) \<le> n \<longrightarrow> json_delim t
                       \<longrightarrow> json_value n (json_compact x @ t) = Some (json_norm x, t))"

text \<open>\<open>JSON.parse(text)\<close>: one value and nothing but whitespace after it.\<close>

definition json_parse :: "string \<Rightarrow> js_value option" where
  "json_parse s =
    (case json_value (Suc (length s)) s of
       Some (v, t) \<Rightarrow> (if skip_ws t = [] then Some v else None)
     | None \<Rightarrow> None)"

section \<open>The body-parsing middleware\<close>

text \<open>\<open>express.json({limit: '10mb'})\<close> and \<open>express.urlencoded({extended: true,
  limit: '10mb'})\<close>: the limit in bytes (\<open>bytes.parse('10mb')\<close>), and the
  size of a body in UTF-8, whose characters here are the code units up to \<open>00FF\<close>.\<close>

definition body_limit :: nat where
  "body_limit = 10 * 1024 * 1024"

definition utf8_width :: "char \<Rightarrow> nat" where
  "utf8_width c = (if (of_char c :: nat) < 0x80 then 1 else 2)"

definition body_bytes :: "string \<Rightarrow> nat" where
  "body_bytes s = sum_list (map utf8_width s)"

definition too_large_message :: message where
  "too_large_message = ''request entity too large''"

text \<open>The request's body as the middleware sees it: none, or one with the
  content type of the JSON parser, of the urlencoded parser or of neither.\<close>

datatype content_type = NoBody | JsonBody | FormBody | OtherBody

text \<open>body-parser's \<open>json\<close> parse step in strict mode: an empty body is
  \<open>{}\<close>; a body whose first non-blank character opens neither an object nor an
  array, and a body \<open>JSON.parse\<close> refuses, raise a \<open>SyntaxError\<close> whose message
  (the engine's) is the parameter \<open>syntax_msg\<close>.\<close>

definition json_body_parse :: "(string \<Rightarrow> message) \<Rightarrow> string \<Rightarrow> message + js_value" where
  "json_body_parse syntax_msg raw =
    (if raw = [] then Inr (JObject [])
     else if take 1 (skip_ws raw) \<notin> {''{'', ''[''} then Inl (syntax_msg raw)
     else case json_parse raw of Some v \<Rightarrow> Inr v | None \<Rightarrow> Inl (syntax_msg raw))"

text \<open>The two parsers in the order of \<open>app.use\<close>. A body that neither parser
  reads leaves \<open>req.body = {}\<close>; the \<open>qs\<close> parse of a form body is the
  parameter \<open>qs_parse\<close>. A body over the limit is refused before it is read.\<close>

definition parse_body ::
  "(string \<Rightarrow> message) \<Rightarrow> (string \<Rightarrow> message + js_value) \<Rightarrow> content_type \<Rightarrow> string \<Rightarrow> message + js_value" where
  "parse_body syntax_msg qs_parse ct raw =
    (case ct of
       NoBody \<Rightarrow> Inr (JObject [])
     | OtherBody \<Rightarrow> Inr (JObject [])
     | JsonBody \<Rightarrow>
         (if body_limit < body_bytes raw then Inl too_large_message else json_body_parse syntax_msg raw)
     | FormBody \<Rightarrow>
         (if body_limit < body_bytes raw then Inl too_large_message
          else if raw = [] then Inr (JObject []) else qs_parse raw))"

text \<open>The whole server on a raw request: the middleware, then \<open>app_handle\<close>,
  which sends a parser error to the global error handler.\<close>

definition app_receive ::
  "env \<Rightarrow> remote \<Rightarrow> string \<Rightarrow> string \<Rightarrow> (string \<Rightarrow> message) \<Rightarrow> (string \<Rightarrow> message + js_value)
     \<Rightarrow> http_method \<Rightarrow> string \<Rightarrow> content_type \<Rightarrow> string \<Rightarrow> http_outcome \<times> log_event list" where
  "app_receive e r nodeEnv now syntax_msg qs_parse m p ct raw =
     app_handle e r nodeEnv now m p (parse_body syntax_msg qs_parse ct raw)"

text \<open>What the axios instance puts on the wire: a GET carries no body; any
  other request carries \<open>JSON.stringify(data)\<close> as \<open>application/json\<close>.\<close>

definition axios_body :: "http_method \<Rightarrow> js_value \<Rightarrow> content_type \<times> string" where
  "axios_body m data = (if m = GET then (NoBody, []) else (JsonBody, json_compact data))"

text \<open>The frontend's transport over the real server.\<close>

definition wire_transport ::
  "env \<Rightarrow> remote \<Rightarrow> string \<Rightarrow> string \<Rightarrow> (string \<Rightarrow> message) \<Rightarrow> (string \<Rightarrow> message + js_value) \<Rightarrow> transport" where
  "wire_transport e r nodeEnv now syntax_msg qs_parse m p data =
     (case axios_body m data of
        (ct, raw) \<Rightarrow> fst (app_receive e r nodeEnv now syntax_msg qs_parse m p ct raw))"

section \<open>Inputs of the examples\<close>

text \<open>An environment with a Gemini key, remote services where Gemini answers,
  a small analysis request, and a code of two million control characters
  (\<open>U+0001\<close>), which \<open>JSON.stringify\<close> writes as six bytes each.\<close>

definition demo_env :: env where
  "demo_env = \<lparr>GEMINI_API_KEY = Some ''g'', GROQ_API_KEY = None, HUGGINGFACE_API_KEY = None\<rparr>"

definition demo_remote :: remote where
  "demo_remote = \<lparr>gemini_generate = (\<lambda>op k. Inr (Inr ''fine'')), groq_create = (\<lambda>op. Inl ''unused''),
                   hf_fetch = (\<lambda>k p. HfFetchError ''unused'')\<rparr>"

definition demo_request :: js_value where
  "demo_request = analysis_request_json ''x = 1'' ''python'' ''general'' ''auto''"

definition control_code :: string where
  "control_code = replicate 2000000 (CHR 0x01)"

section \<open>The JSON roundtrip\<close>

lemma hex_value_hex_digit: "k < 16 \<Longrightarrow> hex_value (hex_digit k) = Some k"
  by (auto simp: hex_value_def hex_digit_def Let_def)

lemma char_eq_of_char: "c = d \<longleftrightarrow> (of_char c :: nat) = of_char d"
  by (metis char_of_char)

lemma json_chars_escape:
  "json_chars (json_escape_char c @ r) = cons_char c (json_chars r)"
proof -
  have h0: "hex_value (CHR ''0'') = Some 0" by (simp add: hex_value_def)
  obtain n :: nat where c: "c = char_of n" and n: "n < 256"
    by (metis char_of_char nat_of_char_less_256)
  have "n div 16 * 16 + n mod 16 = n" by simp
  then show ?thesis
    unfolding c using n
    by (auto simp: json_escape_char_def Let_def hex4_value_def hex_value_hex_digit h0
                   json_unescape_def char_eq_of_char) (simp_all add: char_of_def bit_0)
qed

declare nat_digits.simps [simp del]

lemma json_chars_quote: "json_chars (concat (map json_escape_char s) @ CHR 0x22 # t) = Some (s, t)"
  by (induction s) (simp_all add: json_chars_escape cons_char_def)

lemma nat_digits_small: "n < 10 \<Longrightarrow> nat_digits n = [char_of (48 + n)]"
  by (simp add: nat_digits.simps)

lemma nat_digits_large: "\<not> n < 10 \<Longrightarrow> nat_digits n = nat_digits (n div 10) @ [char_of (48 + n mod 10)]"
  by (simp add: nat_digits.simps)

lemma nat_digits_is_digit: "c \<in> set (nat_digits n) \<Longrightarrow> is_digit c"
proof (induction n rule: nat_digits.induct)
  case (1 n)
  then show ?case
    by (cases "n < 10") (auto simp: is_digit_def nat_digits_small nat_digits_large)
qed

lemma nat_digits_not_Nil [simp]: "nat_digits n \<noteq> []"
  by (cases "n < 10") (simp_all add: nat_digits_small nat_digits_large)

lemma digits_value_snoc: "digits_value (xs @ [c]) = 10 * digits_value xs + (of_char c - 48)"
  by (simp add: digits_value_def)

lemma digits_value_nat_digits: "digits_value (nat_digits n) = n"
  by (induction n rule: nat_digits.induct)
     (simp add: nat_digits.simps digits_value_snoc digits_value_def)

lemma nat_digits_hd_zero: "hd (nat_digits n) = CHR ''0'' \<longleftrightarrow> n = 0"
proof (induction n rule: nat_digits.induct)
  case (1 n)
  show ?case
  proof (cases "n < 10")
    case True
    then show ?thesis by (auto simp: nat_digits_small char_eq_of_char)
  next
    case False
    then show ?thesis using 1 by (simp add: nat_digits_large)
  qed
qed

lemma nat_digits_lead: "1 < length (nat_digits n) \<Longrightarrow> hd (nat_digits n) \<noteq> CHR ''0''"
  by (cases "n = 0") (auto simp: nat_digits_hd_zero nat_digits_small)

lemma takeWhile_digits_delim:
  assumes "json_delim t"
  shows "takeWhile is_digit (nat_digits k @ t) = nat_digits k"
    and "dropWhile is_digit (nat_digits k @ t) = t"
proof -
  have t: "takeWhile is_digit t = [] \<and> dropWhile is_digit t = t"
    using assms by (cases t) (auto simp: json_delim_def is_digit_def)
  show "takeWhile is_digit (nat_digits k @ t) = nat_digits k"
    using t by (simp add: takeWhile_append2 nat_digits_is_digit)
  show "dropWhile is_digit (nat_digits k @ t) = t"
    using t by (simp add: dropWhile_append2 nat_digits_is_digit)
qed

lemma nat_digits_Cons: "\<exists>c r. nat_digits k = c # r \<and> is_digit c"
  by (metis list.set_intros(1) nat_digits_is_digit nat_digits_not_Nil neq_Nil_conv)

lemma json_number_digits:
  assumes "json_delim t"
  shows "json_number (nat_digits k @ t) = Some (JNumber (int k), t)"
    and "json_number (CHR ''-'' # nat_digits k @ t) = Some (JNumber (- int k), t)"
proof -
  have d: "\<not> (t \<noteq> [] \<and> hd t \<in> {CHR ''.'', CHR ''e'', CHR ''E''})"
    using assms by (auto simp: json_delim_def)
  have l: "\<not> (hd (nat_digits k) = CHR ''0'' \<and> 1 < length (nat_digits k))"
    using nat_digits_lead by blast
  obtain c r where cr: "nat_digits k = c # r" "is_digit c" using nat_digits_Cons by blast
  then have "c \<noteq> CHR ''-''" by (auto simp: is_digit_def)
  then have cs: "(case nat_digits k @ t of [] \<Rightarrow> (False, nat_digits k @ t)
      | c # u \<Rightarrow> if c = CHR ''-'' then (True, u) else (False, nat_digits k @ t)) = (False, nat_digits k @ t)"
    using cr by simp
  show "json_number (nat_digits k @ t) = Some (JNumber (int k), t)"
    unfolding json_number_def cs Let_def prod.case takeWhile_digits_delim [OF assms] digits_value_nat_digits
    using d l by simp
  have cs2: "(case CHR ''-'' # nat_digits k @ t of [] \<Rightarrow> (False, CHR ''-'' # nat_digits k @ t)
      | c # u \<Rightarrow> if c = CHR ''-'' then (True, u) else (False, CHR ''-'' # nat_digits k @ t))
      = (True, nat_digits k @ t)" by simp
  show "json_number (CHR ''-'' # nat_digits k @ t) = Some (JNumber (- int k), t)"
    unfolding json_number_def
      cs2 Let_def prod.case takeWhile_digits_delim [OF assms] digits_value_nat_digits
    using d l by simp
qed

lemma json_literal_int:
  assumes "json_delim t"
  shows "json_literal (int_digits i @ t) = Some (JNumber i, t)"
proof (cases "i < 0")
  case True
  then show ?thesis
    using json_number_digits(2) [OF assms, of "nat (- i)"] by (simp add: json_literal_def int_digits_def)
next
  case False
  obtain c r where cr: "nat_digits (nat i) = c # r" "is_digit c" using nat_digits_Cons by blast
  then have "c \<noteq> CHR ''n'' \<and> c \<noteq> CHR ''t'' \<and> c \<noteq> CHR ''f''" by (auto simp: is_digit_def)
  then show ?thesis
    using False cr json_number_digits(1) [OF assms, of "nat i"] by (simp add: json_literal_def int_digits_def)
qed

lemma skip_ws_Cons: "\<not> is_json_ws c \<Longrightarrow> skip_ws (c # r) = c # r"
  by (simp add: skip_ws_def)

lemma json_compact_Cons:
  "\<exists>c r. json_compact v = c # r \<and> \<not> is_json_ws c \<and> c \<noteq> CHR '']'' \<and> c \<noteq> CHR ''}''"
proof (cases v)
  case (JNumber i)
  obtain c r where cr: "nat_digits (nat (if i < 0 then - i else i)) = c # r" "is_digit c"
    using nat_digits_Cons by blast
  then show ?thesis
    using JNumber by (auto simp: int_digits_def is_json_ws_def is_digit_def)
qed (auto simp: is_json_ws_def json_quote_def)

lemma json_elems_compact:
  assumes "\<forall>x\<in>set xs. compact_ok x" and "xs \<noteq> []"
    and "length (join_with '','' (map json_compact xs)) < n"
  shows "json_elems n acc (join_with '','' (map json_compact xs) @ CHR '']'' # t)
           = Some (JArray (acc @ map json_norm xs), t)"
  using assms
proof (induction xs arbitrary: n acc rule: induct_list012)
  case (2 x)
  then obtain m where n: "n = Suc m" by (cases n) auto
  have "json_value m (json_compact x @ CHR '']'' # t) = Some (json_norm x, CHR '']'' # t)"
    using 2 n by (simp add: compact_ok_def json_delim_def)
  then show ?case by (simp add: n skip_ws_Cons is_json_ws_def)
next
  case (3 x y zs)
  then obtain m where n: "n = Suc m" by (cases n) auto
  let ?rest = "join_with '','' (map json_compact (y # zs)) @ CHR '']'' # t"
  have "json_value m (json_compact x @ CHR '','' # ?rest) = Some (json_norm x, CHR '','' # ?rest)"
    using 3(3,5) n by (simp add: compact_ok_def json_delim_def)
  moreover have "json_elems m (acc @ [json_norm x]) ?rest = Some (JArray ((acc @ [json_norm x]) @ map json_norm (y # zs)), t)"
    using 3 n by simp
  ultimately show ?case by (simp add: n skip_ws_Cons is_json_ws_def)
qed simp

lemma json_quote_append: "json_quote k @ r = CHR 0x22 # concat (map json_escape_char k) @ CHR 0x22 # r"
  by (simp add: json_quote_def)

lemma json_members_compact:
  assumes "\<forall>(k, x)\<in>set qs. compact_ok x" and "qs \<noteq> []"
    and "length (join_with '','' (map (\<lambda>(k, x). json_quote k @ '':'' @ json_compact x) qs)) < n"
  shows "json_members n acc (join_with '','' (map (\<lambda>(k, x). json_quote k @ '':'' @ json_compact x) qs) @ CHR ''}'' # t)
           = Some (JObject (acc @ map (\<lambda>(k, x). (k, json_norm x)) qs), t)"
  using assms
proof (induction qs arbitrary: n acc rule: induct_list012)
  case (2 kx)
  obtain k x where kx: "kx = (k, x)" by fastforce
  obtain m where n: "n = Suc m" using 2 by (cases n) auto
  have "json_value m (json_compact x @ CHR ''}'' # t) = Some (json_norm x, CHR ''}'' # t)"
    using 2 n kx by (simp add: compact_ok_def json_delim_def json_quote_def)
  then show ?case
    by (simp add: n kx json_quote_append json_chars_quote skip_ws_Cons is_json_ws_def)
next
  case (3 kx ly zs)
  obtain k x where kx: "kx = (k, x)" by fastforce
  obtain m where n: "n = Suc m" using 3 by (cases n) auto
  let ?rest = "join_with '','' (map (\<lambda>(k, x). json_quote k @ '':'' @ json_compact x) (ly # zs)) @ CHR ''}'' # t"
  have "json_value m (json_compact x @ CHR '','' # ?rest) = Some (json_norm x, CHR '','' # ?rest)"
    using 3(3,5) n kx by (simp add: compact_ok_def json_delim_def json_quote_def)
  moreover have "json_members m (acc @ [(k, json_norm x)]) ?rest
      = Some (JObject ((acc @ [(k, json_norm x)]) @ map (\<lambda>(k, x). (k, json_norm x)) (ly # zs)), t)"
    using 3 n kx by (simp add: json_quote_def)
  ultimately show ?case
    by (simp add: n kx json_quote_append json_chars_quote skip_ws_Cons is_json_ws_def)
qed simp

lemma compact_okI:
  assumes "\<And>m t. length (json_compact x) \<le> Suc m \<Longrightarrow> json_delim t
             \<Longrightarrow> json_value (Suc m) (json_compact x @ t) = Some (json_norm x, t)"
  shows "compact_ok x"
  unfolding compact_ok_def
proof (intro allI impI)
  fix n t
  assume n: "length (json_compact x) \<le> n" and t: "json_delim t"
  obtain c r where "json_compact x = c # r" using json_compact_Cons by blast
  with n obtain m where "n = Suc m" by (cases n) auto
  with n t assms show "json_value n (json_compact x @ t) = Some (json_norm x, t)" by simp
qed

lemma json_value_int:
  assumes "json_delim t"
  shows "json_value (Suc m) (int_digits i @ t) = Some (JNumber i, t)"
proof -
  obtain c r where cr: "int_digits i = c # r" "c = CHR ''-'' \<or> is_digit c"
  proof (cases "i < 0")
    case True
    then show ?thesis using that [of "CHR ''-''" "nat_digits (nat (- i))"] by (simp add: int_digits_def)
  next
    case False
    then show ?thesis using that nat_digits_Cons [of "nat i"] by (auto simp: int_digits_def)
  qed
  then have "\<not> is_json_ws c" "c \<noteq> CHR ''[''" "c \<noteq> CHR ''{''" "c \<noteq> CHR 0x22"
    by (auto simp: is_json_ws_def is_digit_def)
  then have "json_value (Suc m) (int_digits i @ t) = json_literal (int_digits i @ t)"
    by (simp add: cr skip_ws_Cons)
  then show ?thesis using json_literal_int [OF assms] by (simp del: json_value.simps)
qed

lemma join_with_hd: "xs \<noteq> [] \<Longrightarrow> \<exists>r. join_with sep xs = hd xs @ r"
  by (induction xs rule: induct_list012) auto

lemma json_value_compact: "compact_ok v"
proof (induction v rule: json_compact.induct)
  case (4 i)
  show ?case by (rule compact_okI) (simp add: json_value_int del: json_value.simps)
next
  case (6 xs)
  show ?case
  proof (rule compact_okI)
    fix m t
    assume l: "length (json_compact (JArray xs)) \<le> Suc m" and t: "json_delim t"
    show "json_value (Suc m) (json_compact (JArray xs) @ t) = Some (json_norm (JArray xs), t)"
    proof (cases "xs = []")
      case True
      then show ?thesis by (simp add: skip_ws_Cons is_json_ws_def)
    next
      case False
      obtain c r where cr: "json_compact (hd xs) = c # r" "\<not> is_json_ws c" "c \<noteq> CHR '']''"
        using json_compact_Cons by blast
      obtain r' where "join_with '','' (map json_compact xs) = json_compact (hd xs) @ r'"
        using join_with_hd [of "map json_compact xs"] False by (auto simp: hd_map)
      then have j: "join_with '','' (map json_compact xs) = c # r @ r'" using cr by simp
      have "json_elems m [] (join_with '','' (map json_compact xs) @ CHR '']'' # t)
              = Some (JArray ([] @ map json_norm xs), t)"
        using 6 False l by (intro json_elems_compact) auto
      then show ?thesis using cr by (simp add: j skip_ws_Cons is_json_ws_def)
    qed
  qed
next
  case (7 ps)
  let ?qs = "json_props (JObject ps)"
  show ?case
  proof (rule compact_okI)
    fix m t
    assume l: "length (json_compact (JObject ps)) \<le> Suc m" and t: "json_delim t"
    show "json_value (Suc m) (json_compact (JObject ps) @ t) = Some (json_norm (JObject ps), t)"
    proof (cases "?qs = []")
      case True
      then show ?thesis by (simp add: skip_ws_Cons is_json_ws_def)
    next
      case False
      obtain r' where "join_with '','' (map (\<lambda>(k, x). json_quote k @ '':'' @ json_compact x) ?qs)
          = (case hd ?qs of (k, x) \<Rightarrow> json_quote k @ '':'' @ json_compact x) @ r'"
        using join_with_hd [of "map (\<lambda>(k, x). json_quote k @ '':'' @ json_compact x) ?qs"] False
        by (auto simp: hd_map)
      then obtain r where j: "join_with '','' (map (\<lambda>(k, x). json_quote k @ '':'' @ json_compact x) ?qs)
          = CHR 0x22 # r" by (auto simp: json_quote_def split: prod.splits)
      have "json_members m [] (join_with '','' (map (\<lambda>(k, x). json_quote k @ '':'' @ json_compact x) ?qs) @ CHR ''}'' # t)
              = Some (JObject ([] @ map (\<lambda>(k, x). (k, json_norm x)) ?qs), t)"
        using 7 False l by (intro json_members_compact) auto
      then show ?thesis by (simp add: j [simplified] skip_ws_Cons is_json_ws_def)
    qed
  qed
qed (rule compact_okI;
     simp add: json_literal_def skip_ws_Cons is_json_ws_def json_quote_append json_chars_quote json_value_int)+

lemma json_value_compact_all: "json_value (Suc (length (json_compact v))) (json_compact v) = Some (json_norm v, [])"
  using json_value_compact [of v, unfolded compact_ok_def] by (simp add: json_delim_def del: json_value.simps)

lemma body_bytes_append [simp]: "body_bytes (xs @ ys) = body_bytes xs + body_bytes ys"
  by (simp add: body_bytes_def)

lemma body_bytes_Cons [simp]: "body_bytes (c # xs) = utf8_width c + body_bytes xs"
  by (simp add: body_bytes_def)

lemma body_bytes_Nil [simp]: "body_bytes [] = 0"
  by (simp add: body_bytes_def)

lemma body_bytes_concat_replicate: "body_bytes (concat (replicate n xs)) = n * body_bytes xs"
  by (induction n) simp_all

lemma json_body_parse_object:
  "json_body_parse syntax_msg (json_compact (JObject ps)) = Inr (json_norm (JObject ps))"
proof -
  have "json_parse (json_compact (JObject ps)) = Some (json_norm (JObject ps))"
    using json_value_compact_all [of "JObject ps"] by (simp add: json_parse_def skip_ws_def del: json_value.simps)
  then show ?thesis by (simp add: json_body_parse_def skip_ws_def is_json_ws_def)
qed

lemma wire_transport_post:
  assumes "m \<noteq> GET" and "json_norm (JObject ps) = JObject ps"
    and "body_bytes (json_compact (JObject ps)) \<le> body_limit"
  shows "wire_transport e r nodeEnv now syntax_msg qs_parse m p (JObject ps)
           = fst (app_handle e r nodeEnv now m p (Inr (JObject ps)))"
  using assms json_body_parse_object [of syntax_msg ps]
  by (simp add: wire_transport_def axios_body_def app_receive_def parse_body_def del: json_compact.simps json_norm.simps)

lemma wire_transport_over_limit:
  assumes "m \<noteq> GET" and "body_limit < body_bytes (json_compact data)"
  shows "wire_transport e r nodeEnv now syntax_msg qs_parse m p data = global_error nodeEnv too_large_message"
  using assms by (simp add: wire_transport_def axios_body_def app_receive_def parse_body_def app_handle_def)

text \<open>
  \<open>JSON.parse\<close> reads back what \<open>JSON.stringify\<close> writes: for
  every value the parse of its compact text succeeds and gives its normal form
  (\<open>undefined\<close> array elements as \<open>null\<close>, an object's printed properties in
  \<open>Object.entries\<close> order); the parser's fuel, the length of the text, is always
  enough.
\<close>

theorem json_parse_compact: "json_parse (json_compact v) = Some (json_norm v)"
  using json_value_compact_all [of v] by (simp add: json_parse_def skip_ws_def del: json_value.simps)

text \<open>
  C25 (refinement). Over the real wire (axios's \<open>JSON.stringify\<close>, then
  \<open>express.json\<close>, then the routes), the client's \<open>api_post\<close> gives exactly what it
  gives over the transport that hands the request object to \<open>app_handle\<close>, for
  every request object that is in normal form and whose text is within the 10 MB
  limit: the transport the other client theorems use is the real one.
\<close>

theorem client_over_wire:
  assumes "json_norm (JObject ps) = JObject ps" and "body_bytes (json_compact (JObject ps)) \<le> body_limit"
  shows "api_post (wire_transport e r nodeEnv now syntax_msg qs_parse) url failure (JObject ps)
           = api_post (\<lambda>m p b. fst (app_handle e r nodeEnv now m p (Inr b))) url failure (JObject ps)"
  using wire_transport_post [OF _ assms] by (simp add: api_post_def axios_request_def)

theorem client_over_wire_witness:
  "json_norm demo_request = demo_request \<and> body_bytes (json_compact demo_request) \<le> body_limit
   \<and> api_post (wire_transport demo_env demo_remote ''production'' ''t'' (\<lambda>s. ''Unexpected token'') (\<lambda>s. Inr (JObject [])))
        ''/analysis/analyze'' ''Analysis failed'' demo_request
      = api_post (\<lambda>m p b. fst (app_handle demo_env demo_remote ''production'' ''t'' m p (Inr b)))
        ''/analysis/analyze'' ''Analysis failed'' demo_request"
proof -
  have n: "json_norm demo_request = demo_request"
    by (simp add: demo_request_def analysis_request_json_def json_props_def js_entries_def object_entries_def
                  is_array_index_def first_occurrences_def js_get_def)
  have b: "body_bytes (json_compact demo_request) \<le> body_limit"
    by (simp add: demo_request_def analysis_request_json_def json_props_def js_entries_def object_entries_def
                  is_array_index_def first_occurrences_def js_get_def json_quote_def json_escape_char_def
                  utf8_width_def body_limit_def)
  obtain ps where ps: "demo_request = JObject ps" by (simp add: demo_request_def analysis_request_json_def)
  show ?thesis
    using n b client_over_wire [OF n [unfolded ps] b [unfolded ps], of demo_env demo_remote "''production''" "''t''"
        "\<lambda>s. ''Unexpected token''" "\<lambda>s. Inr (JObject [])"]
    by (simp only: ps simp_thms)
qed

lemma json_compact_request:
  "json_compact (analysis_request_json code language analysisType pp) =
     ''{'' @ json_quote ''code'' @ '':'' @ json_quote code @ '','' @ json_quote ''language'' @ '':'' @ json_quote language
     @ '','' @ json_quote ''analysisType'' @ '':'' @ json_quote analysisType
     @ '','' @ json_quote ''preferredProvider'' @ '':'' @ json_quote pp @ ''}''"
  by (simp add: analysis_request_json_def json_props_def js_entries_def object_entries_def
                is_array_index_def first_occurrences_def js_get_def)

lemma control_code_bytes: "body_bytes (json_quote control_code) = 12000002"
  by (simp add: control_code_def json_quote_def body_bytes_concat_replicate json_escape_char_def
                hex_digit_def utf8_width_def)

lemma validateCode_control_code: "validateCode (JString control_code) = None"
  by (simp add: validateCode_def control_code_def js_trim_def is_js_space_def max_code_length_def)

text \<open>
  C26 (error). A code that \<open>validateCode\<close> accepts (two million characters, the
  maximum) can still be refused: written by \<open>JSON.stringify\<close> its request is
  over the body parser's 10 MB limit, and the \<open>PayloadTooLargeError\<close> goes to the
  global error handler, which answers 500 without a \<open>success\<close> field ('Something
  went wrong' in production) instead of the 400 validation error of the
  specification; the client reports 'Something went wrong'.
\<close>

theorem valid_code_refused_over_wire:
  "validateCode (JString control_code) = None
   \<and> wire_transport e r ''production'' now syntax_msg qs_parse POST ''/api/analysis/analyze''
       (analysis_request_json control_code language analysisType pp)
     = HttpResponse 500 (JObject [(''error'', JString ''Internal Server Error''), (''message'', JString ''Something went wrong'')])
   \<and> api_analyzeCode (wire_transport e r ''production'' now syntax_msg qs_parse)
       (analysis_request_json control_code language analysisType pp) = Inl ''Something went wrong''"
proof -
  have "body_limit < body_bytes (json_compact (analysis_request_json control_code language analysisType pp))"
    unfolding json_compact_request body_bytes_append control_code_bytes by (simp add: body_limit_def)
  then have w: "wire_transport e r ''production'' now syntax_msg qs_parse POST p
      (analysis_request_json control_code language analysisType pp)
      = HttpResponse 500 (JObject [(''error'', JString ''Internal Server Error''), (''message'', JString ''Something went wrong'')])"
    for p by (simp add: wire_transport_over_limit global_error_def)
  then show ?thesis
    by (simp add: validateCode_control_code api_analyzeCode_def api_post_def axios_request_def api_base_def
                  interceptor_message_def js_get_def)
qed
end
