(* ===== verification/Startup.thy ===== *)
theory Startup
  imports Server
begin

text \<open>
  Server start-up: the configuration of src/backend/src/config/config.ts, read
  from \<open>process.env\<close> (a map from variable names to strings), its warning, and
  \<open>startServer\<close> of src/backend/src/server.ts, which listens on the configured
  port or, when \<open>app.listen\<close> throws, logs the failure and exits with code 1;
  before it, the loading of the modules, in which the service singletons are
  constructed (\<open>load_modules\<close>, \<open>boot\<close>); and the CORS headers of a response.
  \<open>deployed_app\<close> is the application of app.ts under that configuration.
\<close>

section \<open>The configuration\<close>

text \<open>\<open>process.env.X || d\<close>: an unset or empty variable gives the default.\<close>

definition env_or :: "(string \<Rightarrow> string option) \<Rightarrow> string \<Rightarrow> string \<Rightarrow> string" where
  "env_or pe k d = (case pe k of Some v \<Rightarrow> if v = [] then d else v | None \<Rightarrow> d)"

text \<open>\<open>parseInt(s, 10)\<close>: leading white space, an optional sign, then the longest
  prefix of decimal digits; no digit gives \<open>NaN\<close> (\<open>None\<close>). The value is exact
  (the engine rounds digit strings beyond \<open>2^53\<close>, all of them invalid ports).\<close>

definition parseInt10 :: "string \<Rightarrow> int option" where
  "parseInt10 s =
    (let t = dropWhile is_js_space s;
         (neg, u) = (case t of
                       c # r \<Rightarrow> if c = CHR ''-'' then (True, r) else if c = CHR ''+'' then (False, r) else (False, t)
                     | [] \<Rightarrow> (False, t));
         ds = takeWhile is_digit u;
         n = int (digits_value ds) in
     if ds = [] then None else Some (if neg then - n else n))"

text \<open>\<open>origin: string | string[]\<close>\<close>

datatype cors_origin = OriginString string | OriginList "string list"

record app_config =
  cfg_port :: "int option"
  cfg_nodeEnv :: string
  cfg_gemini_apiKey :: string
  cfg_cors_origin :: cors_origin

definition default_origins :: "string list" where
  "default_origins = [''http://localhost:5173'', ''http://localhost:5174'']"

definition config_of :: "(string \<Rightarrow> string option) \<Rightarrow> app_config" where
  "config_of pe =
     \<lparr>cfg_port = parseInt10 (env_or pe ''PORT'' ''3001''),
      cfg_nodeEnv = env_or pe ''NODE_ENV'' ''development'',
      cfg_gemini_apiKey = env_or pe ''GEMINI_API_KEY'' [],
      cfg_cors_origin = (case pe ''FRONTEND_URL'' of
                           Some v \<Rightarrow> if v = [] then OriginList default_origins else OriginString v
                         | None \<Rightarrow> OriginList default_origins)\<rparr>"

text \<open>The warning logged when the module is loaded.\<close>

definition config_warnings :: "app_config \<Rightarrow> string list" where
  "config_warnings c =
     (if cfg_gemini_apiKey c = [] then [''Warning: GEMINI_API_KEY is not set. Please set it in your .env file.''] else [])"

text \<open>The API keys the services read from the same environment.\<close>

definition env_of :: "(string \<Rightarrow> string option) \<Rightarrow> env" where
  "env_of pe = \<lparr>GEMINI_API_KEY = pe ''GEMINI_API_KEY'', GROQ_API_KEY = pe ''GROQ_API_KEY'',
                HUGGINGFACE_API_KEY = pe ''HUGGINGFACE_API_KEY''\<rparr>"

section \<open>Starting the server\<close>

text \<open>The template \<open>`${config.cors.origin}`\<close>: an array prints joined by commas.\<close>

definition origin_text :: "cors_origin \<Rightarrow> string" where
  "origin_text o' = (case o' of OriginString s \<Rightarrow> s | OriginList xs \<Rightarrow> join_with '','' xs)"

text \<open>Node's \<open>validatePort\<close>, which \<open>listen\<close> applies to a numeric port: an integer
  from 0 to 65535; \<open>NaN\<close> is refused.\<close>

definition valid_port :: "int option \<Rightarrow> bool" where
  "valid_port p = (case p of Some n \<Rightarrow> 0 \<le> n \<and> n \<le> 65535 | None \<Rightarrow> False)"

text \<open>What the process logs while it starts: the warnings of the modules as they
  load, an uncaught exception of a module's top level, the four lines logged once
  the server listens (their emoji prefixes are fixed text), and the failure
  logged by the \<open>catch\<close> of \<open>startServer\<close>.\<close>

datatype startup_event =
  ConfigWarning string | ServiceWarning string | UncaughtError message
| ServerRunning int | EnvironmentIs string | CorsOriginIs string | GeminiConfigured bool | StartFailed

datatype server_status = Listening int | Exited nat

definition startServer :: "(string \<Rightarrow> string option) \<Rightarrow> server_status \<times> startup_event list" where
  "startServer pe =
    (let c = config_of pe in
     case cfg_port c of
       Some n \<Rightarrow>
         (if valid_port (Some n)
          then (Listening n, [ServerRunning n, EnvironmentIs (cfg_nodeEnv c), CorsOriginIs (origin_text (cfg_cors_origin c)),
                              GeminiConfigured (cfg_gemini_apiKey c \<noteq> [])])
          else (Exited 1, [StartFailed]))
     | None \<Rightarrow> (Exited 1, [StartFailed]))"

section \<open>Loading the modules\<close>

text \<open>\<open>export default new GeminiService()\<close>: the constructor runs when the module
  is loaded and throws without a key.\<close>

definition gemini_key_required :: message where
  "gemini_key_required = ''Gemini API key is required''"

definition GeminiService_new :: "app_config \<Rightarrow> message option" where
  "GeminiService_new c = (if cfg_gemini_apiKey c = [] then Some gemini_key_required else None)"

text \<open>\<open>export default new GroqService()\<close>: without a key the constructor warns
  and leaves the client \<open>null\<close> (the adapters' \<open>groq_client_missing\<close> guard).\<close>

definition groq_key_warning :: string where
  "groq_key_warning = ''Warning: GROQ_API_KEY is not set. Groq service will not be available.''"

definition GroqService_new :: "(string \<Rightarrow> string option) \<Rightarrow> startup_event list" where
  "GroqService_new pe = (if js_truthy (pe ''GROQ_API_KEY'') then [] else [ServiceWarning groq_key_warning])"

text \<open>The imports of server.ts, depth first: app.ts loads config.ts (its warning),
  then the routes, the controllers and \<open>AIService\<close>, whose imports construct the
  Gemini service, then the Groq service (the Hugging Face constructor only stores
  its configuration). The first uncaught exception stops the loading.\<close>

definition load_modules :: "(string \<Rightarrow> string option) \<Rightarrow> message option \<times> startup_event list" where
  "load_modules pe =
    (let c = config_of pe; w = map ConfigWarning (config_warnings c) in
     case GeminiService_new c of
       Some err \<Rightarrow> (Some err, w)
     | None \<Rightarrow> (None, w @ GroqService_new pe))"

text \<open>Running \<open>node server.js\<close>: the modules load, then \<open>startServer()\<close> runs; an
  exception while loading is uncaught, and Node exits with code 1.\<close>

definition boot :: "(string \<Rightarrow> string option) \<Rightarrow> server_status \<times> startup_event list" where
  "boot pe =
    (case load_modules pe of
       (Some err, evs) \<Rightarrow> (Exited 1, evs @ [UncaughtError err])
     | (None, evs) \<Rightarrow> (case startServer pe of (st, evs') \<Rightarrow> (st, evs @ evs')))"

text \<open>The application of app.ts in the environment it was started in.\<close>

definition deployed_app ::
  "(string \<Rightarrow> string option) \<Rightarrow> remote \<Rightarrow> string \<Rightarrow> (string \<Rightarrow> message) \<Rightarrow> (string \<Rightarrow> message + js_value)
     \<Rightarrow> http_method \<Rightarrow> string \<Rightarrow> content_type \<Rightarrow> string \<Rightarrow> http_outcome \<times> log_event list" where
  "deployed_app pe r now syntax_msg qs_parse m p ct raw =
     app_receive (env_of pe) r (cfg_nodeEnv (config_of pe)) now syntax_msg qs_parse m p ct raw"

section \<open>Cross-origin headers\<close>

text \<open>The \<open>cors\<close> middleware of app.ts on a request that is not a preflight, with
  the configured origin and \<open>credentials: true\<close>: a string origin is sent as it
  is; a list echoes the request's \<open>Origin\<close> when it is in the list and sends no
  \<open>Access-Control-Allow-Origin\<close> otherwise; \<open>Vary: Origin\<close> goes with both.
  The headers are name and value pairs.\<close>

definition cors_headers :: "cors_origin \<Rightarrow> string option \<Rightarrow> (string \<times> string) list" where
  "cors_headers cfg requestOrigin =
     (case cfg of
        OriginString s \<Rightarrow> [(''Access-Control-Allow-Origin'', s), (''Vary'', ''Origin'')]
      | OriginList xs \<Rightarrow>
          (case requestOrigin of
             Some ro \<Rightarrow> if ro \<in> set xs then [(''Access-Control-Allow-Origin'', ro)] else []
           | None \<Rightarrow> [])
          @ [(''Vary'', ''Origin'')])
     @ [(''Access-Control-Allow-Credentials'', ''true'')]"

text \<open>A preflight (\<open>OPTIONS\<close>) is answered by \<open>cors\<close> itself, before any
  route: the origin and credentials headers as above, the configured methods and
  request headers, status 204 (\<open>optionsSuccessStatus\<close>) and an empty body.\<close>

definition cors_preflight :: "cors_origin \<Rightarrow> string option \<Rightarrow> nat \<times> (string \<times> string) list" where
  "cors_preflight cfg requestOrigin =
     (204, cors_headers cfg requestOrigin
           @ [(''Access-Control-Allow-Methods'', join_with '','' [''GET'', ''POST'', ''PUT'', ''DELETE'', ''OPTIONS'']),
              (''Access-Control-Allow-Headers'', join_with '','' [''Content-Type'', ''Authorization'']),
              (''Content-Length'', ''0'')])"

text \<open>The origin a response allows, as a browser reads it.\<close>

definition allowed_origin :: "(string \<times> string) list \<Rightarrow> string option" where
  "allowed_origin hs = map_option snd (find (\<lambda>(k, v). k = ''Access-Control-Allow-Origin'') hs)"

text \<open>An environment with a Gemini key and port 8080, as a deployment sets it.\<close>

definition demo_process_env :: "string \<Rightarrow> string option" where
  "demo_process_env k = (if k = ''GEMINI_API_KEY'' then Some ''g'' else if k = ''PORT'' then Some ''8080'' else None)"

section \<open>Properties\<close>

lemma parseInt10_nat_digits: "parseInt10 (nat_digits n) = Some (int n)"
proof -
  obtain c r where cr: "nat_digits n = c # r" "is_digit c" using nat_digits_Cons by blast
  have "\<not> is_js_space c" using cr(2) by (auto simp: is_js_space_def is_digit_def)
  then have sp: "dropWhile is_js_space (nat_digits n) = nat_digits n" by (simp add: cr)
  have tw: "takeWhile is_digit (nat_digits n) = nat_digits n"
    using nat_digits_is_digit by (simp add: takeWhile_eq_all_conv)
  have "c \<noteq> CHR ''-'' \<and> c \<noteq> CHR ''+''" using cr(2) by (auto simp: is_digit_def)
  then have "(case nat_digits n of c # r \<Rightarrow> if c = CHR ''-'' then (True, r) else if c = CHR ''+'' then (False, r)
               else (False, nat_digits n) | [] \<Rightarrow> (False, nat_digits n)) = (False, nat_digits n)"
    by (simp add: cr)
  then show ?thesis by (simp add: parseInt10_def sp tw digits_value_nat_digits)
qed

lemma js_truthy_env_or: "js_truthy (pe k) \<longleftrightarrow> env_or pe k [] \<noteq> []"
  by (simp add: js_truthy_def env_or_def split: option.splits)

lemma boot_defaults:
  "boot (\<lambda>k. None) =
     (Exited 1, [ConfigWarning ''Warning: GEMINI_API_KEY is not set. Please set it in your .env file.'',
                 UncaughtError ''Gemini API key is required''])"
  by code_simp

text \<open>A port given in decimal is listened on exactly when it is at most 65535;
  otherwise \<open>listen\<close> throws and the process exits with code 1.\<close>

lemma startServer_port:
  assumes "pe ''PORT'' = Some (nat_digits n)"
  shows "fst (startServer pe) = (if n \<le> 65535 then Listening (int n) else Exited 1)"
  using assms by (simp add: startServer_def config_of_def env_or_def parseInt10_nat_digits valid_port_def Let_def)

text \<open>Whatever the environment, a listening server listens on the configured
  port, which is a valid one.\<close>

lemma startServer_listening:
  assumes "fst (startServer pe) = Listening n"
  shows "cfg_port (config_of pe) = Some n \<and> 0 \<le> n \<and> n \<le> 65535"
  using assms by (auto simp: startServer_def Let_def valid_port_def split: option.splits if_splits)

text \<open>Unless \<open>NODE_ENV\<close> is set, the server runs as \<open>development\<close>, and the global
  error handler sends the internal message of every error to the client: for a
  body the JSON parser refuses, the engine's \<open>SyntaxError\<close> message.\<close>

lemma default_env_exposes_errors:
  assumes "pe ''NODE_ENV'' = None" and "raw \<noteq> []" and "body_bytes raw \<le> body_limit"
    and "json_parse raw = None"
  shows "fst (deployed_app pe r now syntax_msg qs_parse m p JsonBody raw)
           = HttpResponse 500 (JObject [(''error'', JString ''Internal Server Error''), (''message'', JString (syntax_msg raw))])"
  using assms
  by (simp add: deployed_app_def app_receive_def parse_body_def json_body_parse_def app_handle_def global_error_def
                config_of_def env_or_def)

text \<open>Under the configuration of the environment, a response allows exactly the
  configured origin: with \<open>FRONTEND_URL\<close> set, that string whatever the request's
  origin; otherwise the request's own origin when it is one of the two default
  development origins, and none else.\<close>

lemma cors_allowed_origin:
  "allowed_origin (cors_headers (cfg_cors_origin (config_of pe)) ro) =
     (if env_or pe ''FRONTEND_URL'' [] \<noteq> [] then Some (env_or pe ''FRONTEND_URL'' [])
      else case ro of Some o' \<Rightarrow> if o' \<in> set default_origins then Some o' else None | None \<Rightarrow> None)"
  by (auto simp: config_of_def env_or_def cors_headers_def allowed_origin_def
           split: option.splits if_splits)

text \<open>
  C27 (error). The server never runs without a Gemini key: without one the
  process exits with code 1 after the configuration's warning and the
  constructor's uncaught 'Gemini API key is required', so \<open>listen\<close> is never
  reached; a listening server has Gemini available and listens on the configured
  port, and the "Gemini API: Not configured" line is never logged.
\<close>

theorem boot_requires_gemini_key:
  "(\<not> js_truthy (pe ''GEMINI_API_KEY'') \<longrightarrow>
      boot pe = (Exited 1, [ConfigWarning ''Warning: GEMINI_API_KEY is not set. Please set it in your .env file.'',
                            UncaughtError ''Gemini API key is required'']))
   \<and> (fst (boot pe) = Listening n \<longrightarrow> isAvailable (env_of pe) Gemini \<and> cfg_port (config_of pe) = Some n)
   \<and> GeminiConfigured False \<notin> set (snd (boot pe))"
  by (auto simp: boot_def load_modules_def GeminiService_new_def GroqService_new_def config_warnings_def gemini_key_required_def
                 js_truthy_env_or startServer_def env_of_def Let_def config_of_def
           split: option.splits if_splits prod.splits)

theorem boot_requires_gemini_key_witness:
  "fst (boot demo_process_env) = Listening 8080 \<and> isAvailable (env_of demo_process_env) Gemini
   \<and> cfg_port (config_of demo_process_env) = Some 8080
   \<and> boot (\<lambda>k. None) = (Exited 1, [ConfigWarning ''Warning: GEMINI_API_KEY is not set. Please set it in your .env file.'',
                                  UncaughtError ''Gemini API key is required''])"
proof -
  have l: "fst (boot demo_process_env) = Listening 8080" by code_simp
  have n: "\<not> js_truthy ((\<lambda>k. None :: string option) ''GEMINI_API_KEY'')" by (simp add: js_truthy_def)
  show ?thesis
    using boot_requires_gemini_key [of demo_process_env 8080] boot_requires_gemini_key [of "\<lambda>k. None" 0] l n
    by simp
qed

text \<open>A preflight always succeeds with 204 and names the configured methods, but
  a page of another origin than the default ones (with \<open>FRONTEND_URL\<close> unset)
  gets no allowed origin, so its browser never sends the JSON request.\<close>

lemma cors_preflight_foreign_origin:
  assumes "env_or pe ''FRONTEND_URL'' [] = []" and "o' \<notin> set default_origins"
  shows "fst (cors_preflight (cfg_cors_origin (config_of pe)) (Some o')) = 204
         \<and> allowed_origin (snd (cors_preflight (cfg_cors_origin (config_of pe)) (Some o'))) = None"
  using assms
  by (auto simp: cors_preflight_def config_of_def env_or_def cors_headers_def allowed_origin_def
           split: option.splits if_splits)

end
