(* ===== verification/Spec2Isabelle.thy ===== *)
theory Spec2Isabelle
  imports Prompts Results ClientTypes IssueDetails Startup
begin

text \<open>
  \<^bold>\<open>A verification model of AI-Powered CodeMentor.\<close>

  The program is a code-review service. An Express backend
  (src/backend/src) receives code over HTTP, validates it
  (utils/validation.ts), and asks a list of AI providers in turn through the
  orchestrator \<open>AIService\<close> (src/unnamed/part_000) until one answers. The adapters
  (services/geminiService.ts, groqService.ts, huggingFaceService.ts) call the remote
  models; Gemini retries rate-limited calls with exponential backoff. The controllers
  (controllers/analysisController.ts) turn outcomes into JSON responses. A React
  frontend keeps its state in a zustand store (frontend/src/store/analysisStore.ts)
  and aggregates per-file answers into one report
  (frontend/src/utils/analysisUtils.ts).

  \<^bold>\<open>Theories and what they model.\<close>
  \<^item> \<open>Prelude\<close>: the JavaScript built-ins the code calls (\<open>includes\<close>,
    \<open>toLowerCase\<close>, \<open>trim\<close>, \<open>findIndex\<close>, \<open>splice\<close>, \<open>Array.from(new Set)\<close>,
    template-literal \<open>String(v)\<close>) and the JSON value type \<open>js_value\<close> of request
    bodies, with \<open>js_get\<close> for property reads.
  \<^item> \<open>Registry\<close>: \<open>AIService.providers\<close>, \<open>getAvailableProviders\<close> (filter on
    \<open>checkAvailable\<close>, stable sort by priority) and the preferred-provider
    move-to-front of \<open>executeWithFallback\<close> (\<open>attempt_order\<close>). The environment
    \<open>env\<close> holds the three API keys of config.ts.
  \<^item> \<open>Fallback\<close>: the attempt loop of \<open>executeWithFallback\<close> as \<open>try_providers\<close>,
    returning the outcome and the trace of its log lines (\<open>log_event\<close>); the
    abstract contract \<open>fallback_spec\<close> (first success in order, else the aggregate
    error of the last failure).
  \<^item> \<open>Backoff\<close>: \<open>GeminiService.retryWithBackoff\<close> as \<open>retry_loop\<close>, a \<open>function\<close>
    terminating by the measure \<open>Suc maxRetries - attempt\<close>; the trace records
    each call and each \<open>setTimeout\<close> delay. The code uses 3 attempts and a
    1000 ms base delay (\<open>gemini_retry\<close>).
  \<^item> \<open>Interface\<close> and \<open>Adapters\<close>: the \<open>AIProvider\<close> contract as a datatype of
    operations; each adapter method as a function of the environment and of the
    remote services \<open>remote\<close>, an oracle record of what each API returns for a
    request; \<open>service_call\<close> dispatches a closure of \<open>AIService\<close> to a service,
    and \<open>service_generateReport\<close> is the optional \<open>generateReport\<close>.
  \<^item> \<open>AIService\<close>: the four public methods and \<open>getAvailableProviderNames\<close>; each
    result is the \<open>ProcessedAnalysisResult\<close> envelope, with the completion time a
    parameter.
  \<^item> \<open>Validation\<close>: the five validators and the four response helpers as
    (status, body) values. \<open>Controller\<close>: the five Express handlers.
  \<^item> \<open>Store\<close>: the store's state as a record, its actions as the datatype
    \<open>store_action\<close> and \<open>store_step\<close>, the computed selectors.
  \<^item> \<open>Aggregate\<close>: \<open>extractJSONFromAnalysis\<close> (with \<open>JSON.parse\<close> a parameter
    and the fenced-block regular expression written out) and
    \<open>processAnalysisResults\<close>.
  \<^item> \<open>Routes\<close>: the Express application of app.ts and routes/analysisRoutes.ts:
    the JSON bodies of the responses, the route table with Express's default
    matching, the body parser's failure path, the 404 and global error handlers;
    \<open>app_handle\<close> serves one request.
  \<^item> \<open>Client\<close>: the frontend's axios instance and \<open>apiService\<close> (the second half of
    analysisUtils.ts) over a \<open>transport\<close> parameter, which the root theory
    instantiates with \<open>app_handle\<close> to connect the two halves of the program.
  \<^item> \<open>readFileContent\<close> (in \<open>Client\<close>): the \<open>FileReader\<close> promise, with the
    reader's outcome for a file a parameter.
  \<^item> \<open>Upload\<close>: the upload component (src/unnamed/part_001) and App.tsx's
    go-home button; the handlers return the store actions they dispatch, and
    \<open>ui_step\<close> is the interface as an inductive transition relation whose guards
    are the components' \<open>disabled\<close> props, with the analysis in flight a
    separate step.
  \<^item> \<open>Display\<close>: the analysis view (src/unnamed/part_002): \<open>formatText\<close>, the
    display's JSON extraction, the severity, type and category tables read as plain
    objects (a key naming an \<open>Object.prototype\<close> member finds the inherited member),
    the code-block loop of \<open>IssueCard\<close> as a \<open>partial_function (option)\<close>,
    \<open>groupIssuesByType\<close>, \<open>Object.entries\<close> ordering, the collapsed issue card
    and \<open>AnalysisDisplay\<close>'s three views, each step returning the \<open>TypeError\<close>
    rendering would throw.
  \<^item> \<open>Contract\<close>: the TypeScript interfaces of types/analysis and of the display
    as values of \<open>ts_type\<close>, with \<open>conforms\<close> deciding whether a JSON value has a
    type.
  \<^item> \<open>Prompts\<close>: the prompts the Gemini and Groq adapters send
    (\<open>buildAnalysisPrompt\<close> with its four templates, the explain, suggest and report
    prompts, the report's \<open>JSON.stringify(v, null, 2)\<close> written out as
    \<open>json_stringify\<close>), Groq's request record, and \<open>remote_of_services\<close>, which
    builds the operation-keyed \<open>remote\<close> from services that see only the prompt or
    request, so that every lemma stated for all remotes holds for those.
  \<^item> \<open>Results\<close>: what the frontend draws from the store (src/unnamed/part_001 and
    App.tsx): FileUpload's file list with \<open>formatFileSize\<close> and its options panel,
    \<open>AnalysisResults\<close> (score colours, \<open>formatDuration\<close>, statistics, one card per
    raw result with its \<open>AnalysisDisplay\<close>, in React's render order), and \<open>App\<close>'s
    choice of the landing or analysis view with its summary cards and loading
    overlay, as functions of the store state of \<open>Upload\<close>'s transition system.
  \<^item> \<open>ClientTypes\<close>: the request and response interfaces the API client declares
    and the store's declared analysis type, the backend's \<open>ProjectInfo\<close> and
    \<open>ReportRequest\<close> and the Gemini service's own \<open>AnalysisResult\<close>, as \<open>ts_type\<close> values, and the object
    \<open>processAnalysisResults\<close> returns as JSON, so that what the code sends and stores
    can be compared with what it declares.
  \<^item> \<open>CopyButton\<close>: the display's \<open>CodeBlock\<close> and its copy button as a timed
    state machine (the \<open>copied\<close> flag, the pending \<open>setTimeout\<close> timers, the
    clipboard and the clock; events are clicks and the passing of time).
  \<^item> \<open>IssueDetails\<close>: the body of an expanded \<open>IssueCard\<close> (code snippet, the
    suggestion's improved-code and text blocks, the reference links), for issues whose
    fields have the display's declared types.
  \<^item> \<open>Server\<close>: the request body on the wire. \<open>json_compact\<close> is the
    \<open>JSON.stringify(data)\<close> axios sends. \<open>json_parse\<close> is \<open>JSON.parse\<close>, as a
    recursive-descent parser with fuel. \<open>parse_body\<close> is app.ts's
    \<open>express.json\<close> and \<open>express.urlencoded\<close> with their 10 MB limit in UTF-8
    bytes. \<open>app_receive\<close> is the server on a raw request. \<open>wire_transport\<close> is
    the client's transport over the real server.
  \<^item> \<open>Startup\<close>: config.ts and server.ts. \<open>config_of\<close> reads the configuration
    from \<open>process.env\<close>, with \<open>parseInt\<close> for the port, the defaults, and
    \<open>env_of\<close> for the services' API keys. \<open>load_modules\<close> follows the imports
    of server.ts: the Gemini and Groq constructors run as their modules load, and
    the Gemini constructor throws without a key. \<open>startServer\<close> gives the outcome
    after loading: listening, or exit code 1 when Node refuses the port. \<open>boot\<close>
    composes the two. \<open>deployed_app\<close>
    is the application in the environment it was started in. \<open>cors_headers\<close> gives
    the CORS headers of a request that is not a preflight, \<open>cors_preflight\<close>
    the answer to an \<open>OPTIONS\<close> preflight.

  \<^bold>\<open>What the lemmas show.\<close> The attempt loop refines its contract (C1-C3); the
  attempt order is a permutation of the available providers, equal to the spec's
  preference rule, stable in priority, and contains Groq exactly when its key is set
  (C4-C7); the retry loop always returns the outcome of one of at most three calls
  with doubling delays, and stops at the first error that is not a rate limit
  (C8-C10); retries within fallback and the provenance of a result across components
  (C11-C12); validation
  and the unenforced report limit (C13-C14); the store's lifecycle invariant (C15);
  the fenced-block JSON extraction and the bounds and error paths of the
  aggregation (C16-C18); the client's sequential fail-fast loop against its contract
  (C19); that over the real server the client's explain, improve and report calls
  never return the types it declares for them (C20); the interface's
  reachable-state invariant by rule induction, and that after going home during an
  analysis and dropping other files, App shows the old analysis's results beside the
  new files (C21-C22); that typed backend answers render as \<open>AnalysisResults\<close>
  with one card per answer (C23); across the network, that the client observes
  exactly the handler's outcome (C24), that the real wire (stringify, body parser,
  routes) is that transport for every normal request within the body limit (C25),
  and that a code \<open>validateCode\<close> accepts can make a request the body parser refuses
  with a 500 (C26); that the server never starts without a Gemini key, since the
  Gemini service's constructor throws while the modules load, although the README
  asks for any one key (C27); that \<open>formatFileSize\<close> rounds to the nearest
  hundredth of a unit between 1 and 1024 and has no unit from 1 TiB on (C28); that
  the suggestion prompt lets the context forge the code section (C29, prompt
  injection); that the copy button's "Copied!" feedback always ends within 2000 ms
  (C30, liveness); that for every valid request whose providers all fail, the
  production server sends the orchestrator's exhaustion message (C31); that the
  interface always reaches a state where the analysis in flight has completed and
  its outcome is recorded (C32, liveness); that every response has the type the
  contract declares, and that analyses of the declared types are aggregated and
  displayed without a \<open>TypeError\<close> (C33-C34); that the code-block loop ends on
  every text and its blocks give the text back (C35-C36); that the grouping
  \<open>reduce\<close> equals its reference definition, and that the display's own declared
  type admits issue types that crash it (C37-C38); and that \<open>formatText\<close>, whose
  output goes to
  \<open>dangerouslySetInnerHTML\<close>, escapes no markup (C39). Further lemmas kept beside
  the claims: the registry in the spec's scenarios, report generation over the
  registry, the end-to-end HTTP scenario, the status endpoint, the store's selectors
  and \<open>removeFile\<close>, the unclamped maintainability score, the critical-issue count,
  Express's route matching, the Set de-duplication against its reference definition,
  that every language the frontend derives is one the backend accepts, that
  Groq's requests carry Gemini's prompts, that the Groq adapter's missing-client
  guard is unreachable through the registry, that a second click does not extend the
  copy feedback, the total backoff bound, the file
  filter by extension, the store-level form of the go-home race, the client's
  fail-fast stop, that the stored analysis lacks the store's declared issue type,
  that the analysis prompt determines the code and the analysis type, that the
  report handler accepts bodies of neither declared report type,
  that a file the reader fails on ends the interface's analysis with the reader's
  message before any request,
  that \<open>validateLanguage\<close> always returns a supported language and is idempotent,
  the shape of every API response to a parsed body, that the display's JSON
  extraction agrees with the aggregator's, the start-up outcome for every decimal
  port, the origin the CORS headers allow, and that without \<open>NODE_ENV\<close> the server sends internal error messages to
  clients.

  \<^bold>\<open>Bounds and fuel.\<close> Every loop of the code is bounded by a list (the
  providers, the issues, the results) or by the retry counter. The one use of fuel is
  the model of \<open>JSON.parse\<close> (\<open>json_value\<close>, \<open>json_elems\<close>, \<open>json_members\<close>),
  whose fuel bounds the depth of its calls. \<open>json_parse\<close> gives it the length of the
  text plus one, which is enough because every call consumes a character; the lemma
  \<open>json_parse_compact\<close> (Server) proves that this fuel is enough for every text
  \<open>JSON.stringify\<close> writes, which the wire refinement C25 uses. The
  recursions that are not structural have termination proofs: \<open>retry_loop\<close> by the
  measure \<open>Suc maxRetries - attempt\<close>, the inline-code scan of \<open>formatText\<close> by the
  length of the text. The \<open>exec\<close> loop of \<open>parseContentBlocks\<close> is a
  \<open>partial_function (option)\<close>, as the code's \<open>while\<close> could run forever if a match
  did not advance \<open>lastIndex\<close>; C35 proves that it returns on every text (each match
  consumes at least the seven characters of an empty fenced block). \<open>json_pretty\<close>
  recurses into the elements and property values of a JSON value and terminates by
  its size. \<open>formatFileSize\<close>'s \<open>Math.floor(Math.log(bytes) / Math.log(1024))\<close> is
  modelled as \<open>floorlog 1024 bytes - 1\<close>; the floating-point quotient has the same
  floor for every size below \<open>1024^5 - 3\<close> bytes (checked at every power of 1024,
  the only places where they can differ), so beyond all real file sizes. The bound of
  three attempts is the code's constant; the lemmas on \<open>retry_loop\<close> hold for every
  \<open>maxRetries \<ge> 1\<close>.

  \<^bold>\<open>Characters and numbers.\<close> A string is a list of 8-bit characters,
  read as the UTF-16 code units U+0000 to U+00FF. On those, \<open>length\<close> counts code
  units as JavaScript does; \<open>toLowerCase\<close> (\<open>to_lower\<close>) lowers the ASCII and
  Latin-1 capitals; and \<open>trim\<close>, \<open>parseInt\<close> and the regular expression's \<open>\s\<close>
  (\<open>is_js_space\<close>) skip exactly JavaScript's white space. Text with characters above
  U+00FF is outside the model. Numbers are integers and arithmetic is exact (the
  \<open>Aggregate\<close> and \<open>Results\<close> theories say where that agrees with IEEE doubles).
  \<open>useLanguageStats\<close> builds a \<open>Record\<close> object but is modelled as a map. That
  is exact because every language in the store is a value of \<open>LANGUAGE_MAP\<close>
  (\<open>isCodeFile\<close> admits only those extensions), and none of them names an
  \<open>Object.prototype\<close> member.

  \<^bold>\<open>Not modelled.\<close> What the remote models answer to a prompt: a remote
  answer is a parameter, a function of the prompt or request. helmet's response headers
  (their values depend on the helmet version, which the repository does not pin),
  and what \<open>app.listen\<close> does after it accepts the port
  (binding errors such as a port in use are asynchronous and crash the process; the
  start-up model stops at the accepted port). \<open>JSON.parse\<close> is modelled
  only on the JSON the model's values can hold: it refuses fractions, exponents and
  \<open>\u\<close> escapes above \<open>00FF\<close>. The engine's \<open>SyntaxError\<close> messages and the
  \<open>qs\<close> parse of form bodies are parameters. React's drawing of the views (the
  views are modelled as the values they render, toasts as values); in the display,
  the expanded issue card's body for fields of other than their declared types
  (\<open>parseContentBlocks\<close> would then pass them through \<open>String\<close>, \<open>slice\<close> and
  \<open>length\<close>), the
  quality-score badge (its \<open>>=\<close> comparisons coerce arbitrary JSON values) and the
  header's \<open>toLocaleTimeString\<close>; the static texts and CSS classes of the JSX (only
  the classes chosen by a condition are kept).
  Outside the body parser, \<open>JSON.parse\<close>, reading a \<open>File\<close>, \<open>Math.random\<close>, the clock and the network,
  which are parameters. JSON numbers are integers, and the aggregation's arithmetic
  is exact (the \<open>Aggregate\<close> theory says why that agrees with the IEEE results).
\<close>

section \<open>Properties across components\<close>

text \<open>
  Report generation over the code's registry: only the Gemini
  service has \<open>generateReport\<close>; Groq and HuggingFace count as failed attempts
  ("Report generation not supported by this provider") and the loop moves on. The
  report is Gemini's when Gemini succeeds; otherwise the call fails, and since
  HuggingFace is always tried last, the aggregate error names the unsupported
  capability, never Gemini's own failure.
\<close>

theorem generateReport_registry:
  "fst (generateReport e r providers now results info) =
    (case gemini_generateReport r results info of
       Inr t \<Rightarrow> Inr (envelope (t, ''Gemini'') ''multiple'' ''report'' now)
     | Inl m \<Rightarrow> Inl ''All AI providers failed. Last error: Report generation not supported by this provider'')"
proof -
  have order: "attempt_order e providers None =
      (if isAvailable e Groq then providers else [providers ! 0, providers ! 2])"
    by (simp add: attempt_order_providers wants_preference_def)
  have run: "fst (generateReport e r providers now results info) =
      map_sum id (\<lambda>rp. envelope rp ''multiple'' ''report'' now)
        (fst (try_providers (run_operation e r (OpReport results info))
          (if isAvailable e Groq then providers else [providers ! 0, providers ! 2]) None))"
    unfolding generateReport_def executeWithFallback_def order by (simp add: wrap_def)
  show ?thesis
    unfolding run
    by (cases "gemini_generateReport r results info"; cases "isAvailable e Groq")
      (simp_all add: providers_def run_operation_def exhausted_message_def case_prod_beta)
qed

text \<open>
  C11 (functional). The two retry layers compose as the spec says: when Gemini answers
  every one of its three attempts with a rate limit and Groq is configured and
  answers, \<open>analyzeCode\<close> with the default preference returns Groq's text with
  provider Groq; Gemini's three calls count as one failed attempt of the outer loop,
  which logs the rate limit and moves on, and HuggingFace is never tried.
\<close>

theorem gemini_backoff_then_groq:
  assumes rl: "rate_limited_from (gemini_generate r (OpAnalyze code lang atype)) 1 3"
    and groq: "isAvailable e Groq"
    and ok: "groq_create r (OpAnalyze code lang atype) = Inr (Some txt)" and ne: "txt \<noteq> []"
  shows "fst (analyzeCode e r providers now
            \<lparr>req_code = code, req_language = Some lang, req_analysisType = Some atype,
             req_preferredProvider = Some PAuto\<rparr>)
          = Inr (envelope (txt, ''Groq'') lang (analysis_type_name atype) now)
    \<and> attempted (snd (analyzeCode e r providers now
            \<lparr>req_code = code, req_language = Some lang, req_analysisType = Some atype,
             req_preferredProvider = Some PAuto\<rparr>)) = [''Gemini'', ''Groq'']
    \<and> RateLimitDetected ''Gemini'' \<in> set (snd (analyzeCode e r providers now
            \<lparr>req_code = code, req_language = Some lang, req_analysisType = Some atype,
             req_preferredProvider = Some PAuto\<rparr>))
    \<and> invocations (snd (gemini_analyzeCode r code lang atype)) = [1, 2, 3]"
proof -
  obtain msg where g: "fst (gemini_analyzeCode r code lang atype) = Inl msg"
      "is_rate_limit_message msg" "invocations (snd (gemini_analyzeCode r code lang atype)) = [1, 2, 3]"
    using gemini_analyzeCode_rate_limited [OF rl] by blast
  have order: "attempt_order e providers (Some ''auto'') = providers"
    using groq by (simp add: attempt_order_providers wants_preference_def)
  have run: "analyzeCode e r providers now
      \<lparr>req_code = code, req_language = Some lang, req_analysisType = Some atype,
       req_preferredProvider = Some PAuto\<rparr>
      = wrap (try_providers (run_operation e r (OpAnalyze code lang atype)) providers None)
          lang (analysis_type_name atype) now"
    by (simp add: analyzeCode_def executeWithFallback_def order request_language_def
        request_analysisType_def request_preference_def)
  have rq: "groq_analyzeCode e r code lang atype = Inr txt"
    using groq ok ne by (simp add: groq_analyzeCode_def groq_call_def js_or_def)
  have tp: "try_providers (run_operation e r (OpAnalyze code lang atype)) providers None
      = (Inr (txt, ''Groq''), [Attempting ''Gemini'', ProviderFailed ''Gemini'' msg,
           RateLimitDetected ''Gemini'', Attempting ''Groq'', Succeeded ''Groq''])"
    using g(1,2) rq by (simp add: providers_def run_operation_def)
  show ?thesis
    using g(3) by (simp add: run tp wrap_def)
qed

theorem gemini_backoff_then_groq_witness:
  "rate_limited_from
     (gemini_generate \<lparr>gemini_generate = (\<lambda>op k. Inl ''[429 Too Many Requests] Resource exhausted''),
        groq_create = (\<lambda>op. Inr (Some ''looks good'')), hf_fetch = (\<lambda>k p. HfFetchError ''unused'')\<rparr>
        (OpAnalyze ''console.log(1)'' ''javascript'' General)) 1 3
   \<and> isAvailable \<lparr>GEMINI_API_KEY = Some ''g'', GROQ_API_KEY = Some ''q'', HUGGINGFACE_API_KEY = None\<rparr> Groq
   \<and> fst (analyzeCode \<lparr>GEMINI_API_KEY = Some ''g'', GROQ_API_KEY = Some ''q'', HUGGINGFACE_API_KEY = None\<rparr>
          \<lparr>gemini_generate = (\<lambda>op k. Inl ''[429 Too Many Requests] Resource exhausted''),
           groq_create = (\<lambda>op. Inr (Some ''looks good'')), hf_fetch = (\<lambda>k p. HfFetchError ''unused'')\<rparr>
          providers ''2026-01-01T00:00:00.000Z''
          \<lparr>req_code = ''console.log(1)'', req_language = Some ''javascript'', req_analysisType = Some General,
           req_preferredProvider = Some PAuto\<rparr>)
       = Inr (envelope (''looks good'', ''Groq'') ''javascript'' ''general'' ''2026-01-01T00:00:00.000Z'')"
proof -
  have rl: "rate_limited_from
     (gemini_generate \<lparr>gemini_generate = (\<lambda>op k. Inl ''[429 Too Many Requests] Resource exhausted''),
        groq_create = (\<lambda>op. Inr (Some ''looks good'')), hf_fetch = (\<lambda>k p. HfFetchError ''unused'')\<rparr>
        (OpAnalyze ''console.log(1)'' ''javascript'' General)) 1 3"
    by (simp add: rate_limited_from_def is_rate_limit_error_def)
  have groq: "isAvailable \<lparr>GEMINI_API_KEY = Some ''g'', GROQ_API_KEY = Some ''q'', HUGGINGFACE_API_KEY = None\<rparr> Groq"
    by (simp add: js_truthy_def)
  from gemini_backoff_then_groq [OF rl groq, of "''looks good''" "''2026-01-01T00:00:00.000Z''"] rl groq
  show ?thesis by simp
qed

text \<open>
  C12 (safety). Provenance is never lost: a successful \<open>analyzeCode\<close> names a
  provider of the registry that passed its availability check, whose service returned
  exactly the analysis text for this request; the metadata carries the request's
  language and analysis type (after defaults) and the completion time.
\<close>

theorem analyzeCode_provenance:
  assumes "fst (analyzeCode e r ps now request) = Inr res"
  shows "\<exists>p \<in> set ps. passes_check e p \<and> name p = provider res
     \<and> run_operation e r (OpAnalyze (req_code request) (request_language request)
          (request_analysisType request)) p = Inr (analysis res)
     \<and> metadata res = \<lparr>md_language = request_language request,
          md_analysisType = analysis_type_name (request_analysisType request), md_timestamp = now\<rparr>"
proof -
  let ?op = "run_operation e r (OpAnalyze (req_code request) (request_language request)
      (request_analysisType request))"
  let ?cands = "attempt_order e ps (Some (provider_type_name (request_preference request)))"
  have "\<exists>xn. fst (try_providers ?op ?cands None) = Inr xn
      \<and> res = envelope xn (request_language request) (analysis_type_name (request_analysisType request)) now"
    using assms by (cases "fst (try_providers ?op ?cands None)")
      (auto simp: analyzeCode_def executeWithFallback_def wrap_def)
  then obtain x n where tp: "fst (try_providers ?op ?cands None) = Inr (x, n)"
    and res: "res = envelope (x, n) (request_language request)
                 (analysis_type_name (request_analysisType request)) now"
    by auto
  from try_providers_Inr [OF tp] obtain p where p: "p \<in> set ?cands" "name p = n" "?op p = Inr x"
    by blast
  from p(1) have "p \<in> set ps \<and> passes_check e p" by (simp add: set_attempt_order)
  with p res show ?thesis by (auto simp: envelope_def)
qed

theorem analyzeCode_provenance_witness:
  "fst (analyzeCode \<lparr>GEMINI_API_KEY = Some ''g'', GROQ_API_KEY = None, HUGGINGFACE_API_KEY = None\<rparr>
      \<lparr>gemini_generate = (\<lambda>op k. Inr (Inr ''fine'')), groq_create = (\<lambda>op. Inl ''unused''),
       hf_fetch = (\<lambda>k p. HfFetchError ''unused'')\<rparr>
      providers ''t''
      \<lparr>req_code = ''x = 1'', req_language = None, req_analysisType = None, req_preferredProvider = None\<rparr>)
     = Inr (envelope (''fine'', ''Gemini'') ''javascript'' ''general'' ''t'')
   \<and> (\<exists>p \<in> set providers. passes_check \<lparr>GEMINI_API_KEY = Some ''g'', GROQ_API_KEY = None, HUGGINGFACE_API_KEY = None\<rparr> p
        \<and> name p = ''Gemini'')"
proof -
  have run: "fst (analyzeCode \<lparr>GEMINI_API_KEY = Some ''g'', GROQ_API_KEY = None, HUGGINGFACE_API_KEY = None\<rparr>
      \<lparr>gemini_generate = (\<lambda>op k. Inr (Inr ''fine'')), groq_create = (\<lambda>op. Inl ''unused''),
       hf_fetch = (\<lambda>k p. HfFetchError ''unused'')\<rparr>
      providers ''t''
      \<lparr>req_code = ''x = 1'', req_language = None, req_analysisType = None, req_preferredProvider = None\<rparr>)
     = Inr (envelope (''fine'', ''Gemini'') ''javascript'' ''general'' ''t'')"
    unfolding analyzeCode_def executeWithFallback_def request_language_def
      request_analysisType_def request_preference_def
    by (simp add: attempt_order_providers wants_preference_def js_truthy_def)
      (simp add: wrap_def providers_def run_operation_def gemini_analyzeCode_def gemini_retry_def
        retryWithBackoff_def retry_loop_unfold_in)
  from analyzeCode_provenance [OF run] run show ?thesis by auto
qed

section \<open>Frontend and backend together\<close>

lemma groq_in_order_available:
  "p \<in> set (attempt_order e providers pref) \<Longrightarrow> service p = Groq \<Longrightarrow> isAvailable e Groq"
  by (auto simp: set_attempt_order providers_def passes_check_def split: if_splits)

lemma api_post_wire:
  assumes "t POST (api_base @ url) req = HttpResponse (status resp) (body_json (body resp))"
    and "well_formed resp"
  shows "api_post t url failure req =
    (case body resp of
       ApiSuccess d \<Rightarrow> Inr (data_json d)
     | ApiError err msg \<Rightarrow> Inl (if msg \<noteq> [] then msg else axios_status_message (status resp)))"
proof (cases "body resp")
  case (ApiSuccess d)
  with assms show ?thesis
    by (simp add: api_post_def axios_request_def well_formed_def read_property_def js_get_def)
next
  case (ApiError err msg)
  then have "status resp \<in> {400, 500}" using assms(2) by (simp add: well_formed_def)
  with ApiError assms(1) show ?thesis
    by (auto simp: api_post_def axios_request_def interceptor_message_def js_get_def
        axios_status_message_ne)
qed

lemma route_analyze: "find_route POST (api_base @ ''/analysis/analyze'') = Some RAnalyze"
  by (simp add: api_base_def find_route_def route_table_def path_matches_def model_simps)

lemma route_explain: "find_route POST (api_base @ ''/analysis/explain'') = Some RExplain"
  by (simp add: api_base_def find_route_def route_table_def path_matches_def model_simps)

lemma route_improve: "find_route POST (api_base @ ''/analysis/improve'') = Some RImprove"
  by (simp add: api_base_def find_route_def route_table_def path_matches_def model_simps)

lemma route_report: "find_route POST (api_base @ ''/analysis/report'') = Some RReport"
  by (simp add: api_base_def find_route_def route_table_def path_matches_def model_simps)

text \<open>A POST of the API client over the real server observes the handler its
  route dispatches to.\<close>

lemma api_post_route:
  assumes "find_route POST (api_base @ url) = Some rt" and "dispatch e r nodeEnv now rt req = wire hr"
    and "well_formed (fst hr)"
  shows "api_post (\<lambda>m p b. fst (app_handle e r nodeEnv now m p (Inr b))) url failure req =
    (case body (fst hr) of
       ApiSuccess d \<Rightarrow> Inr (data_json d)
     | ApiError err msg \<Rightarrow> Inl (if msg \<noteq> [] then msg else axios_status_message (status (fst hr))))"
proof -
  have "fst (app_handle e r nodeEnv now POST (api_base @ url) (Inr req))
      = HttpResponse (status (fst hr)) (body_json (body (fst hr)))"
    using assms(1,2) by (simp add: app_handle_def wire_def)
  from api_post_wire [of "\<lambda>m p b. fst (app_handle e r nodeEnv now m p (Inr b))", OF this assms(3)]
  show ?thesis .
qed

text \<open>The data of a successful answer, as the client reads it, case by case.\<close>

lemma api_success_cases:
  assumes "api_post t url failure req =
    (case body (fst hr) of
       ApiSuccess d \<Rightarrow> Inr (data_json d)
     | ApiError err msg \<Rightarrow> Inl (if msg \<noteq> [] then msg else axios_status_message (status (fst hr))))"
    and "\<And>d. body (fst hr) = ApiSuccess d \<Longrightarrow> P (data_json d)"
  shows "case api_post t url failure req of Inl m \<Rightarrow> True | Inr x \<Rightarrow> P x"
  using assms by (cases "body (fst hr)") simp_all

lemma languages_validated:
  "list_all (\<lambda>l. validateLanguage (JString l) = l) (''text'' # map snd LANGUAGE_MAP)"
  by (simp add: LANGUAGE_MAP_def validateLanguage_def supportedLanguages_def model_simps)

text \<open>
  C24 (refinement). Over the real server, the frontend's \<open>apiService.analyzeCode\<close>
  observes exactly the outcome of the \<open>analyzeCode\<close> handler: the JSON of the
  handler's data on success, and otherwise the handler's error message (axios's
  status message if that message is empty), never the error title.
\<close>

theorem client_observes_handler:
  "api_analyzeCode (\<lambda>m p b. fst (app_handle e r nodeEnv now m p (Inr b))) req =
    (case body (fst (ctl_analyzeCode e r now req)) of
       ApiSuccess d \<Rightarrow> Inr (data_json d)
     | ApiError err msg \<Rightarrow>
         Inl (if msg \<noteq> [] then msg else axios_status_message (status (fst (ctl_analyzeCode e r now req)))))"
proof -
  have "fst (app_handle e r nodeEnv now POST (api_base @ ''/analysis/analyze'') (Inr req))
      = HttpResponse (status (fst (ctl_analyzeCode e r now req))) (body_json (body (fst (ctl_analyzeCode e r now req))))"
    by (simp add: app_handle_def route_analyze wire_def)
  from api_post_wire [of "\<lambda>m p b. fst (app_handle e r nodeEnv now m p (Inr b))" "''/analysis/analyze''" req
      "fst (ctl_analyzeCode e r now req)", OF this well_formed_handlers(1)] show ?thesis
    by (simp add: api_analyzeCode_def)
qed

text \<open>
  Every language the upload component derives from a file name is one the
  backend accepts unchanged, so validation never replaces it with the JavaScript default.
\<close>

theorem frontend_languages_supported:
  "validateLanguage (JString (getLanguageFromExtension filename)) = getLanguageFromExtension filename"
proof -
  have "\<forall>l \<in> set (''text'' # map snd LANGUAGE_MAP). validateLanguage (JString l) = l"
    using languages_validated by (simp only: list_all_iff)
  with language_range [of filename] show ?thesis by blast
qed

text \<open>
  The Groq adapter's client-null guard cannot fire through
  \<open>AIService\<close>: a Groq provider in the attempt order has passed its
  \<open>checkAvailable\<close>, so its key is set and the client exists.
\<close>

theorem groq_guard_unreachable:
  assumes "p \<in> set (attempt_order e providers pref)" and "service p = Groq"
  shows "run_operation e r op p \<noteq> Inl groq_client_missing"
proof -
  have avail: "isAvailable e Groq" by (rule groq_in_order_available [OF assms])
  show ?thesis
    using assms(2) avail
    by (cases op) (auto simp: run_operation_def adapter_defs groq_client_missing_def split: sum.split)
qed

theorem groq_guard_unreachable_witness:
  "providers ! 1 \<in> set (attempt_order \<lparr>GEMINI_API_KEY = None, GROQ_API_KEY = Some ''k'', HUGGINGFACE_API_KEY = None\<rparr> providers None)
   \<and> service (providers ! 1) = Groq
   \<and> run_operation \<lparr>GEMINI_API_KEY = None, GROQ_API_KEY = Some ''k'', HUGGINGFACE_API_KEY = None\<rparr>
       \<lparr>gemini_generate = (\<lambda>op k. Inl ''down''), groq_create = (\<lambda>op. Inl ''down''), hf_fetch = (\<lambda>k p. HfFetchError ''down'')\<rparr>
       (OpAnalyze ''x'' ''javascript'' General) (providers ! 1) \<noteq> Inl groq_client_missing"
proof -
  have order: "attempt_order \<lparr>GEMINI_API_KEY = None, GROQ_API_KEY = Some ''k'', HUGGINGFACE_API_KEY = None\<rparr> providers None = providers"
    by (simp add: attempt_order_providers wants_preference_def js_truthy_def)
  have mem: "providers ! 1 \<in> set (attempt_order \<lparr>GEMINI_API_KEY = None, GROQ_API_KEY = Some ''k'', HUGGINGFACE_API_KEY = None\<rparr> providers None)"
    unfolding order by (simp add: providers_def)
  have grq: "service (providers ! 1) = Groq" by (simp add: providers_def)
  from groq_guard_unreachable [OF mem grq] mem grq show ?thesis by blast
qed

lemma try_providers_Inl: "fst (try_providers operation ps lastError) = Inl m \<Longrightarrow> \<exists>x. m = exhausted_message x"
  by (induction operation ps lastError rule: try_providers.induct) (auto split: sum.splits prod.splits)

text \<open>
  C31 (error). Provider exhaustion is reported with the upstream message even in
  production: whatever the environment, the remote services and the request, when
  the code validates and the orchestrator fails, \<open>POST /api/analysis/analyze\<close> under
  \<open>NODE_ENV=production\<close> answers 500 with the orchestrator's own message, which is the
  aggregate exhaustion message, since the controller's \<open>catch\<close> calls
  \<open>sendServerError\<close> with \<open>error.message\<close> and the global handler that hides messages
  is never reached.
\<close>

theorem production_exhaustion_message:
  assumes "validateCode (js_get b ''code'') = None"
    and "fst (analyzeCode e r providers now
           \<lparr>req_code = js_trim (js_string_of (js_get b ''code'')),
            req_language = Some (validateLanguage (js_get b ''language'')),
            req_analysisType = Some (validateAnalysisType (js_get b ''analysisType'')),
            req_preferredProvider = Some (validateProviderType (js_get b ''preferredProvider''))\<rparr>) = Inl m"
  shows "fst (app_handle e r ''production'' now POST ''/api/analysis/analyze'' (Inr b))
           = HttpResponse 500 (JObject [(''success'', JBool False), (''error'', JString ''Internal Server Error''),
                                        (''message'', JString m)])
         \<and> (\<exists>x. m = exhausted_message x)"
proof
  have rt: "find_route POST ''/api/analysis/analyze'' = Some RAnalyze"
    using route_analyze by (simp add: api_base_def)
  have "fst (ctl_analyzeCode e r now b) = sendServerError m"
    using assms by (simp add: ctl_analyzeCode_def Let_def respond_def)
  then show "fst (app_handle e r ''production'' now POST ''/api/analysis/analyze'' (Inr b))
           = HttpResponse 500 (JObject [(''success'', JBool False), (''error'', JString ''Internal Server Error''),
                                        (''message'', JString m)])"
    by (simp add: app_handle_def rt wire_def response_defs)
  show "\<exists>x. m = exhausted_message x"
    using assms(2) try_providers_Inl
    by (auto simp: analyzeCode_def wrap_def executeWithFallback_def map_sum_def split: sum.splits)
qed

theorem production_exhaustion_message_witness:
  "validateCode (js_get (JObject [(''code'', JString ''console.log(1)'')]) ''code'') = None
   \<and> fst (analyzeCode \<lparr>GEMINI_API_KEY = Some ''g'', GROQ_API_KEY = None, HUGGINGFACE_API_KEY = None\<rparr>
          \<lparr>gemini_generate = (\<lambda>op k. Inl ''down''), groq_create = (\<lambda>op. Inl ''down''),
           hf_fetch = (\<lambda>k p. HfFetchError ''down'')\<rparr> providers ''2026-11-09T00:00:00.000Z''
          \<lparr>req_code = js_trim (js_string_of (js_get (JObject [(''code'', JString ''console.log(1)'')]) ''code'')),
           req_language = Some (validateLanguage (js_get (JObject [(''code'', JString ''console.log(1)'')]) ''language'')),
           req_analysisType = Some (validateAnalysisType (js_get (JObject [(''code'', JString ''console.log(1)'')]) ''analysisType'')),
           req_preferredProvider = Some (validateProviderType (js_get (JObject [(''code'', JString ''console.log(1)'')]) ''preferredProvider''))\<rparr>)
       = Inl ''All AI providers failed. Last error: Hugging Face analysis failed: down''
   \<and> fst (app_handle \<lparr>GEMINI_API_KEY = Some ''g'', GROQ_API_KEY = None, HUGGINGFACE_API_KEY = None\<rparr>
          \<lparr>gemini_generate = (\<lambda>op k. Inl ''down''), groq_create = (\<lambda>op. Inl ''down''),
           hf_fetch = (\<lambda>k p. HfFetchError ''down'')\<rparr>
          ''production'' ''2026-11-09T00:00:00.000Z'' POST ''/api/analysis/analyze''
          (Inr (JObject [(''code'', JString ''console.log(1)'')])))
     = HttpResponse 500 (JObject [(''success'', JBool False), (''error'', JString ''Internal Server Error''),
         (''message'', JString ''All AI providers failed. Last error: Hugging Face analysis failed: down'')])"
proof -
  let ?e = "\<lparr>GEMINI_API_KEY = Some ''g'', GROQ_API_KEY = None, HUGGINGFACE_API_KEY = None\<rparr>"
  let ?b = "JObject [(''code'', JString ''console.log(1)'')]"
  have v: "validateCode (js_get ?b ''code'') = None"
    by (simp add: js_get_def validateCode_def js_trim_def is_js_space_def max_code_length_def)
  have order: "attempt_order ?e providers (Some ''auto'') = [providers ! 0, providers ! 2]"
    by (simp add: attempt_order_providers wants_preference_def js_truthy_def)
  have a: "fst (analyzeCode ?e
          \<lparr>gemini_generate = (\<lambda>op k. Inl ''down''), groq_create = (\<lambda>op. Inl ''down''),
           hf_fetch = (\<lambda>k p. HfFetchError ''down'')\<rparr> providers ''2026-11-09T00:00:00.000Z''
          \<lparr>req_code = js_trim (js_string_of (js_get ?b ''code'')),
           req_language = Some (validateLanguage (js_get ?b ''language'')),
           req_analysisType = Some (validateAnalysisType (js_get ?b ''analysisType'')),
           req_preferredProvider = Some (validateProviderType (js_get ?b ''preferredProvider''))\<rparr>)
       = Inl ''All AI providers failed. Last error: Hugging Face analysis failed: down''"
    unfolding analyzeCode_def executeWithFallback_def request_language_def request_analysisType_def
      request_preference_def
    by (simp add: js_get_def validateLanguage_def order)
      (simp add: wrap_def providers_def run_operation_def gemini_analyzeCode_def
        gemini_retry_def retryWithBackoff_def retry_loop_unfold_in is_rate_limit_error_def
        hf_analyzeCode_def exhausted_message_def)
  show ?thesis
    using production_exhaustion_message [OF v a] v a by simp
qed

text \<open>
  C20 (type). Over the real server, what the API client returns has the type it
  declares only for analyses: a successful \<open>explainCode\<close> or
  \<open>suggestImprovements\<close> resolves to a \<open>ProcessedAnalysisResult\<close>, which has no
  \<open>explanation\<close> or \<open>suggestions\<close> field, and \<open>generateReport\<close> resolves to an object
  whose \<open>report\<close> is that result object rather than the declared string.
\<close>

theorem client_response_types:
  "(case api_analyzeCode (\<lambda>m p b. fst (app_handle e r nodeEnv now m p (Inr b))) req of
      Inl msg \<Rightarrow> True | Inr d \<Rightarrow> conforms d AnalysisResponse_type)
   \<and> (case api_explainCode (\<lambda>m p b. fst (app_handle e r nodeEnv now m p (Inr b))) req of
      Inl msg \<Rightarrow> True | Inr d \<Rightarrow> js_get d ''explanation'' = JUndefined \<and> \<not> conforms d ExplainResponse_type)
   \<and> (case api_suggestImprovements (\<lambda>m p b. fst (app_handle e r nodeEnv now m p (Inr b))) req of
      Inl msg \<Rightarrow> True | Inr d \<Rightarrow> js_get d ''suggestions'' = JUndefined \<and> \<not> conforms d ImprovementResponse_type)
   \<and> (case api_generateReport (\<lambda>m p b. fst (app_handle e r nodeEnv now m p (Inr b))) req of
      Inl msg \<Rightarrow> True | Inr d \<Rightarrow> is_js_object (js_get d ''report'') \<and> \<not> conforms d ReportResponse_type)"
proof (intro conjI)
  show "case api_analyzeCode (\<lambda>m p b. fst (app_handle e r nodeEnv now m p (Inr b))) req of
      Inl msg \<Rightarrow> True | Inr d \<Rightarrow> conforms d AnalysisResponse_type"
    unfolding api_analyzeCode_def
    by (rule api_success_cases [OF api_post_route [OF route_analyze _ well_formed_handlers(1)]])
       (auto dest: ctl_success_data(1) simp: result_json_response_types)
  show "case api_explainCode (\<lambda>m p b. fst (app_handle e r nodeEnv now m p (Inr b))) req of
      Inl msg \<Rightarrow> True | Inr d \<Rightarrow> js_get d ''explanation'' = JUndefined \<and> \<not> conforms d ExplainResponse_type"
    unfolding api_explainCode_def
    by (rule api_success_cases [OF api_post_route [OF route_explain _ well_formed_handlers(2)]])
       (auto dest: ctl_success_data(2) simp: result_json_response_types)
  show "case api_suggestImprovements (\<lambda>m p b. fst (app_handle e r nodeEnv now m p (Inr b))) req of
      Inl msg \<Rightarrow> True | Inr d \<Rightarrow> js_get d ''suggestions'' = JUndefined \<and> \<not> conforms d ImprovementResponse_type"
    unfolding api_suggestImprovements_def
    by (rule api_success_cases [OF api_post_route [OF route_improve _ well_formed_handlers(3)]])
       (auto dest: ctl_success_data(3) simp: result_json_response_types)
  show "case api_generateReport (\<lambda>m p b. fst (app_handle e r nodeEnv now m p (Inr b))) req of
      Inl msg \<Rightarrow> True | Inr d \<Rightarrow> is_js_object (js_get d ''report'') \<and> \<not> conforms d ReportResponse_type"
    unfolding api_generateReport_def
  proof (rule api_success_cases [OF api_post_route [OF route_report _ well_formed_handlers(4)]])
    fix d assume "body (fst (ctl_generateReport e r now now req)) = ApiSuccess d"
    then obtain res pi g n where "d = DReport res pi g n" using ctl_success_data(4) by blast
    then show "is_js_object (js_get (data_json d) ''report'') \<and> \<not> conforms (data_json d) ReportResponse_type"
      using report_json_response_type [of res pi g n] by simp
  qed simp
qed

text \<open>The explain endpoint does answer over the real server, so the mismatch above
  is observable: with a Gemini key and a Gemini service that answers, the client's
  \<open>explainCode\<close> resolves.\<close>

lemma client_explain_answers:
  "\<exists>d. api_explainCode (\<lambda>m p b. fst (app_handle \<lparr>GEMINI_API_KEY = Some ''g'', GROQ_API_KEY = None, HUGGINGFACE_API_KEY = None\<rparr>
      \<lparr>gemini_generate = (\<lambda>op k. Inr (Inr ''fine'')), groq_create = (\<lambda>op. Inl ''unused''),
       hf_fetch = (\<lambda>k p. HfFetchError ''unused'')\<rparr> ''production'' ''t'' m p (Inr b)))
      (JObject [(''code'', JString ''x = 1'')]) = Inr d"
proof -
  have "\<exists>res. body (fst (ctl_explainCode \<lparr>GEMINI_API_KEY = Some ''g'', GROQ_API_KEY = None, HUGGINGFACE_API_KEY = None\<rparr>
      \<lparr>gemini_generate = (\<lambda>op k. Inr (Inr ''fine'')), groq_create = (\<lambda>op. Inl ''unused''),
       hf_fetch = (\<lambda>k p. HfFetchError ''unused'')\<rparr> ''t'' (JObject [(''code'', JString ''x = 1'')])))
     = ApiSuccess (DAnalysis res)"
    unfolding ctl_explainCode_def explainCode_def executeWithFallback_def
    by (simp add: attempt_order_providers wants_preference_def js_truthy_def validateCode_def js_get_def Let_def
        max_code_length_def js_trim_def is_js_space_def)
      (simp add: wrap_def providers_def run_operation_def respond_def response_defs gemini_explainCode_def
        gemini_single_def)
  then show ?thesis
    unfolding api_explainCode_def
    by (auto simp: api_post_route [OF route_explain _ well_formed_handlers(2)])
qed

text \<open>
  The upload component reads every file through \<open>apiService.readFileContent\<close>. When
  the reader fails on the first file to analyse, the analysis starts and then
  fails with the reader's message, with the two toasts, before anything is sent.
\<close>

lemma handleAnalyzeCode_reader_error:
  assumes "files_to_analyze fs = (f, language) # rest" and "reader f = ReaderError"
  shows "handleAnalyzeCode t (readFileContent reader) parse rid now analysisType selectedModel fs =
           ([StartAnalysis, FailAnalysis ''Error reading file''],
            [ToastSuccess ''Starting code analysis...'', ToastError ''Analysis failed: Error reading file''])"
proof -
  have "fs \<noteq> []" using assms(1) by (auto simp: files_to_analyze_def)
  then show ?thesis
    using assms
    by (simp add: handleAnalyzeCode_def analysis_pipeline_def analysis_finish_def readFileContent_def)
qed

end
